(* ===== verification/Prelude.thy ===== *)
theory Prelude
  imports "HOL-Library.List_Lexorder" "HOL-Library.Char_ord" "HOL-Library.Product_Lexorder"
    "HOL-Library.Word"
begin

text \<open>
  Shared vocabulary of the development.

  \<^item> Strings: decimal rendering of unsigned integers (what \<open>format!("{n}")\<close> prints), the test
    \<open>value.trim().is_empty()\<close> on UTF-8 bytes, and the identifier newtypes of \<open>phenix-core\<close>.
  \<^item> \<open>btree_map\<close>: the standard library's \<open>BTreeMap\<close> as a list of entries with strictly
    increasing keys, so that iteration order is the order the program sees. A \<open>BTreeSet\<close> is a
    HOL set; where the program iterates over one, the model uses \<open>sorted_list_of_set\<close>.
  \<^item> \<open>op\<close>: a computation on a mutable state that may fail. The state is returned on every
    outcome, because a \<open>&mut self\<close> method that returns \<open>Err\<close> keeps the mutations it made
    before the error. \<open>and_then\<close> is Rust's \<open>?\<close>.
  \<^item> \<open>trace_rel\<close>: the contract of a reflexive and transitive relation between the state before
    and the state after, with one rule per combinator. Invariants and monotonicity properties of
    the runtime are instances.
\<close>

named_theorems keeps \<open>rules that derive a state relation for a composed operation\<close>
named_theorems op_simps \<open>unfolding of the operation combinators\<close>

section \<open>Strings and identifiers\<close>

subsection \<open>Decimal rendering\<close>

fun show_nat :: "nat \<Rightarrow> string" where
  "show_nat n =
     (if n < 10 then [char_of (48 + n)] else show_nat (n div 10) @ [char_of (48 + n mod 10)])"

declare show_nat.simps [simp del]

definition read_nat :: "string \<Rightarrow> nat" where
  "read_nat = foldl (\<lambda>acc c. 10 * acc + (of_char c - 48)) 0"

lemma read_show_nat: "read_nat (show_nat n) = n"
proof (induction n rule: show_nat.induct)
  case (1 n)
  show ?case
  proof (cases "n < 10")
    case True
    then show ?thesis by (simp add: show_nat.simps [of n] read_nat_def)
  next
    case False
    with "1" have "read_nat (show_nat (n div 10)) = n div 10" by simp
    with False show ?thesis by (simp add: show_nat.simps [of n] read_nat_def)
  qed
qed

lemma show_nat_inject [simp]: "show_nat m = show_nat n \<longleftrightarrow> m = n"
  by (metis read_show_nat)

lemma show_nat_not_Nil [simp]: "show_nat n \<noteq> []"
  by (subst show_nat.simps) simp

subsection \<open>Blank strings\<close>

text \<open>
  \<open>str::trim\<close> strips the characters with the Unicode property \<open>White_Space\<close>. A string is a
  list of UTF-8 bytes here, so the white-space characters outside ASCII are the byte sequences
  of U+0085, U+00A0, U+1680, U+2000 to U+200A, U+2028, U+2029, U+202F, U+205F and U+3000.
\<close>

definition ascii_space :: "nat \<Rightarrow> bool" where
  "ascii_space b \<longleftrightarrow> b = 32 \<or> 9 \<le> b \<and> b \<le> 13"

definition space2 :: "nat \<Rightarrow> nat \<Rightarrow> bool" where
  "space2 a b \<longleftrightarrow> a = 194 \<and> (b = 133 \<or> b = 160)"

definition space3 :: "nat \<Rightarrow> nat \<Rightarrow> nat \<Rightarrow> bool" where
  "space3 a b c \<longleftrightarrow>
     a = 225 \<and> b = 154 \<and> c = 128 \<or>
     a = 226 \<and> b = 128 \<and> (128 \<le> c \<and> c \<le> 138 \<or> c = 168 \<or> c = 169 \<or> c = 175) \<or>
     a = 226 \<and> b = 129 \<and> c = 159 \<or>
     a = 227 \<and> b = 128 \<and> c = 128"

text \<open>The number of bytes of the white-space character a string starts with.\<close>

definition space_len :: "string \<Rightarrow> nat" where
  "space_len s =
     (case map of_char s of
        a # rest \<Rightarrow>
          if ascii_space a then 1
          else (case rest of
            b # rest' \<Rightarrow>
              if space2 a b then 2
              else (case rest' of c # _ \<Rightarrow> if space3 a b c then 3 else 0 | [] \<Rightarrow> 0)
          | [] \<Rightarrow> 0)
      | [] \<Rightarrow> 0)"

lemma space_len_le: "space_len s \<le> length s"
  by (auto simp: space_len_def map_eq_Cons_conv split: list.splits)

function trim_start :: "string \<Rightarrow> string" where
  "trim_start s = (if space_len s = 0 then s else trim_start (drop (space_len s) s))"
  by pat_completeness auto
termination
proof (relation "measure length")
  fix s :: string
  assume "space_len s \<noteq> 0"
  with space_len_le [of s] show "(drop (space_len s) s, s) \<in> measure length" by simp
qed simp

declare trim_start.simps [simp del]

definition is_blank :: "string \<Rightarrow> bool" where
  "is_blank s \<longleftrightarrow> trim_start s = []"

text \<open>A suffix that starts inside a character is not blank, so no character is cut.\<close>

fun trim_end :: "string \<Rightarrow> string" where
  "trim_end [] = []"
| "trim_end (c # cs) = (if is_blank (c # cs) then [] else c # trim_end cs)"

definition trim :: "string \<Rightarrow> string" where
  "trim s = trim_end (trim_start s)"

definition strip_prefix :: "string \<Rightarrow> string \<Rightarrow> string option" where
  "strip_prefix p s = (if take (length p) s = p then Some (drop (length p) s) else None)"

text \<open>\<open>splitn(2, char::is_whitespace)\<close>: the part before the first white-space character, and
  what follows that character if there is one.\<close>

fun split_space :: "string \<Rightarrow> string \<times> string option" where
  "split_space [] = ([], None)"
| "split_space (c # cs) =
     (if space_len (c # cs) > 0 then ([], Some (drop (space_len (c # cs)) (c # cs)))
      else (let (before, after) = split_space cs in (c # before, after)))"

subsection \<open>Identifiers\<close>

text \<open>
  The macro \<open>id_type!\<close> declares fourteen newtypes over \<open>String\<close>. One datatype with a phantom
  parameter stands for all of them; each newtype is the instance at its own tag type, so that
  identifiers of different kinds are not interchangeable.
\<close>

datatype 'k ident = Ident (as_str: string)

datatype invalid_id = InvalidId

definition parse_id :: "string \<Rightarrow> invalid_id + 'k ident" where
  "parse_id value = (if is_blank value then Inl InvalidId else Inr (Ident value))"

instantiation ident :: (type) linorder
begin

definition less_eq_ident :: "'a ident \<Rightarrow> 'a ident \<Rightarrow> bool" where
  "less_eq_ident x y \<longleftrightarrow> as_str x \<le> as_str y"

definition less_ident :: "'a ident \<Rightarrow> 'a ident \<Rightarrow> bool" where
  "less_ident x y \<longleftrightarrow> as_str x < as_str y"

instance
  by standard (auto simp: less_eq_ident_def less_ident_def ident.expand)

end

text \<open>The generated identifiers \<open>prefix-n\<close>.\<close>

definition numbered :: "string \<Rightarrow> nat \<Rightarrow> 'k ident" where
  "numbered prefix n = Ident (prefix @ show_nat n)"

lemma numbered_inject [simp]: "numbered p m = numbered p n \<longleftrightarrow> m = n"
  by (simp add: numbered_def)


section \<open>Lists\<close>

lemma in_map_filter: "y \<in> set (List.map_filter f xs) \<longleftrightarrow> (\<exists>x\<in>set xs. f x = Some y)"
  by (induction xs) (auto simp: List.map_filter_simps split: option.split)

section \<open>BTreeMap\<close>

typedef (overloaded) ('k::linorder, 'v) btree_map =
  "{xs :: ('k \<times> 'v) list. sorted_wrt (<) (map fst xs)}"
  morphisms bt_entries Abs_btree_map
  by (rule exI [of _ "[]"]) simp

setup_lifting type_definition_btree_map

fun ins_entry :: "'k::linorder \<Rightarrow> 'v \<Rightarrow> ('k \<times> 'v) list \<Rightarrow> ('k \<times> 'v) list" where
  "ins_entry k v [] = [(k, v)]"
| "ins_entry k v ((a, b) # xs) =
     (if k < a then (k, v) # (a, b) # xs
      else if k = a then (k, v) # xs
      else (a, b) # ins_entry k v xs)"

definition del_entry :: "'k \<Rightarrow> ('k \<times> 'v) list \<Rightarrow> ('k \<times> 'v) list" where
  "del_entry k xs = filter (\<lambda>p. fst p \<noteq> k) xs"

lemma fst_ins_entry: "fst ` set (ins_entry k v xs) = insert k (fst ` set xs)"
  by (induction k v xs rule: ins_entry.induct) auto

lemma sorted_ins_entry:
  "sorted_wrt (<) (map fst xs) \<Longrightarrow> sorted_wrt (<) (map fst (ins_entry k v xs))"
  by (induction k v xs rule: ins_entry.induct) (auto simp: fst_ins_entry)

lemma map_of_ins_entry: "map_of (ins_entry k v xs) = (map_of xs)(k \<mapsto> v)"
  by (induction k v xs rule: ins_entry.induct) (auto simp: fun_eq_iff)

lemma sorted_del_entry:
  "sorted_wrt (<) (map fst xs) \<Longrightarrow> sorted_wrt (<) (map fst (del_entry k xs))"
  by (induction xs) (auto simp: del_entry_def)

lemma map_of_del_entry: "map_of (del_entry k xs) = (map_of xs)(k := None)"
  by (induction xs) (auto simp: del_entry_def fun_eq_iff)

lemma sorted_keys_distinct: "sorted_wrt (<) (ks :: 'k::linorder list) \<Longrightarrow> distinct ks"
  by (simp add: strict_sorted_iff)

lift_definition bt_empty :: "('k::linorder, 'v) btree_map" is "[]" by simp

lift_definition bt_insert :: "'k::linorder \<Rightarrow> 'v \<Rightarrow> ('k, 'v) btree_map \<Rightarrow> ('k, 'v) btree_map"
  is ins_entry by (rule sorted_ins_entry)

lift_definition bt_remove :: "'k::linorder \<Rightarrow> ('k, 'v) btree_map \<Rightarrow> ('k, 'v) btree_map"
  is del_entry by (rule sorted_del_entry)

lift_definition bt_get :: "('k::linorder, 'v) btree_map \<Rightarrow> 'k \<Rightarrow> 'v option" is map_of .

lift_definition bt_map :: "('v \<Rightarrow> 'w) \<Rightarrow> ('k::linorder, 'v) btree_map \<Rightarrow> ('k, 'w) btree_map"
  is "\<lambda>f. map (\<lambda>(k, v). (k, f v))"
  by (simp add: comp_def case_prod_unfold)

definition bt_keys :: "('k::linorder, 'v) btree_map \<Rightarrow> 'k list" where
  "bt_keys m = map fst (bt_entries m)"

definition bt_values :: "('k::linorder, 'v) btree_map \<Rightarrow> 'v list" where
  "bt_values m = map snd (bt_entries m)"

definition bt_len :: "('k::linorder, 'v) btree_map \<Rightarrow> nat" where
  "bt_len m = length (bt_entries m)"

definition bt_contains_key :: "('k::linorder, 'v) btree_map \<Rightarrow> 'k \<Rightarrow> bool" where
  "bt_contains_key m k \<longleftrightarrow> bt_get m k \<noteq> None"

text \<open>\<open>get_mut\<close> followed by an assignment through the reference.\<close>

definition bt_modify :: "'k::linorder \<Rightarrow> ('v \<Rightarrow> 'v) \<Rightarrow> ('k, 'v) btree_map \<Rightarrow> ('k, 'v) btree_map" where
  "bt_modify k f m = (case bt_get m k of None \<Rightarrow> m | Some v \<Rightarrow> bt_insert k (f v) m)"

text \<open>Collecting an iterator of pairs: a later pair replaces an earlier one with its key.\<close>

definition bt_of_list :: "('k::linorder \<times> 'v) list \<Rightarrow> ('k, 'v) btree_map" where
  "bt_of_list xs = foldl (\<lambda>m (k, v). bt_insert k v m) bt_empty xs"

lemma bt_get_empty [simp]: "bt_get bt_empty k = None"
  by transfer simp

lemma bt_get_insert [simp]: "bt_get (bt_insert k v m) k' = (if k' = k then Some v else bt_get m k')"
  by transfer (simp add: map_of_ins_entry)

lemma bt_get_remove [simp]: "bt_get (bt_remove k m) k' = (if k' = k then None else bt_get m k')"
  by transfer (simp add: map_of_del_entry)

lemma bt_get_map [simp]: "bt_get (bt_map f m) k = map_option f (bt_get m k)"
  by transfer (simp add: map_of_map)

lemma bt_get_modify:
  "bt_get (bt_modify k f m) k' = (if k' = k then map_option f (bt_get m k) else bt_get m k')"
  by (simp add: bt_modify_def split: option.split)

lemma bt_contains_insert [simp]:
  "bt_contains_key (bt_insert k v m) k' \<longleftrightarrow> k' = k \<or> bt_contains_key m k'"
  by (simp add: bt_contains_key_def)

lemma bt_contains_empty [simp]: "\<not> bt_contains_key bt_empty k"
  by (simp add: bt_contains_key_def)

lemma bt_contains_map [simp]: "bt_contains_key (bt_map f m) k \<longleftrightarrow> bt_contains_key m k"
  by (simp add: bt_contains_key_def)

lemma bt_contains_modify [simp]: "bt_contains_key (bt_modify k f m) k' \<longleftrightarrow> bt_contains_key m k'"
  by (simp add: bt_contains_key_def bt_get_modify)

lemma bt_keys_sorted: "sorted_wrt (<) (bt_keys m)"
  unfolding bt_keys_def by transfer simp

lemma bt_keys_distinct [simp]: "distinct (bt_keys m)"
  by (rule sorted_keys_distinct [OF bt_keys_sorted])

lemma in_bt_entries [simp]: "(k, v) \<in> set (bt_entries m) \<longleftrightarrow> bt_get m k = Some v"
  by transfer (simp add: sorted_keys_distinct)

lemma in_bt_values [simp]: "v \<in> set (bt_values m) \<longleftrightarrow> (\<exists>k. bt_get m k = Some v)"
  by (force simp: bt_values_def simp flip: in_bt_entries)

lemma in_bt_keys [simp]: "k \<in> set (bt_keys m) \<longleftrightarrow> bt_contains_key m k"
  by (force simp: bt_keys_def bt_contains_key_def simp flip: in_bt_entries)

lemma bex_bt_values: "(\<exists>v\<in>set (bt_values m). P v) \<longleftrightarrow> (\<exists>k v. bt_get m k = Some v \<and> P v)"
  by (simp add: Bex_def) blast

lemma bex_bt_entries: "(\<exists>e\<in>set (bt_entries m). P e) \<longleftrightarrow> (\<exists>k v. bt_get m k = Some v \<and> P (k, v))"
  by (simp add: Bex_def split_paired_Ex)

lemma dom_bt_get: "dom (bt_get m) = set (bt_keys m)"
  by (auto simp: bt_contains_key_def)

lemma finite_dom_bt_get [simp]: "finite (dom (bt_get m))"
  by (simp add: dom_bt_get)

lemma bt_len_dom: "bt_len m = card (dom (bt_get m))"
proof -
  have "bt_len m = length (bt_keys m)"
    by (simp add: bt_len_def bt_keys_def)
  then show ?thesis by (simp add: dom_bt_get distinct_card del: in_bt_keys)
qed

lemma bt_len_remove: "bt_get m k = Some v \<Longrightarrow> bt_len (bt_remove k m) < bt_len m"
  unfolding bt_len_dom by (rule psubset_card_mono [OF finite_dom_bt_get]) (auto simp: dom_def)

lemma bt_eqI:
  assumes "\<And>k. bt_get m k = bt_get m' k"
  shows "m = m'"
proof -
  have "sorted_wrt (<) (map fst (bt_entries x))" for x :: "('a, 'b) btree_map"
    using bt_entries by auto
  moreover have "set (bt_entries m) = set (bt_entries m')"
    using assms by auto
  ultimately have "bt_entries m = bt_entries m'"
    by (intro map_sorted_distinct_set_unique [where f = fst])
      (auto simp: strict_sorted_iff inj_on_def)
  then show ?thesis by (simp add: bt_entries_inject)
qed


lemma bt_insert_insert [simp]: "bt_insert k v (bt_insert k w m) = bt_insert k v m"
  by (rule bt_eqI) simp

instantiation btree_map :: (linorder, equal) equal
begin

definition equal_btree_map :: "('a, 'b) btree_map \<Rightarrow> ('a, 'b) btree_map \<Rightarrow> bool" where
  "equal_btree_map m m' \<longleftrightarrow> bt_entries m = bt_entries m'"

instance
  by standard (simp add: equal_btree_map_def bt_entries_inject)

end

section \<open>Fallible operations on a mutable state\<close>

text \<open>
  The outcome of a call: \<open>Ok\<close> and \<open>Err\<close> are Rust's \<open>Result\<close>, \<open>Panic\<close> is a failed
  \<open>expect\<close>, and \<open>NoFuel\<close> marks a recursion that was cut off by the model's fuel (no Rust
  execution ends so; the development proves that the fuel it passes is enough).
\<close>

datatype ('e, 'a) outcome = Ok 'a | Err 'e | Panic string | NoFuel

fun outcome_value :: "('e, 'a) outcome \<Rightarrow> 'a option" where
  "outcome_value (Ok x) = Some x"
| "outcome_value (Err e) = None"
| "outcome_value (Panic msg) = None"
| "outcome_value NoFuel = None"

lemma outcome_value_iff: "outcome_value r = Some x \<longleftrightarrow> r = Ok x"
  by (cases r) simp_all

fun outcome_error :: "('e, 'a) outcome \<Rightarrow> 'e option" where
  "outcome_error (Ok x) = None"
| "outcome_error (Err e) = Some e"
| "outcome_error (Panic msg) = None"
| "outcome_error NoFuel = None"

lemma outcome_error_iff: "outcome_error r = Some e \<longleftrightarrow> r = Err e"
  by (cases r) simp_all

type_synonym ('s, 'e, 'a) op = "'s \<Rightarrow> ('e, 'a) outcome \<times> 's"

definition return :: "'a \<Rightarrow> ('s, 'e, 'a) op" where
  "return x = (\<lambda>s. (Ok x, s))"

definition throw :: "'e \<Rightarrow> ('s, 'e, 'a) op" where
  "throw e = (\<lambda>s. (Err e, s))"

definition panic :: "string \<Rightarrow> ('s, 'e, 'a) op" where
  "panic msg = (\<lambda>s. (Panic msg, s))"

definition no_fuel :: "('s, 'e, 'a) op" where
  "no_fuel = (\<lambda>s. (NoFuel, s))"

definition and_then :: "('s, 'e, 'a) op \<Rightarrow> ('a \<Rightarrow> ('s, 'e, 'b) op) \<Rightarrow> ('s, 'e, 'b) op" where
  "and_then m f = (\<lambda>s. case m s of
       (Ok x, s') \<Rightarrow> f x s'
     | (Err e, s') \<Rightarrow> (Err e, s')
     | (Panic msg, s') \<Rightarrow> (Panic msg, s')
     | (NoFuel, s') \<Rightarrow> (NoFuel, s'))"

definition gets :: "('s \<Rightarrow> 'a) \<Rightarrow> ('s, 'e, 'a) op" where
  "gets f = (\<lambda>s. (Ok (f s), s))"

definition modify :: "('s \<Rightarrow> 's) \<Rightarrow> ('s, 'e, unit) op" where
  "modify f = (\<lambda>s. (Ok (), f s))"

definition ensure :: "bool \<Rightarrow> 'e \<Rightarrow> ('s, 'e, unit) op" where
  "ensure c e = (if c then return () else throw e)"

definition ok_or :: "'a option \<Rightarrow> 'e \<Rightarrow> ('s, 'e, 'a) op" where
  "ok_or x e = (case x of None \<Rightarrow> throw e | Some v \<Rightarrow> return v)"

definition expect :: "'a option \<Rightarrow> string \<Rightarrow> ('s, 'e, 'a) op" where
  "expect x msg = (case x of None \<Rightarrow> panic msg | Some v \<Rightarrow> return v)"

text \<open>A pure fallible function, and the \<open>From\<close> conversion that \<open>?\<close> applies to its error.\<close>

definition lift_result :: "('f \<Rightarrow> 'e) \<Rightarrow> 'f + 'a \<Rightarrow> ('s, 'e, 'a) op" where
  "lift_result conv r = (case r of Inl e \<Rightarrow> throw (conv e) | Inr v \<Rightarrow> return v)"

text \<open>A method on \<open>&self\<close> that may fail.\<close>

definition query :: "('s \<Rightarrow> 'e + 'a) \<Rightarrow> ('s, 'e, 'a) op" where
  "query q = (\<lambda>s. case q s of Inl e \<Rightarrow> (Err e, s) | Inr v \<Rightarrow> (Ok v, s))"

text \<open>\<open>collect::<Result<Vec<_>, _>>()\<close>: the first error, or all the values.\<close>

fun traverse :: "('a \<Rightarrow> 'e + 'b) \<Rightarrow> 'a list \<Rightarrow> 'e + 'b list" where
  "traverse f [] = Inr []"
| "traverse f (x # xs) =
     (case f x of
        Inl e \<Rightarrow> Inl e
      | Inr y \<Rightarrow> (case traverse f xs of Inl e \<Rightarrow> Inl e | Inr ys \<Rightarrow> Inr (y # ys)))"

definition map_error :: "('f \<Rightarrow> 'e) \<Rightarrow> 'f + 'a \<Rightarrow> 'e + 'a" where
  "map_error conv r = (case r of Inl e \<Rightarrow> Inl (conv e) | Inr v \<Rightarrow> Inr v)"

definition bind_result :: "'e + 'a \<Rightarrow> ('a \<Rightarrow> 'e + 'b) \<Rightarrow> 'e + 'b" where
  "bind_result r f = (case r of Inl e \<Rightarrow> Inl e | Inr v \<Rightarrow> f v)"

definition get_or :: "'e \<Rightarrow> 'a option \<Rightarrow> 'e + 'a" where
  "get_or e x = (case x of None \<Rightarrow> Inl e | Some v \<Rightarrow> Inr v)"

definition map_err :: "('f \<Rightarrow> 'e) \<Rightarrow> ('s, 'f, 'a) op \<Rightarrow> ('s, 'e, 'a) op" where
  "map_err conv m = (\<lambda>s. case m s of
       (Ok x, s') \<Rightarrow> (Ok x, s')
     | (Err e, s') \<Rightarrow> (Err (conv e), s')
     | (Panic msg, s') \<Rightarrow> (Panic msg, s')
     | (NoFuel, s') \<Rightarrow> (NoFuel, s'))"

text \<open>Inspecting the \<open>Result\<close> of a call instead of returning its error.\<close>

definition catch_result :: "('s, 'f, 'a) op \<Rightarrow> ('s, 'e, 'f + 'a) op" where
  "catch_result m = (\<lambda>s. case m s of
       (Ok x, s') \<Rightarrow> (Ok (Inr x), s')
     | (Err e, s') \<Rightarrow> (Ok (Inl e), s')
     | (Panic msg, s') \<Rightarrow> (Panic msg, s')
     | (NoFuel, s') \<Rightarrow> (NoFuel, s'))"

primrec for_each :: "('a \<Rightarrow> ('s, 'e, unit) op) \<Rightarrow> 'a list \<Rightarrow> ('s, 'e, unit) op" where
  "for_each f [] = return ()"
| "for_each f (x # xs) = and_then (f x) (\<lambda>_. for_each f xs)"

text \<open>\<open>Drop\<close>: the cleanup runs however the body ends.\<close>

definition finally_do :: "('s, 'e, 'a) op \<Rightarrow> ('s \<Rightarrow> 's) \<Rightarrow> ('s, 'e, 'a) op" where
  "finally_do m cleanup s = (case m s of (result, s') \<Rightarrow> (result, cleanup s'))"

lemmas [op_simps] =
  return_def throw_def panic_def no_fuel_def gets_def modify_def ensure_def ok_or_def expect_def

lemma and_then_Ok [simp]: "m s = (Ok x, s') \<Longrightarrow> and_then m f s = f x s'"
  by (simp add: and_then_def)

lemma and_then_Err [simp]: "m s = (Err e, s') \<Longrightarrow> and_then m f s = (Err e, s')"
  by (simp add: and_then_def)

lemma and_then_return [simp]: "and_then (return x) f = f x"
  by (simp add: and_then_def return_def fun_eq_iff)

lemma and_then_throw [simp]: "and_then (throw e) f = throw e"
  by (simp add: and_then_def throw_def fun_eq_iff)

lemma and_then_gets [simp]: "and_then (gets g) f s = f (g s) s"
  by (simp add: and_then_def gets_def)

lemma and_then_ensure [simp]:
  "and_then (ensure c e) f s = (if c then f () s else (Err e, s))"
  by (simp add: and_then_def ensure_def return_def throw_def)

lemma and_then_ok_or [simp]:
  "and_then (ok_or x e) f s = (case x of None \<Rightarrow> (Err e, s) | Some v \<Rightarrow> f v s)"
  by (simp add: and_then_def ok_or_def return_def throw_def split: option.split)

lemma and_then_query [simp]:
  "and_then (query q) f s = (case q s of Inl e \<Rightarrow> (Err e, s) | Inr v \<Rightarrow> f v s)"
  by (simp add: and_then_def query_def split: sum.split)

lemma and_then_assoc: "and_then (and_then m f) g = and_then m (\<lambda>x. and_then (f x) g)"
  by (auto simp: and_then_def fun_eq_iff split: prod.split outcome.split)

lemma and_then_OkE:
  assumes "and_then m f s = (Ok y, t)"
  obtains x s' where "m s = (Ok x, s')" and "f x s' = (Ok y, t)"
  using assms by (auto simp: and_then_def split: prod.splits outcome.splits)

section \<open>State relations kept by operations\<close>

text \<open>
  \<open>op_keeps R N m\<close>: whenever the operation returns, with a value or an error, the state before and
  the state after it are related by \<open>R\<close>, and it runs out of fuel only from a state that satisfies
  \<open>N\<close>. A panic unwinds the thread and is treated separately. The predicate composes when \<open>R\<close> is
  reflexive and transitive and \<open>N\<close> holds before a step that leads to a state with \<open>N\<close>.
\<close>

fun returned :: "('e, 'a) outcome \<Rightarrow> bool" where
  "returned (Ok x) = True"
| "returned (Err e) = True"
| "returned (Panic msg) = False"
| "returned NoFuel = False"

definition op_keeps :: "('s \<Rightarrow> 's \<Rightarrow> bool) \<Rightarrow> ('s \<Rightarrow> bool) \<Rightarrow> ('s, 'e, 'a) op \<Rightarrow> bool" where
  "op_keeps R N m \<longleftrightarrow>
     (\<forall>s. (returned (fst (m s)) \<longrightarrow> R s (snd (m s))) \<and> (fst (m s) = NoFuel \<longrightarrow> N s))"

text \<open>The same at one state, for an operation whose contract depends on the state it starts in.\<close>

definition keeps_at :: "('s \<Rightarrow> 's \<Rightarrow> bool) \<Rightarrow> ('s \<Rightarrow> bool) \<Rightarrow> ('s, 'e, 'a) op \<Rightarrow> 's \<Rightarrow> bool" where
  "keeps_at R N m s \<longleftrightarrow> (returned (fst (m s)) \<longrightarrow> R s (snd (m s))) \<and> (fst (m s) = NoFuel \<longrightarrow> N s)"

lemma op_keeps_at: "op_keeps R N m \<longleftrightarrow> (\<forall>s. keeps_at R N m s)"
  by (simp add: op_keeps_def keeps_at_def)

lemma keeps_atI:
  assumes "\<And>r s'. m s = (r, s') \<Longrightarrow> returned r \<Longrightarrow> R s s'" and "\<And>s'. m s = (NoFuel, s') \<Longrightarrow> N s"
  shows "keeps_at R N m s"
  using assms unfolding keeps_at_def by (metis prod.collapse)

lemma keeps_atD: "keeps_at R N m s \<Longrightarrow> m s = (r, s') \<Longrightarrow> returned r \<Longrightarrow> R s s'"
  by (metis keeps_at_def fst_conv snd_conv)

lemma keeps_at_fuel: "keeps_at R N m s \<Longrightarrow> m s = (NoFuel, s') \<Longrightarrow> N s"
  by (metis keeps_at_def fst_conv)

lemma op_keepsD: "op_keeps R N m \<Longrightarrow> m s = (r, s') \<Longrightarrow> returned r \<Longrightarrow> R s s'"
  by (metis op_keeps_def fst_conv snd_conv)

lemma op_keeps_fuel: "op_keeps R N m \<Longrightarrow> m s = (NoFuel, s') \<Longrightarrow> N s"
  by (metis op_keeps_def fst_conv)

lemma op_keepsI:
  assumes "\<And>s r s'. m s = (r, s') \<Longrightarrow> returned r \<Longrightarrow> R s s'" and "\<And>s s'. m s = (NoFuel, s') \<Longrightarrow> N s"
  shows "op_keeps R N m"
  using assms unfolding op_keeps_def by (metis prod.collapse)

locale trace_rel =
  fixes R :: "'s \<Rightarrow> 's \<Rightarrow> bool" and N :: "'s \<Rightarrow> bool"
  assumes rel_refl: "R s s"
    and rel_trans: "R s t \<Longrightarrow> R t u \<Longrightarrow> R s u"
    and stop_back: "R s t \<Longrightarrow> N t \<Longrightarrow> N s"
begin

lemma keeps_pure [keeps]:
  "op_keeps R N (return x)" "op_keeps R N (throw e)" "op_keeps R N (panic msg)"
  "op_keeps R N (gets f)" "op_keeps R N (ensure c e)"
  by (simp_all add: op_keeps_def op_simps rel_refl)

lemma keeps_options [keeps]:
  "op_keeps R N (ok_or x e)" "op_keeps R N (expect x msg)" "op_keeps R N (lift_result conv r)"
  "op_keeps R N (query q)"
  by (simp_all add: op_keeps_def op_simps lift_result_def query_def rel_refl
      split: option.split sum.split)

text \<open>The continuation may use what the first operation returned and that it keeps the relation.\<close>

lemma keeps_at_and_then:
  assumes m: "keeps_at R N m s" and f: "\<And>x s'. m s = (Ok x, s') \<Longrightarrow> keeps_at R N (f x) s'"
  shows "keeps_at R N (and_then m f) s"
proof -
  obtain r s1 where run: "m s = (r, s1)" by force
  show ?thesis
  proof (cases r)
    case (Ok x)
    with run have "R s s1" using keeps_atD [OF m run] by simp
    with f [of x s1] run Ok show ?thesis by (auto simp: keeps_at_def intro: rel_trans stop_back)
  next
    case (Err e)
    with run keeps_atD [OF m run] show ?thesis by (simp add: keeps_at_def)
  next
    case NoFuel
    with run keeps_at_fuel [OF m, of s1] show ?thesis by (simp add: keeps_at_def and_then_def)
  qed (use run in \<open>simp add: keeps_at_def and_then_def\<close>)
qed

lemma keeps_at_op: "op_keeps R N m \<Longrightarrow> keeps_at R N m s"
  by (simp add: op_keeps_at)

lemma keeps_at_query:
  "(\<And>v. q s = Inr v \<Longrightarrow> keeps_at R N (f v) s) \<Longrightarrow> keeps_at R N (and_then (query q) f) s"
  by (simp add: keeps_at_def rel_refl split: sum.split)

lemma keeps_at_gets: "keeps_at R N (f (g s)) s \<Longrightarrow> keeps_at R N (and_then (gets g) f) s"
  by (simp add: keeps_at_def)

lemma keeps_at_lift:
  "(\<And>v. keeps_at R N (f v) s) \<Longrightarrow> keeps_at R N (and_then (lift_result conv r) f) s"
  by (simp add: keeps_at_def lift_result_def throw_def rel_refl split: sum.split)

lemma keeps_at_if:
  "(c \<Longrightarrow> keeps_at R N m s) \<Longrightarrow> (\<not> c \<Longrightarrow> keeps_at R N n s) \<Longrightarrow> keeps_at R N (if c then m else n) s"
  by simp

lemma keeps_and_then_from:
  assumes "op_keeps R N m" and "\<And>s x s'. m s = (Ok x, s') \<Longrightarrow> keeps_at R N (f x) s'"
  shows "op_keeps R N (and_then m f)"
  using assms by (auto simp: op_keeps_at intro: keeps_at_and_then)

lemma keeps_and_then [keeps]:
  assumes "op_keeps R N m" and "\<And>x. op_keeps R N (f x)"
  shows "op_keeps R N (and_then m f)"
  using assms(1) by (rule keeps_and_then_from) (use assms(2) in \<open>simp add: op_keeps_at\<close>)

lemma keeps_map_err [keeps]: "op_keeps R N m \<Longrightarrow> op_keeps R N (map_err conv m)"
  by (auto simp: op_keeps_def map_err_def split: prod.split outcome.split) (metis fst_conv returned.simps snd_conv)+

lemma keeps_catch_result [keeps]: "op_keeps R N m \<Longrightarrow> op_keeps R N (catch_result m)"
  by (auto simp: op_keeps_def catch_result_def split: prod.split outcome.split) (metis fst_conv returned.simps snd_conv)+

lemma keeps_for_each [keeps]: "(\<And>x. x \<in> set xs \<Longrightarrow> op_keeps R N (f x)) \<Longrightarrow> op_keeps R N (for_each f xs)"
  by (induction xs) (auto intro: keeps_pure keeps_and_then)

lemma keeps_if [keeps]: "op_keeps R N m \<Longrightarrow> op_keeps R N n \<Longrightarrow> op_keeps R N (if c then m else n)"
  by simp

lemma keeps_case_option [keeps]:
  "op_keeps R N m \<Longrightarrow> (\<And>x. op_keeps R N (f x)) \<Longrightarrow> op_keeps R N (case_option m f y)"
  by (cases y) simp_all

lemma keeps_case_sum [keeps]:
  "(\<And>x. op_keeps R N (f x)) \<Longrightarrow> (\<And>x. op_keeps R N (g x)) \<Longrightarrow> op_keeps R N (case_sum f g y)"
  by (cases y) simp_all

lemma keeps_case_prod [keeps]: "(\<And>a b. op_keeps R N (f a b)) \<Longrightarrow> op_keeps R N (case_prod f y)"
  by (cases y) simp

lemma keeps_state: "(\<And>s. op_keeps R N (f s)) \<Longrightarrow> op_keeps R N (\<lambda>s. f s s)"
  by (simp add: op_keeps_def)

end

end
