(* ===== verification/Core.thy ===== *)
theory Core
  imports Prelude
begin

text \<open>
  The domain contracts of the crate \<open>phenix-core\<close>: identifiers, model targets, callables,
  orchestration definitions, execution and session summaries, frontend events, execution
  authority with its attenuation, workspace read sets, retry attempt groups and orchestration
  failure decisions (\<open>src/rust/crates/phenix-core/src\<close>).

  The lemmas show that \<open>attenuate\<close> is the meet of the authority order and \<open>permits\<close> is that
  order, that a read set keeps the first observed version of a file and reports exactly the
  observed files that changed, and how an attempt group numbers its attempts at 32 bits.
\<close>

section \<open>Identifier types\<close>

datatype session_tag = SessionTag
datatype execution_tag = ExecutionTag
datatype callable_tag = CallableTag
datatype node_tag = NodeTag
datatype tool_call_tag = ToolCallTag
datatype config_revision_tag = ConfigRevisionTag
datatype backend_tag = BackendTag
datatype provider_tag = ProviderTag
datatype model_tag = ModelTag
datatype routing_profile_tag = RoutingProfileTag
datatype authentication_method_tag = AuthenticationMethodTag
datatype skill_tag = SkillTag
datatype workspace_tag = WorkspaceTag
datatype attempt_group_tag = AttemptGroupTag

type_synonym SessionId = "session_tag ident"
type_synonym ExecutionId = "execution_tag ident"
type_synonym CallableId = "callable_tag ident"
type_synonym OrchestrationNodeId = "node_tag ident"
type_synonym ToolCallId = "tool_call_tag ident"
type_synonym ConfigRevisionId = "config_revision_tag ident"
type_synonym BackendId = "backend_tag ident"
type_synonym ProviderId = "provider_tag ident"
type_synonym ModelId = "model_tag ident"
type_synonym RoutingProfileId = "routing_profile_tag ident"
type_synonym AuthenticationMethodId = "authentication_method_tag ident"
type_synonym SkillId = "skill_tag ident"
type_synonym WorkspaceId = "workspace_tag ident"
type_synonym AttemptGroupId = "attempt_group_tag ident"

section \<open>JSON values\<close>

text \<open>
  \<open>serde_json::Value\<close>. A number is kept as its text. Rendering a value to a string and parsing
  a string are functions of the library \<open>serde_json\<close>, which the model takes as parameters.
\<close>

datatype Json =
    JNull
  | JBool bool
  | JNumber string
  | JString string
  | JArray "Json list"
  | JObject "(string \<times> Json) list"

section \<open>Models, callables and orchestrations\<close>

datatype SkillInvocationPolicy = ModelEligible | ManualOnly

record SkillDescriptor =
  sk_id :: SkillId
  sk_name :: string
  sk_description :: string
  sk_invocation :: SkillInvocationPolicy

datatype InferenceEffort = Effort_None | Minimal | Low | Medium | High | ExtraHigh | Max

record InferenceOptions =
  effort :: "InferenceEffort option"

record ModelTarget =
  mt_backend :: BackendId
  mt_provider :: ProviderId
  mt_model :: ModelId
  mt_inference :: InferenceOptions

datatype ExecutionTarget = Fixed ModelTarget | is_Routed: Routed RoutingProfileId

datatype CallableKind = Tool | Agent | Orchestration

type_synonym CapabilitySet = "string set"

record CallablePolicy =
  requires_permission :: bool

record CallableDescriptor =
  cd_id :: CallableId
  cd_kind :: CallableKind
  cd_description :: string
  cd_input_schema :: Json
  cd_output_schema :: Json
  cd_capabilities :: CapabilitySet
  cd_policy :: CallablePolicy

record OrchestrationNode =
  nd_id :: OrchestrationNodeId
  nd_callable :: CallableId
  nd_depends_on :: "OrchestrationNodeId list"
  nd_objective :: "string option"

record OrchestrationDefinition =
  od_descriptor :: CallableDescriptor
  od_interface_agent :: "CallableId option"
  od_nodes :: "OrchestrationNode list"

record RoutingProfile =
  rp_id :: RoutingProfileId
  rp_default_target :: ModelTarget
  rp_callable_targets :: "(CallableId, ModelTarget) btree_map"

record RoutingProfileDescriptor =
  rd_id :: RoutingProfileId
  rd_providers :: "ProviderId list"

section \<open>Executions, sessions and frontend events\<close>

datatype ExecutionKind = RootKind | AgentKind | OrchestrationKind

datatype ExecutionState = Pending | Running | Completed | Failed | Cancelled | Interrupted

datatype ExecutionTerminationCause =
    ExplicitCancellation (requested_execution: ExecutionId)
  | AncestorFailure (failed_ancestor: ExecutionId)

datatype SessionState = Active | Closed

record SessionSummary =
  s_id :: SessionId
  s_parent_session :: "SessionId option"
  s_name :: "string option"
  s_workspace_id :: WorkspaceId
  s_config_revision :: ConfigRevisionId
  s_default_target :: ExecutionTarget
  s_state :: SessionState

record ExecutionSummary =
  x_id :: ExecutionId
  x_session_id :: SessionId
  x_parent_execution :: "ExecutionId option"
  x_kind :: ExecutionKind
  x_callable :: "CallableId option"
  x_target :: ExecutionTarget
  x_state :: ExecutionState

datatype OrchestrationFailureDecision =
    Retry ExecutionId
  | ChooseAnotherChild ExecutionId
  | Continue
  | Fail

fun recovery_execution :: "OrchestrationFailureDecision \<Rightarrow> ExecutionId option" where
  "recovery_execution (Retry execution_id) = Some execution_id"
| "recovery_execution (ChooseAnotherChild execution_id) = Some execution_id"
| "recovery_execution Continue = None"
| "recovery_execution Fail = None"

record OrchestrationFailureDecisionRecord =
  fd_parent_execution :: ExecutionId
  fd_failed_child :: ExecutionId
  fd_decider_execution :: "ExecutionId option"
  fd_decision :: OrchestrationFailureDecision

datatype ExecutionEventKind =
    UserInput string
  | StateChanged ExecutionState
  | ExecutionTerminated ExecutionTerminationCause
  | AssistantContentDelta string
  | ReasoningDelta string
  | ToolCallStarted ToolCallId CallableId
  | ToolCallArguments ToolCallId string
  | ToolCallFinished ToolCallId string bool
  | ChildExecutionStarted ExecutionId
  | ChildExecutionFinished ExecutionId ExecutionState
  | DecisionMade OrchestrationFailureDecisionRecord
  | ErrorEvent string string

record ExecutionEvent =
  ev_sequence :: nat
  ev_session_id :: SessionId
  ev_execution_id :: ExecutionId
  ev_kind :: ExecutionEventKind


section \<open>Execution authority\<close>

datatype FilesystemAuthority = FsReadOnly | FsWrite
datatype NetworkAuthority = NetNone | NetOutbound
datatype RepositoryAuthority = RepoRead | RepoWrite

text \<open>The derived \<open>Ord\<close> of an enum is the order of its variants.\<close>

instantiation FilesystemAuthority :: linorder
begin
definition less_eq_FilesystemAuthority :: "FilesystemAuthority \<Rightarrow> FilesystemAuthority \<Rightarrow> bool" where
  "less_eq_FilesystemAuthority x y \<longleftrightarrow> x = FsReadOnly \<or> y = FsWrite"
definition less_FilesystemAuthority :: "FilesystemAuthority \<Rightarrow> FilesystemAuthority \<Rightarrow> bool" where
  "less_FilesystemAuthority x y \<longleftrightarrow> x = FsReadOnly \<and> y = FsWrite"
instance
  by standard (auto simp: less_eq_FilesystemAuthority_def less_FilesystemAuthority_def
      intro: FilesystemAuthority.exhaust)
end

instantiation NetworkAuthority :: linorder
begin
definition less_eq_NetworkAuthority :: "NetworkAuthority \<Rightarrow> NetworkAuthority \<Rightarrow> bool" where
  "less_eq_NetworkAuthority x y \<longleftrightarrow> x = NetNone \<or> y = NetOutbound"
definition less_NetworkAuthority :: "NetworkAuthority \<Rightarrow> NetworkAuthority \<Rightarrow> bool" where
  "less_NetworkAuthority x y \<longleftrightarrow> x = NetNone \<and> y = NetOutbound"
instance
  by standard (auto simp: less_eq_NetworkAuthority_def less_NetworkAuthority_def
      intro: NetworkAuthority.exhaust)
end

instantiation RepositoryAuthority :: linorder
begin
definition less_eq_RepositoryAuthority :: "RepositoryAuthority \<Rightarrow> RepositoryAuthority \<Rightarrow> bool" where
  "less_eq_RepositoryAuthority x y \<longleftrightarrow> x = RepoRead \<or> y = RepoWrite"
definition less_RepositoryAuthority :: "RepositoryAuthority \<Rightarrow> RepositoryAuthority \<Rightarrow> bool" where
  "less_RepositoryAuthority x y \<longleftrightarrow> x = RepoRead \<and> y = RepoWrite"
instance
  by standard (auto simp: less_eq_RepositoryAuthority_def less_RepositoryAuthority_def
      intro: RepositoryAuthority.exhaust)
end

definition CAPABILITY_FILESYSTEM_WRITE :: string where
  "CAPABILITY_FILESYSTEM_WRITE = ''filesystem.write''"

definition permits_capabilities :: "FilesystemAuthority \<Rightarrow> CapabilitySet \<Rightarrow> bool" where
  "permits_capabilities authority capabilities \<longleftrightarrow>
     CAPABILITY_FILESYSTEM_WRITE \<notin> capabilities \<or> authority = FsWrite"

record ExecutionAuthority =
  au_filesystem :: FilesystemAuthority
  au_network :: NetworkAuthority
  au_repository :: RepositoryAuthority
  au_ipc :: "string set"
  au_secrets :: "string set"
  au_callables :: "CallableId set"

definition read_only :: ExecutionAuthority where
  "read_only = \<lparr>au_filesystem = FsReadOnly, au_network = NetNone, au_repository = RepoRead,
     au_ipc = {}, au_secrets = {}, au_callables = {}\<rparr>"

definition attenuate :: "ExecutionAuthority \<Rightarrow> ExecutionAuthority \<Rightarrow> ExecutionAuthority" where
  "attenuate self requested = \<lparr>
     au_filesystem = min (au_filesystem self) (au_filesystem requested),
     au_network = min (au_network self) (au_network requested),
     au_repository = min (au_repository self) (au_repository requested),
     au_ipc = au_ipc self \<inter> au_ipc requested,
     au_secrets = au_secrets self \<inter> au_secrets requested,
     au_callables = au_callables self \<inter> au_callables requested\<rparr>"

definition permits :: "ExecutionAuthority \<Rightarrow> ExecutionAuthority \<Rightarrow> bool" where
  "permits self child \<longleftrightarrow> attenuate self child = child"

text \<open>What one authority being within another means, dimension by dimension.\<close>

definition authority_le :: "ExecutionAuthority \<Rightarrow> ExecutionAuthority \<Rightarrow> bool" where
  "authority_le a b \<longleftrightarrow>
     au_filesystem a \<le> au_filesystem b \<and> au_network a \<le> au_network b \<and>
     au_repository a \<le> au_repository b \<and> au_ipc a \<subseteq> au_ipc b \<and>
     au_secrets a \<subseteq> au_secrets b \<and> au_callables a \<subseteq> au_callables b"

definition authority_less :: "ExecutionAuthority \<Rightarrow> ExecutionAuthority \<Rightarrow> bool" where
  "authority_less a b \<longleftrightarrow> authority_le a b \<and> \<not> authority_le b a"

lemma permits_iff_le: "permits parent child \<longleftrightarrow> authority_le child parent"
  by (cases child) (auto simp: permits_def attenuate_def authority_le_def min_def)

lemma authority_le_antisym: "authority_le a b \<Longrightarrow> authority_le b a \<Longrightarrow> a = b"
  by (cases a; cases b) (auto simp: authority_le_def)

text \<open>
  Authorities form a meet semilattice with \<open>attenuate\<close> as the meet, so the library's facts about
  meets (associativity, monotonicity, greatest lower bound) hold of the code's operation.
\<close>

interpretation auth: semilattice_inf attenuate authority_le authority_less
  by unfold_locales
    (auto simp: authority_less_def authority_le_def attenuate_def intro: authority_le_antisym
      [unfolded authority_le_def])

lemma permits_trans: "permits a b \<Longrightarrow> permits b c \<Longrightarrow> permits a c"
  by (auto simp: permits_iff_le intro: auth.order_trans)

lemma permits_attenuate: "permits parent (attenuate parent requested)"
  by (simp add: permits_iff_le)

lemma permits_refl: "permits a a"
  by (simp add: permits_iff_le)

lemma permits_callables: "permits a b \<Longrightarrow> au_callables b \<subseteq> au_callables a"
  by (simp add: permits_iff_le authority_le_def)

lemma read_only_least: "permits a read_only"
  by (simp add: permits_iff_le authority_le_def read_only_def
      less_eq_FilesystemAuthority_def less_eq_NetworkAuthority_def less_eq_RepositoryAuthority_def)

datatype WorkspaceLeaseMode = ReadLease | WriteLease

fun lease_mode_from :: "FilesystemAuthority \<Rightarrow> WorkspaceLeaseMode" where
  "lease_mode_from FsReadOnly = ReadLease"
| "lease_mode_from FsWrite = WriteLease"

record WorkspaceLeaseRequest =
  lr_workspace_id :: WorkspaceId
  lr_execution_id :: ExecutionId
  lr_mode :: WorkspaceLeaseMode

record AgentDefinition =
  ad_descriptor :: CallableDescriptor
  ad_authority :: ExecutionAuthority


section \<open>File versions and read sets\<close>

text \<open>
  \<open>PathBuf\<close> compares and hashes by components, so a path is its list of components.
\<close>

datatype path_component = RootDir | CurDir | ParentDir | Normal string

fun component_key :: "path_component \<Rightarrow> nat \<times> string" where
  "component_key RootDir = (0, [])"
| "component_key CurDir = (1, [])"
| "component_key ParentDir = (2, [])"
| "component_key (Normal name) = (3, name)"

lemma component_key_inject: "component_key a = component_key b \<Longrightarrow> a = b"
  by (cases a; cases b) simp_all

instantiation path_component :: linorder
begin
definition less_eq_path_component :: "path_component \<Rightarrow> path_component \<Rightarrow> bool" where
  "less_eq_path_component a b \<longleftrightarrow> component_key a \<le> component_key b"
definition less_path_component :: "path_component \<Rightarrow> path_component \<Rightarrow> bool" where
  "less_path_component a b \<longleftrightarrow> component_key a < component_key b"
instance
  by standard (auto simp: less_eq_path_component_def less_path_component_def
      intro: component_key_inject)
end

type_synonym PathBuf = "path_component list"

record WorkspaceDescriptor =
  wd_id :: WorkspaceId
  wd_root :: PathBuf
  wd_scratch_paths :: "PathBuf set"

datatype FileKind = Regular | Directory | Symlink | Other

datatype FileVersion = Absent | Present (content_hash: string) (file_kind: FileKind)

record FileObservation =
  fo_path :: PathBuf
  fo_version :: FileVersion

record ExecutionReadSet =
  rs_execution_id :: ExecutionId
  rs_files :: "(PathBuf, FileVersion) btree_map"

record WorkspaceConflict =
  wc_path :: PathBuf
  wc_expected :: FileVersion
  wc_actual :: FileVersion

datatype ExecutionWorkspaceValidity = Current | Invalidated "WorkspaceConflict list"

definition read_set_new :: "ExecutionId \<Rightarrow> ExecutionReadSet" where
  "read_set_new execution_id = \<lparr>rs_execution_id = execution_id, rs_files = bt_empty\<rparr>"

definition observe :: "FileObservation \<Rightarrow> ExecutionReadSet \<Rightarrow> ExecutionReadSet" where
  "observe observation self =
     (if bt_contains_key (rs_files self) (fo_path observation) then self
      else self\<lparr>rs_files :=
        bt_insert (fo_path observation) (fo_version observation) (rs_files self)\<rparr>)"

definition conflict_at ::
  "(PathBuf, FileVersion) btree_map \<Rightarrow> PathBuf \<times> FileVersion \<Rightarrow> WorkspaceConflict option" where
  "conflict_at current = (\<lambda>(path, expected).
     (let actual = (case bt_get current path of None \<Rightarrow> Absent | Some v \<Rightarrow> v)
      in if actual \<noteq> expected
         then Some \<lparr>wc_path = path, wc_expected = expected, wc_actual = actual\<rparr>
         else None))"

definition conflicts_with ::
  "ExecutionReadSet \<Rightarrow> (PathBuf, FileVersion) btree_map \<Rightarrow> WorkspaceConflict list" where
  "conflicts_with self current = List.map_filter (conflict_at current) (bt_entries (rs_files self))"

definition validity_against ::
  "ExecutionReadSet \<Rightarrow> (PathBuf, FileVersion) btree_map \<Rightarrow> ExecutionWorkspaceValidity" where
  "validity_against self current =
     (let conflicts = conflicts_with self current
      in if conflicts = [] then Current else Invalidated conflicts)"

lemma observe_get:
  "bt_get (rs_files (observe ob rs)) p =
     (case bt_get (rs_files rs) p of
        Some v \<Rightarrow> Some v
      | None \<Rightarrow> if p = fo_path ob then Some (fo_version ob) else None)"
  by (auto simp: observe_def bt_contains_key_def split: option.split)

lemma observe_execution [simp]: "rs_execution_id (observe ob rs) = rs_execution_id rs"
  by (simp add: observe_def)

lemma foldl_observe_first:
  "bt_get (rs_files (foldl (\<lambda>r ob. observe ob r) rs obs)) p =
     (case bt_get (rs_files rs) p of
        Some v \<Rightarrow> Some v
      | None \<Rightarrow> map_option fo_version (find (\<lambda>ob. fo_path ob = p) obs))"
  by (induction obs arbitrary: rs) (auto simp: observe_get split: option.split)

lemma conflicts_with_iff:
  "c \<in> set (conflicts_with rs current) \<longleftrightarrow>
     bt_get (rs_files rs) (wc_path c) = Some (wc_expected c) \<and>
     wc_actual c = (case bt_get current (wc_path c) of None \<Rightarrow> Absent | Some v \<Rightarrow> v) \<and>
     wc_actual c \<noteq> wc_expected c"
  unfolding conflicts_with_def in_map_filter
  by (cases c) (auto simp: conflict_at_def Let_def Bex_def split: if_splits)

lemma no_conflict_iff:
  "conflicts_with rs current = [] \<longleftrightarrow>
     (\<forall>p v. bt_get (rs_files rs) p = Some v \<longrightarrow>
        (case bt_get current p of None \<Rightarrow> Absent | Some v \<Rightarrow> v) = v)"
proof -
  have "conflicts_with rs current = [] \<longleftrightarrow>
      (\<forall>p v. (p, v) \<in> set (bt_entries (rs_files rs)) \<longrightarrow> conflict_at current (p, v) = None)"
    unfolding conflicts_with_def by (auto simp: List.map_filter_def filter_empty_conv simp del: in_bt_entries)
  also have "\<dots> \<longleftrightarrow> (\<forall>p v. bt_get (rs_files rs) p = Some v \<longrightarrow>
        (case bt_get current p of None \<Rightarrow> Absent | Some v \<Rightarrow> v) = v)"
    by (auto simp: conflict_at_def Let_def)
  finally show ?thesis .
qed

section \<open>Retry attempts\<close>

record FailureAttemptSummary =
  fa_execution_id :: ExecutionId
  fa_attempt :: "32 word"
  fa_approach :: string
  fa_failure_at :: string
  fa_reason :: string
  fa_completed_work :: "string list"

record RetryContext =
  rc_goal :: string
  rc_failures :: "FailureAttemptSummary list"

record AttemptGroup =
  ag_id :: AttemptGroupId
  ag_parent_execution :: ExecutionId
  ag_callable :: CallableId
  ag_goal :: string
  ag_attempts :: "ExecutionId list"
  ag_failures :: "FailureAttemptSummary list"

definition from_first_failure ::
  "AttemptGroupId \<Rightarrow> ExecutionId \<Rightarrow> CallableId \<Rightarrow> string \<Rightarrow> FailureAttemptSummary \<Rightarrow> AttemptGroup" where
  "from_first_failure group_id parent_execution callable goal first_failure =
     \<lparr>ag_id = group_id, ag_parent_execution = parent_execution, ag_callable = callable,
      ag_goal = goal, ag_attempts = [fa_execution_id first_failure],
      ag_failures = [first_failure]\<rparr>"

definition record_retry :: "ExecutionId \<Rightarrow> AttemptGroup \<Rightarrow> AttemptGroup" where
  "record_retry execution_id self = self\<lparr>ag_attempts := ag_attempts self @ [execution_id]\<rparr>"

definition record_failure :: "FailureAttemptSummary \<Rightarrow> AttemptGroup \<Rightarrow> AttemptGroup" where
  "record_failure failure self = self\<lparr>ag_failures := ag_failures self @ [failure]\<rparr>"

text \<open>\<open>u32::try_from\<close> on a length.\<close>

definition u32_try_from :: "nat \<Rightarrow> 32 word option" where
  "u32_try_from n = (if n < 2 ^ 32 then Some (word_of_nat n) else None)"

definition saturating_add_u32 :: "32 word \<Rightarrow> 32 word \<Rightarrow> 32 word" where
  "saturating_add_u32 a b = (if unat a + unat b < 2 ^ 32 then a + b else 0xFFFFFFFF)"

definition next_attempt :: "AttemptGroup \<Rightarrow> 32 word" where
  "next_attempt self =
     saturating_add_u32
       (case u32_try_from (length (ag_attempts self)) of None \<Rightarrow> 0xFFFFFFFF | Some n \<Rightarrow> n) 1"

fun position :: "('a \<Rightarrow> bool) \<Rightarrow> 'a list \<Rightarrow> nat option" where
  "position p [] = None"
| "position p (x # xs) = (if p x then Some 0 else map_option Suc (position p xs))"

definition attempt_for_execution :: "ExecutionId \<Rightarrow> AttemptGroup \<Rightarrow> 32 word option" where
  "attempt_for_execution execution_id self =
     Option.bind (position (\<lambda>attempt. attempt = execution_id) (ag_attempts self))
       (\<lambda>index. u32_try_from (index + 1))"

definition latest_execution :: "AttemptGroup \<Rightarrow> ExecutionId option" where
  "latest_execution self = (if ag_attempts self = [] then None else Some (last (ag_attempts self)))"

definition contains_execution :: "ExecutionId \<Rightarrow> AttemptGroup \<Rightarrow> bool" where
  "contains_execution execution_id self \<longleftrightarrow> execution_id \<in> set (ag_attempts self)"

definition retry_context :: "AttemptGroup \<Rightarrow> RetryContext" where
  "retry_context self = \<lparr>rc_goal = ag_goal self, rc_failures = ag_failures self\<rparr>"

lemma position_Some_less: "position p xs = Some i \<Longrightarrow> i < length xs \<and> p (xs ! i)"
  by (induction xs arbitrary: i) (auto split: if_splits)

lemma position_None: "position p xs = None \<longleftrightarrow> (\<forall>x\<in>set xs. \<not> p x)"
  by (induction xs) auto

lemma position_snoc:
  "position p (xs @ [x]) =
     (case position p xs of Some i \<Rightarrow> Some i | None \<Rightarrow> if p x then Some (length xs) else None)"
  by (induction xs) (auto split: option.split)

lemma unat_next_attempt:
  "unat (next_attempt g) = min (length (ag_attempts g) + 1) (2 ^ 32 - 1)"
  by (auto simp: next_attempt_def u32_try_from_def saturating_add_u32_def unat_of_nat
      unat_word_ariths split: if_splits)

section \<open>Properties\<close>

text \<open>C33. The attenuation of two authorities permits exactly what both of them contain, in every
  dimension: file system, network, repository, IPC endpoints, secrets and callables.\<close>

theorem attenuate_permits_iff:
  "permits (attenuate parent requested) child \<longleftrightarrow>
     authority_le child parent \<and> authority_le child requested"
  by (simp add: permits_iff_le)

text \<open>An execution that observed a sequence of files is current against a workspace exactly
  when the first version it saw of every file is the version there now, a missing file being
  absent.\<close>

theorem read_set_current_iff:
  "validity_against (foldl (\<lambda>rs ob. observe ob rs) (read_set_new x) obs) current = Current \<longleftrightarrow>
     (\<forall>p ob. find (\<lambda>ob. fo_path ob = p) obs = Some ob \<longrightarrow>
        (case bt_get current p of None \<Rightarrow> Absent | Some v \<Rightarrow> v) = fo_version ob)"
proof -
  let ?rs = "foldl (\<lambda>rs ob. observe ob rs) (read_set_new x) obs"
  have get: "bt_get (rs_files ?rs) p = map_option fo_version (find (\<lambda>ob. fo_path ob = p) obs)" for p
    by (simp add: foldl_observe_first read_set_new_def)
  show ?thesis
    by (auto simp: validity_against_def Let_def no_conflict_iff get)
qed

theorem read_set_current_witness:
  "validity_against (foldl (\<lambda>rs ob. observe ob rs) (read_set_new (Ident ''execution-1''))
       [\<lparr>fo_path = [Normal ''a''], fo_version = Absent\<rparr>,
        \<lparr>fo_path = [Normal ''a''], fo_version = Present ''h'' Regular\<rparr>]) bt_empty = Current"
  by (subst read_set_current_iff) simp

text \<open>C35. Recording a retry gives the new execution the number \<open>next_attempt\<close> announced, one more
  than the attempts so far, as long as the group has fewer attempts than a \<open>u32\<close> can count.\<close>

theorem retry_attempt_number:
  assumes "\<not> contains_execution x g" and "length (ag_attempts g) < 2 ^ 32 - 1"
  shows "attempt_for_execution x (record_retry x g) = Some (next_attempt g) \<and>
     unat (next_attempt g) = length (ag_attempts g) + 1 \<and>
     latest_execution (record_retry x g) = Some x"
proof -
  have "position (\<lambda>attempt. attempt = x) (ag_attempts g) = None"
    using assms(1) by (auto simp: position_None contains_execution_def)
  then have "attempt_for_execution x (record_retry x g) = u32_try_from (length (ag_attempts g) + 1)"
    by (simp add: attempt_for_execution_def record_retry_def position_snoc)
  moreover have "unat (next_attempt g) = length (ag_attempts g) + 1"
    using assms(2) by (simp add: unat_next_attempt)
  moreover have "word_of_nat (unat (next_attempt g)) = next_attempt g" by simp
  moreover have "latest_execution (record_retry x g) = Some x"
    by (simp add: latest_execution_def record_retry_def)
  ultimately show ?thesis
    using assms(2) by (simp add: u32_try_from_def)
qed

definition sample_group :: AttemptGroup where
  "sample_group = from_first_failure (Ident ''attempt-group-1'') (Ident ''execution-1'') (Ident ''worker'')
     ''goal'' \<lparr>fa_execution_id = Ident ''execution-2'', fa_attempt = 1, fa_approach = [],
       fa_failure_at = [], fa_reason = [], fa_completed_work = []\<rparr>"

theorem retry_attempt_number_witness:
  "attempt_for_execution (Ident ''execution-3'') (record_retry (Ident ''execution-3'') sample_group) =
     Some (next_attempt sample_group)"
  by (rule retry_attempt_number [THEN conjunct1])
    (simp_all add: sample_group_def from_first_failure_def contains_execution_def)

end
