(* ===== verification/Lease.thy ===== *)
theory Lease
  imports Core
begin

text \<open>
  Workspace leases (\<open>phenix-conductor/src/workspace_lease.rs\<close>): any number of read leases or one
  write lease per workspace. The mutex-protected state is \<open>WorkspaceLeaseState\<close>; one pass of
  the loop in \<open>WorkspaceLeaseManager::acquire\<close> is \<open>acquire_attempt\<close>, whose \<open>Waiting\<close>
  answer is the \<open>Condvar\<close> wait; dropping a \<open>WorkspaceLease\<close> is \<open>manager_release\<close>.
  \<open>lease_step\<close> interleaves the threads that hold leases, and the theorems show the exclusion of
  writers, that no entry outlives its leases, and that a waiting request is granted once the
  leases of its workspace are dropped.
\<close>

record WorkspaceLeaseHolders =
  readers :: "ExecutionId set"
  writer :: "ExecutionId option"

definition default_holders :: WorkspaceLeaseHolders where
  "default_holders = \<lparr>readers = {}, writer = None\<rparr>"

definition holders_permits :: "WorkspaceLeaseHolders \<Rightarrow> WorkspaceLeaseMode \<Rightarrow> bool" where
  "holders_permits self mode =
     (case mode of
        ReadLease \<Rightarrow> writer self = None
      | WriteLease \<Rightarrow> writer self = None \<and> readers self = {})"

definition holders_acquire ::
  "WorkspaceLeaseRequest \<Rightarrow> WorkspaceLeaseHolders \<Rightarrow> WorkspaceLeaseHolders" where
  "holders_acquire request self =
     (case lr_mode request of
        ReadLease \<Rightarrow> self\<lparr>readers := insert (lr_execution_id request) (readers self)\<rparr>
      | WriteLease \<Rightarrow> self\<lparr>writer := Some (lr_execution_id request)\<rparr>)"

definition holders_release ::
  "WorkspaceLeaseRequest \<Rightarrow> WorkspaceLeaseHolders \<Rightarrow> WorkspaceLeaseHolders" where
  "holders_release request self =
     (case lr_mode request of
        ReadLease \<Rightarrow> self\<lparr>readers := readers self - {lr_execution_id request}\<rparr>
      | WriteLease \<Rightarrow>
          if writer self = Some (lr_execution_id request) then self\<lparr>writer := None\<rparr> else self)"

definition holders_is_empty :: "WorkspaceLeaseHolders \<Rightarrow> bool" where
  "holders_is_empty self \<longleftrightarrow> writer self = None \<and> readers self = {}"

record WorkspaceLeaseState =
  ls_workspaces :: "(WorkspaceId, WorkspaceLeaseHolders) btree_map"
  ls_poisoned :: bool

definition lease_state_default :: WorkspaceLeaseState where
  "lease_state_default = \<lparr>ls_workspaces = bt_empty, ls_poisoned = False\<rparr>"

datatype acquire_result = Granted | Waiting | AcquirePoisoned

definition acquire_attempt ::
  "WorkspaceLeaseRequest \<Rightarrow> WorkspaceLeaseState \<Rightarrow> acquire_result \<times> WorkspaceLeaseState" where
  "acquire_attempt request state =
     (if ls_poisoned state then (AcquirePoisoned, state)
      else let ws = lr_workspace_id request;
               holders = (case bt_get (ls_workspaces state) ws of
                            None \<Rightarrow> default_holders | Some h \<Rightarrow> h)
           in if holders_permits holders (lr_mode request)
              then (Granted, state\<lparr>ls_workspaces :=
                      bt_insert ws (holders_acquire request holders) (ls_workspaces state)\<rparr>)
              else (Waiting, state\<lparr>ls_workspaces := bt_insert ws holders (ls_workspaces state)\<rparr>))"

definition manager_release :: "WorkspaceLeaseRequest \<Rightarrow> WorkspaceLeaseState \<Rightarrow> WorkspaceLeaseState" where
  "manager_release request state =
     (if ls_poisoned state then state
      else case bt_get (ls_workspaces state) (lr_workspace_id request) of
        None \<Rightarrow> state
      | Some holders \<Rightarrow>
          let holders' = holders_release request holders
          in if holders_is_empty holders'
             then state\<lparr>ls_workspaces := bt_remove (lr_workspace_id request) (ls_workspaces state)\<rparr>
             else state\<lparr>ls_workspaces :=
                    bt_insert (lr_workspace_id request) holders' (ls_workspaces state)\<rparr>)"

section \<open>The contract of a reader/writer lease table\<close>

definition compatible :: "WorkspaceLeaseRequest \<Rightarrow> WorkspaceLeaseRequest \<Rightarrow> bool" where
  "compatible r r' \<longleftrightarrow>
     lr_workspace_id r \<noteq> lr_workspace_id r' \<or> (lr_mode r = ReadLease \<and> lr_mode r' = ReadLease)"

definition mutually_compatible :: "WorkspaceLeaseRequest set \<Rightarrow> bool" where
  "mutually_compatible H \<longleftrightarrow> (\<forall>r\<in>H. \<forall>r'\<in>H. r \<noteq> r' \<longrightarrow> compatible r r')"

locale lease_table =
  fixes usable :: "'st \<Rightarrow> bool"
    and held :: "'st \<Rightarrow> WorkspaceLeaseRequest set"
    and grant :: "WorkspaceLeaseRequest \<Rightarrow> 'st \<Rightarrow> 'st option"
    and drop_lease :: "WorkspaceLeaseRequest \<Rightarrow> 'st \<Rightarrow> 'st"
  assumes grant_iff: "usable st \<Longrightarrow> grant r st \<noteq> None \<longleftrightarrow> (\<forall>r'\<in>held st. compatible r r')"
    and held_grant: "usable st \<Longrightarrow> grant r st = Some st' \<Longrightarrow> held st' = insert r (held st)"
    and held_drop: "usable st \<Longrightarrow> held (drop_lease r st) = held st - {r}"
    and usable_grant: "usable st \<Longrightarrow> grant r st = Some st' \<Longrightarrow> usable st'"
    and usable_drop: "usable st \<Longrightarrow> usable (drop_lease r st)"
begin

lemma grant_keeps_compatible:
  assumes "usable st" and "mutually_compatible (held st)" and "grant r st = Some st'"
  shows "mutually_compatible (held st')"
proof -
  from assms(1,3) have "\<forall>r'\<in>held st. compatible r r'"
    by (metis grant_iff option.distinct(1))
  then show ?thesis
    using assms by (auto simp: mutually_compatible_def held_grant compatible_def)
qed

lemma drop_keeps_compatible:
  "usable st \<Longrightarrow> mutually_compatible (held st) \<Longrightarrow> mutually_compatible (held (drop_lease r st))"
  by (auto simp: mutually_compatible_def held_drop)

lemma held_drop_all:
  "usable st \<Longrightarrow> held (fold drop_lease rs st) = held st - set rs \<and> usable (fold drop_lease rs st)"
  by (induction rs arbitrary: st) (auto simp: held_drop usable_drop)

lemma granted_after_drops:
  assumes "usable st" and "\<forall>r'\<in>held st. \<not> compatible r r' \<longrightarrow> r' \<in> set rs"
  shows "\<exists>st'. grant r (fold drop_lease rs st) = Some st'"
  using assms grant_iff [of "fold drop_lease rs st" r] held_drop_all [of st rs] by auto

end

text \<open>The code's table implements the contract on states whose lock is not poisoned.\<close>

definition lease_holders :: "WorkspaceLeaseState \<Rightarrow> WorkspaceId \<Rightarrow> WorkspaceLeaseHolders" where
  "lease_holders state ws =
     (case bt_get (ls_workspaces state) ws of None \<Rightarrow> default_holders | Some h \<Rightarrow> h)"

definition held_leases :: "WorkspaceLeaseState \<Rightarrow> WorkspaceLeaseRequest set" where
  "held_leases state = {r.
     case lr_mode r of
       ReadLease \<Rightarrow> lr_execution_id r \<in> readers (lease_holders state (lr_workspace_id r))
     | WriteLease \<Rightarrow> writer (lease_holders state (lr_workspace_id r)) = Some (lr_execution_id r)}"

definition grant_lease :: "WorkspaceLeaseRequest \<Rightarrow> WorkspaceLeaseState \<Rightarrow> WorkspaceLeaseState option" where
  "grant_lease request state =
     (case acquire_attempt request state of (Granted, state') \<Rightarrow> Some state' | _ \<Rightarrow> None)"

lemma holders_grant:
  assumes "\<not> ls_poisoned st"
  shows "grant_lease r st =
     (if holders_permits (lease_holders st (lr_workspace_id r)) (lr_mode r)
      then Some (st\<lparr>ls_workspaces := bt_insert (lr_workspace_id r)
             (holders_acquire r (lease_holders st (lr_workspace_id r))) (ls_workspaces st)\<rparr>)
      else None)"
  using assms by (simp add: grant_lease_def acquire_attempt_def lease_holders_def Let_def)

lemma lease_holders_release:
  assumes "\<not> ls_poisoned st"
  shows "lease_holders (manager_release r st) ws =
     (if ws = lr_workspace_id r then holders_release r (lease_holders st ws)
      else lease_holders st ws)"
  using assms
  by (cases "bt_get (ls_workspaces st) (lr_workspace_id r)")
    (auto simp: manager_release_def lease_holders_def Let_def holders_is_empty_def
      default_holders_def holders_release_def split: WorkspaceLeaseMode.splits)

lemma request_eq_iff:
  "(r::WorkspaceLeaseRequest) = r' \<longleftrightarrow> lr_workspace_id r = lr_workspace_id r' \<and>
     lr_execution_id r = lr_execution_id r' \<and> lr_mode r = lr_mode r'"
  by (cases r; cases r') auto

lemma ex_request: "\<exists>r::WorkspaceLeaseRequest. lr_workspace_id r = ws \<and> lr_execution_id r = x \<and> lr_mode r = m"
  by (rule exI [of _ "\<lparr>lr_workspace_id = ws, lr_execution_id = x, lr_mode = m\<rparr>"]) simp

lemma held_compatible_iff:
  "(\<forall>r'\<in>held_leases st. compatible r r') \<longleftrightarrow>
     holders_permits (lease_holders st (lr_workspace_id r)) (lr_mode r)"
proof
  assume compat: "\<forall>r'\<in>held_leases st. compatible r r'"
  let ?h = "lease_holders st (lr_workspace_id r)"
  have "writer ?h = None"
  proof (rule ccontr)
    assume "writer ?h \<noteq> None"
    then obtain x where x: "writer ?h = Some x" by blast
    obtain r' :: WorkspaceLeaseRequest where r': "lr_workspace_id r' = lr_workspace_id r \<and> lr_execution_id r' = x
        \<and> lr_mode r' = WriteLease"
      using ex_request by blast
    with x have "r' \<in> held_leases st" by (simp add: held_leases_def)
    with compat have "compatible r r'" by blast
    with r' show False by (simp add: compatible_def)
  qed
  moreover have "readers ?h = {}" if "lr_mode r = WriteLease"
  proof (rule ccontr)
    assume "readers ?h \<noteq> {}"
    then obtain x where x: "x \<in> readers ?h" by blast
    obtain r' :: WorkspaceLeaseRequest where r': "lr_workspace_id r' = lr_workspace_id r \<and> lr_execution_id r' = x
        \<and> lr_mode r' = ReadLease"
      using ex_request by blast
    with x have "r' \<in> held_leases st" by (simp add: held_leases_def)
    with compat have "compatible r r'" by blast
    with r' that show False by (simp add: compatible_def)
  qed
  ultimately show "holders_permits ?h (lr_mode r)"
    by (simp add: holders_permits_def split: WorkspaceLeaseMode.split)
next
  assume "holders_permits (lease_holders st (lr_workspace_id r)) (lr_mode r)"
  then show "\<forall>r'\<in>held_leases st. compatible r r'"
    by (auto simp: holders_permits_def held_leases_def compatible_def
        split: WorkspaceLeaseMode.splits)
qed

interpretation leases: lease_table "\<lambda>st. \<not> ls_poisoned st" held_leases grant_lease manager_release
proof unfold_locales
  fix st st' :: WorkspaceLeaseState and r :: WorkspaceLeaseRequest
  assume usable: "\<not> ls_poisoned st"
  show "grant_lease r st \<noteq> None \<longleftrightarrow> (\<forall>r'\<in>held_leases st. compatible r r')"
    by (simp add: held_compatible_iff holders_grant usable)
  show "held_leases (manager_release r st) = held_leases st - {r}"
    by (auto simp: held_leases_def lease_holders_release usable holders_release_def request_eq_iff
        split: WorkspaceLeaseMode.splits if_splits)
  show "\<not> ls_poisoned (manager_release r st)"
    using usable by (simp add: manager_release_def Let_def split: option.split)
  assume grant: "grant_lease r st = Some st'"
  then show "\<not> ls_poisoned st'"
    using usable by (auto simp: holders_grant split: if_splits)
  from grant usable have permits: "holders_permits (lease_holders st (lr_workspace_id r)) (lr_mode r)"
    and st': "st' = st\<lparr>ls_workspaces := bt_insert (lr_workspace_id r)
             (holders_acquire r (lease_holders st (lr_workspace_id r))) (ls_workspaces st)\<rparr>"
    by (auto simp: holders_grant split: if_splits)
  have holders': "lease_holders st' ws = (if ws = lr_workspace_id r
      then holders_acquire r (lease_holders st ws) else lease_holders st ws)" for ws
    by (simp add: st' lease_holders_def)
  show "held_leases st' = insert r (held_leases st)"
    using permits
    by (auto simp: held_leases_def holders' holders_acquire_def holders_permits_def request_eq_iff
        split: WorkspaceLeaseMode.splits if_splits)
qed

section \<open>Interleaved lease holders\<close>

text \<open>
  A configuration is the table and the lease objects alive in the process. The queue of the
  server schedules an execution at most once (\<open>ExecutionQueueState::scheduled\<close> only grows), so a
  thread asks for a lease only for an execution that has none.
\<close>

inductive lease_step ::
  "WorkspaceLeaseState \<times> WorkspaceLeaseRequest set \<Rightarrow>
   WorkspaceLeaseState \<times> WorkspaceLeaseRequest set \<Rightarrow> bool" where
  acquire_lease:
    "acquire_attempt r st = (Granted, st') \<Longrightarrow>
     (\<forall>r'\<in>alive. lr_execution_id r' \<noteq> lr_execution_id r) \<Longrightarrow>
     lease_step (st, alive) (st', insert r alive)"
| wait_lease:
    "acquire_attempt r st = (Waiting, st') \<Longrightarrow> lease_step (st, alive) (st', alive)"
| drop_lease:
    "r \<in> alive \<Longrightarrow> lease_step (st, alive) (manager_release r st, alive - {r})"

inductive lease_reachable :: "WorkspaceLeaseState \<Rightarrow> WorkspaceLeaseRequest set \<Rightarrow> bool" where
  lease_start: "lease_reachable lease_state_default {}"
| lease_next: "lease_reachable st alive \<Longrightarrow> lease_step (st, alive) (st', alive') \<Longrightarrow>
    lease_reachable st' alive'"

definition lease_entries_live :: "WorkspaceLeaseState \<Rightarrow> bool" where
  "lease_entries_live st \<longleftrightarrow>
     (\<forall>ws h. bt_get (ls_workspaces st) ws = Some h \<longrightarrow> \<not> holders_is_empty h)"

lemma waiting_unchanged:
  assumes "acquire_attempt r st = (Waiting, st')"
  shows "held_leases st' = held_leases st" and "ls_poisoned st' = ls_poisoned st"
    and "lease_entries_live st \<Longrightarrow> lease_entries_live st'"
proof -
  from assms have st': "st' = st\<lparr>ls_workspaces :=
      bt_insert (lr_workspace_id r) (lease_holders st (lr_workspace_id r)) (ls_workspaces st)\<rparr>"
    and blocked: "\<not> holders_permits (lease_holders st (lr_workspace_id r)) (lr_mode r)"
    by (auto simp: acquire_attempt_def lease_holders_def Let_def split: if_splits)
  show "held_leases st' = held_leases st" and "ls_poisoned st' = ls_poisoned st"
    by (auto simp: st' held_leases_def lease_holders_def split: WorkspaceLeaseMode.splits)
  show "lease_entries_live st \<Longrightarrow> lease_entries_live st'"
    using blocked
    by (fastforce simp: st' lease_entries_live_def holders_is_empty_def holders_permits_def
        split: WorkspaceLeaseMode.splits if_splits)
qed

lemma granted_entries_live:
  assumes "acquire_attempt r st = (Granted, st')" and "lease_entries_live st"
  shows "lease_entries_live st'"
  using assms
  by (fastforce simp: acquire_attempt_def lease_entries_live_def holders_is_empty_def
      holders_acquire_def Let_def split: if_splits WorkspaceLeaseMode.splits)

lemma release_entries_live: "lease_entries_live st \<Longrightarrow> lease_entries_live (manager_release r st)"
  by (auto simp: manager_release_def lease_entries_live_def Let_def split: option.split)

lemma lease_reachable_inv:
  "lease_reachable st alive \<Longrightarrow>
     \<not> ls_poisoned st \<and> held_leases st = alive \<and> mutually_compatible alive \<and> lease_entries_live st"
proof (induction rule: lease_reachable.induct)
  case lease_start
  show ?case
    by (auto simp: lease_state_default_def held_leases_def lease_holders_def default_holders_def
        mutually_compatible_def lease_entries_live_def split: WorkspaceLeaseMode.splits)
next
  case (lease_next st alive st' alive')
  note IH = lease_next.IH
  from lease_next.hyps(2) show ?case
  proof cases
    case (acquire_lease r)
    then have grant: "grant_lease r st = Some st'" by (simp add: grant_lease_def)
    show ?thesis
      using acquire_lease IH leases.held_grant [OF _ grant] leases.usable_grant [OF _ grant]
        leases.grant_keeps_compatible [OF _ _ grant] granted_entries_live by auto
  next
    case (wait_lease r)
    then show ?thesis using IH waiting_unchanged by auto
  next
    case (drop_lease r)
    then show ?thesis
      using IH leases.held_drop leases.usable_drop leases.drop_keeps_compatible [of st r]
        release_entries_live by auto
  qed
qed

section \<open>Properties\<close>

text \<open>C34. Two different leases alive on one workspace are both read leases: a write lease excludes
  every other lease, in every interleaving of acquiring, waiting and dropping threads.\<close>

theorem write_lease_exclusive:
  assumes "lease_reachable st alive" and "r \<in> alive" and "r' \<in> alive" and "r \<noteq> r'"
    and "lr_workspace_id r = lr_workspace_id r'"
  shows "lr_mode r = ReadLease \<and> lr_mode r' = ReadLease"
proof -
  have "mutually_compatible alive"
    using lease_reachable_inv [OF assms(1)] by blast
  with assms(2-5) show ?thesis
    by (auto simp: mutually_compatible_def compatible_def)
qed

definition lease_request :: "string \<Rightarrow> WorkspaceLeaseMode \<Rightarrow> WorkspaceLeaseRequest" where
  "lease_request x m = \<lparr>lr_workspace_id = Ident ''workspace'', lr_execution_id = Ident x, lr_mode = m\<rparr>"

definition two_readers :: WorkspaceLeaseState where
  "two_readers = \<lparr>ls_workspaces = bt_insert (Ident ''workspace'')
       \<lparr>readers = {Ident ''b'', Ident ''a''}, writer = None\<rparr> bt_empty, ls_poisoned = False\<rparr>"

lemma two_readers_reachable:
  "lease_reachable two_readers {lease_request ''b'' ReadLease, lease_request ''a'' ReadLease}"
proof -
  let ?a = "lease_request ''a'' ReadLease" and ?b = "lease_request ''b'' ReadLease"
  let ?one = "\<lparr>ls_workspaces = bt_insert (Ident ''workspace'')
       \<lparr>readers = {Ident ''a''}, writer = None\<rparr> bt_empty, ls_poisoned = False\<rparr>"
  have "acquire_attempt ?a lease_state_default = (Granted, ?one)"
    by (simp add: acquire_attempt_def lease_request_def lease_state_default_def Let_def
        default_holders_def holders_permits_def holders_acquire_def)
  then have "lease_reachable ?one {?a}"
    using lease_next [OF lease_start acquire_lease] by simp
  moreover have "acquire_attempt ?b ?one = (Granted, two_readers)"
    by (simp add: acquire_attempt_def lease_request_def two_readers_def Let_def
        holders_permits_def holders_acquire_def bt_insert_insert)
  ultimately show ?thesis
    using lease_next [OF _ acquire_lease, of ?one "{?a}" ?b two_readers]
    by (simp add: lease_request_def)
qed

theorem write_lease_exclusive_witness:
  "lr_mode (lease_request ''a'' ReadLease) = ReadLease \<and> lr_mode (lease_request ''b'' ReadLease) = ReadLease"
  by (rule write_lease_exclusive [OF two_readers_reachable]) (simp_all add: lease_request_def)

text \<open>The table records exactly the leases that are alive, and a workspace has an entry only
  while it has a lease, so dropping the last lease of a workspace leaves nothing behind.\<close>

theorem lease_table_exact:
  assumes "lease_reachable st alive"
  shows "held_leases st = alive \<and>
     (bt_contains_key (ls_workspaces st) ws \<longleftrightarrow> (\<exists>r\<in>alive. lr_workspace_id r = ws))"
proof -
  note inv = lease_reachable_inv [OF assms]
  then have held: "held_leases st = alive" by blast
  have "\<exists>r\<in>alive. lr_workspace_id r = ws" if "bt_get (ls_workspaces st) ws = Some h" for h
  proof -
    from that inv have "\<not> holders_is_empty h" by (auto simp: lease_entries_live_def)
    then obtain x m where x: "m = ReadLease \<and> x \<in> readers h \<or> m = WriteLease \<and> writer h = Some x"
      by (auto simp: holders_is_empty_def)
    obtain r :: WorkspaceLeaseRequest where r: "lr_workspace_id r = ws \<and> lr_execution_id r = x \<and> lr_mode r = m"
      using ex_request by blast
    with x that have "r \<in> held_leases st" by (auto simp: held_leases_def lease_holders_def)
    with held r show ?thesis by blast
  qed
  moreover have "bt_get (ls_workspaces st) ws \<noteq> None" if "r \<in> alive" "lr_workspace_id r = ws" for r
    using that unfolding held [symmetric]
    by (auto simp: held_leases_def lease_holders_def default_holders_def
        split: WorkspaceLeaseMode.splits option.splits)
  ultimately show ?thesis
    using held by (auto simp: bt_contains_key_def)
qed

theorem lease_table_exact_witness:
  "bt_contains_key (ls_workspaces two_readers) (Ident ''workspace'')"
  using lease_table_exact [OF two_readers_reachable, of "Ident ''workspace''"]
  by (simp add: lease_request_def)

text \<open>A request that waits is granted as soon as the leases it conflicts with have been
  dropped, in whatever order and with whatever other leases.\<close>

theorem waiting_lease_granted:
  assumes "lease_reachable st alive" and "\<forall>r'\<in>alive. \<not> compatible r r' \<longrightarrow> r' \<in> set dropped"
  shows "\<exists>st'. acquire_attempt r (fold manager_release dropped st) = (Granted, st')"
proof -
  have "\<not> ls_poisoned st" and "held_leases st = alive"
    using lease_reachable_inv [OF assms(1)] by auto
  with leases.granted_after_drops [of st r dropped] assms(2) show ?thesis
    by (auto simp: grant_lease_def split: prod.splits acquire_result.splits)
qed

theorem waiting_lease_granted_witness:
  "\<exists>st'. acquire_attempt (lease_request ''w'' WriteLease)
     (fold manager_release [lease_request ''a'' ReadLease, lease_request ''b'' ReadLease] two_readers) =
       (Granted, st')"
  by (rule waiting_lease_granted [OF two_readers_reachable]) simp

end
