(* ===== verification/Scheduler.thy ===== *)
theory Scheduler
  imports Core
begin

text \<open>
  The execution queue of the server (\<open>ExecutionQueue\<close> and \<open>WorkspacePhase\<close> in
  \<open>phenix-conductor/src/server.rs\<close>). The queue state is protected by one mutex, so every method
  body is an atomic step on it; \<open>next\<close> waits on a condition variable and is modelled by one pass
  of its loop. The workers are the second half of the scheduler's state: the jobs handed out and
  not completed yet. The step relation interleaves them freely.
\<close>

section \<open>The queue\<close>

record ExecutionJob =
  jb_execution_id :: ExecutionId
  jb_session_id :: SessionId
  jb_group_id :: ExecutionId

record ExecutionQueueState =
  qs_pending :: "ExecutionJob list"
  qs_active_sessions :: "(SessionId, ExecutionId) btree_map"
  qs_active_groups :: "(ExecutionId, nat) btree_map"
  qs_scheduled :: "ExecutionId set"
  qs_releasing_groups :: "ExecutionId set"
  qs_closed :: bool

definition queue_default :: ExecutionQueueState where
  "queue_default = \<lparr>qs_pending = [], qs_active_sessions = bt_empty, qs_active_groups = bt_empty,
     qs_scheduled = {}, qs_releasing_groups = {}, qs_closed = False\<rparr>"

definition enqueue :: "ExecutionJob \<Rightarrow> ExecutionQueueState \<Rightarrow> ExecutionQueueState" where
  "enqueue job state =
     (if jb_execution_id job \<in> qs_scheduled state then state
      else state\<lparr>qs_scheduled := insert (jb_execution_id job) (qs_scheduled state),
        qs_pending := qs_pending state @ [job]\<rparr>)"

definition runnable :: "ExecutionQueueState \<Rightarrow> ExecutionJob \<Rightarrow> bool" where
  "runnable state job =
     (case bt_get (qs_active_sessions state) (jb_session_id job) of
        None \<Rightarrow> True
      | Some g \<Rightarrow> g = jb_group_id job)"

datatype next_result = NextJob ExecutionJob | NextFinished | NextWait

definition hand_out :: "nat \<Rightarrow> ExecutionQueueState \<Rightarrow> ExecutionQueueState" where
  "hand_out index state =
     (let job = qs_pending state ! index in
      state\<lparr>qs_pending := take index (qs_pending state) @ drop (Suc index) (qs_pending state),
        qs_active_sessions :=
          (case bt_get (qs_active_sessions state) (jb_session_id job) of
             None \<Rightarrow> bt_insert (jb_session_id job) (jb_group_id job) (qs_active_sessions state)
           | Some _ \<Rightarrow> qs_active_sessions state),
        qs_active_groups := bt_insert (jb_group_id job)
          ((case bt_get (qs_active_groups state) (jb_group_id job) of None \<Rightarrow> 0 | Some n \<Rightarrow> n) + 1)
          (qs_active_groups state)\<rparr>)"

text \<open>One pass of the loop of \<open>next\<close>; \<open>NextWait\<close> is a wait on the condition variable.\<close>

definition next_job :: "ExecutionQueueState \<Rightarrow> next_result \<times> ExecutionQueueState" where
  "next_job state =
     (case position (runnable state) (qs_pending state) of
        Some index \<Rightarrow> (NextJob (qs_pending state ! index), hand_out index state)
      | None \<Rightarrow>
          if qs_closed state \<and> qs_pending state = [] \<and> bt_len (qs_active_groups state) = 0
          then (NextFinished, state)
          else (NextWait, state))"

definition group_released :: "ExecutionJob \<Rightarrow> ExecutionQueueState \<Rightarrow> bool" where
  "group_released job state \<longleftrightarrow>
     jb_group_id job \<in> qs_releasing_groups state \<and>
     \<not> bt_contains_key (qs_active_groups state) (jb_group_id job) \<and>
     \<not> list_ex (\<lambda>pending. jb_group_id pending = jb_group_id job) (qs_pending state) \<and>
     bt_get (qs_active_sessions state) (jb_session_id job) = Some (jb_group_id job)"

definition complete :: "ExecutionJob \<Rightarrow> bool \<Rightarrow> ExecutionQueueState \<Rightarrow> ('e, bool) outcome \<times> ExecutionQueueState" where
  "complete job release_group state =
     (let marked = (if release_group
           then state\<lparr>qs_releasing_groups := insert (jb_group_id job) (qs_releasing_groups state)\<rparr>
           else state) in
      case bt_get (qs_active_groups marked) (jb_group_id job) of
        None \<Rightarrow> (Panic ''completed execution belongs to an active group'', marked)
      | Some 0 \<Rightarrow> (Panic ''attempt to subtract with overflow'', marked)
      | Some (Suc active) \<Rightarrow>
          let counted = marked\<lparr>qs_active_groups :=
                (if active = 0 then bt_remove (jb_group_id job) (qs_active_groups marked)
                 else bt_insert (jb_group_id job) active (qs_active_groups marked))\<rparr>
          in if group_released job counted
             then (Ok True, counted\<lparr>
               qs_active_sessions := bt_remove (jb_session_id job) (qs_active_sessions counted),
               qs_releasing_groups := qs_releasing_groups counted - {jb_group_id job}\<rparr>)
             else (Ok False, counted))"

definition close_queue :: "ExecutionQueueState \<Rightarrow> ExecutionQueueState" where
  "close_queue state = state\<lparr>qs_closed := True\<rparr>"

section \<open>Write phases\<close>

record WorkspacePhase =
  wp_writing :: bool

definition phase_default :: WorkspacePhase where
  "phase_default = \<lparr>wp_writing = False\<rparr>"

fun phase_enter :: "WorkspaceLeaseMode \<Rightarrow> WorkspacePhase \<Rightarrow> bool \<times> WorkspacePhase" where
  "phase_enter ReadLease self = (False, self\<lparr>wp_writing := False\<rparr>)"
| "phase_enter WriteLease self = (\<not> wp_writing self, self\<lparr>wp_writing := True\<rparr>)"

section \<open>The queue and its workers\<close>

text \<open>Besides the queue: the jobs being executed and the executions handed out so far.\<close>

record Scheduler =
  sd_queue :: ExecutionQueueState
  sd_running :: "ExecutionJob list"
  sd_taken :: "ExecutionId list"

definition scheduler_init :: Scheduler where
  "scheduler_init = \<lparr>sd_queue = queue_default, sd_running = [], sd_taken = []\<rparr>"

text \<open>The group of a job is the root of its execution tree, so it determines the session.\<close>

inductive sched_step :: "(ExecutionId \<Rightarrow> SessionId) \<Rightarrow> Scheduler \<Rightarrow> Scheduler \<Rightarrow> bool" for session_of where
  sched_enqueue: "session_of (jb_group_id job) = jb_session_id job \<Longrightarrow>
     sched_step session_of s (s\<lparr>sd_queue := enqueue job (sd_queue s)\<rparr>)"
| sched_take: "next_job (sd_queue s) = (NextJob job, q) \<Longrightarrow>
     sched_step session_of s (s\<lparr>sd_queue := q, sd_running := job # sd_running s,
       sd_taken := jb_execution_id job # sd_taken s\<rparr>)"
| sched_complete: "job \<in> set (sd_running s) \<Longrightarrow>
     complete job release (sd_queue s) = (Ok b :: (unit, bool) outcome, q) \<Longrightarrow>
     sched_step session_of s (s\<lparr>sd_queue := q, sd_running := remove1 job (sd_running s)\<rparr>)"
| sched_close: "sched_step session_of s (s\<lparr>sd_queue := close_queue (sd_queue s)\<rparr>)"

inductive schedulable :: "(ExecutionId \<Rightarrow> SessionId) \<Rightarrow> Scheduler \<Rightarrow> bool" for session_of where
  sched_start: "schedulable session_of scheduler_init"
| sched_next: "schedulable session_of s \<Longrightarrow> sched_step session_of s t \<Longrightarrow> schedulable session_of t"

section \<open>The scheduler's invariant\<close>

definition running_in :: "ExecutionId \<Rightarrow> ExecutionJob list \<Rightarrow> nat" where
  "running_in g jobs = length (filter (\<lambda>job. jb_group_id job = g) jobs)"

lemma running_in_Cons [simp]:
  "running_in g (job # jobs) = (if jb_group_id job = g then Suc (running_in g jobs) else running_in g jobs)"
  by (simp add: running_in_def)

lemma running_in_remove1:
  assumes "job \<in> set jobs"
  shows "running_in g jobs = (if jb_group_id job = g then Suc else id) (running_in g (remove1 job jobs))"
proof -
  obtain before after where "jobs = before @ job # after" "job \<notin> set before"
    using split_list_first [OF assms] by blast
  then show ?thesis by (simp add: running_in_def remove1_append)
qed

lemma running_in_pos: "0 < running_in g jobs \<longleftrightarrow> (\<exists>job\<in>set jobs. jb_group_id job = g)"
  by (auto simp: running_in_def filter_empty_conv)

text \<open>Every scheduled execution is waiting or was handed out, once.\<close>

definition jobs_once :: "Scheduler \<Rightarrow> bool" where
  "jobs_once s \<longleftrightarrow>
     distinct (map jb_execution_id (qs_pending (sd_queue s)) @ sd_taken s) \<and>
     qs_scheduled (sd_queue s) = set (map jb_execution_id (qs_pending (sd_queue s)) @ sd_taken s)"

text \<open>The counters of \<open>active_groups\<close> count the running jobs; groups at zero are absent.\<close>

definition groups_counted :: "Scheduler \<Rightarrow> bool" where
  "groups_counted s \<longleftrightarrow>
     (\<forall>g. bt_get (qs_active_groups (sd_queue s)) g =
        (if running_in g (sd_running s) = 0 then None else Some (running_in g (sd_running s))))"

text \<open>A running job's session is reserved for its group.\<close>

definition sessions_reserved :: "(ExecutionId \<Rightarrow> SessionId) \<Rightarrow> Scheduler \<Rightarrow> bool" where
  "sessions_reserved session_of s \<longleftrightarrow>
     (\<forall>job\<in>set (sd_running s).
        bt_get (qs_active_sessions (sd_queue s)) (jb_session_id job) = Some (jb_group_id job)) \<and>
     (\<forall>job\<in>set (qs_pending (sd_queue s)) \<union> set (sd_running s).
        session_of (jb_group_id job) = jb_session_id job) \<and>
     (\<forall>session g. bt_get (qs_active_sessions (sd_queue s)) session = Some g \<longrightarrow> session_of g = session)"

text \<open>A group that is being released and still holds its session has work left.\<close>

definition releases_end :: "Scheduler \<Rightarrow> bool" where
  "releases_end s \<longleftrightarrow>
     (\<forall>session g. bt_get (qs_active_sessions (sd_queue s)) session = Some g \<longrightarrow>
        g \<in> qs_releasing_groups (sd_queue s) \<longrightarrow>
        (\<exists>job\<in>set (sd_running s) \<union> set (qs_pending (sd_queue s)). jb_group_id job = g))"

definition sched_inv :: "(ExecutionId \<Rightarrow> SessionId) \<Rightarrow> Scheduler \<Rightarrow> bool" where
  "sched_inv session_of s \<longleftrightarrow>
     jobs_once s \<and> groups_counted s \<and> sessions_reserved session_of s \<and> releases_end s"

lemmas sched_inv_defs =
  sched_inv_def jobs_once_def groups_counted_def sessions_reserved_def releases_end_def

lemma sched_invD:
  assumes "sched_inv session_of s"
  shows sched_holds: "j \<in> set (sd_running s) \<Longrightarrow>
        bt_get (qs_active_sessions (sd_queue s)) (jb_session_id j) = Some (jb_group_id j)"
    and sched_placed: "j \<in> set (qs_pending (sd_queue s)) \<union> set (sd_running s) \<Longrightarrow>
        session_of (jb_group_id j) = jb_session_id j"
    and sched_owner: "bt_get (qs_active_sessions (sd_queue s)) session = Some g \<Longrightarrow> session_of g = session"
    and sched_ends: "bt_get (qs_active_sessions (sd_queue s)) session = Some g \<Longrightarrow>
        g \<in> qs_releasing_groups (sd_queue s) \<Longrightarrow>
        \<exists>j\<in>set (sd_running s) \<union> set (qs_pending (sd_queue s)). jb_group_id j = g"
    and sched_counted: "bt_get (qs_active_groups (sd_queue s)) g =
        (if running_in g (sd_running s) = 0 then None else Some (running_in g (sd_running s)))"
  using assms unfolding sched_inv_def sessions_reserved_def releases_end_def groups_counted_def by blast+

lemma position_SomeD:
  "position P xs = Some i \<Longrightarrow> i < length xs \<and> P (xs ! i) \<and> (\<forall>j<i. \<not> P (xs ! j))"
  by (induction P xs arbitrary: i rule: position.induct)
    (auto split: if_splits option.splits simp: nth_Cons less_Suc_eq_0_disj split: nat.splits)

lemma next_jobE:
  assumes "next_job q = (NextJob job, q')"
  obtains before after where "qs_pending q = before @ job # after"
    and "runnable q job" and "\<forall>j\<in>set before. \<not> runnable q j"
    and "q' = q\<lparr>qs_pending := before @ after,
        qs_active_sessions :=
          (case bt_get (qs_active_sessions q) (jb_session_id job) of
             None \<Rightarrow> bt_insert (jb_session_id job) (jb_group_id job) (qs_active_sessions q)
           | Some _ \<Rightarrow> qs_active_sessions q),
        qs_active_groups := bt_insert (jb_group_id job)
          (Suc (case bt_get (qs_active_groups q) (jb_group_id job) of None \<Rightarrow> 0 | Some n \<Rightarrow> n))
          (qs_active_groups q)\<rparr>"
proof -
  from assms obtain i where i: "position (runnable q) (qs_pending q) = Some i"
    and job: "job = qs_pending q ! i" and q': "q' = hand_out i q"
    by (auto simp: next_job_def split: option.splits if_splits)
  from position_SomeD [OF i] have i: "i < length (qs_pending q)" "runnable q job"
    "\<forall>j<i. \<not> runnable q (qs_pending q ! j)"
    by (simp_all add: job)
  show ?thesis
  proof (rule that)
    show "qs_pending q = take i (qs_pending q) @ job # drop (Suc i) (qs_pending q)"
      using i by (simp add: job id_take_nth_drop)
    show "\<forall>j\<in>set (take i (qs_pending q)). \<not> runnable q j"
      using i by (auto simp: in_set_conv_nth)
  qed (use i in \<open>simp_all add: q' hand_out_def Let_def job cong: option.case_cong\<close>)
qed

subsection \<open>Every step keeps it\<close>

lemma sched_inv_enqueue:
  assumes "sched_inv session_of s" and "session_of (jb_group_id job) = jb_session_id job"
  shows "sched_inv session_of (s\<lparr>sd_queue := enqueue job (sd_queue s)\<rparr>)"
proof (cases "jb_execution_id job \<in> qs_scheduled (sd_queue s)")
  case True
  with assms(1) show ?thesis by (simp add: enqueue_def)
next
  case False
  let ?t = "s\<lparr>sd_queue := enqueue job (sd_queue s)\<rparr>"
  have "jobs_once ?t" and "groups_counted ?t"
    using assms(1) False by (simp_all add: sched_inv_def jobs_once_def groups_counted_def enqueue_def)
  moreover have "sessions_reserved session_of ?t"
    using assms False unfolding sched_inv_def sessions_reserved_def enqueue_def by simp
  moreover have "releases_end ?t"
    using assms(1) False unfolding sched_inv_def releases_end_def enqueue_def by simp
  ultimately show ?thesis by (simp add: sched_inv_def)
qed

lemma sched_inv_take:
  assumes inv: "sched_inv session_of s" and step: "next_job (sd_queue s) = (NextJob job, q)"
  shows "sched_inv session_of (s\<lparr>sd_queue := q, sd_running := job # sd_running s,
       sd_taken := jb_execution_id job # sd_taken s\<rparr>)"
proof -
  from step obtain before after where pending: "qs_pending (sd_queue s) = before @ job # after"
    and runnable: "runnable (sd_queue s) job"
    and q: "q = (sd_queue s)\<lparr>qs_pending := before @ after,
        qs_active_sessions :=
          (case bt_get (qs_active_sessions (sd_queue s)) (jb_session_id job) of
             None \<Rightarrow> bt_insert (jb_session_id job) (jb_group_id job) (qs_active_sessions (sd_queue s))
           | Some _ \<Rightarrow> qs_active_sessions (sd_queue s)),
        qs_active_groups := bt_insert (jb_group_id job)
          (Suc (case bt_get (qs_active_groups (sd_queue s)) (jb_group_id job) of None \<Rightarrow> 0 | Some n \<Rightarrow> n))
          (qs_active_groups (sd_queue s))\<rparr>"
    by (rule next_jobE)
  note holds = sched_holds [OF inv] and placed = sched_placed [OF inv] and owner = sched_owner [OF inv]
  let ?t = "s\<lparr>sd_queue := q, sd_running := job # sd_running s, sd_taken := jb_execution_id job # sd_taken s\<rparr>"
  have once: "jobs_once ?t"
    using inv by (auto simp: sched_inv_def jobs_once_def pending q)
  have counted: "groups_counted ?t"
    using inv by (simp add: sched_inv_def groups_counted_def q)
  have sessions: "bt_get (qs_active_sessions q) session =
      (if session = jb_session_id job then Some (jb_group_id job)
       else bt_get (qs_active_sessions (sd_queue s)) session)" for session
    using runnable by (auto simp: q runnable_def split: option.splits)
  have pending': "qs_pending q = before @ after" "qs_releasing_groups q = qs_releasing_groups (sd_queue s)"
    by (simp_all add: q)
  have reserved: "sessions_reserved session_of ?t"
    unfolding sessions_reserved_def
  proof (intro conjI ballI allI impI)
    show "session_of (jb_group_id j) = jb_session_id j"
      if "j \<in> set (qs_pending (sd_queue ?t)) \<union> set (sd_running ?t)" for j
      using that placed by (auto simp: pending pending')
    show "bt_get (qs_active_sessions (sd_queue ?t)) (jb_session_id j) = Some (jb_group_id j)"
      if "j \<in> set (sd_running ?t)" for j
    proof (cases "j = job")
      case False
      with that holds have "bt_get (qs_active_sessions (sd_queue s)) (jb_session_id j) = Some (jb_group_id j)"
        by simp
      with runnable show ?thesis
        by (cases "jb_session_id j = jb_session_id job") (simp_all add: sessions runnable_def)
    qed (simp add: sessions)
    show "session_of g = session"
      if "bt_get (qs_active_sessions (sd_queue ?t)) session = Some g" for session g
      using that placed owner by (auto simp: sessions pending split: if_splits)
  qed
  have "releases_end ?t"
    using inv unfolding sched_inv_def releases_end_def by (simp add: sessions pending pending')
  with once counted reserved show ?thesis by (simp add: sched_inv_def)
qed

lemma complete_running:
  assumes inv: "sched_inv session_of s" and job: "job \<in> set (sd_running s)"
  shows "\<exists>b q. complete job release (sd_queue s) = (Ok b, q)"
proof -
  have "running_in (jb_group_id job) (sd_running s) \<noteq> 0"
    using job running_in_pos [of "jb_group_id job" "sd_running s"] by auto
  then obtain n where "bt_get (qs_active_groups (sd_queue s)) (jb_group_id job) = Some (Suc n)"
    using inv by (metis groups_counted_def sched_inv_def not0_implies_Suc)
  then have "\<exists>b. fst (complete job release (sd_queue s)) = Ok b" by (auto simp: complete_def Let_def)
  then show ?thesis by (metis prod.collapse)
qed

text \<open>What \<open>complete\<close> leaves: the same waiting jobs, one running job fewer, and either the
  session still reserved or, with the last job of a releasing group, the session given back.\<close>

lemma completeE:
  assumes inv: "sched_inv session_of s" and job: "job \<in> set (sd_running s)"
    and step: "complete job release (sd_queue s) = (Ok b, q)"
  obtains "qs_pending q = qs_pending (sd_queue s)" and "qs_scheduled q = qs_scheduled (sd_queue s)"
    and "\<And>g. bt_get (qs_active_groups q) g =
      (if running_in g (remove1 job (sd_running s)) = 0 then None
       else Some (running_in g (remove1 job (sd_running s))))"
    and "\<And>session. bt_get (qs_active_sessions q) session =
      (if b \<and> session = jb_session_id job then None
       else bt_get (qs_active_sessions (sd_queue s)) session)"
    and "\<And>g. g \<in> qs_releasing_groups q \<Longrightarrow> g \<noteq> jb_group_id job \<Longrightarrow> g \<in> qs_releasing_groups (sd_queue s)"
    and "b \<Longrightarrow> running_in (jb_group_id job) (remove1 job (sd_running s)) = 0"
    and "\<not> b \<Longrightarrow> jb_group_id job \<in> qs_releasing_groups q \<Longrightarrow>
      \<exists>j\<in>set (remove1 job (sd_running s)) \<union> set (qs_pending q). jb_group_id j = jb_group_id job"
proof -
  let ?g = "jb_group_id job" and ?rest = "remove1 job (sd_running s)"
  have count: "running_in ?g (sd_running s) = Suc (running_in ?g ?rest)"
    and other: "g \<noteq> ?g \<Longrightarrow> running_in g (sd_running s) = running_in g ?rest" for g
    using running_in_remove1 [OF job] by auto
  note groups = sched_counted [OF inv] and held = sched_holds [OF inv job]
  define marked where "marked = (if release
      then (sd_queue s)\<lparr>qs_releasing_groups := insert ?g (qs_releasing_groups (sd_queue s))\<rparr> else sd_queue s)"
  define counted where "counted = marked\<lparr>qs_active_groups :=
      (if running_in ?g ?rest = 0 then bt_remove ?g (qs_active_groups marked)
       else bt_insert ?g (running_in ?g ?rest) (qs_active_groups marked))\<rparr>"
  have marked: "qs_pending marked = qs_pending (sd_queue s)" "qs_scheduled marked = qs_scheduled (sd_queue s)"
    "qs_active_groups marked = qs_active_groups (sd_queue s)"
    "qs_active_sessions marked = qs_active_sessions (sd_queue s)"
    "g \<in> qs_releasing_groups marked \<Longrightarrow> g \<noteq> ?g \<Longrightarrow> g \<in> qs_releasing_groups (sd_queue s)" for g
    by (auto simp: marked_def split: if_splits)
  have left: "bt_get (qs_active_groups counted) g =
      (if running_in g ?rest = 0 then None else Some (running_in g ?rest))" for g
    by (simp add: counted_def marked groups other)
  have q: "b = group_released job counted"
    "q = (if b then counted\<lparr>qs_active_sessions := bt_remove (jb_session_id job) (qs_active_sessions counted),
        qs_releasing_groups := qs_releasing_groups counted - {?g}\<rparr> else counted)"
    using step unfolding complete_def marked_def [symmetric] Let_def
    by (auto simp: marked groups count counted_def split: if_splits)
  have released: "b \<longleftrightarrow> ?g \<in> qs_releasing_groups counted \<and> running_in ?g ?rest = 0 \<and>
      (\<forall>j\<in>set (qs_pending q). jb_group_id j \<noteq> ?g)"
    by (simp add: q group_released_def bt_contains_key_def left list_ex_iff counted_def marked held)
  show ?thesis
  proof (rule that)
    show "bt_get (qs_active_groups q) g =
      (if running_in g ?rest = 0 then None else Some (running_in g ?rest))" for g
      by (simp add: q left)
    show "\<exists>j\<in>set ?rest \<union> set (qs_pending q). jb_group_id j = ?g"
      if "\<not> b" "?g \<in> qs_releasing_groups q"
      using that released running_in_pos [of ?g ?rest] by (auto simp: q)
  qed (use released in \<open>auto simp: q counted_def marked\<close>)
qed

lemma sched_inv_complete:
  assumes inv: "sched_inv session_of s" and job: "job \<in> set (sd_running s)"
    and step: "complete job release (sd_queue s) = (Ok b, q)"
  shows "sched_inv session_of (s\<lparr>sd_queue := q, sd_running := remove1 job (sd_running s)\<rparr>)"
  using inv job step
proof (rule completeE)
  let ?g = "jb_group_id job" and ?rest = "remove1 job (sd_running s)"
  let ?t = "s\<lparr>sd_queue := q, sd_running := ?rest\<rparr>"
  assume pending: "qs_pending q = qs_pending (sd_queue s)" "qs_scheduled q = qs_scheduled (sd_queue s)"
    and groups: "\<And>g. bt_get (qs_active_groups q) g =
      (if running_in g ?rest = 0 then None else Some (running_in g ?rest))"
    and sessions: "\<And>session. bt_get (qs_active_sessions q) session =
      (if b \<and> session = jb_session_id job then None
       else bt_get (qs_active_sessions (sd_queue s)) session)"
    and marked: "\<And>g. g \<in> qs_releasing_groups q \<Longrightarrow> g \<noteq> ?g \<Longrightarrow> g \<in> qs_releasing_groups (sd_queue s)"
    and idle: "b \<Longrightarrow> running_in ?g ?rest = 0"
    and busy: "\<not> b \<Longrightarrow> ?g \<in> qs_releasing_groups q \<Longrightarrow>
      \<exists>j\<in>set ?rest \<union> set (qs_pending q). jb_group_id j = ?g"
  note holds = sched_holds [OF inv] and placed = sched_placed [OF inv]
    and owner = sched_owner [OF inv] and ends = sched_ends [OF inv]
  have rest: "set ?rest \<subseteq> set (sd_running s)" by (rule set_remove1_subset)
  have "jobs_once ?t" using inv by (simp add: sched_inv_def jobs_once_def pending)
  moreover have "groups_counted ?t" by (simp add: groups_counted_def groups)
  moreover have "sessions_reserved session_of ?t"
    unfolding sessions_reserved_def
  proof (intro conjI ballI allI impI)
    fix j assume j: "j \<in> set (sd_running ?t)"
    with rest have "j \<in> set (sd_running s)" by auto
    note here = holds [OF this] holds [OF job]
    have "\<not> (b \<and> jb_session_id j = jb_session_id job)"
    proof
      assume b: "b \<and> jb_session_id j = jb_session_id job"
      with here have "jb_group_id j = ?g" by simp
      with j b idle running_in_pos [of ?g ?rest] show False by auto
    qed
    with here show "bt_get (qs_active_sessions (sd_queue ?t)) (jb_session_id j) = Some (jb_group_id j)"
      by (simp add: sessions)
  next
    fix j assume "j \<in> set (qs_pending (sd_queue ?t)) \<union> set (sd_running ?t)"
    with rest show "session_of (jb_group_id j) = jb_session_id j"
      by (intro placed) (auto simp: pending)
  next
    fix session g assume "bt_get (qs_active_sessions (sd_queue ?t)) session = Some g"
    then show "session_of g = session"
      by (intro owner) (simp add: sessions split: if_splits)
  qed
  moreover have "releases_end ?t"
    unfolding releases_end_def
  proof (intro allI impI)
    fix session g
    assume active: "bt_get (qs_active_sessions (sd_queue ?t)) session = Some g"
      and releasing: "g \<in> qs_releasing_groups (sd_queue ?t)"
    then have before: "bt_get (qs_active_sessions (sd_queue s)) session = Some g"
      and kept: "\<not> (b \<and> session = jb_session_id job)" by (simp_all add: sessions split: if_splits)
    show "\<exists>j\<in>set (sd_running ?t) \<union> set (qs_pending (sd_queue ?t)). jb_group_id j = g"
    proof (cases "g = ?g")
      case True
      with owner [OF before] placed [of job] job kept have "\<not> b" by auto
      with busy releasing True show ?thesis by simp
    next
      case False
      with marked releasing ends [OF before] obtain j
        where "j \<in> set (sd_running s) \<union> set (qs_pending (sd_queue s))" "jb_group_id j = g" by auto
      moreover from this False have "j \<noteq> job" by auto
      ultimately show ?thesis by (auto simp: pending intro!: bexI [of _ j])
    qed
  qed
  ultimately show ?thesis by (simp add: sched_inv_def)
qed

lemma schedulable_inv: "schedulable session_of s \<Longrightarrow> sched_inv session_of s"
proof (induction rule: schedulable.induct)
  case sched_start
  show ?case
    by (simp add: sched_inv_defs scheduler_init_def queue_default_def running_in_def)
next
  case (sched_next s t)
  from sched_next.hyps(2) show ?case
  proof cases
    case sched_close
    with sched_next.IH show ?thesis
      by (simp add: sched_inv_defs close_queue_def)
  qed (use sched_next.IH sched_inv_enqueue sched_inv_take sched_inv_complete in blast)+
qed

section \<open>A schedule\<close>

text \<open>Two root executions and a child of the first in one session, and a root in another.\<close>

datatype sched_action =
    Enqueue ExecutionJob
  | Take
  | Complete ExecutionJob bool
  | Close

fun run_action :: "(ExecutionId \<Rightarrow> SessionId) \<Rightarrow> sched_action \<Rightarrow> Scheduler \<Rightarrow> Scheduler option" where
  "run_action session_of (Enqueue job) s =
     (if session_of (jb_group_id job) = jb_session_id job
      then Some (s\<lparr>sd_queue := enqueue job (sd_queue s)\<rparr>) else None)"
| "run_action session_of Take s =
     (case next_job (sd_queue s) of
        (NextJob job, q) \<Rightarrow> Some (s\<lparr>sd_queue := q, sd_running := job # sd_running s,
          sd_taken := jb_execution_id job # sd_taken s\<rparr>)
      | _ \<Rightarrow> None)"
| "run_action session_of (Complete job release) s =
     (case complete job release (sd_queue s) of
        (Ok b :: (unit, bool) outcome, q) \<Rightarrow>
          if List.member (sd_running s) job
          then Some (s\<lparr>sd_queue := q, sd_running := remove1 job (sd_running s)\<rparr>) else None
      | _ \<Rightarrow> None)"
| "run_action session_of Close s = Some (s\<lparr>sd_queue := close_queue (sd_queue s)\<rparr>)"

fun run_actions :: "(ExecutionId \<Rightarrow> SessionId) \<Rightarrow> sched_action list \<Rightarrow> Scheduler \<Rightarrow> Scheduler option" where
  "run_actions session_of [] s = Some s"
| "run_actions session_of (a # as) s = Option.bind (run_action session_of a s) (run_actions session_of as)"

lemma run_action_step: "run_action session_of a s = Some t \<Longrightarrow> sched_step session_of s t"
  by (cases a)
    (auto intro: sched_step.intros split: if_splits prod.splits next_result.splits outcome.splits)

lemma run_actions_schedulable:
  "run_actions session_of as s = Some t \<Longrightarrow> schedulable session_of s \<Longrightarrow> schedulable session_of t"
proof (induction as arbitrary: s)
  case (Cons a as)
  then show ?case by (auto simp: bind_eq_Some_conv dest!: run_action_step intro: sched_next)
qed simp

definition sample_job :: "string \<Rightarrow> string \<Rightarrow> string \<Rightarrow> ExecutionJob" where
  "sample_job execution session root =
     \<lparr>jb_execution_id = Ident execution, jb_session_id = Ident session, jb_group_id = Ident root\<rparr>"

definition sample_session_of :: "ExecutionId \<Rightarrow> SessionId" where
  "sample_session_of g = (if g = Ident ''d'' then Ident ''t'' else Ident ''s'')"

definition sample_jobs :: "sched_action list" where
  "sample_jobs = [Enqueue (sample_job ''a'' ''s'' ''a''), Enqueue (sample_job ''b'' ''s'' ''b''),
     Enqueue (sample_job ''c'' ''s'' ''a''), Enqueue (sample_job ''d'' ''t'' ''d''), Take, Take]"

definition busy_schedule :: Scheduler where
  "busy_schedule = the (run_actions sample_session_of sample_jobs scheduler_init)"

definition idle_schedule :: Scheduler where
  "idle_schedule = the (run_actions sample_session_of
     (sample_jobs @ [Complete (sample_job ''a'' ''s'' ''a'') False, Complete (sample_job ''c'' ''s'' ''a'') True])
     scheduler_init)"

definition finished_schedule :: Scheduler where
  "finished_schedule = the (run_actions sample_session_of
     [Take, Take, Complete (sample_job ''b'' ''s'' ''b'') True, Complete (sample_job ''d'' ''t'' ''d'') True, Close]
     idle_schedule)"

lemma schedulable_run:
  assumes "\<not> Option.is_none (run_actions session_of as s)" and "schedulable session_of s"
  shows "schedulable session_of (the (run_actions session_of as s))"
  using assms run_actions_schedulable by (cases "run_actions session_of as s") auto

lemma busy_schedulable: "schedulable sample_session_of busy_schedule"
  unfolding busy_schedule_def by (rule schedulable_run [OF _ sched_start]) code_simp

lemma idle_schedulable: "schedulable sample_session_of idle_schedule"
  unfolding idle_schedule_def by (rule schedulable_run [OF _ sched_start]) code_simp

lemma finished_schedulable: "schedulable sample_session_of finished_schedule"
  unfolding finished_schedule_def by (rule schedulable_run [OF _ idle_schedulable]) code_simp

section \<open>What the queue promises\<close>

text \<open>C36. No execution is handed to a worker twice; two jobs of one session run at the same time
  only when they belong to the same execution tree; and completing a running job finds its group
  active, so that neither the \<open>expect\<close> nor the subtraction in \<open>complete\<close> panics.\<close>

theorem session_exclusive:
  assumes "schedulable session_of s"
  shows "distinct (sd_taken s) \<and>
    (\<forall>j\<in>set (sd_running s). \<forall>j'\<in>set (sd_running s).
       jb_session_id j = jb_session_id j' \<longrightarrow> jb_group_id j = jb_group_id j') \<and>
    (\<forall>j\<in>set (sd_running s). \<forall>release. \<exists>b q. complete j release (sd_queue s) = (Ok b :: (unit, bool) outcome, q))"
proof (intro conjI ballI impI allI)
  note inv = schedulable_inv [OF assms]
  show "distinct (sd_taken s)" using inv by (simp add: sched_inv_def jobs_once_def)
  show "\<exists>b q. complete j release (sd_queue s) = (Ok b :: (unit, bool) outcome, q)" if "j \<in> set (sd_running s)" for j release
    using inv that by (rule complete_running)
  fix j j'
  assume "j \<in> set (sd_running s)" "j' \<in> set (sd_running s)" "jb_session_id j = jb_session_id j'"
  then show "jb_group_id j = jb_group_id j'"
    using sched_holds [OF inv, of j] sched_holds [OF inv, of j'] by simp
qed

theorem session_exclusive_witness:
  "sd_running busy_schedule = [sample_job ''c'' ''s'' ''a'', sample_job ''a'' ''s'' ''a''] \<and>
   (\<exists>b q. complete (sample_job ''a'' ''s'' ''a'') True (sd_queue busy_schedule) = (Ok b :: (unit, bool) outcome, q))"
proof -
  have "sd_running busy_schedule = [sample_job ''c'' ''s'' ''a'', sample_job ''a'' ''s'' ''a'']"
    by code_simp
  with session_exclusive [OF busy_schedulable] show ?thesis by simp
qed

text \<open>C37. The queue does not get stuck: when no worker is busy, every group that holds a session
  was asked to release it, and jobs are waiting, the next call hands one out. The job is the first
  one whose session is free or reserved for its group.\<close>

theorem queue_progress:
  assumes "schedulable session_of s" and "sd_running s = []"
    and "\<forall>session g. bt_get (qs_active_sessions (sd_queue s)) session = Some g \<longrightarrow>
      g \<in> qs_releasing_groups (sd_queue s)"
    and "qs_pending (sd_queue s) \<noteq> []"
  shows "\<exists>before job after q. next_job (sd_queue s) = (NextJob job, q) \<and>
    qs_pending (sd_queue s) = before @ job # after \<and> qs_pending q = before @ after \<and>
    (\<forall>j\<in>set before. \<exists>g. bt_get (qs_active_sessions (sd_queue s)) (jb_session_id j) = Some g \<and> g \<noteq> jb_group_id j)"
proof -
  note inv = schedulable_inv [OF assms(1)]
  have "\<exists>job\<in>set (qs_pending (sd_queue s)). runnable (sd_queue s) job"
  proof (cases "\<exists>session g. bt_get (qs_active_sessions (sd_queue s)) session = Some g")
    case True
    then obtain session g where active: "bt_get (qs_active_sessions (sd_queue s)) session = Some g" by blast
    with sched_ends [OF inv active] assms(2,3) obtain job
      where job: "job \<in> set (qs_pending (sd_queue s))" "jb_group_id job = g" by auto
    with sched_placed [OF inv, of job] sched_owner [OF inv active] have "jb_session_id job = session"
      by simp
    with job active show ?thesis by (intro bexI [of _ job]) (simp_all add: runnable_def)
  next
    case False
    with assms(4) show ?thesis by (auto simp: runnable_def neq_Nil_conv split: option.split)
  qed
  then have "position (runnable (sd_queue s)) (qs_pending (sd_queue s)) \<noteq> None"
    by (auto simp: position_None)
  then obtain job q where taken: "next_job (sd_queue s) = (NextJob job, q)"
    by (auto simp: next_job_def)
  then obtain before after where "qs_pending (sd_queue s) = before @ job # after"
    and "\<forall>j\<in>set before. \<not> runnable (sd_queue s) j" and "qs_pending q = before @ after"
    by (rule next_jobE) simp
  moreover from this(2) have "\<forall>j\<in>set before. \<exists>g.
      bt_get (qs_active_sessions (sd_queue s)) (jb_session_id j) = Some g \<and> g \<noteq> jb_group_id j"
    by (fastforce simp: runnable_def split: option.splits)
  ultimately show ?thesis using taken by blast
qed

theorem queue_progress_witness:
  "map jb_execution_id (qs_pending (sd_queue idle_schedule)) = [Ident ''b'', Ident ''d''] \<and>
   (\<exists>job q. next_job (sd_queue idle_schedule) = (NextJob job, q))"
proof -
  have "sd_running idle_schedule = []" by code_simp
  moreover have "map jb_execution_id (qs_pending (sd_queue idle_schedule)) = [Ident ''b'', Ident ''d'']"
    by code_simp
  moreover have "list_all (\<lambda>(session, g). g \<in> qs_releasing_groups (sd_queue idle_schedule))
      (bt_entries (qs_active_sessions (sd_queue idle_schedule)))" by code_simp
  ultimately show ?thesis
    using queue_progress [OF idle_schedulable] by (fastforce simp: list_all_iff)
qed

text \<open>C38. A worker leaves its loop only when the queue is closed and drained: no job waits, none is
  running, and every execution ever enqueued was handed out.\<close>

theorem queue_drained:
  assumes "schedulable session_of s" and "next_job (sd_queue s) = (NextFinished, q)"
  shows "q = sd_queue s \<and> qs_closed q \<and> qs_pending q = [] \<and> sd_running s = [] \<and>
    qs_scheduled q = set (sd_taken s)"
proof -
  from assms(2) have q: "q = sd_queue s" "qs_closed q" "qs_pending q = []" "bt_len (qs_active_groups q) = 0"
    by (auto simp: next_job_def split: option.splits if_splits)
  then have "dom (bt_get (qs_active_groups q)) = {}" by (simp add: bt_len_dom)
  then have "bt_get (qs_active_groups (sd_queue s)) g = None" for g by (simp add: q)
  then have "running_in g (sd_running s) = 0" for g
    using sched_counted [OF schedulable_inv [OF assms(1)], of g] by (simp split: if_splits)
  then have "sd_running s = []"
    using running_in_pos [of _ "sd_running s"] by (metis list.set_intros(1) neq_Nil_conv not_gr_zero)
  with schedulable_inv [OF assms(1)] q show ?thesis by (simp add: sched_inv_def jobs_once_def)
qed

theorem queue_drained_witness:
  "\<exists>q. next_job (sd_queue finished_schedule) = (NextFinished, q) \<and>
     qs_scheduled q = {Ident ''a'', Ident ''b'', Ident ''c'', Ident ''d''}"
proof -
  have "fst (next_job (sd_queue finished_schedule)) = NextFinished" by code_simp
  then obtain q where q: "next_job (sd_queue finished_schedule) = (NextFinished, q)"
    by (metis prod.collapse)
  have "sd_taken finished_schedule = map Ident [''d'', ''b'', ''c'', ''a'']" by code_simp
  with q queue_drained [OF finished_schedulable q] show ?thesis by auto
qed

end
