(* ===== verification/Callables.thy ===== *)
theory Callables
  imports Core
begin

text \<open>
  The callable registry of a compiled configuration (\<open>phenix-conductor/src/callables.rs\<close>) and
  the execution-provider contract it stores (\<open>execution_provider.rs\<close>).

  \<open>register_orchestration\<close> normalises the node list of a definition by Kahn's algorithm. The
  lemmas show that the loop never hits its \<open>expect\<close>s nor an underflow, that on success the
  stored nodes are the given nodes in an order in which every dependency comes first, and that
  it fails with \<open>CyclicOrchestration\<close> exactly on a dependency cycle.
\<close>

section \<open>Execution providers\<close>

datatype ExecutionProviderKind = ModelProvider | NativeProvider | AcpProvider | RemotePhenixProvider

record ExecutionProviderRequest =
  pr_execution_id :: ExecutionId
  pr_session_id :: SessionId
  pr_parent_execution :: "ExecutionId option"
  pr_callable :: CallableId
  pr_config_revision :: ConfigRevisionId
  pr_objective :: string

datatype ExecutionProviderEvent = ProviderReasoningDelta string | ProviderContentDelta string

datatype ExecutionProviderError =
  ProviderUnsupported string | ProviderFailed string | ProviderProtocol string

fun display_ExecutionProviderError :: "ExecutionProviderError \<Rightarrow> string" where
  "display_ExecutionProviderError (ProviderUnsupported message) =
     ''unsupported execution provider capability: '' @ message"
| "display_ExecutionProviderError (ProviderFailed message) =
     ''execution provider failed: '' @ message"
| "display_ExecutionProviderError (ProviderProtocol message) =
     ''execution provider protocol error: '' @ message"

text \<open>A provider is foreign code: a run is the tree of its \<open>emit\<close> calls and its result.\<close>

datatype provider_run =
    ProviderEmit ExecutionProviderEvent "ExecutionProviderError + unit \<Rightarrow> provider_run"
  | ProviderDone "ExecutionProviderError + unit"

record ExecutionProvider =
  ep_kind :: ExecutionProviderKind
  ep_execute :: "ExecutionProviderRequest \<Rightarrow> provider_run"

datatype ExecutionProviderBinding = ModelBinding | ProviderBinding ExecutionProvider

fun binding_kind :: "ExecutionProviderBinding \<Rightarrow> ExecutionProviderKind" where
  "binding_kind ModelBinding = ModelProvider"
| "binding_kind (ProviderBinding provider) = ep_kind provider"

fun binding_provider :: "ExecutionProviderBinding \<Rightarrow> ExecutionProvider option" where
  "binding_provider ModelBinding = None"
| "binding_provider (ProviderBinding provider) = Some provider"

section \<open>Registry entries\<close>

record ToolExecutionContext =
  tc_authority :: ExecutionAuthority

record ToolOutcome =
  to_output :: string
  to_success :: bool
  to_file_observations :: "FileObservation list"

definition tool_success :: "string \<Rightarrow> ToolOutcome" where
  "tool_success output = \<lparr>to_output = output, to_success = True, to_file_observations = []\<rparr>"

definition tool_failure :: "string \<Rightarrow> ToolOutcome" where
  "tool_failure output = \<lparr>to_output = output, to_success = False, to_file_observations = []\<rparr>"

text \<open>A tool handler is a registered closure; the registry only stores and calls it.\<close>

type_synonym ToolHandler = "ToolExecutionContext \<Rightarrow> string \<Rightarrow> string + ToolOutcome"

datatype CallableRegistryError =
    Duplicate CallableId
  | Unknown CallableId
  | WrongKind (wk_callable: CallableId) (wk_expected: CallableKind) (wk_actual: CallableKind)
  | NotExecutable CallableId
  | EmptyOrchestration CallableId
  | DuplicateOrchestrationNode CallableId OrchestrationNodeId
  | UnknownOrchestrationDependency CallableId OrchestrationNodeId OrchestrationNodeId
  | CyclicOrchestration CallableId
  | InvalidOrchestrationInterface CallableId CallableId
  | InvalidOrchestrationNode CallableId OrchestrationNodeId CallableId

fun debug_CallableKind :: "CallableKind \<Rightarrow> string" where
  "debug_CallableKind Tool = ''Tool''"
| "debug_CallableKind Agent = ''Agent''"
| "debug_CallableKind Orchestration = ''Orchestration''"

fun display_CallableRegistryError :: "CallableRegistryError \<Rightarrow> string" where
  "display_CallableRegistryError (Duplicate c) = ''callable already registered: '' @ as_str c"
| "display_CallableRegistryError (Unknown c) = ''unknown callable: '' @ as_str c"
| "display_CallableRegistryError (WrongKind c expected actual) =
     ''callable '' @ as_str c @ '' has kind '' @ debug_CallableKind actual @ '', expected '' @
     debug_CallableKind expected"
| "display_CallableRegistryError (NotExecutable c) =
     ''callable is not execution-provider backed: '' @ as_str c"
| "display_CallableRegistryError (EmptyOrchestration c) = ''orchestration has no nodes: '' @ as_str c"
| "display_CallableRegistryError (DuplicateOrchestrationNode o' n) =
     ''orchestration '' @ as_str o' @ '' contains duplicate node id '' @ as_str n"
| "display_CallableRegistryError (UnknownOrchestrationDependency o' n d) =
     ''orchestration '' @ as_str o' @ '' node '' @ as_str n @ '' depends on unknown node '' @ as_str d"
| "display_CallableRegistryError (CyclicOrchestration o') =
     ''orchestration '' @ as_str o' @ '' contains a dependency cycle''"
| "display_CallableRegistryError (InvalidOrchestrationInterface o' c) =
     ''orchestration '' @ as_str o' @ '' interface references non-executable or unknown callable '' @ as_str c"
| "display_CallableRegistryError (InvalidOrchestrationNode o' n c) =
     ''orchestration '' @ as_str o' @ '' node '' @ as_str n @
     '' references non-executable or unknown callable '' @ as_str c"

datatype CallableEntry =
    ToolEntry CallableDescriptor ToolHandler
  | AgentEntry AgentDefinition ExecutionProviderBinding
  | OrchestrationEntry OrchestrationDefinition

fun entry_descriptor :: "CallableEntry \<Rightarrow> CallableDescriptor" where
  "entry_descriptor (ToolEntry descriptor handler) = descriptor"
| "entry_descriptor (AgentEntry definition provider) = ad_descriptor definition"
| "entry_descriptor (OrchestrationEntry definition) = od_descriptor definition"

fun is_executable :: "CallableEntry \<Rightarrow> bool" where
  "is_executable (AgentEntry definition provider) = True"
| "is_executable (ToolEntry descriptor handler) = False"
| "is_executable (OrchestrationEntry definition) = False"

record CallableRegistry =
  cr_entries :: "(CallableId, CallableEntry) btree_map"

definition registry_default :: CallableRegistry where
  "registry_default = \<lparr>cr_entries = bt_empty\<rparr>"

definition registry_insert ::
  "CallableEntry \<Rightarrow> CallableKind \<Rightarrow> CallableRegistry \<Rightarrow> CallableRegistryError + CallableRegistry" where
  "registry_insert entry expected self =
     (let descriptor = entry_descriptor entry in
      if cd_kind descriptor \<noteq> expected
      then Inl (WrongKind (cd_id descriptor) expected (cd_kind descriptor))
      else if bt_contains_key (cr_entries self) (cd_id descriptor)
      then Inl (Duplicate (cd_id descriptor))
      else Inr (self\<lparr>cr_entries := bt_insert (cd_id descriptor) entry (cr_entries self)\<rparr>))"

definition registry_register_tool ::
  "CallableDescriptor \<Rightarrow> ToolHandler \<Rightarrow> CallableRegistry \<Rightarrow> CallableRegistryError + CallableRegistry" where
  "registry_register_tool descriptor handler self =
     registry_insert (ToolEntry descriptor handler) Tool self"

definition registry_register_agent ::
  "AgentDefinition \<Rightarrow> CallableRegistry \<Rightarrow> CallableRegistryError + CallableRegistry" where
  "registry_register_agent definition self =
     registry_insert (AgentEntry definition ModelBinding) Agent self"

definition registry_register_provider_agent ::
  "AgentDefinition \<Rightarrow> ExecutionProvider \<Rightarrow> CallableRegistry \<Rightarrow> CallableRegistryError + CallableRegistry"
  where
  "registry_register_provider_agent definition provider self =
     registry_insert (AgentEntry definition (ProviderBinding provider)) Agent self"

section \<open>Registering an orchestration\<close>

subsection \<open>Collecting and checking nodes\<close>

definition dedup_deps :: "OrchestrationNode \<Rightarrow> OrchestrationNode" where
  "dedup_deps node = node\<lparr>nd_depends_on := remdups_adj (sort (nd_depends_on node))\<rparr>"

type_synonym node_map = "(OrchestrationNodeId, OrchestrationNode) btree_map"

fun collect_nodes ::
  "CallableId \<Rightarrow> OrchestrationNode list \<Rightarrow> node_map \<Rightarrow> CallableRegistryError + node_map" where
  "collect_nodes orchestration [] nodes = Inr nodes"
| "collect_nodes orchestration (node # rest) nodes =
     (if bt_contains_key nodes (nd_id node)
      then Inl (DuplicateOrchestrationNode orchestration (nd_id node))
      else collect_nodes orchestration rest (bt_insert (nd_id node) (dedup_deps node) nodes))"

definition check_node ::
  "CallableRegistry \<Rightarrow> CallableId \<Rightarrow> node_map \<Rightarrow> OrchestrationNode \<Rightarrow> CallableRegistryError option" where
  "check_node self orchestration nodes node =
     (case bt_get (cr_entries self) (nd_callable node) of
        None \<Rightarrow> Some (InvalidOrchestrationNode orchestration (nd_id node) (nd_callable node))
      | Some entry \<Rightarrow>
          if \<not> is_executable entry
          then Some (InvalidOrchestrationNode orchestration (nd_id node) (nd_callable node))
          else map_option (UnknownOrchestrationDependency orchestration (nd_id node))
                 (find (\<lambda>dependency. \<not> bt_contains_key nodes dependency) (nd_depends_on node)))"

fun first_error :: "('a \<Rightarrow> 'e option) \<Rightarrow> 'a list \<Rightarrow> 'e option" where
  "first_error f [] = None"
| "first_error f (x # xs) = (case f x of Some e \<Rightarrow> Some e | None \<Rightarrow> first_error f xs)"

definition check_interface ::
  "CallableRegistry \<Rightarrow> CallableId \<Rightarrow> CallableId option \<Rightarrow> CallableRegistryError option" where
  "check_interface self orchestration interface_agent =
     (case interface_agent of
        None \<Rightarrow> None
      | Some agent \<Rightarrow>
          (case bt_get (cr_entries self) agent of
             None \<Rightarrow> Some (InvalidOrchestrationInterface orchestration agent)
           | Some entry \<Rightarrow>
               if is_executable entry then None
               else Some (InvalidOrchestrationInterface orchestration agent)))"

subsection \<open>Kahn's algorithm\<close>

type_synonym dependents_map = "(OrchestrationNodeId, OrchestrationNodeId list) btree_map"

definition push_dependent :: "OrchestrationNodeId \<Rightarrow> dependents_map \<Rightarrow> OrchestrationNodeId \<Rightarrow> dependents_map" where
  "push_dependent node_id m dependency =
     bt_insert dependency
       ((case bt_get m dependency of None \<Rightarrow> [] | Some ids \<Rightarrow> ids) @ [node_id]) m"

definition dependents_of :: "node_map \<Rightarrow> dependents_map" where
  "dependents_of nodes =
     bt_map sort
       (foldl (\<lambda>m node. foldl (push_dependent (nd_id node)) m (nd_depends_on node))
          bt_empty (bt_values nodes))"

fun release_children ::
  "OrchestrationNodeId list \<Rightarrow> (OrchestrationNodeId, nat) btree_map \<Rightarrow> OrchestrationNodeId set \<Rightarrow>
   (CallableRegistryError, (OrchestrationNodeId, nat) btree_map \<times> OrchestrationNodeId set) outcome" where
  "release_children [] indegree ready = Ok (indegree, ready)"
| "release_children (child # rest) indegree ready =
     (case bt_get indegree child of
        None \<Rightarrow> Panic ''dependent node must have indegree''
      | Some 0 \<Rightarrow> Panic ''attempt to subtract with overflow''
      | Some (Suc count) \<Rightarrow>
          release_children rest (bt_insert child count indegree)
            (if count = 0 then insert child ready else ready))"

function kahn ::
  "dependents_map \<Rightarrow> node_map \<Rightarrow> (OrchestrationNodeId, nat) btree_map \<Rightarrow> OrchestrationNodeId set \<Rightarrow>
   OrchestrationNode list \<Rightarrow> (CallableRegistryError, OrchestrationNode list) outcome" where
  "kahn dependents nodes indegree ready normalized =
     (if ready = {} then Ok normalized
      else let node_id = Min ready in
        case bt_get nodes node_id of
          None \<Rightarrow> Panic ''ready node must exist in orchestration node map''
        | Some node \<Rightarrow>
            (case release_children
                    (case bt_get dependents node_id of None \<Rightarrow> [] | Some children \<Rightarrow> children)
                    indegree (ready - {node_id}) of
               Ok (indegree', ready') \<Rightarrow>
                 kahn dependents (bt_remove node_id nodes) indegree' ready' (normalized @ [node])
             | Err e \<Rightarrow> Err e
             | Panic message \<Rightarrow> Panic message
             | NoFuel \<Rightarrow> NoFuel))"
  by pat_completeness auto
termination
  by (relation "measure (\<lambda>(dependents, nodes, indegree, ready, normalized). bt_len nodes)")
    (auto simp: bt_len_remove)

declare kahn.simps [simp del]

definition register_orchestration ::
  "OrchestrationDefinition \<Rightarrow> CallableRegistry \<Rightarrow> (CallableRegistryError, CallableRegistry) outcome" where
  "register_orchestration definition self =
     (let descriptor = od_descriptor definition; orchestration = cd_id descriptor in
      if cd_kind descriptor \<noteq> Orchestration
      then Err (WrongKind orchestration Orchestration (cd_kind descriptor))
      else if od_nodes definition = [] then Err (EmptyOrchestration orchestration)
      else case check_interface self orchestration (od_interface_agent definition) of
        Some e \<Rightarrow> Err e
      | None \<Rightarrow>
          (case collect_nodes orchestration (od_nodes definition) bt_empty of
             Inl e \<Rightarrow> Err e
           | Inr nodes \<Rightarrow>
               (case first_error (check_node self orchestration nodes) (bt_values nodes) of
                  Some e \<Rightarrow> Err e
                | None \<Rightarrow>
                    let indegree = bt_map (\<lambda>node. length (nd_depends_on node)) nodes;
                        ready = set (map fst (filter (\<lambda>(node_id, count). count = 0) (bt_entries indegree)))
                    in case kahn (dependents_of nodes) nodes indegree ready [] of
                         Ok normalized \<Rightarrow>
                           if length normalized \<noteq> bt_len nodes
                           then Err (CyclicOrchestration orchestration)
                           else (case registry_insert
                                       (OrchestrationEntry (definition\<lparr>od_nodes := normalized\<rparr>))
                                       Orchestration self of
                                   Inl e \<Rightarrow> Err e | Inr self' \<Rightarrow> Ok self')
                       | Err e \<Rightarrow> Err e
                       | Panic message \<Rightarrow> Panic message
                       | NoFuel \<Rightarrow> NoFuel)))"

section \<open>Registry queries\<close>

definition registry_descriptors :: "CallableRegistry \<Rightarrow> CallableDescriptor list" where
  "registry_descriptors self = map entry_descriptor (bt_values (cr_entries self))"

definition registry_tool_descriptors :: "CallableRegistry \<Rightarrow> CallableDescriptor list" where
  "registry_tool_descriptors self =
     map entry_descriptor
       (filter (\<lambda>entry. cd_kind (entry_descriptor entry) = Tool) (bt_values (cr_entries self)))"

definition registry_descriptor ::
  "CallableRegistry \<Rightarrow> CallableId \<Rightarrow> CallableRegistryError + CallableDescriptor" where
  "registry_descriptor self callable =
     (case bt_get (cr_entries self) callable of
        None \<Rightarrow> Inl (Unknown callable) | Some entry \<Rightarrow> Inr (entry_descriptor entry))"

definition agent_definition ::
  "CallableRegistry \<Rightarrow> CallableId \<Rightarrow> CallableRegistryError + AgentDefinition" where
  "agent_definition self callable =
     (case bt_get (cr_entries self) callable of
        None \<Rightarrow> Inl (Unknown callable)
      | Some entry \<Rightarrow>
          (case entry of
             AgentEntry definition provider \<Rightarrow> Inr definition
           | _ \<Rightarrow> Inl (WrongKind callable Agent (cd_kind (entry_descriptor entry)))))"

definition agent_definitions :: "CallableRegistry \<Rightarrow> AgentDefinition list" where
  "agent_definitions self =
     List.map_filter
       (\<lambda>entry. case entry of AgentEntry definition provider \<Rightarrow> Some definition | _ \<Rightarrow> None)
       (bt_values (cr_entries self))"

definition execution_provider ::
  "CallableRegistry \<Rightarrow> CallableId \<Rightarrow> CallableRegistryError + ExecutionProviderBinding" where
  "execution_provider self callable =
     (case bt_get (cr_entries self) callable of
        None \<Rightarrow> Inl (Unknown callable)
      | Some entry \<Rightarrow>
          (case entry of
             AgentEntry definition provider \<Rightarrow> Inr provider
           | _ \<Rightarrow> Inl (NotExecutable callable)))"

definition orchestration ::
  "CallableRegistry \<Rightarrow> CallableId \<Rightarrow> CallableRegistryError + OrchestrationDefinition" where
  "orchestration self callable =
     (case bt_get (cr_entries self) callable of
        None \<Rightarrow> Inl (Unknown callable)
      | Some entry \<Rightarrow>
          (case entry of
             OrchestrationEntry definition \<Rightarrow> Inr definition
           | _ \<Rightarrow> Inl (WrongKind callable Orchestration (cd_kind (entry_descriptor entry)))))"

definition registry_contains :: "CallableRegistry \<Rightarrow> CallableId \<Rightarrow> bool" where
  "registry_contains self callable = bt_contains_key (cr_entries self) callable"

definition registry_invoke_tool ::
  "CallableRegistry \<Rightarrow> ToolExecutionContext \<Rightarrow> CallableId \<Rightarrow> string \<Rightarrow>
   CallableRegistryError + ToolOutcome" where
  "registry_invoke_tool self context callable arguments_json =
     (case bt_get (cr_entries self) callable of
        None \<Rightarrow> Inl (Unknown callable)
      | Some entry \<Rightarrow>
          (case entry of
             ToolEntry descriptor handler \<Rightarrow>
               Inr (case handler context arguments_json of
                      Inr outcome \<Rightarrow> outcome | Inl output \<Rightarrow> tool_failure output)
           | _ \<Rightarrow> Inl (WrongKind callable Tool (cd_kind (entry_descriptor entry)))))"


section \<open>Correctness of the normalisation\<close>

definition wf_nodes :: "node_map \<Rightarrow> bool" where
  "wf_nodes N \<longleftrightarrow> (\<forall>k n. bt_get N k = Some n \<longrightarrow>
     nd_id n = k \<and> distinct (nd_depends_on n) \<and> (\<forall>d\<in>set (nd_depends_on n). bt_contains_key N d))"

definition depends :: "node_map \<Rightarrow> OrchestrationNodeId \<Rightarrow> OrchestrationNodeId set" where
  "depends N k = (case bt_get N k of None \<Rightarrow> {} | Some n \<Rightarrow> set (nd_depends_on n))"

definition dependency_rel :: "node_map \<Rightarrow> (OrchestrationNodeId \<times> OrchestrationNodeId) set" where
  "dependency_rel N = {(d, k). d \<in> depends N k}"

definition topological :: "OrchestrationNode list \<Rightarrow> bool" where
  "topological ns \<longleftrightarrow>
     (\<forall>i < length ns. set (nd_depends_on (ns ! i)) \<subseteq> nd_id ` set (take i ns))"

subsection \<open>Dependents\<close>

definition listed :: "dependents_map \<Rightarrow> OrchestrationNodeId \<Rightarrow> OrchestrationNodeId list" where
  "listed m d = (case bt_get m d of None \<Rightarrow> [] | Some ids \<Rightarrow> ids)"

lemma listed_push: "listed (push_dependent k m d) d' = (if d' = d then listed m d @ [k] else listed m d')"
  by (simp add: listed_def push_dependent_def)

lemma listed_push_all:
  "distinct ds \<Longrightarrow> listed (foldl (push_dependent k) m ds) d =
     (if d \<in> set ds then listed m d @ [k] else listed m d)"
  by (induction ds arbitrary: m) (auto simp: listed_push)

lemma listed_fold:
  "\<forall>n\<in>set ns. distinct (nd_depends_on n) \<Longrightarrow>
   listed (foldl (\<lambda>m node. foldl (push_dependent (nd_id node)) m (nd_depends_on node)) m ns) d =
     listed m d @ map nd_id (filter (\<lambda>n. d \<in> set (nd_depends_on n)) ns)"
  by (induction ns arbitrary: m) (auto simp: listed_push_all)

lemma listed_empty [simp]: "listed bt_empty d = []"
  by (simp add: listed_def)

lemma listed_sort: "listed (bt_map sort m) d = sort (listed m d)"
  by (simp add: listed_def split: option.split)

lemma wf_nodes_ids: "wf_nodes N \<Longrightarrow> map nd_id (bt_values N) = bt_keys N"
proof -
  assume "wf_nodes N"
  then have "\<forall>p\<in>set (bt_entries N). nd_id (snd p) = fst p"
    by (auto simp: wf_nodes_def)
  then show ?thesis by (simp add: bt_values_def bt_keys_def)
qed

lemma listed_dependents:
  assumes "wf_nodes N"
  shows "distinct (listed (dependents_of N) d)"
    and "set (listed (dependents_of N) d) = {k. d \<in> depends N k}"
proof -
  from assms have "\<forall>n\<in>set (bt_values N). distinct (nd_depends_on n)"
    by (auto simp: wf_nodes_def)
  then have eq: "listed (dependents_of N) d =
      sort (map nd_id (filter (\<lambda>n. d \<in> set (nd_depends_on n)) (bt_values N)))"
    by (simp add: dependents_of_def listed_sort listed_fold)
  have "distinct (map nd_id (bt_values N))"
    using assms by (simp add: wf_nodes_ids)
  then show "distinct (listed (dependents_of N) d)"
    by (simp add: eq distinct_map_filter)
  show "set (listed (dependents_of N) d) = {k. d \<in> depends N k}"
    using assms by (force simp: eq depends_def wf_nodes_def split: option.splits)
qed

subsection \<open>The loop\<close>

lemma release_children_ok:
  assumes "distinct cs" and "\<forall>c\<in>set cs. \<exists>n. bt_get ind c = Some (Suc n)"
  shows "\<exists>ind'. release_children cs ind ready =
            Ok (ind', ready \<union> {c \<in> set cs. bt_get ind c = Some 1}) \<and>
          (\<forall>x. bt_get ind' x =
            (if x \<in> set cs then map_option (\<lambda>n. n - 1) (bt_get ind x) else bt_get ind x))"
  using assms
proof (induction cs arbitrary: ind ready)
  case Nil
  then show ?case by simp
next
  case (Cons c cs)
  then obtain n where n: "bt_get ind c = Some (Suc n)" by auto
  let ?ind = "bt_insert c n ind"
  let ?ready = "if n = 0 then insert c ready else ready"
  from Cons.prems have "distinct cs" and "\<forall>c\<in>set cs. \<exists>n. bt_get ?ind c = Some (Suc n)"
    by auto
  from Cons.IH [OF this, of ?ready] obtain ind' where
    ind': "release_children cs ?ind ?ready =
       Ok (ind', ?ready \<union> {c \<in> set cs. bt_get ?ind c = Some 1})"
    and get: "\<forall>x. bt_get ind' x =
       (if x \<in> set cs then map_option (\<lambda>n. n - 1) (bt_get ?ind x) else bt_get ?ind x)"
    by blast
  have "?ready \<union> {c \<in> set cs. bt_get ?ind c = Some 1} =
      ready \<union> {x \<in> set (c # cs). bt_get ind x = Some 1}"
    using n Cons.prems(1) by auto
  with ind' n Cons.prems(1) show ?case
    by (auto simp: get)
qed

record kahn_state =
  k_nodes :: node_map
  k_indegree :: "(OrchestrationNodeId, nat) btree_map"
  k_ready :: "OrchestrationNodeId set"
  k_done :: "OrchestrationNode list"

definition done_ids :: "kahn_state \<Rightarrow> OrchestrationNodeId set" where
  "done_ids st = nd_id ` set (k_done st)"

definition kahn_inv :: "node_map \<Rightarrow> kahn_state \<Rightarrow> bool" where
  "kahn_inv N st \<longleftrightarrow>
     (\<forall>k. bt_get (k_nodes st) k = (if k \<in> done_ids st then None else bt_get N k)) \<and>
     (\<forall>n\<in>set (k_done st). bt_get N (nd_id n) = Some n) \<and>
     distinct (map nd_id (k_done st)) \<and> topological (k_done st) \<and>
     (\<forall>k. bt_contains_key (k_nodes st) k \<longrightarrow>
        bt_get (k_indegree st) k = Some (card (depends N k - done_ids st))) \<and>
     k_ready st = {k. bt_contains_key (k_nodes st) k \<and> depends N k \<subseteq> done_ids st}"

lemma finite_depends [simp]: "finite (depends N k)"
  by (simp add: depends_def split: option.split)

lemma depends_contains: "d \<in> depends N k \<Longrightarrow> bt_contains_key N k"
  by (auto simp: depends_def bt_contains_key_def split: option.splits)

lemma kahn_contains:
  "kahn_inv N st \<Longrightarrow> bt_contains_key (k_nodes st) k \<longleftrightarrow> k \<notin> done_ids st \<and> bt_contains_key N k"
  by (auto simp: kahn_inv_def bt_contains_key_def)

lemma kahn_ready_iff:
  "kahn_inv N st \<Longrightarrow> k \<in> k_ready st \<longleftrightarrow>
     k \<notin> done_ids st \<and> bt_contains_key N k \<and> depends N k \<subseteq> done_ids st"
  by (subst conj_assoc [symmetric], subst kahn_contains [symmetric], assumption)
    (simp add: kahn_inv_def)

lemma kahn_indegree:
  "kahn_inv N st \<Longrightarrow> bt_contains_key (k_nodes st) k \<Longrightarrow>
     bt_get (k_indegree st) k = Some (card (depends N k - done_ids st))"
  by (simp add: kahn_inv_def)

lemma kahn_done_closed:
  assumes "kahn_inv N st" and "k \<in> done_ids st"
  shows "depends N k \<subseteq> done_ids st"
proof -
  let ?ns = "k_done st"
  from assms(2) obtain i where i: "i < length ?ns" "k = nd_id (?ns ! i)"
    by (auto simp: done_ids_def in_set_conv_nth)
  with assms(1) have "set (nd_depends_on (?ns ! i)) \<subseteq> nd_id ` set (take i ?ns)"
    by (simp add: kahn_inv_def topological_def)
  also have "\<dots> \<subseteq> done_ids st"
    by (auto simp: done_ids_def dest: in_set_takeD)
  finally show ?thesis
    using assms(1) i by (auto simp: depends_def kahn_inv_def)
qed

lemma topological_snoc:
  "topological ns \<Longrightarrow> set (nd_depends_on n) \<subseteq> nd_id ` set ns \<Longrightarrow> topological (ns @ [n])"
  by (auto simp: topological_def nth_append less_Suc_eq)

lemma kahn_child:
  assumes inv: "kahn_inv N st" and i: "i \<in> k_ready st" and c: "i \<in> depends N c"
  shows "c \<notin> done_ids st \<and> c \<noteq> i \<and> bt_contains_key (k_nodes st) c"
proof -
  from i have fresh: "i \<notin> done_ids st" and deps: "depends N i \<subseteq> done_ids st"
    by (simp_all add: kahn_ready_iff [OF inv])
  have "c \<notin> done_ids st"
    using kahn_done_closed [OF inv, of c] c fresh by blast
  moreover have "c \<noteq> i" using c deps fresh by blast
  ultimately show ?thesis
    by (simp add: kahn_contains [OF inv] depends_contains [OF c])
qed

lemma kahn_child_count:
  assumes inv: "kahn_inv N st" and i: "i \<in> k_ready st" and c: "i \<in> depends N c"
  shows "bt_get (k_indegree st) c = Some (Suc (card (depends N c - insert i (done_ids st))))"
proof -
  have "bt_get (k_indegree st) c = Some (card (depends N c - done_ids st))"
    using kahn_child [OF assms] by (simp add: kahn_indegree [OF inv])
  moreover have "i \<notin> done_ids st"
    using i by (simp add: kahn_ready_iff [OF inv])
  then have split: "depends N c - done_ids st = insert i (depends N c - insert i (done_ids st))"
    using c by auto
  have "card (depends N c - done_ids st) = Suc (card (depends N c - insert i (done_ids st)))"
    by (subst split, subst card_insert_disjoint) auto
  ultimately show ?thesis by simp
qed

lemma kahn_ready_step:
  assumes inv: "kahn_inv N st" and i: "i \<in> k_ready st"
  shows "(k_ready st - {i}) \<union> {c. i \<in> depends N c \<and> bt_get (k_indegree st) c = Some 1} =
     {k. bt_contains_key (bt_remove i (k_nodes st)) k \<and> depends N k \<subseteq> insert i (done_ids st)}"
    (is "?ready = ?R")
proof (intro equalityI subsetI)
  fix k assume "k \<in> ?ready"
  then consider "k \<in> k_ready st" "k \<noteq> i" | "i \<in> depends N k" "bt_get (k_indegree st) k = Some 1"
    by auto
  then show "k \<in> ?R"
  proof cases
    case 1
    then have "bt_contains_key (k_nodes st) k" and "depends N k \<subseteq> done_ids st"
      by (simp_all add: kahn_ready_iff [OF inv] kahn_contains [OF inv])
    with 1 show ?thesis by (auto simp: bt_contains_key_def)
  next
    case 2
    with kahn_child_count [OF inv i 2(1)] have "depends N k \<subseteq> insert i (done_ids st)" by auto
    with kahn_child [OF inv i 2(1)] show ?thesis by (simp add: bt_contains_key_def)
  qed
next
  fix k assume k: "k \<in> ?R"
  show "k \<in> ?ready"
  proof (cases "i \<in> depends N k")
    case True
    from k have "depends N k - insert i (done_ids st) = {}" by auto
    with True kahn_child_count [OF inv i True] show ?thesis by simp
  next
    case False
    from k have "bt_contains_key (k_nodes st) k" and "k \<noteq> i"
      by (auto simp: bt_contains_key_def split: if_splits)
    with False k show ?thesis
      by (auto simp: kahn_ready_iff [OF inv] kahn_contains [OF inv])
  qed
qed

lemma kahn_step:
  assumes wf: "wf_nodes N" and inv: "kahn_inv N st" and i: "i \<in> k_ready st"
    and node: "bt_get (k_nodes st) i = Some node"
  obtains ind' ready' where
    "release_children (listed (dependents_of N) i) (k_indegree st) (k_ready st - {i}) =
       Ok (ind', ready')"
    "kahn_inv N \<lparr>k_nodes = bt_remove i (k_nodes st), k_indegree = ind', k_ready = ready',
       k_done = k_done st @ [node]\<rparr>"
proof -
  let ?cs = "listed (dependents_of N) i"
  from inv node have iN: "bt_get N i = Some node" and fresh: "i \<notin> done_ids st"
    by (auto simp: kahn_inv_def split: if_splits)
  with wf have node_id: "nd_id node = i" by (simp add: wf_nodes_def)
  have deps: "set (nd_depends_on node) \<subseteq> done_ids st"
    using i iN by (simp add: kahn_ready_iff [OF inv] depends_def)
  have cs: "distinct ?cs" "set ?cs = {k. i \<in> depends N k}"
    using listed_dependents [OF wf] by auto
  with kahn_child_count [OF inv i] have "\<forall>c\<in>set ?cs. \<exists>n. bt_get (k_indegree st) c = Some (Suc n)"
    by auto
  from release_children_ok [OF cs(1) this, of "k_ready st - {i}"] cs(2) obtain ind' where
    rel: "release_children ?cs (k_indegree st) (k_ready st - {i}) = Ok (ind', (k_ready st - {i}) \<union>
        {c. i \<in> depends N c \<and> bt_get (k_indegree st) c = Some 1})"
    and get: "\<forall>x. bt_get ind' x = (if i \<in> depends N x
       then map_option (\<lambda>n. n - 1) (bt_get (k_indegree st) x) else bt_get (k_indegree st) x)"
    by auto
  have ind: "bt_get ind' k = Some (card (depends N k - insert i (done_ids st)))"
    if "bt_contains_key (bt_remove i (k_nodes st)) k" for k
  proof (cases "i \<in> depends N k")
    case True
    with get kahn_child_count [OF inv i] show ?thesis by simp
  next
    case False
    then have "depends N k - insert i (done_ids st) = depends N k - done_ids st" by auto
    moreover from that have "bt_contains_key (k_nodes st) k"
      by (auto simp: bt_contains_key_def split: if_splits)
    then have "bt_get (k_indegree st) k = Some (card (depends N k - done_ids st))"
      by (rule kahn_indegree [OF inv])
    ultimately show ?thesis using False get by simp
  qed
  let ?st = "\<lparr>k_nodes = bt_remove i (k_nodes st), k_indegree = ind',
      k_ready = (k_ready st - {i}) \<union> {c. i \<in> depends N c \<and> bt_get (k_indegree st) c = Some 1},
      k_done = k_done st @ [node]\<rparr>"
  have D: "done_ids ?st = insert i (done_ids st)"
    by (simp add: done_ids_def node_id)
  have "kahn_inv N ?st"
    unfolding kahn_inv_def D
  proof (intro conjI)
    show "topological (k_done ?st)"
      using inv deps by (simp add: kahn_inv_def done_ids_def topological_snoc)
    show "distinct (map nd_id (k_done ?st))"
      using inv fresh node_id by (simp add: kahn_inv_def done_ids_def)
    show "\<forall>n\<in>set (k_done ?st). bt_get N (nd_id n) = Some n"
      using inv iN node_id by (simp add: kahn_inv_def)
  qed (use inv fresh ind kahn_ready_step [OF inv i] in \<open>simp_all add: kahn_inv_def\<close>)
  with rel that show ?thesis by blast
qed

lemma kahn_ok:
  assumes "wf_nodes N" and "kahn_inv N \<lparr>k_nodes = nodes, k_indegree = ind, k_ready = ready, k_done = ns\<rparr>"
  shows "\<exists>nodes' ind' res. kahn (dependents_of N) nodes ind ready ns = Ok res \<and>
     kahn_inv N \<lparr>k_nodes = nodes', k_indegree = ind', k_ready = {}, k_done = res\<rparr>"
  using assms(2)
proof (induction "bt_len nodes" arbitrary: nodes ind ready ns rule: less_induct)
  case less
  show ?case
  proof (cases "ready = {}")
    case True
    with less.prems show ?thesis by (subst kahn.simps) auto
  next
    case False
    have "ready \<subseteq> set (bt_keys nodes)"
      using less.prems by (auto simp: kahn_inv_def)
    note keys = this
    then have "finite ready" by (rule finite_subset) simp
    with False have i: "Min ready \<in> ready" by simp
    with keys obtain node where node: "bt_get nodes (Min ready) = Some node"
      by (force simp: bt_contains_key_def)
    from kahn_step [OF assms(1) less.prems, of "Min ready" node] i node
    obtain ind' ready' where rel: "release_children (listed (dependents_of N) (Min ready)) ind
        (ready - {Min ready}) = Ok (ind', ready')"
      and inv': "kahn_inv N \<lparr>k_nodes = bt_remove (Min ready) nodes, k_indegree = ind',
        k_ready = ready', k_done = ns @ [node]\<rparr>"
      by auto
    from less.hyps [OF bt_len_remove [OF node] inv'] show ?thesis
      using False node rel
      by (subst kahn.simps) (simp add: Let_def listed_def)
  qed
qed


subsection \<open>The whole registration\<close>

lemma first_error_None: "first_error f xs = None \<longleftrightarrow> (\<forall>x\<in>set xs. f x = None)"
  by (induction xs) (auto split: option.split)

lemma distinct_dedup_sorted: "sorted xs \<Longrightarrow> distinct (remdups_adj xs)"
  by (induction xs rule: remdups_adj.induct) (auto simp: order.antisym)

lemma dedup_deps_simps [simp]:
  "nd_id (dedup_deps n) = nd_id n" "nd_callable (dedup_deps n) = nd_callable n"
  "set (nd_depends_on (dedup_deps n)) = set (nd_depends_on n)"
  "distinct (nd_depends_on (dedup_deps n))"
  by (simp_all add: dedup_deps_def distinct_dedup_sorted)

lemma collect_nodes_get:
  "collect_nodes o' ns acc = Inr N \<Longrightarrow>
     distinct (map nd_id ns) \<and> (\<forall>n\<in>set ns. \<not> bt_contains_key acc (nd_id n)) \<and>
     (\<forall>k. bt_get N k = (case bt_get acc k of Some n \<Rightarrow> Some n
        | None \<Rightarrow> map_option dedup_deps (find (\<lambda>n. nd_id n = k) ns)))"
proof (induction o' ns acc rule: collect_nodes.induct)
  case (1 o' nodes)
  then show ?case by (auto split: option.split)
next
  case (2 o' node rest nodes)
  then show ?case
    by (fastforce simp: bt_contains_key_def split: if_splits option.splits)
qed

lemma find_unique:
  "distinct (map f xs) \<Longrightarrow> find (\<lambda>x. f x = k) xs = Some x \<longleftrightarrow> x \<in> set xs \<and> f x = k"
  by (induction xs) (auto simp: rev_image_eqI)

lemma collect_nodes_iff:
  assumes "collect_nodes o' ns bt_empty = Inr N"
  shows "bt_get N k = Some n \<longleftrightarrow> (\<exists>m\<in>set ns. nd_id m = k \<and> n = dedup_deps m)"
    and "distinct (map nd_id ns)"
proof -
  show "distinct (map nd_id ns)"
    using collect_nodes_get [OF assms] by blast
  then show "bt_get N k = Some n \<longleftrightarrow> (\<exists>m\<in>set ns. nd_id m = k \<and> n = dedup_deps m)"
    using collect_nodes_get [OF assms] by (auto simp: find_unique)
qed

lemma collect_nodes_len:
  assumes "collect_nodes o' ns bt_empty = Inr N"
  shows "bt_len N = length ns"
proof -
  have "dom (bt_get N) = nd_id ` set ns"
    by (auto simp: dom_def collect_nodes_iff [OF assms])
  then show ?thesis
    using collect_nodes_iff(2) [OF assms]
    by (simp add: bt_len_dom distinct_card flip: set_map)
qed

lemma checked_wf_nodes:
  assumes "collect_nodes o' ns bt_empty = Inr N"
    and "first_error (check_node reg o' N) (bt_values N) = None"
  shows "wf_nodes N"
proof -
  have "bt_contains_key N d" if "bt_get N k = Some n" and "d \<in> set (nd_depends_on n)" for k n d
  proof -
    from that(1) assms(2) have "check_node reg o' N n = None"
      by (auto simp: first_error_None)
    with that(2) show ?thesis
      by (auto simp: check_node_def find_None_iff split: option.splits if_splits)
  qed
  moreover have "nd_id n = k \<and> distinct (nd_depends_on n)" if "bt_get N k = Some n" for k n
    using that by (auto simp: collect_nodes_iff [OF assms(1)])
  ultimately show ?thesis by (simp add: wf_nodes_def)
qed

lemma kahn_start:
  assumes "wf_nodes N"
  shows "kahn_inv N \<lparr>k_nodes = N, k_indegree = bt_map (\<lambda>node. length (nd_depends_on node)) N,
     k_ready = set (map fst (filter (\<lambda>(node_id, count). count = 0)
        (bt_entries (bt_map (\<lambda>node. length (nd_depends_on node)) N)))), k_done = []\<rparr>"
proof -
  have deps: "depends N k = {} \<longleftrightarrow> length (nd_depends_on n) = 0"
    and card: "card (depends N k) = length (nd_depends_on n)" if "bt_get N k = Some n" for k n
    using that assms by (auto simp: depends_def wf_nodes_def distinct_card)
  have "k \<in> set (map fst (filter (\<lambda>(node_id, count). count = 0)
        (bt_entries (bt_map (\<lambda>node. length (nd_depends_on node)) N)))) \<longleftrightarrow>
      bt_contains_key N k \<and> depends N k = {}" for k
    using deps [of k] by (force simp: bt_contains_key_def image_iff)
  then show ?thesis
    using card by (auto simp: kahn_inv_def done_ids_def topological_def bt_contains_key_def)
qed

lemma position_take:
  "x \<in> f ` set (take i xs) \<Longrightarrow> \<exists>j<i. position (\<lambda>y. f y = x) xs = Some j"
proof (induction xs arbitrary: i)
  case (Cons y ys)
  then show ?case by (cases i) fastforce+
qed simp

lemma position_nth_distinct:
  "distinct (map f xs) \<Longrightarrow> i < length xs \<Longrightarrow> position (\<lambda>y. f y = f (xs ! i)) xs = Some i"
proof (induction xs arbitrary: i)
  case (Cons y ys)
  then show ?case by (cases i) (auto simp: rev_image_eqI)
qed simp

lemma topological_acyclic:
  assumes "topological ns" and "distinct (map nd_id ns)"
    and "\<forall>n\<in>set ns. bt_get N (nd_id n) = Some n" and "dom (bt_get N) \<subseteq> nd_id ` set ns"
  shows "acyclic (dependency_rel N)"
proof -
  let ?pos = "\<lambda>k. the (position (\<lambda>n. nd_id n = k) ns)"
  have "?pos d < ?pos k" if dk: "d \<in> depends N k" for d k
  proof -
    from depends_contains [OF dk] assms(4) obtain i where i: "i < length ns" "k = nd_id (ns ! i)"
      by (fastforce simp: bt_contains_key_def in_set_conv_nth)
    with assms(1,3) dk have "d \<in> nd_id ` set (take i ns)"
      by (auto simp: topological_def depends_def)
    then have "\<exists>j<i. position (\<lambda>n. nd_id n = d) ns = Some j"
      by (rule position_take)
    with i position_nth_distinct [OF assms(2) i(1)] show ?thesis by auto
  qed
  then have "dependency_rel N \<subseteq> measure ?pos"
    by (auto simp: dependency_rel_def)
  then show ?thesis by (meson acyclic_subset wf_acyclic wf_measure)
qed

lemma kahn_exhausted:
  assumes wf: "wf_nodes N"
    and inv: "kahn_inv N \<lparr>k_nodes = nodes, k_indegree = ind, k_ready = {}, k_done = ns\<rparr>"
  shows "length ns = bt_len N \<longleftrightarrow> acyclic (dependency_rel N)"
proof -
  let ?st = "\<lparr>k_nodes = nodes, k_indegree = ind, k_ready = {}, k_done = ns\<rparr>"
  let ?D = "nd_id ` set ns"
  have D: "done_ids ?st = ?D" by (simp add: done_ids_def)
  have sub: "?D \<subseteq> dom (bt_get N)"
    using inv by (auto simp: kahn_inv_def)
  have len: "length ns = card ?D"
    using inv distinct_card [of "map nd_id ns"] by (simp add: kahn_inv_def)
  have fin: "finite (dependency_rel N)"
  proof (rule finite_subset)
    show "dependency_rel N \<subseteq> set (bt_keys N) \<times> set (bt_keys N)"
      using wf by (auto simp: dependency_rel_def depends_def wf_nodes_def bt_contains_key_def
          split: option.splits)
  qed simp
  have blocked: "\<exists>d\<in>dom (bt_get N) - ?D. (d, k) \<in> dependency_rel N" if "k \<in> dom (bt_get N) - ?D" for k
  proof -
    have "\<not> depends N k \<subseteq> ?D"
      using that kahn_ready_iff [OF inv, of k] by (auto simp: D bt_contains_key_def)
    then obtain d where "d \<in> depends N k" "d \<notin> ?D" by blast
    moreover from this wf that have "bt_contains_key N d"
      by (auto simp: depends_def wf_nodes_def)
    ultimately show ?thesis by (auto simp: dependency_rel_def bt_contains_key_def)
  qed
  show ?thesis
  proof
    assume "length ns = bt_len N"
    then have "?D = dom (bt_get N)"
      using sub len card_subset_eq [of "dom (bt_get N)" ?D] by (simp add: bt_len_dom)
    then show "acyclic (dependency_rel N)"
      using inv by (intro topological_acyclic [of ns]) (simp_all add: kahn_inv_def)
  next
    assume "acyclic (dependency_rel N)"
    with fin have "wf (dependency_rel N)" by (rule finite_acyclic_wf)
    then have "dom (bt_get N) - ?D = {}"
      using blocked by (metis (no_types, lifting) ex_in_conv wfE_min)
    with sub have "?D = dom (bt_get N)" by blast
    then show "length ns = bt_len N" by (simp add: len bt_len_dom)
  qed
qed


lemma registration_loop:
  assumes "collect_nodes o' ns bt_empty = Inr N"
    and "first_error (check_node reg o' N) (bt_values N) = None"
  obtains res where
    "kahn (dependents_of N) N (bt_map (\<lambda>node. length (nd_depends_on node)) N)
       (set (map fst (filter (\<lambda>(node_id, count). count = 0)
          (bt_entries (bt_map (\<lambda>node. length (nd_depends_on node)) N))))) [] = Ok res"
    "topological res" "distinct (map nd_id res)" "set res \<subseteq> dedup_deps ` set ns"
    "length res = bt_len N \<longleftrightarrow> acyclic (dependency_rel N)"
proof -
  have wf: "wf_nodes N" by (rule checked_wf_nodes [OF assms])
  from kahn_ok [OF wf kahn_start [OF wf]] obtain nodes' ind' res where
    res: "kahn (dependents_of N) N (bt_map (\<lambda>node. length (nd_depends_on node)) N)
       (set (map fst (filter (\<lambda>(node_id, count). count = 0)
          (bt_entries (bt_map (\<lambda>node. length (nd_depends_on node)) N))))) [] = Ok res"
    and inv: "kahn_inv N \<lparr>k_nodes = nodes', k_indegree = ind', k_ready = {}, k_done = res\<rparr>"
    by blast
  from inv have "set res \<subseteq> dedup_deps ` set ns"
    by (auto simp: kahn_inv_def collect_nodes_iff [OF assms(1)])
  moreover from inv have "topological res" "distinct (map nd_id res)"
    by (simp_all add: kahn_inv_def)
  ultimately show ?thesis
    using that res kahn_exhausted [OF wf inv] by blast
qed

lemma distinct_map_dedup: "distinct (map nd_id ns) \<Longrightarrow> distinct (map dedup_deps ns)"
  by (induction ns) (auto dest!: arg_cong [where f = nd_id])

lemma registration_result:
  assumes "register_orchestration d reg = Ok reg'"
  obtains ns where
    "reg' = reg\<lparr>cr_entries := bt_insert (cd_id (od_descriptor d))
              (OrchestrationEntry (d\<lparr>od_nodes := ns\<rparr>)) (cr_entries reg)\<rparr>"
    "\<not> bt_contains_key (cr_entries reg) (cd_id (od_descriptor d))"
    "cd_kind (od_descriptor d) = Orchestration"
    "set ns = dedup_deps ` set (od_nodes d)" "length ns = length (od_nodes d)"
    "distinct (map nd_id ns)" "topological ns"
proof -
  let ?o = "cd_id (od_descriptor d)"
  from assms obtain N where N: "collect_nodes ?o (od_nodes d) bt_empty = Inr N"
    and ok: "first_error (check_node reg ?o N) (bt_values N) = None"
    by (auto simp: register_orchestration_def Let_def split: if_splits option.splits sum.splits)
  obtain ns where kahn: "kahn (dependents_of N) N (bt_map (\<lambda>node. length (nd_depends_on node)) N)
       (set (map fst (filter (\<lambda>(node_id, count). count = 0)
          (bt_entries (bt_map (\<lambda>node. length (nd_depends_on node)) N))))) [] = Ok ns"
    and ns: "topological ns" "distinct (map nd_id ns)" "set ns \<subseteq> dedup_deps ` set (od_nodes d)"
    by (rule registration_loop [OF N ok]) blast
  from assms N ok kahn have len: "length ns = bt_len N"
    and reg': "registry_insert (OrchestrationEntry (d\<lparr>od_nodes := ns\<rparr>)) Orchestration reg = Inr reg'"
    by (auto simp: register_orchestration_def Let_def split: if_splits option.splits sum.splits)
  from len have length: "length ns = length (od_nodes d)"
    by (simp add: collect_nodes_len [OF N])
  have "distinct ns" using ns(2) by (simp add: distinct_map)
  then have "card (set ns) = card (dedup_deps ` set (od_nodes d))"
    using length distinct_card [OF distinct_map_dedup [OF collect_nodes_iff(2) [OF N]]]
    by (simp add: distinct_card)
  with ns(3) have "set ns = dedup_deps ` set (od_nodes d)"
    by (simp add: card_subset_eq)
  with reg' ns length show ?thesis
    by (intro that) (auto simp: registry_insert_def Let_def split: if_splits)
qed

section \<open>Well-formed registries\<close>

fun entry_kind :: "CallableEntry \<Rightarrow> CallableKind" where
  "entry_kind (ToolEntry descriptor handler) = Tool"
| "entry_kind (AgentEntry definition provider) = Agent"
| "entry_kind (OrchestrationEntry definition) = Orchestration"

definition agent_in :: "CallableRegistry \<Rightarrow> CallableId \<Rightarrow> bool" where
  "agent_in reg callable \<longleftrightarrow>
     (\<exists>definition provider. bt_get (cr_entries reg) callable = Some (AgentEntry definition provider))"

definition wf_orchestration :: "CallableRegistry \<Rightarrow> OrchestrationDefinition \<Rightarrow> bool" where
  "wf_orchestration reg d \<longleftrightarrow>
     od_nodes d \<noteq> [] \<and> distinct (map nd_id (od_nodes d)) \<and> topological (od_nodes d) \<and>
     (\<forall>n\<in>set (od_nodes d). agent_in reg (nd_callable n)) \<and>
     (\<forall>c. od_interface_agent d = Some c \<longrightarrow> agent_in reg c)"

definition wf_registry :: "CallableRegistry \<Rightarrow> bool" where
  "wf_registry reg \<longleftrightarrow> (\<forall>callable entry. bt_get (cr_entries reg) callable = Some entry \<longrightarrow>
     cd_id (entry_descriptor entry) = callable \<and>
     cd_kind (entry_descriptor entry) = entry_kind entry \<and>
     (\<forall>d. entry = OrchestrationEntry d \<longrightarrow> wf_orchestration reg d))"

lemma executable_is_agent: "is_executable entry \<longleftrightarrow> (\<exists>d p. entry = AgentEntry d p)"
  by (cases entry) simp_all

lemma agent_in_insert:
  "agent_in reg c \<Longrightarrow> registry_insert entry kind reg = Inr reg' \<Longrightarrow> agent_in reg' c"
  by (auto simp: agent_in_def registry_insert_def Let_def bt_contains_key_def split: if_splits)

lemma wf_registry_insert:
  assumes "wf_registry reg" and "registry_insert entry (entry_kind entry) reg = Inr reg'"
    and "\<And>d. entry = OrchestrationEntry d \<Longrightarrow> wf_orchestration reg d"
  shows "wf_registry reg'"
proof -
  have mono: "wf_orchestration reg d \<Longrightarrow> wf_orchestration reg' d" for d
    using agent_in_insert [OF _ assms(2)] by (auto simp: wf_orchestration_def)
  have "bt_get (cr_entries reg') c = Some e \<Longrightarrow>
      e = entry \<and> c = cd_id (entry_descriptor entry) \<and> cd_kind (entry_descriptor entry) = entry_kind entry
      \<or> bt_get (cr_entries reg) c = Some e" for c e
    using assms(2) by (auto simp: registry_insert_def Let_def split: if_splits)
  then show ?thesis
    using assms(1,3) mono unfolding wf_registry_def by metis
qed


lemma wf_registry_default: "wf_registry registry_default"
  by (simp add: wf_registry_def registry_default_def)

lemma wf_register_simple:
  assumes "wf_registry reg"
  shows "registry_register_tool descriptor handler reg = Inr reg' \<Longrightarrow> wf_registry reg'"
    and "registry_register_agent definition reg = Inr reg' \<Longrightarrow> wf_registry reg'"
    and "registry_register_provider_agent definition provider reg = Inr reg' \<Longrightarrow> wf_registry reg'"
  using wf_registry_insert [OF assms, of "ToolEntry descriptor handler"]
    wf_registry_insert [OF assms, of "AgentEntry definition ModelBinding"]
    wf_registry_insert [OF assms, of "AgentEntry definition (ProviderBinding provider)"]
  by (auto simp: registry_register_tool_def registry_register_agent_def
      registry_register_provider_agent_def)

lemma registered_agents:
  assumes "register_orchestration d reg = Ok reg'"
  shows "\<forall>n\<in>set (od_nodes d). agent_in reg (nd_callable n)"
    and "od_interface_agent d = Some c \<Longrightarrow> agent_in reg c"
    and "od_nodes d \<noteq> []"
proof -
  let ?o = "cd_id (od_descriptor d)"
  from assms obtain N where N: "collect_nodes ?o (od_nodes d) bt_empty = Inr N"
    and ok: "first_error (check_node reg ?o N) (bt_values N) = None"
    and interface: "check_interface reg ?o (od_interface_agent d) = None"
    and nonempty: "od_nodes d \<noteq> []"
    by (auto simp: register_orchestration_def Let_def split: if_splits option.splits sum.splits)
  show "od_nodes d \<noteq> []" by (rule nonempty)
  show "agent_in reg c" if "od_interface_agent d = Some c"
    using interface that
    by (auto simp: check_interface_def executable_is_agent agent_in_def
        split: option.splits if_splits)
  show "\<forall>n\<in>set (od_nodes d). agent_in reg (nd_callable n)"
  proof
    fix n assume "n \<in> set (od_nodes d)"
    then have "dedup_deps n \<in> set (bt_values N)"
      by (auto simp: collect_nodes_iff [OF N])
    with ok have "check_node reg ?o N (dedup_deps n) = None"
      by (auto simp: first_error_None)
    then show "agent_in reg (nd_callable n)"
      by (auto simp: check_node_def executable_is_agent agent_in_def
          split: option.splits if_splits)
  qed
qed

lemma wf_register_orchestration:
  assumes "wf_registry reg" and "register_orchestration d reg = Ok reg'"
  shows "wf_registry reg'"
proof -
  obtain ns where reg': "reg' = reg\<lparr>cr_entries := bt_insert (cd_id (od_descriptor d))
              (OrchestrationEntry (d\<lparr>od_nodes := ns\<rparr>)) (cr_entries reg)\<rparr>"
    and new: "\<not> bt_contains_key (cr_entries reg) (cd_id (od_descriptor d))"
    and kind: "cd_kind (od_descriptor d) = Orchestration"
    and ns: "set ns = dedup_deps ` set (od_nodes d)" "length ns = length (od_nodes d)"
      "distinct (map nd_id ns)" "topological ns"
    by (rule registration_result [OF assms(2)])
  have "registry_insert (OrchestrationEntry (d\<lparr>od_nodes := ns\<rparr>)) Orchestration reg = Inr reg'"
    using reg' new kind by (simp add: registry_insert_def)
  moreover have "wf_orchestration reg (d\<lparr>od_nodes := ns\<rparr>)"
    using ns registered_agents [OF assms(2)] by (auto simp: wf_orchestration_def)
  ultimately show ?thesis
    using wf_registry_insert [OF assms(1), of "OrchestrationEntry (d\<lparr>od_nodes := ns\<rparr>)"] by simp
qed

section \<open>Properties\<close>

text \<open>The dependency edges that the nodes of a definition declare.\<close>

definition declared_edges :: "OrchestrationNode list \<Rightarrow> (OrchestrationNodeId \<times> OrchestrationNodeId) set" where
  "declared_edges ns = {(d, nd_id n) | d n. n \<in> set ns \<and> d \<in> set (nd_depends_on n)}"

lemma declared_edges_collected:
  assumes "collect_nodes o' ns bt_empty = Inr N"
  shows "dependency_rel N = declared_edges ns"
proof -
  have "d \<in> depends N k \<longleftrightarrow> (\<exists>n\<in>set ns. nd_id n = k \<and> d \<in> set (nd_depends_on n))" for d k
  proof -
    have "d \<in> depends N k \<longleftrightarrow> (\<exists>n. bt_get N k = Some n \<and> d \<in> set (nd_depends_on n))"
      by (auto simp: depends_def split: option.split)
    then show ?thesis by (auto simp: collect_nodes_iff [OF assms])
  qed
  then show ?thesis by (auto simp: dependency_rel_def declared_edges_def)
qed

lemma register_orchestration_cases:
  obtains (early) e where "register_orchestration d reg = Err e" "\<forall>c. e \<noteq> CyclicOrchestration c"
  | (loop) N ns where "collect_nodes (cd_id (od_descriptor d)) (od_nodes d) bt_empty = Inr N"
      "length ns = bt_len N \<longleftrightarrow> acyclic (declared_edges (od_nodes d))"
      "register_orchestration d reg =
         (if length ns \<noteq> bt_len N then Err (CyclicOrchestration (cd_id (od_descriptor d)))
          else case registry_insert (OrchestrationEntry (d\<lparr>od_nodes := ns\<rparr>)) Orchestration reg of
            Inl e \<Rightarrow> Err e | Inr self' \<Rightarrow> Ok self')"
proof -
  let ?o = "cd_id (od_descriptor d)"
  have collect_err: "collect_nodes ?o ns acc = Inl e \<Longrightarrow> e \<noteq> CyclicOrchestration c" for ns acc e c
    by (induction ?o ns acc rule: collect_nodes.induct) (auto split: if_splits)
  have node_err: "first_error (check_node reg ?o N) xs = Some e \<Longrightarrow> e \<noteq> CyclicOrchestration c" for N xs e c
    by (induction xs) (auto simp: check_node_def split: option.splits if_splits)
  have face_err: "check_interface reg ?o a = Some e \<Longrightarrow> e \<noteq> CyclicOrchestration c" for a e c
    by (auto simp: check_interface_def split: option.splits if_splits)
  show ?thesis
  proof (cases "cd_kind (od_descriptor d) \<noteq> Orchestration \<or> od_nodes d = [] \<or>
      check_interface reg ?o (od_interface_agent d) \<noteq> None")
    case True
    then have "\<exists>e. register_orchestration d reg = Err e \<and> (\<forall>c. e \<noteq> CyclicOrchestration c)"
      using face_err by (auto simp: register_orchestration_def Let_def)
    then show ?thesis using early by blast
  next
    case ok: False
    show ?thesis
    proof (cases "collect_nodes ?o (od_nodes d) bt_empty")
      case (Inl e)
      with ok collect_err show ?thesis
        by (intro early [of e]) (auto simp: register_orchestration_def Let_def)
    next
      case N: (Inr N)
      show ?thesis
      proof (cases "first_error (check_node reg ?o N) (bt_values N)")
        case (Some e)
        with ok N node_err show ?thesis
          by (intro early [of e]) (auto simp: register_orchestration_def Let_def)
      next
        case None
        obtain ns where ns: "kahn (dependents_of N) N (bt_map (\<lambda>node. length (nd_depends_on node)) N)
             (set (map fst (filter (\<lambda>(node_id, count). count = 0)
                (bt_entries (bt_map (\<lambda>node. length (nd_depends_on node)) N))))) [] = Ok ns"
          "length ns = bt_len N \<longleftrightarrow> acyclic (dependency_rel N)"
          by (rule registration_loop [OF N None]) blast
        with ok N None show ?thesis
          by (intro loop [OF N, of ns])
            (auto simp: register_orchestration_def Let_def declared_edges_collected [OF N])
      qed
    qed
  qed
qed

text \<open>C30. Registering an orchestration stores its nodes, with duplicate dependencies removed, in
  an order in which every node comes after all the nodes it depends on; no node is lost, added
  or repeated.\<close>

theorem registered_orchestration_topological:
  assumes "register_orchestration d reg = Ok reg'"
  shows "\<exists>ns. orchestration reg' (cd_id (od_descriptor d)) = Inr (d\<lparr>od_nodes := ns\<rparr>) \<and>
     set ns = dedup_deps ` set (od_nodes d) \<and> length ns = length (od_nodes d) \<and>
     distinct (map nd_id ns) \<and> topological ns"
proof -
  obtain ns where ns: "reg' = reg\<lparr>cr_entries := bt_insert (cd_id (od_descriptor d))
              (OrchestrationEntry (d\<lparr>od_nodes := ns\<rparr>)) (cr_entries reg)\<rparr>"
    "set ns = dedup_deps ` set (od_nodes d)" "length ns = length (od_nodes d)"
    "distinct (map nd_id ns)" "topological ns"
    by (rule registration_result [OF assms]) blast
  then have "orchestration reg' (cd_id (od_descriptor d)) = Inr (d\<lparr>od_nodes := ns\<rparr>)"
    by (simp add: orchestration_def)
  with ns show ?thesis by blast
qed

definition sample_descriptor :: "string \<Rightarrow> CallableKind \<Rightarrow> CallableDescriptor" where
  "sample_descriptor name kind = \<lparr>cd_id = Ident name, cd_kind = kind, cd_description = [],
     cd_input_schema = JNull, cd_output_schema = JNull, cd_capabilities = {},
     cd_policy = \<lparr>requires_permission = False\<rparr>\<rparr>"

definition sample_agents :: CallableRegistry where
  "sample_agents = \<lparr>cr_entries = bt_insert (Ident ''worker'')
     (AgentEntry \<lparr>ad_descriptor = sample_descriptor ''worker'' Agent, ad_authority = read_only\<rparr> ModelBinding)
     bt_empty\<rparr>"

definition sample_node :: "string \<Rightarrow> string list \<Rightarrow> OrchestrationNode" where
  "sample_node name deps = \<lparr>nd_id = Ident name, nd_callable = Ident ''worker'',
     nd_depends_on = map Ident deps, nd_objective = None\<rparr>"

definition sample_orchestration :: "OrchestrationNode list \<Rightarrow> OrchestrationDefinition" where
  "sample_orchestration ns = \<lparr>od_descriptor = sample_descriptor ''flow'' Orchestration,
     od_interface_agent = Some (Ident ''worker''), od_nodes = ns\<rparr>"

lemma sample_registers:
  "\<exists>reg'. register_orchestration (sample_orchestration
      [sample_node ''b'' [''a'', ''a''], sample_node ''a'' []]) sample_agents = Ok reg'"
proof -
  have "map_option (\<lambda>_. ()) (outcome_value (register_orchestration (sample_orchestration
      [sample_node ''b'' [''a'', ''a''], sample_node ''a'' []]) sample_agents)) = Some ()"
    by code_simp
  then show ?thesis by (auto simp: outcome_value_iff)
qed

theorem registered_orchestration_topological_witness:
  "\<exists>reg' ns. orchestration reg' (Ident ''flow'') = Inr (sample_orchestration ns) \<and>
     topological ns \<and> length ns = 2"
proof -
  obtain reg' where "register_orchestration (sample_orchestration
      [sample_node ''b'' [''a'', ''a''], sample_node ''a'' []]) sample_agents = Ok reg'"
    using sample_registers by blast
  from registered_orchestration_topological [OF this] show ?thesis
    by (fastforce simp: sample_orchestration_def sample_descriptor_def)
qed

text \<open>Registering an orchestration always ends with a registry or an error: the three
  \<open>expect\<close>s of the loop and the decrement of an indegree never fail, whatever the definition.\<close>

theorem register_orchestration_no_panic:
  "(\<exists>reg'. register_orchestration d reg = Ok reg') \<or> (\<exists>e. register_orchestration d reg = Err e)"
  by (cases rule: register_orchestration_cases [of d reg]) (auto split: sum.split)

text \<open>C31. A definition whose declared dependencies form a cycle is never registered, and the error
  \<open>CyclicOrchestration\<close> is reported for cyclic definitions only.\<close>

theorem cyclic_orchestration_iff:
  "(register_orchestration d reg = Ok reg' \<longrightarrow> acyclic (declared_edges (od_nodes d))) \<and>
   (register_orchestration d reg = Err (CyclicOrchestration c) \<longrightarrow>
      \<not> acyclic (declared_edges (od_nodes d)))"
proof (cases rule: register_orchestration_cases [of d reg])
  case (loop N ns)
  then show ?thesis
    by (auto simp: registry_insert_def Let_def split: sum.splits if_splits)
qed auto

theorem cyclic_orchestration_witness:
  "\<not> acyclic (declared_edges [sample_node ''a'' [''b''], sample_node ''b'' [''a'']])"
proof -
  have "outcome_error (register_orchestration (sample_orchestration
      [sample_node ''a'' [''b''], sample_node ''b'' [''a'']]) sample_agents) =
      Some (CyclicOrchestration (Ident ''flow''))"
    by code_simp
  then have "register_orchestration (sample_orchestration
      [sample_node ''a'' [''b''], sample_node ''b'' [''a'']]) sample_agents =
      Err (CyclicOrchestration (Ident ''flow''))"
    by (simp add: outcome_error_iff)
  with cyclic_orchestration_iff [of "sample_orchestration
      [sample_node ''a'' [''b''], sample_node ''b'' [''a'']]" sample_agents]
  show ?thesis by (simp add: sample_orchestration_def)
qed

text \<open>The registries that the program can build.\<close>

inductive registry_built :: "CallableRegistry \<Rightarrow> bool" where
  built_default: "registry_built registry_default"
| built_tool: "registry_built reg \<Longrightarrow> registry_register_tool descriptor handler reg = Inr reg' \<Longrightarrow>
    registry_built reg'"
| built_agent: "registry_built reg \<Longrightarrow> registry_register_agent definition reg = Inr reg' \<Longrightarrow>
    registry_built reg'"
| built_provider_agent: "registry_built reg \<Longrightarrow>
    registry_register_provider_agent definition provider reg = Inr reg' \<Longrightarrow> registry_built reg'"
| built_orchestration: "registry_built reg \<Longrightarrow> register_orchestration d reg = Ok reg' \<Longrightarrow>
    registry_built reg'"

lemma registry_built_wf: "registry_built reg \<Longrightarrow> wf_registry reg"
  by (induction rule: registry_built.induct)
    (auto intro: wf_registry_default wf_register_simple wf_register_orchestration)

text \<open>C32. In every registry built by registrations an entry is stored under the identifier of its
  descriptor with the kind of its constructor, and the nodes and the interface agent of a stored
  orchestration are agents of the registry with an execution provider.\<close>

theorem built_registry_sound:
  assumes "registry_built reg" and "bt_get (cr_entries reg) callable = Some entry"
  shows "cd_id (entry_descriptor entry) = callable \<and>
    cd_kind (entry_descriptor entry) = entry_kind entry \<and>
    (\<forall>d. entry = OrchestrationEntry d \<longrightarrow>
       (\<forall>c\<in>set (map nd_callable (od_nodes d)) \<union> set_option (od_interface_agent d).
          \<exists>p. execution_provider reg c = Inr p) \<and> topological (od_nodes d))"
proof -
  have provider: "agent_in reg c \<Longrightarrow> \<exists>p. execution_provider reg c = Inr p" for c
    by (auto simp: agent_in_def execution_provider_def)
  from registry_built_wf [OF assms(1)] assms(2) show ?thesis
    by (auto simp: wf_registry_def wf_orchestration_def intro: provider)
qed

theorem built_registry_sound_witness:
  "cd_kind (sample_descriptor ''worker'' Agent) = Agent"
proof -
  have "registry_register_agent \<lparr>ad_descriptor = sample_descriptor ''worker'' Agent,
      ad_authority = read_only\<rparr> registry_default = Inr sample_agents"
    by (simp add: registry_register_agent_def registry_insert_def registry_default_def
        sample_agents_def sample_descriptor_def)
  from built_registry_sound [OF built_agent [OF built_default this], of "Ident ''worker''"]
  show ?thesis by (simp add: sample_agents_def)
qed

end
