(* ===== verification/Routing.thy ===== *)
theory Routing
  imports Core
begin

text \<open>
  The routing registry (\<open>phenix-conductor/src/routing.rs\<close>): named profiles that map a callable to
  a concrete model target, with a default. A callable's override wins over the default, and the
  descriptor of a profile lists exactly the providers it can resolve to.
\<close>

datatype RoutingRegistryError = DuplicateProfile RoutingProfileId | UnknownProfile RoutingProfileId

fun display_RoutingRegistryError :: "RoutingRegistryError \<Rightarrow> string" where
  "display_RoutingRegistryError (DuplicateProfile p) =
     ''routing profile already registered: '' @ as_str p"
| "display_RoutingRegistryError (UnknownProfile p) = ''unknown routing profile: '' @ as_str p"

record RoutingRegistry =
  rr_profiles :: "(RoutingProfileId, RoutingProfile) btree_map"

definition routing_default :: RoutingRegistry where
  "routing_default = \<lparr>rr_profiles = bt_empty\<rparr>"

definition routing_register ::
  "RoutingProfile \<Rightarrow> RoutingRegistry \<Rightarrow> RoutingRegistryError + RoutingRegistry" where
  "routing_register profile self =
     (if bt_contains_key (rr_profiles self) (rp_id profile)
      then Inl (DuplicateProfile (rp_id profile))
      else Inr (self\<lparr>rr_profiles := bt_insert (rp_id profile) profile (rr_profiles self)\<rparr>))"

definition profile_providers :: "RoutingProfile \<Rightarrow> ProviderId set" where
  "profile_providers profile =
     insert (mt_provider (rp_default_target profile))
       (set (map mt_provider (bt_values (rp_callable_targets profile))))"

definition routing_descriptors :: "RoutingRegistry \<Rightarrow> RoutingProfileDescriptor list" where
  "routing_descriptors self =
     map (\<lambda>profile. \<lparr>rd_id = rp_id profile,
                     rd_providers = sorted_list_of_set (profile_providers profile)\<rparr>)
       (bt_values (rr_profiles self))"

definition routing_resolve ::
  "RoutingRegistry \<Rightarrow> RoutingProfileId \<Rightarrow> CallableId option \<Rightarrow> RoutingRegistryError + ModelTarget" where
  "routing_resolve self profile callable =
     (case bt_get (rr_profiles self) profile of
        None \<Rightarrow> Inl (UnknownProfile profile)
      | Some p \<Rightarrow>
          Inr (case Option.bind callable (bt_get (rp_callable_targets p)) of
                 None \<Rightarrow> rp_default_target p | Some target \<Rightarrow> target))"

lemma resolve_provider_listed:
  assumes "routing_resolve self p c = Inr target" and "bt_get (rr_profiles self) p = Some profile"
  shows "mt_provider target \<in> set (sorted_list_of_set (profile_providers profile))"
proof -
  have "finite (profile_providers profile)"
    by (simp add: profile_providers_def del: set_map)
  moreover have "mt_provider target \<in> profile_providers profile"
    using assms
    by (force simp: routing_resolve_def profile_providers_def split: option.splits bind_splits)
  ultimately show ?thesis by simp
qed

section \<open>Properties\<close>

text \<open>After a profile is registered, resolving it gives the target of the callable, or the
  default target for every other callable, and every other profile resolves as before.\<close>

theorem resolve_after_register:
  assumes "routing_register profile self = Inr self'"
  shows "routing_resolve self' p c =
     (if p = rp_id profile
      then Inr (case Option.bind c (bt_get (rp_callable_targets profile)) of
                  None \<Rightarrow> rp_default_target profile | Some target \<Rightarrow> target)
      else routing_resolve self p c)"
  using assms by (auto simp: routing_register_def routing_resolve_def split: if_splits)

definition sample_target :: "string \<Rightarrow> ModelTarget" where
  "sample_target name = \<lparr>mt_backend = Ident ''native'', mt_provider = Ident ''p'', mt_model = Ident name,
     mt_inference = \<lparr>effort = None\<rparr>\<rparr>"

definition sample_profile :: RoutingProfile where
  "sample_profile = \<lparr>rp_id = Ident ''balanced'', rp_default_target = sample_target ''small'',
     rp_callable_targets = bt_insert (Ident ''worker'') (sample_target ''large'') bt_empty\<rparr>"

theorem resolve_after_register_witness:
  "routing_resolve \<lparr>rr_profiles = bt_insert (Ident ''balanced'') sample_profile bt_empty\<rparr>
     (Ident ''balanced'') (Some (Ident ''worker'')) = Inr (sample_target ''large'')"
proof -
  have "routing_register sample_profile routing_default =
      Inr \<lparr>rr_profiles = bt_insert (Ident ''balanced'') sample_profile bt_empty\<rparr>"
    by (simp add: routing_register_def routing_default_def sample_profile_def)
  from resolve_after_register [OF this, of "Ident ''balanced''" "Some (Ident ''worker'')"]
  show ?thesis by (simp add: sample_profile_def)
qed

end
