(* ===== verification/Context.thy ===== *)
theory Context
  imports Core
begin

text \<open>
  Project context and skills (\<open>phenix-conductor/src/context.rs\<close>): rendering of the prompt from
  the loaded documents and the skill catalogue, manual activation of a skill, the payload of a
  skill for the model, and reading a skill resource. How the registries are
  loaded from the file system is in \<open>Skill_Discovery\<close>; here they are values.

  The lemmas show that escaped text cannot open or close a tag and is recovered by unescaping,
  that a resource path with a parent, current or root component is refused, and that a
  manual-only skill is never handed to the model.
\<close>

datatype ContextDocumentKind = AgentInstructions | ProjectInstructions

text \<open>The paths of documents and skills are only displayed, so they are kept as text.\<close>

record ContextDocument =
  dc_kind :: ContextDocumentKind
  dc_path :: string
  dc_scope_root :: string
  dc_content :: string

datatype SkillResourceContent = ResourceText string | ResourceUnavailable

record SkillDefinition =
  sd_descriptor :: SkillDescriptor
  sd_instructions :: string
  sd_root :: string
  sd_resources :: "(PathBuf, SkillResourceContent) btree_map"
  sd_allowed_tools :: "string list"

record ContextRegistry =
  cx_base_documents :: "ContextDocument list"

record SkillRegistry =
  sr_skills :: "(SkillId, SkillDefinition) btree_map"

datatype ContextError =
    ContextIo string string
  | InvalidSkill string string
  | UnknownSkill SkillId
  | ManualOnlySkill SkillId
  | InactiveSkill SkillId
  | InvalidSkillResourcePath SkillId string
  | UnknownSkillResource SkillId string
  | UnsupportedSkillResource SkillId string

section \<open>Rendering\<close>

fun escape_char :: "char \<Rightarrow> string" where
  "escape_char c =
     (if c = CHR ''&'' then ''&amp;''
      else if c = CHR ''<'' then ''&lt;''
      else if c = CHR ''>'' then ''&gt;''
      else if c = CHR 0x22 then ''&quot;''
      else if c = CHR 0x27 then ''&apos;''
      else [c])"

definition escape_xml :: "string \<Rightarrow> string" where
  "escape_xml value = concat (map escape_char value)"

text \<open>\<open>Path::components\<close> on Unix: empty and inner \<open>.\<close> segments are dropped.\<close>

fun split_slash :: "string \<Rightarrow> string list" where
  "split_slash [] = [[]]"
| "split_slash (c # cs) =
     (if c = CHR ''/'' then [] # split_slash cs
      else (case split_slash cs of [] \<Rightarrow> [[c]] | seg # segs \<Rightarrow> (c # seg) # segs))"

definition segment_component :: "string \<Rightarrow> path_component option" where
  "segment_component seg =
     (if seg = [] \<or> seg = ''.'' then None
      else if seg = ''..'' then Some ParentDir else Some (Normal seg))"

definition path_components :: "string \<Rightarrow> PathBuf" where
  "path_components s =
     (let segments = split_slash s in
      (if take 1 s = ''/'' then [RootDir] else if hd segments = ''.'' then [CurDir] else []) @
      List.map_filter segment_component segments)"

fun display_component :: "path_component \<Rightarrow> string" where
  "display_component RootDir = ''/''"
| "display_component CurDir = ''.''"
| "display_component ParentDir = ''..''"
| "display_component (Normal name) = name"

fun display_path :: "PathBuf \<Rightarrow> string" where
  "display_path [] = []"
| "display_path [c] = display_component c"
| "display_path (RootDir # rest) = CHR ''/'' # display_path rest"
| "display_path (c # rest) = display_component c @ CHR ''/'' # display_path rest"

definition nl :: string where
  "nl = [CHR 0x0A]"

definition quoted :: "string \<Rightarrow> string" where
  "quoted s = [CHR 0x22] @ s @ [CHR 0x22]"

definition render_skill :: "SkillDefinition \<Rightarrow> string" where
  "render_skill skill =
     ''<active_skill id='' @ quoted (escape_xml (as_str (sk_id (sd_descriptor skill)))) @
     '' root='' @ quoted (escape_xml (sd_root skill)) @ ''>'' @ nl @
     escape_xml (trim (sd_instructions skill)) @ nl @
     (if bt_len (sd_resources skill) = 0 then []
      else nl @ ''Resources relative to the skill root:'' @ nl @
        concat (map (\<lambda>resource. ''- '' @ escape_xml (display_path resource) @ nl)
          (bt_keys (sd_resources skill)))) @
     (if sd_allowed_tools skill = [] then []
      else nl @
        ''Skill-declared allowed-tools (advisory only; conductor permissions remain authoritative):'' @ nl @
        concat (map (\<lambda>tool. ''- '' @ escape_xml tool @ nl) (sd_allowed_tools skill))) @
     ''</active_skill>'' @ nl"

section \<open>Skill registry\<close>

definition skill_descriptors :: "SkillRegistry \<Rightarrow> SkillDescriptor list" where
  "skill_descriptors self = map sd_descriptor (bt_values (sr_skills self))"

definition has_model_invocable_skills :: "SkillRegistry \<Rightarrow> bool" where
  "has_model_invocable_skills self \<longleftrightarrow>
     (\<exists>skill\<in>set (bt_values (sr_skills self)). sk_invocation (sd_descriptor skill) = ModelEligible)"

definition has_skills :: "SkillRegistry \<Rightarrow> bool" where
  "has_skills self \<longleftrightarrow> bt_len (sr_skills self) \<noteq> 0"

definition model_skill_payload :: "SkillRegistry \<Rightarrow> SkillId \<Rightarrow> ContextError + string" where
  "model_skill_payload self skill_id =
     (case bt_get (sr_skills self) skill_id of
        None \<Rightarrow> Inl (UnknownSkill skill_id)
      | Some skill \<Rightarrow>
          if sk_invocation (sd_descriptor skill) \<noteq> ModelEligible
          then Inl (ManualOnlySkill skill_id) else Inr (render_skill skill))"

definition is_absolute :: "string \<Rightarrow> bool" where
  "is_absolute value \<longleftrightarrow> take 1 value = ''/''"

fun is_normal :: "path_component \<Rightarrow> bool" where
  "is_normal (Normal name) = True"
| "is_normal RootDir = False"
| "is_normal CurDir = False"
| "is_normal ParentDir = False"

definition normalized_resource_path :: "SkillId \<Rightarrow> string \<Rightarrow> ContextError + PathBuf" where
  "normalized_resource_path skill_id value =
     (if is_blank value \<or> is_absolute value \<or> \<not> list_all is_normal (path_components value)
      then Inl (InvalidSkillResourcePath skill_id value)
      else Inr (path_components value))"

definition skill_resource_payload :: "SkillRegistry \<Rightarrow> SkillId \<Rightarrow> string \<Rightarrow> ContextError + string" where
  "skill_resource_payload self skill_id path =
     (case bt_get (sr_skills self) skill_id of
        None \<Rightarrow> Inl (UnknownSkill skill_id)
      | Some skill \<Rightarrow>
          (case normalized_resource_path skill_id path of
             Inl e \<Rightarrow> Inl e
           | Inr relative \<Rightarrow>
               (case bt_get (sd_resources skill) relative of
                  None \<Rightarrow> Inl (UnknownSkillResource skill_id path)
                | Some (ResourceText content) \<Rightarrow>
                    Inr (''<skill_resource skill='' @ quoted (escape_xml (as_str skill_id)) @
                         '' path='' @ quoted (escape_xml path) @ ''>'' @ nl @
                         escape_xml content @ nl @ ''</skill_resource>'')
                | Some ResourceUnavailable \<Rightarrow> Inl (UnsupportedSkillResource skill_id path))))"

definition resolve_manual_activation ::
  "SkillRegistry \<Rightarrow> string \<Rightarrow> ContextError + string \<times> SkillId option" where
  "resolve_manual_activation self input =
     (let trimmed = trim_start input in
      case strip_prefix ''/skill '' trimmed of
        Some rest \<Rightarrow>
          (let (first, second) = split_space rest in
           case parse_id (trim first) of
             Inl _ \<Rightarrow> Inl (InvalidSkill ''<manual>'' ''manual skill name must not be empty'')
           | Inr skill_id \<Rightarrow>
               if \<not> bt_contains_key (sr_skills self) skill_id then Inl (UnknownSkill skill_id)
               else Inr (trim_start (case second of None \<Rightarrow> [] | Some r \<Rightarrow> r), Some skill_id))
      | None \<Rightarrow>
          (case strip_prefix ''/'' trimmed of
             Some command \<Rightarrow>
               (let (first, second) = split_space command in
                case parse_id first of
                  Inr skill_id \<Rightarrow>
                    if bt_contains_key (sr_skills self) skill_id
                    then Inr (trim_start (case second of None \<Rightarrow> [] | Some r \<Rightarrow> r), Some skill_id)
                    else Inr (input, None)
                | Inl _ \<Rightarrow> Inr (input, None))
           | None \<Rightarrow> Inr (input, None)))"

section \<open>Prompt composition\<close>

fun document_kind_name :: "ContextDocumentKind \<Rightarrow> string" where
  "document_kind_name AgentInstructions = ''agent_instructions''"
| "document_kind_name ProjectInstructions = ''project_instructions''"

definition render_document :: "ContextDocument \<Rightarrow> string" where
  "render_document document =
     ''<document kind='' @ quoted (document_kind_name (dc_kind document)) @
     '' path='' @ quoted (escape_xml (dc_path document)) @
     '' scope='' @ quoted (escape_xml (dc_scope_root document)) @ ''>'' @ nl @
     escape_xml (trim (dc_content document)) @ nl @ ''</document>'' @ nl"

definition compose_prompt_with_activations ::
  "ContextRegistry \<Rightarrow> SkillRegistry \<Rightarrow> string \<Rightarrow> ContextError + string \<times> SkillId set" where
  "compose_prompt_with_activations self skills input =
     (case resolve_manual_activation skills input of
        Inl e \<Rightarrow> Inl e
      | Inr (user_prompt, explicit_skill) \<Rightarrow>
          (let model_skills = filter (\<lambda>skill. sk_invocation (sd_descriptor skill) = ModelEligible)
                 (bt_values (sr_skills skills));
               active_skill = Option.bind explicit_skill (bt_get (sr_skills skills))
           in if cx_base_documents self = [] \<and> model_skills = [] \<and> active_skill = None
              then Inr (user_prompt, {})
              else Inr (
                ''<phenix_context>'' @ nl @
                (if cx_base_documents self = [] then []
                 else ''<base_context>'' @ nl @
                   concat (map render_document (cx_base_documents self)) @ ''</base_context>'' @ nl) @
                (if model_skills = [] then []
                 else ''<available_skills>'' @ nl @
                   ''These skills are discoverable for this turn. Load a matching skill with phenix_skill_load before following it. Do not guess skill contents.'' @ nl @
                   concat (map (\<lambda>skill. ''- '' @ escape_xml (as_str (sk_id (sd_descriptor skill))) @ '': '' @
                       escape_xml (sk_description (sd_descriptor skill)) @ nl) model_skills) @
                   ''</available_skills>'' @ nl) @
                (case active_skill of None \<Rightarrow> [] | Some skill \<Rightarrow> render_skill skill) @
                ''</phenix_context>'' @ nl @ nl @ ''<user_request>'' @ nl @
                escape_xml (trim_start user_prompt) @ nl @ ''</user_request>'',
                set_option explicit_skill)))"

section \<open>Escaping\<close>

text \<open>What an XML reader does with the five entities.\<close>

fun unescape_xml :: "string \<Rightarrow> string" where
  "unescape_xml [] = []"
| "unescape_xml (c # cs) =
     (if c \<noteq> CHR ''&'' then c # unescape_xml cs
      else if take 4 cs = ''amp;'' then CHR ''&'' # unescape_xml (drop 4 cs)
      else if take 3 cs = ''lt;'' then CHR ''<'' # unescape_xml (drop 3 cs)
      else if take 3 cs = ''gt;'' then CHR ''>'' # unescape_xml (drop 3 cs)
      else if take 5 cs = ''quot;'' then CHR 0x22 # unescape_xml (drop 5 cs)
      else if take 5 cs = ''apos;'' then CHR 0x27 # unescape_xml (drop 5 cs)
      else c # unescape_xml cs)"

declare unescape_xml.simps(2) [simp del]

lemma unescape_entities:
  "unescape_xml (''&amp;'' @ t) = CHR ''&'' # unescape_xml t"
  "unescape_xml (''&lt;'' @ t) = CHR ''<'' # unescape_xml t"
  "unescape_xml (''&gt;'' @ t) = CHR ''>'' # unescape_xml t"
  "unescape_xml (''&quot;'' @ t) = CHR 0x22 # unescape_xml t"
  "unescape_xml (''&apos;'' @ t) = CHR 0x27 # unescape_xml t"
  by (simp_all add: unescape_xml.simps(2) [of "CHR ''&''"])

lemma unescape_escape_char: "unescape_xml (escape_char c @ t) = c # unescape_xml t"
proof (cases "c \<in> {CHR ''&'', CHR ''<'', CHR ''>'', CHR 0x22, CHR 0x27}")
  case True
  then show ?thesis using unescape_entities [of t] by auto
next
  case False
  then have "escape_char c = [c]" and "c \<noteq> CHR ''&''" by auto
  then show ?thesis by (simp add: unescape_xml.simps(2) del: escape_char.simps)
qed

lemma unescape_escape: "unescape_xml (escape_xml s) = s"
  by (induction s) (simp_all add: escape_xml_def unescape_escape_char del: escape_char.simps)

definition markup_chars :: "char set" where
  "markup_chars = {CHR ''<'', CHR ''>'', CHR 0x22, CHR 0x27}"

lemma escape_char_no_markup: "set (escape_char c) \<inter> markup_chars = {}"
  unfolding markup_chars_def escape_char.simps by (simp split: if_split)

lemma escape_no_markup: "set (escape_xml s) \<inter> markup_chars = {}"
  by (induction s) (simp_all add: escape_xml_def Int_Un_distrib2 escape_char_no_markup del: escape_char.simps)

section \<open>Properties\<close>

text \<open>Text put into the prompt contains no angle bracket and no quote, so it cannot end an
  element or an attribute, and unescaping gives the text back.\<close>

theorem escape_xml_roundtrip:
  "unescape_xml (escape_xml s) = s \<and>
   set (escape_xml s) \<inter> markup_chars = {}"
  by (simp add: unescape_escape escape_no_markup)

text \<open>A skill resource is served only from the files recorded for that skill, under a relative
  path made of ordinary names: a path that is absolute or that steps to a parent directory is
  refused before any lookup.\<close>

theorem skill_resource_confined:
  assumes "skill_resource_payload registry skill_id path = Inr payload"
  shows "\<exists>skill content. bt_get (sr_skills registry) skill_id = Some skill \<and>
     bt_get (sd_resources skill) (path_components path) = Some (ResourceText content) \<and>
     list_all is_normal (path_components path) \<and> \<not> is_absolute path"
  using assms
  by (auto simp: skill_resource_payload_def normalized_resource_path_def
      split: option.splits sum.splits if_splits SkillResourceContent.splits)

definition sample_skill :: "SkillInvocationPolicy \<Rightarrow> SkillDefinition" where
  "sample_skill policy = \<lparr>sd_descriptor = \<lparr>sk_id = Ident ''review'', sk_name = ''review'',
       sk_description = ''review code'', sk_invocation = policy\<rparr>,
     sd_instructions = ''check'', sd_root = ''/skills/review'',
     sd_resources = bt_insert [Normal ''a'', Normal ''b.md''] (ResourceText ''text'') bt_empty,
     sd_allowed_tools = []\<rparr>"

definition sample_skills :: "SkillInvocationPolicy \<Rightarrow> SkillRegistry" where
  "sample_skills policy = \<lparr>sr_skills = bt_insert (Ident ''review'') (sample_skill policy) bt_empty\<rparr>"

theorem skill_resource_confined_witness:
  "list_all is_normal (path_components ''a//b.md'')"
proof -
  have "\<not> is_blank ''a//b.md''" by code_simp
  then have "\<exists>payload. skill_resource_payload (sample_skills ManualOnly) (Ident ''review'') ''a//b.md'' = Inr payload"
    by (simp add: skill_resource_payload_def sample_skills_def sample_skill_def
        normalized_resource_path_def is_absolute_def path_components_def segment_component_def
        List.map_filter_simps)
  then show ?thesis using skill_resource_confined by blast
qed

text \<open>Loading a skill for the model succeeds exactly for a known skill that is not reserved for
  manual use, and gives the rendering of that skill.\<close>

theorem manual_skill_not_loaded:
  "model_skill_payload registry skill_id = Inr payload \<longleftrightarrow>
     (\<exists>skill. bt_get (sr_skills registry) skill_id = Some skill \<and>
        sk_invocation (sd_descriptor skill) = ModelEligible \<and> payload = render_skill skill)"
  by (auto simp: model_skill_payload_def split: option.split)

end
