(* ===== verification/Backend.thy ===== *)
theory Backend
  imports Core
begin

text \<open>
  The contract of a model backend (crate \<open>phenix-backend\<close>): how conductor tools are presented to
  a backend session, the requests and results that cross the boundary, and the behaviour of a
  backend turn.

  A backend is code outside the conductor. One turn of \<open>BackendSession::execute\<close> is an
  interaction tree: the calls it makes on its \<open>BackendHost\<close>, each continued by the answer it
  gets, and finally its result. Every terminating turn is such a tree.
\<close>

datatype ToolPresentation = Native | McpStdio | AcpExtension

definition TOOL_PRESENTATION_PREFERENCE :: "ToolPresentation list" where
  "TOOL_PRESENTATION_PREFERENCE = [Native, AcpExtension, McpStdio]"

record BackendCapabilities =
  bc_tool_presentations :: "ToolPresentation set"
  bc_images :: bool
  bc_persistent_sessions :: bool

definition preferred_tool_presentation :: "BackendCapabilities \<Rightarrow> ToolPresentation option" where
  "preferred_tool_presentation self =
     find (\<lambda>presentation. presentation \<in> bc_tool_presentations self) TOOL_PRESENTATION_PREFERENCE"

datatype BackendError = BackendUnsupported string | Transport string | Protocol string

fun display_BackendError :: "BackendError \<Rightarrow> string" where
  "display_BackendError (BackendUnsupported v) = ''unsupported backend capability: '' @ v"
| "display_BackendError (Transport v) = ''backend transport error: '' @ v"
| "display_BackendError (Protocol v) = ''backend protocol error: '' @ v"

record ToolProvision =
  tp_callables :: "CallableDescriptor list"

record PreparedToolSurface =
  pt_presentation :: "ToolPresentation option"
  pt_callables :: "CallableDescriptor list"

definition prepare_tools :: "ToolProvision \<Rightarrow> BackendCapabilities \<Rightarrow> BackendError + PreparedToolSurface" where
  "prepare_tools self capabilities =
     (if tp_callables self = []
      then Inr \<lparr>pt_presentation = None, pt_callables = tp_callables self\<rparr>
      else case preferred_tool_presentation capabilities of
        None \<Rightarrow> Inl (BackendUnsupported ''backend cannot host conductor-provisioned tools'')
      | Some presentation \<Rightarrow>
          Inr \<lparr>pt_presentation = Some presentation, pt_callables = tp_callables self\<rparr>)"

record BackendSessionRequest =
  br_model :: ModelTarget
  br_tools :: PreparedToolSurface

record BackendExecutionRequest =
  bx_execution_id :: ExecutionId
  bx_prompt :: string

datatype BackendEvent = ContentDelta string | BackendReasoningDelta string

record ToolInvocation =
  ti_callable :: CallableId
  ti_arguments_json :: string

record ToolResult =
  tr_output :: string
  tr_success :: bool

datatype backend_run =
    EmitThen BackendEvent "BackendError + unit \<Rightarrow> backend_run"
  | InvokeThen ToolInvocation "BackendError + ToolResult \<Rightarrow> backend_run"
  | RunDone "BackendError + unit"

record Backend =
  be_capabilities :: BackendCapabilities
  be_open_session :: "BackendSessionRequest \<Rightarrow> BackendError + (BackendExecutionRequest \<Rightarrow> backend_run)"

text \<open>The surface never claims a presentation for no tools, and never lacks one for some.\<close>

lemma prepared_presentation:
  assumes "prepare_tools provision capabilities = Inr surface"
  shows "pt_callables surface = tp_callables provision"
    and "pt_presentation surface = None \<longleftrightarrow> pt_callables surface = []"
    and "pt_presentation surface = Some p \<Longrightarrow> p \<in> bc_tool_presentations capabilities"
  using assms
  by (auto simp: prepare_tools_def preferred_tool_presentation_def find_Some_iff
      split: if_splits option.splits)

lemma preferred_none_iff: "preferred_tool_presentation c = None \<longleftrightarrow> bc_tool_presentations c = {}"
proof -
  have "x \<in> set TOOL_PRESENTATION_PREFERENCE" for x
    by (cases x) (simp_all add: TOOL_PRESENTATION_PREFERENCE_def)
  then show ?thesis
    by (auto simp: preferred_tool_presentation_def find_None_iff)
qed

section \<open>Properties\<close>

text \<open>A tool surface is prepared exactly when there is no tool to present or the backend
  offers some presentation; the presentation is then the first of native, ACP extension and
  stdio MCP that the backend offers, and every provisioned tool is on the surface.\<close>

theorem prepare_tools_iff:
  "prepare_tools provision capabilities = Inr surface \<longleftrightarrow>
     pt_callables surface = tp_callables provision \<and>
     (if tp_callables provision = [] then pt_presentation surface = None
      else bc_tool_presentations capabilities \<noteq> {} \<and>
        pt_presentation surface = Some
          (if Native \<in> bc_tool_presentations capabilities then Native
           else if AcpExtension \<in> bc_tool_presentations capabilities then AcpExtension
           else McpStdio))"
proof -
  have mcp: "McpStdio \<in> S" if "x \<in> S" "Native \<notin> S" "AcpExtension \<notin> S" for x S
    using that by (cases x) auto
  show ?thesis
    by (cases surface)
      (auto simp: prepare_tools_def preferred_tool_presentation_def TOOL_PRESENTATION_PREFERENCE_def
        dest: mcp)
qed

end
