(* ===== verification/Policy.thy ===== *)
theory Policy
  imports Backend
begin

text \<open>
  Invocation policy (\<open>phenix-conductor/src/policy.rs\<close>): an ordered list of guards, the first of
  which is the built-in permission guard; a check runs them in registration order and stops at
  the first denial. The resolved and prepared invocations that a guard may inspect are declared
  here too (\<open>lib.rs\<close>). A guard is a registered object; the model is the function it computes.
\<close>

record ResolvedInvocation =
  ri_execution_id :: ExecutionId
  ri_session_id :: SessionId
  ri_config_revision :: ConfigRevisionId
  ri_callable :: "CallableId option"
  ri_requested_target :: ExecutionTarget
  ri_model :: ModelTarget
  ri_prompt :: string
  ri_tools :: ToolProvision

record PreparedInvocation =
  pi_resolved :: ResolvedInvocation
  pi_tools :: PreparedToolSurface

definition backend_session_request :: "PreparedInvocation \<Rightarrow> BackendSessionRequest" where
  "backend_session_request self = \<lparr>br_model = ri_model (pi_resolved self), br_tools = pi_tools self\<rparr>"

definition backend_execution_request :: "PreparedInvocation \<Rightarrow> BackendExecutionRequest" where
  "backend_execution_request self =
     \<lparr>bx_execution_id = ri_execution_id (pi_resolved self), bx_prompt = ri_prompt (pi_resolved self)\<rparr>"

definition allowed_tools :: "PreparedInvocation \<Rightarrow> CallableId set" where
  "allowed_tools self = set (map cd_id (pt_callables (pi_tools self)))"

datatype CallableOperation =
  StartAgent | StartOrchestration | StartAgentNode | DispatchProvider | InvokeTool

datatype InvocationSubject =
    CallableSubject CallableDescriptor CallableOperation
  | ModelSubject PreparedInvocation

record InvocationPolicyContext =
  ic_session_id :: SessionId
  ic_execution_id :: ExecutionId
  ic_config_revision :: ConfigRevisionId
  ic_subject :: InvocationSubject

record PolicyDenial =
  dn_code :: string
  dn_message :: string
  dn_callable :: "CallableId option"

definition permission_required :: "CallableId \<Rightarrow> PolicyDenial" where
  "permission_required callable =
     \<lparr>dn_code = ''permission_required'',
      dn_message = ''permission is required for callable '' @ as_str callable,
      dn_callable = Some callable\<rparr>"

type_synonym InvocationGuard = "InvocationPolicyContext \<Rightarrow> PolicyDenial + unit"

definition callable_permission_guard :: InvocationGuard where
  "callable_permission_guard context =
     (case ic_subject context of
        ModelSubject invocation \<Rightarrow> Inr ()
      | CallableSubject descriptor operation \<Rightarrow>
          if requires_permission (cd_policy descriptor)
          then Inl (permission_required (cd_id descriptor)) else Inr ())"

type_synonym InvocationPolicy = "InvocationGuard list"

definition policy_new :: InvocationPolicy where
  "policy_new = [callable_permission_guard]"

definition policy_register :: "InvocationGuard \<Rightarrow> InvocationPolicy \<Rightarrow> InvocationPolicy" where
  "policy_register guard self = self @ [guard]"

fun policy_check :: "InvocationPolicy \<Rightarrow> InvocationPolicyContext \<Rightarrow> PolicyDenial + unit" where
  "policy_check [] context = Inr ()"
| "policy_check (guard # rest) context =
     (case guard context of Inl denial \<Rightarrow> Inl denial | Inr _ \<Rightarrow> policy_check rest context)"

lemma policy_check_append:
  "policy_check (gs @ hs) context =
     (case policy_check gs context of Inl denial \<Rightarrow> Inl denial | Inr _ \<Rightarrow> policy_check hs context)"
  by (induction gs) (auto split: sum.split)

lemma policy_check_ok_iff: "policy_check gs context = Inr () \<longleftrightarrow> (\<forall>g\<in>set gs. g context = Inr ())"
  by (induction gs) (auto split: sum.split)

text \<open>A policy built by the code always runs the permission guard first.\<close>

definition guarded_policy :: "InvocationPolicy \<Rightarrow> bool" where
  "guarded_policy gs \<longleftrightarrow> (\<exists>rest. gs = callable_permission_guard # rest)"

lemma guarded_policy_register: "guarded_policy gs \<Longrightarrow> guarded_policy (policy_register g gs)"
  by (auto simp: guarded_policy_def policy_register_def)

lemma guarded_policy_new: "guarded_policy policy_new"
  by (simp add: guarded_policy_def policy_new_def)

lemma guarded_policy_denies:
  assumes "guarded_policy gs" and "ic_subject context = CallableSubject descriptor operation"
    and "requires_permission (cd_policy descriptor)"
  shows "policy_check gs context = Inl (permission_required (cd_id descriptor))"
  using assms by (auto simp: guarded_policy_def callable_permission_guard_def)

section \<open>Properties\<close>

text \<open>Whatever guards are registered, a check answers with the denial of the permission guard
  if that guard denies, and otherwise with the first denial in registration order.\<close>

theorem policy_check_order:
  "policy_check (fold policy_register guards policy_new) context =
     (case callable_permission_guard context of
        Inl denial \<Rightarrow> Inl denial
      | Inr _ \<Rightarrow>
          (case find (\<lambda>guard. guard context \<noteq> Inr ()) guards of
             None \<Rightarrow> Inr () | Some guard \<Rightarrow> guard context))"
proof -
  have "fold policy_register gs ps = ps @ gs" for gs ps
    by (induction gs arbitrary: ps) (simp_all add: policy_register_def)
  moreover have "policy_check gs context =
      (case find (\<lambda>guard. guard context \<noteq> Inr ()) gs of None \<Rightarrow> Inr () | Some guard \<Rightarrow> guard context)" for gs
    by (induction gs) (auto split: sum.split)
  ultimately show ?thesis by (simp add: policy_new_def split: sum.split)
qed

end
