(* ===== verification/Config.thy ===== *)
theory Config
  imports Callables Routing Context Policy
begin

text \<open>
  Compiled configurations (\<open>CompiledConfiguration\<close> in \<open>phenix-conductor/src/lib.rs\<close> and the
  \<open>semantic_manifest\<close> functions of the four registries). A configuration is the four
  registries; its fingerprint is the hash of a JSON manifest of their contents.

  The record \<open>Externals\<close> collects the third-party functions that the conductor calls: rendering
  a JSON value (\<open>serde_json::to_string\<close>, which also fixes the order of object keys), checking
  that a text is JSON (\<open>serde_json::from_str\<close>, an error being given by its message), the
  hexadecimal SHA-256 digest, and the \<open>{:?}\<close> rendering of a string, whose escapes follow the
  Unicode tables and which occurs in three error messages only. Every definition that uses one of them takes the record as its
  first argument.
\<close>

record Externals =
  to_json :: "Json \<Rightarrow> string"
  json_error :: "string \<Rightarrow> string option"
  sha256_hex :: "string \<Rightarrow> string"
  debug_str :: "string \<Rightarrow> string"

fun display_ContextError :: "Externals \<Rightarrow> ContextError \<Rightarrow> string" where
  "display_ContextError E (ContextIo path message) = ''context I/O failed for '' @ path @ '': '' @ message"
| "display_ContextError E (InvalidSkill path message) = ''invalid skill '' @ path @ '': '' @ message"
| "display_ContextError E (UnknownSkill skill) = ''unknown skill: '' @ as_str skill"
| "display_ContextError E (ManualOnlySkill skill) = ''skill is manual-only: '' @ as_str skill"
| "display_ContextError E (InactiveSkill skill) = ''skill is not active for this execution: '' @ as_str skill"
| "display_ContextError E (InvalidSkillResourcePath skill path) =
     ''invalid resource path '' @ debug_str E path @ '' for skill '' @ as_str skill"
| "display_ContextError E (UnknownSkillResource skill path) =
     ''unknown resource '' @ debug_str E path @ '' for skill '' @ as_str skill"
| "display_ContextError E (UnsupportedSkillResource skill path) =
     ''resource '' @ debug_str E path @ '' for skill '' @ as_str skill @
     '' is binary or exceeds the text resource limit''"

section \<open>JSON of the configured values\<close>

definition json_id :: "'k ident \<Rightarrow> Json" where
  "json_id i = JString (as_str i)"

definition json_opt :: "('a \<Rightarrow> Json) \<Rightarrow> 'a option \<Rightarrow> Json" where
  "json_opt f x = (case x of None \<Rightarrow> JNull | Some v \<Rightarrow> f v)"

definition json_set :: "('a::linorder \<Rightarrow> Json) \<Rightarrow> 'a set \<Rightarrow> Json" where
  "json_set f A = JArray (map f (sorted_list_of_set A))"

fun json_CallableKind :: "CallableKind \<Rightarrow> Json" where
  "json_CallableKind Tool = JString ''tool''"
| "json_CallableKind Agent = JString ''agent''"
| "json_CallableKind Orchestration = JString ''orchestration''"

definition json_CallableDescriptor_fields :: "CallableDescriptor \<Rightarrow> (string \<times> Json) list" where
  "json_CallableDescriptor_fields d =
     [(''id'', json_id (cd_id d)), (''kind'', json_CallableKind (cd_kind d)),
      (''description'', JString (cd_description d)), (''input_schema'', cd_input_schema d),
      (''output_schema'', cd_output_schema d),
      (''capabilities'', json_set JString (cd_capabilities d)),
      (''policy'', JObject [(''requires_permission'', JBool (requires_permission (cd_policy d)))])]"

definition json_CallableDescriptor :: "CallableDescriptor \<Rightarrow> Json" where
  "json_CallableDescriptor d = JObject (json_CallableDescriptor_fields d)"

fun json_FilesystemAuthority :: "FilesystemAuthority \<Rightarrow> Json" where
  "json_FilesystemAuthority FsReadOnly = JString ''read_only''"
| "json_FilesystemAuthority FsWrite = JString ''write''"

fun json_NetworkAuthority :: "NetworkAuthority \<Rightarrow> Json" where
  "json_NetworkAuthority NetNone = JString ''none''"
| "json_NetworkAuthority NetOutbound = JString ''outbound''"

fun json_RepositoryAuthority :: "RepositoryAuthority \<Rightarrow> Json" where
  "json_RepositoryAuthority RepoRead = JString ''read''"
| "json_RepositoryAuthority RepoWrite = JString ''write''"

definition json_ExecutionAuthority :: "ExecutionAuthority \<Rightarrow> Json" where
  "json_ExecutionAuthority a = JObject
     [(''filesystem'', json_FilesystemAuthority (au_filesystem a)),
      (''network'', json_NetworkAuthority (au_network a)),
      (''repository'', json_RepositoryAuthority (au_repository a)),
      (''ipc'', json_set JString (au_ipc a)), (''secrets'', json_set JString (au_secrets a)),
      (''callables'', json_set json_id (au_callables a))]"

definition json_AgentDefinition :: "AgentDefinition \<Rightarrow> Json" where
  "json_AgentDefinition d = JObject (json_CallableDescriptor_fields (ad_descriptor d) @
     [(''authority'', json_ExecutionAuthority (ad_authority d))])"

definition json_OrchestrationNode :: "OrchestrationNode \<Rightarrow> Json" where
  "json_OrchestrationNode n = JObject
     [(''id'', json_id (nd_id n)), (''callable'', json_id (nd_callable n)),
      (''depends_on'', JArray (map json_id (nd_depends_on n))),
      (''objective'', json_opt JString (nd_objective n))]"

definition json_OrchestrationDefinition :: "OrchestrationDefinition \<Rightarrow> Json" where
  "json_OrchestrationDefinition d = JObject
     [(''descriptor'', json_CallableDescriptor (od_descriptor d)),
      (''interface_agent'', json_opt json_id (od_interface_agent d)),
      (''nodes'', JArray (map json_OrchestrationNode (od_nodes d)))]"

fun json_InferenceEffort :: "InferenceEffort \<Rightarrow> Json" where
  "json_InferenceEffort Effort_None = JString ''none''"
| "json_InferenceEffort Minimal = JString ''minimal''"
| "json_InferenceEffort Low = JString ''low''"
| "json_InferenceEffort Medium = JString ''medium''"
| "json_InferenceEffort High = JString ''high''"
| "json_InferenceEffort ExtraHigh = JString ''extra_high''"
| "json_InferenceEffort Max = JString ''max''"

definition json_ModelTarget :: "ModelTarget \<Rightarrow> Json" where
  "json_ModelTarget t = JObject
     [(''backend'', json_id (mt_backend t)), (''provider'', json_id (mt_provider t)),
      (''model'', json_id (mt_model t)),
      (''inference'', JObject [(''effort'', json_opt json_InferenceEffort (effort (mt_inference t)))])]"

definition json_RoutingProfile :: "RoutingProfile \<Rightarrow> Json" where
  "json_RoutingProfile p = JObject
     [(''id'', json_id (rp_id p)), (''default_target'', json_ModelTarget (rp_default_target p)),
      (''callable_targets'', JObject (map (\<lambda>(c, t). (as_str c, json_ModelTarget t))
         (bt_entries (rp_callable_targets p))))]"

fun provider_kind_name :: "ExecutionProviderKind \<Rightarrow> string" where
  "provider_kind_name ModelProvider = ''model''"
| "provider_kind_name NativeProvider = ''native''"
| "provider_kind_name AcpProvider = ''acp''"
| "provider_kind_name RemotePhenixProvider = ''remote_phenix''"

fun entry_manifest :: "CallableEntry \<Rightarrow> Json" where
  "entry_manifest (ToolEntry descriptor handler) = JObject
     [(''type'', JString ''tool''), (''descriptor'', json_CallableDescriptor descriptor)]"
| "entry_manifest (AgentEntry definition provider) = JObject
     [(''type'', JString ''agent''), (''definition'', json_AgentDefinition definition),
      (''provider_kind'', JString (provider_kind_name (binding_kind provider)))]"
| "entry_manifest (OrchestrationEntry definition) = JObject
     [(''type'', JString ''orchestration''), (''definition'', json_OrchestrationDefinition definition)]"

definition callables_manifest :: "CallableRegistry \<Rightarrow> Json" where
  "callables_manifest self = JArray (map entry_manifest (bt_values (cr_entries self)))"

definition routing_manifest :: "RoutingRegistry \<Rightarrow> Json" where
  "routing_manifest self = JObject (map (\<lambda>(p, profile). (as_str p, json_RoutingProfile profile))
     (bt_entries (rr_profiles self)))"

definition context_manifest :: "ContextRegistry \<Rightarrow> Json" where
  "context_manifest self = JArray (map (\<lambda>document. JObject
     [(''kind'', JString (document_kind_name (dc_kind document))),
      (''path'', JString (dc_path document)), (''scope_root'', JString (dc_scope_root document)),
      (''content'', JString (dc_content document))]) (cx_base_documents self))"

fun resource_manifest :: "SkillResourceContent \<Rightarrow> Json" where
  "resource_manifest (ResourceText content) = JObject [(''text'', JString content)]"
| "resource_manifest ResourceUnavailable = JObject [(''unavailable'', JBool True)]"

fun json_SkillInvocationPolicy :: "SkillInvocationPolicy \<Rightarrow> Json" where
  "json_SkillInvocationPolicy ModelEligible = JString ''model_eligible''"
| "json_SkillInvocationPolicy ManualOnly = JString ''manual_only''"

definition json_SkillDescriptor :: "SkillDescriptor \<Rightarrow> Json" where
  "json_SkillDescriptor d = JObject
     [(''id'', json_id (sk_id d)), (''name'', JString (sk_name d)),
      (''description'', JString (sk_description d)),
      (''invocation'', json_SkillInvocationPolicy (sk_invocation d))]"

definition skills_manifest :: "SkillRegistry \<Rightarrow> Json" where
  "skills_manifest self = JArray (map (\<lambda>skill. JObject
     [(''descriptor'', json_SkillDescriptor (sd_descriptor skill)),
      (''instructions'', JString (sd_instructions skill)),
      (''root'', JString (sd_root skill)),
      (''resources'', JObject (bt_entries (bt_of_list (map (\<lambda>(path, content).
          (display_path path, resource_manifest content)) (bt_entries (sd_resources skill)))))),
      (''allowed_tools'', JArray (map JString (sd_allowed_tools skill)))]) (bt_values (sr_skills self)))"

section \<open>Compiled configurations\<close>

record CompiledConfiguration =
  cc_callables :: CallableRegistry
  cc_routing :: RoutingRegistry
  cc_context :: ContextRegistry
  cc_skills :: SkillRegistry

definition configuration_default :: CompiledConfiguration where
  "configuration_default = \<lparr>cc_callables = registry_default, cc_routing = routing_default,
     cc_context = \<lparr>cx_base_documents = []\<rparr>, cc_skills = \<lparr>sr_skills = bt_empty\<rparr>\<rparr>"

type_synonym ConfigRevisionFingerprint = string

definition fingerprint :: "Externals \<Rightarrow> CompiledConfiguration \<Rightarrow> ConfigRevisionFingerprint" where
  "fingerprint E self = sha256_hex E (to_json E (JObject
     [(''callables'', callables_manifest (cc_callables self)),
      (''routing'', routing_manifest (cc_routing self)),
      (''context'', context_manifest (cc_context self)),
      (''skills'', skills_manifest (cc_skills self))]))"

record ConfigRevisionSlot =
  slot_fingerprint :: ConfigRevisionFingerprint
  slot_configuration :: "CompiledConfiguration option"

end
