(* ===== verification/Journal_Messages.thy ===== *)
theory Journal_Messages
  imports Core
begin

text \<open>
  The messages of \<open>JournalError::InvalidEvent\<close> in \<open>phenix-conductor/src/journal.rs\<close>, one
  definition per message, in the order of the code.
\<close>

definition msg_revision_activation :: "ConfigRevisionId \<Rightarrow> ConfigRevisionId \<Rightarrow> string" where
  "msg_revision_activation e r =
     ''configuration revision activation expected '' @ as_str e @ '', found '' @ as_str r"

definition msg_session_unknown_revision :: "SessionId \<Rightarrow> ConfigRevisionId \<Rightarrow> string" where
  "msg_session_unknown_revision s r =
     ''session '' @ as_str s @ '' references unknown config revision '' @ as_str r"

definition msg_session_not_active :: "SessionId \<Rightarrow> string" where
  "msg_session_not_active s =
     ''new session '' @ as_str s @ '' must start active''"

definition msg_session_cursor :: "SessionId \<Rightarrow> SessionId \<Rightarrow> string" where
  "msg_session_cursor e s =
     ''session identity cursor mismatch: expected '' @ as_str e @ '', found '' @ as_str s"

definition msg_session_unknown_parent :: "SessionId \<Rightarrow> SessionId \<Rightarrow> string" where
  "msg_session_unknown_parent s p =
     ''session '' @ as_str s @ '' references unknown parent '' @ as_str p"

definition msg_session_parent_workspace :: "SessionId \<Rightarrow> WorkspaceId \<Rightarrow> WorkspaceId \<Rightarrow> string" where
  "msg_session_parent_workspace s w v =
     ''session '' @ as_str s @ '' workspace '' @ as_str w @ '' does not match parent workspace '' @ as_str v"

definition msg_session_root_workspace :: "SessionId \<Rightarrow> WorkspaceId \<Rightarrow> WorkspaceId \<Rightarrow> string" where
  "msg_session_root_workspace s w v =
     ''root session '' @ as_str s @ '' workspace '' @ as_str w @ '' does not match runtime workspace '' @ as_str v"

definition msg_session_duplicate :: "SessionId \<Rightarrow> string" where
  "msg_session_duplicate s =
     ''duplicate session id: '' @ as_str s"

definition msg_rebase_unknown_revision :: "SessionId \<Rightarrow> ConfigRevisionId \<Rightarrow> string" where
  "msg_rebase_unknown_revision s r =
     ''session '' @ as_str s @ '' rebase references unknown config revision '' @ as_str r"

definition msg_rebase_unknown_session :: "SessionId \<Rightarrow> string" where
  "msg_rebase_unknown_session s =
     ''rebase references unknown session '' @ as_str s"

definition msg_rebase_closed :: "SessionId \<Rightarrow> string" where
  "msg_rebase_closed s =
     ''closed session '' @ as_str s @ '' cannot be rebased''"

definition msg_rename_unknown_session :: "SessionId \<Rightarrow> string" where
  "msg_rename_unknown_session s =
     ''rename references unknown session '' @ as_str s"

definition msg_rename_closed :: "SessionId \<Rightarrow> string" where
  "msg_rename_closed s =
     ''closed session '' @ as_str s @ '' cannot be renamed''"

definition msg_target_unknown_session :: "SessionId \<Rightarrow> string" where
  "msg_target_unknown_session s =
     ''target change references unknown session '' @ as_str s"

definition msg_target_closed :: "SessionId \<Rightarrow> string" where
  "msg_target_closed s =
     ''closed session '' @ as_str s @ '' cannot change target''"

definition msg_close_unknown_session :: "SessionId \<Rightarrow> string" where
  "msg_close_unknown_session s =
     ''close references unknown session '' @ as_str s"

definition msg_close_twice :: "SessionId \<Rightarrow> string" where
  "msg_close_twice s =
     ''session '' @ as_str s @ '' was closed more than once''"

definition msg_close_active_executions :: "SessionId \<Rightarrow> string" where
  "msg_close_active_executions s =
     ''session '' @ as_str s @ '' cannot close with active executions''"

definition msg_execution_unknown_session :: "ExecutionId \<Rightarrow> SessionId \<Rightarrow> string" where
  "msg_execution_unknown_session x s =
     ''execution '' @ as_str x @ '' references unknown session '' @ as_str s"

definition msg_execution_closed_session :: "ExecutionId \<Rightarrow> SessionId \<Rightarrow> string" where
  "msg_execution_closed_session x s =
     ''execution '' @ as_str x @ '' references closed session '' @ as_str s"

definition msg_execution_cursor :: "ExecutionId \<Rightarrow> ExecutionId \<Rightarrow> string" where
  "msg_execution_cursor e x =
     ''execution identity cursor mismatch: expected '' @ as_str e @ '', found '' @ as_str x"

definition msg_execution_unknown_parent :: "ExecutionId \<Rightarrow> ExecutionId \<Rightarrow> string" where
  "msg_execution_unknown_parent x p =
     ''execution '' @ as_str x @ '' references unknown parent '' @ as_str p"

definition msg_execution_not_delegated :: "ExecutionId \<Rightarrow> CallableId \<Rightarrow> ExecutionId \<Rightarrow> string" where
  "msg_execution_not_delegated x c p =
     ''execution '' @ as_str x @ '' callable '' @ as_str c @ '' is not delegated by parent '' @ as_str p"

definition msg_execution_authority_exceeds :: "ExecutionId \<Rightarrow> ExecutionId \<Rightarrow> string" where
  "msg_execution_authority_exceeds x p =
     ''execution '' @ as_str x @ '' authority exceeds parent '' @ as_str p"

definition msg_execution_duplicate :: "ExecutionId \<Rightarrow> string" where
  "msg_execution_duplicate x =
     ''duplicate execution id: '' @ as_str x"

definition msg_state_unknown_execution :: "ExecutionId \<Rightarrow> string" where
  "msg_state_unknown_execution x =
     ''state change references unknown execution '' @ as_str x"

definition msg_state_terminal :: "ExecutionId \<Rightarrow> string" where
  "msg_state_terminal x =
     ''terminal execution '' @ as_str x @ '' cannot change state''"

definition msg_group_cursor :: "AttemptGroupId \<Rightarrow> AttemptGroupId \<Rightarrow> string" where
  "msg_group_cursor e g =
     ''attempt group identity cursor mismatch: expected '' @ as_str e @ '', found '' @ as_str g"

definition msg_group_shape :: "AttemptGroupId \<Rightarrow> string" where
  "msg_group_shape g =
     ''new attempt group '' @ as_str g @ '' must contain exactly one failed first attempt''"

definition msg_group_first_failure :: "AttemptGroupId \<Rightarrow> string" where
  "msg_group_first_failure g =
     ''attempt group '' @ as_str g @ '' has an invalid first failure''"

definition msg_group_unknown_execution :: "AttemptGroupId \<Rightarrow> ExecutionId \<Rightarrow> string" where
  "msg_group_unknown_execution g x =
     ''attempt group '' @ as_str g @ '' references unknown execution '' @ as_str x"

definition msg_group_mismatch :: "AttemptGroupId \<Rightarrow> string" where
  "msg_group_mismatch g =
     ''attempt group '' @ as_str g @ '' does not match its first failed agent execution''"

definition msg_group_overlap :: "ExecutionId \<Rightarrow> string" where
  "msg_group_overlap x =
     ''execution '' @ as_str x @ '' belongs to more than one attempt group''"

definition msg_group_duplicate :: "AttemptGroupId \<Rightarrow> string" where
  "msg_group_duplicate g =
     ''duplicate attempt group id: '' @ as_str g"

definition msg_failure_unknown_group :: "AttemptGroupId \<Rightarrow> string" where
  "msg_failure_unknown_group g =
     ''attempt failure references unknown group '' @ as_str g"

definition msg_failure_not_latest :: "ExecutionId \<Rightarrow> AttemptGroupId \<Rightarrow> string" where
  "msg_failure_not_latest x g =
     ''attempt failure for '' @ as_str x @ '' is not the latest execution in group '' @ as_str g"

definition msg_failure_number :: "ExecutionId \<Rightarrow> 32 word \<Rightarrow> 32 word \<Rightarrow> string" where
  "msg_failure_number x a e =
     ''attempt failure for '' @ as_str x @ '' uses number '' @ show_nat (unat a) @ '', expected '' @ show_nat (unat e)"

definition msg_failure_twice :: "ExecutionId \<Rightarrow> string" where
  "msg_failure_twice x =
     ''attempt failure for '' @ as_str x @ '' was recorded more than once''"

definition msg_failure_unknown_execution :: "ExecutionId \<Rightarrow> string" where
  "msg_failure_unknown_execution x =
     ''attempt failure references unknown execution '' @ as_str x"

definition msg_failure_not_failed :: "ExecutionId \<Rightarrow> string" where
  "msg_failure_not_failed x =
     ''attempt failure references non-failed execution '' @ as_str x"

definition msg_retry_unknown_group :: "AttemptGroupId \<Rightarrow> string" where
  "msg_retry_unknown_group g =
     ''attempt retry references unknown group '' @ as_str g"

definition msg_retry_no_attempts :: "AttemptGroupId \<Rightarrow> string" where
  "msg_retry_no_attempts g =
     ''attempt group '' @ as_str g @ '' has no attempts''"

definition msg_retry_before_failure :: "AttemptGroupId \<Rightarrow> string" where
  "msg_retry_before_failure g =
     ''attempt group '' @ as_str g @ '' retried before its latest execution failed''"

definition msg_retry_unknown_execution :: "ExecutionId \<Rightarrow> string" where
  "msg_retry_unknown_execution x =
     ''attempt retry references unknown execution '' @ as_str x"

definition msg_retry_mismatch :: "ExecutionId \<Rightarrow> AttemptGroupId \<Rightarrow> string" where
  "msg_retry_mismatch x g =
     ''retry execution '' @ as_str x @ '' does not match attempt group '' @ as_str g"

definition msg_interface_twice :: "ExecutionId \<Rightarrow> string" where
  "msg_interface_twice x =
     ''failed child '' @ as_str x @ '' received more than one interface execution''"

definition msg_interface_unknown_parent :: "ExecutionId \<Rightarrow> string" where
  "msg_interface_unknown_parent x =
     ''failure interface references unknown parent '' @ as_str x"

definition msg_interface_unknown_failed :: "ExecutionId \<Rightarrow> string" where
  "msg_interface_unknown_failed x =
     ''failure interface references unknown failed child '' @ as_str x"

definition msg_interface_unknown_execution :: "ExecutionId \<Rightarrow> string" where
  "msg_interface_unknown_execution x =
     ''failure interface references unknown execution '' @ as_str x"

definition msg_interface_binding :: "ExecutionId \<Rightarrow> string" where
  "msg_interface_binding x =
     ''invalid failure interface binding for child '' @ as_str x"

definition msg_decision_twice :: "ExecutionId \<Rightarrow> string" where
  "msg_decision_twice x =
     ''child '' @ as_str x @ '' received more than one orchestration failure decision''"

definition msg_decision_unknown_parent :: "ExecutionId \<Rightarrow> string" where
  "msg_decision_unknown_parent x =
     ''orchestration decision references unknown parent '' @ as_str x"

definition msg_decision_unknown_failed :: "ExecutionId \<Rightarrow> string" where
  "msg_decision_unknown_failed x =
     ''orchestration decision references unknown failed child '' @ as_str x"

definition msg_decision_relation :: "ExecutionId \<Rightarrow> string" where
  "msg_decision_relation x =
     ''invalid orchestration decision relation for child '' @ as_str x"

definition msg_decider_not_bound :: "ExecutionId \<Rightarrow> ExecutionId \<Rightarrow> string" where
  "msg_decider_not_bound d x =
     ''orchestration decision decider '' @ as_str d @ '' is not bound to failed child '' @ as_str x"

definition msg_decider_unknown :: "ExecutionId \<Rightarrow> string" where
  "msg_decider_unknown d =
     ''orchestration decision references unknown decider '' @ as_str d"

definition msg_decider_inactive :: "ExecutionId \<Rightarrow> string" where
  "msg_decider_inactive d =
     ''orchestration decision decider '' @ as_str d @ '' is not an active interface agent''"

definition msg_decider_missing :: "string" where
  "msg_decider_missing =
     ''only fail decisions may omit a decider execution''"

definition msg_recovery_unknown :: "ExecutionId \<Rightarrow> string" where
  "msg_recovery_unknown x =
     ''orchestration decision references unknown recovery execution '' @ as_str x"

definition msg_recovery_not_fresh :: "ExecutionId \<Rightarrow> string" where
  "msg_recovery_not_fresh x =
     ''orchestration recovery '' @ as_str x @ '' is not a fresh pending recovery child''"

definition msg_retry_not_backed :: "ExecutionId \<Rightarrow> string" where
  "msg_retry_not_backed x =
     ''retry decision for '' @ as_str x @ '' is not backed by one attempt group''"

definition msg_retry_not_latest :: "ExecutionId \<Rightarrow> string" where
  "msg_retry_not_latest x =
     ''retry decision recovery '' @ as_str x @ '' is not the latest attempt''"

definition msg_replacement_same_callable :: "ExecutionId \<Rightarrow> string" where
  "msg_replacement_same_callable x =
     ''replacement decision for '' @ as_str x @ '' reuses the failed callable''"

definition msg_node_unknown_execution :: "ExecutionId \<Rightarrow> string" where
  "msg_node_unknown_execution x =
     ''orchestration node references unknown execution '' @ as_str x"

definition msg_node_not_orchestration :: "ExecutionId \<Rightarrow> string" where
  "msg_node_not_orchestration x =
     ''orchestration node references non-orchestration execution '' @ as_str x"

definition msg_node_unknown_child :: "OrchestrationNodeId \<Rightarrow> ExecutionId \<Rightarrow> string" where
  "msg_node_unknown_child n x =
     ''orchestration node '' @ as_str n @ '' references unknown child '' @ as_str x"

definition msg_node_wrong_parent :: "OrchestrationNodeId \<Rightarrow> ExecutionId \<Rightarrow> string" where
  "msg_node_wrong_parent n x =
     ''orchestration node '' @ as_str n @ '' child '' @ as_str x @ '' has the wrong parent''"

definition msg_node_twice :: "ExecutionId \<Rightarrow> OrchestrationNodeId \<Rightarrow> string" where
  "msg_node_twice x n =
     ''orchestration '' @ as_str x @ '' started node '' @ as_str n @ '' more than once''"

definition msg_node_child_twice :: "ExecutionId \<Rightarrow> string" where
  "msg_node_child_twice x =
     ''child execution '' @ as_str x @ '' was assigned to more than one orchestration node''"

definition msg_route_unknown_execution :: "ExecutionId \<Rightarrow> string" where
  "msg_route_unknown_execution x =
     ''resolved route references unknown execution '' @ as_str x"

definition msg_route_not_invocation :: "ExecutionId \<Rightarrow> string" where
  "msg_route_not_invocation x =
     ''resolved route references non-invocation execution '' @ as_str x"

definition msg_route_revision :: "ExecutionId \<Rightarrow> ConfigRevisionId \<Rightarrow> ConfigRevisionId \<Rightarrow> string" where
  "msg_route_revision x r p =
     ''resolved route for '' @ as_str x @ '' uses config revision '' @ as_str r @ '' instead of pinned '' @ as_str p"

definition msg_route_target :: "ExecutionId \<Rightarrow> string" where
  "msg_route_target x =
     ''resolved route for '' @ as_str x @ '' does not match execution target''"

definition msg_route_fixed_model :: "ExecutionId \<Rightarrow> string" where
  "msg_route_fixed_model x =
     ''resolved fixed route for '' @ as_str x @ '' does not match its requested model''"

definition msg_route_twice :: "ExecutionId \<Rightarrow> string" where
  "msg_route_twice x =
     ''execution '' @ as_str x @ '' was resolved more than once''"

definition msg_checkpoint_unknown_execution :: "ExecutionId \<Rightarrow> string" where
  "msg_checkpoint_unknown_execution x =
     ''workspace checkpoint references unknown execution '' @ as_str x"

definition msg_checkpoint_not_pending :: "ExecutionId \<Rightarrow> string" where
  "msg_checkpoint_not_pending x =
     ''workspace checkpoint references non-pending execution '' @ as_str x"

definition msg_checkpoint_not_writer :: "ExecutionId \<Rightarrow> string" where
  "msg_checkpoint_not_writer x =
     ''workspace checkpoint references non-writer execution '' @ as_str x"

definition msg_checkpoint_unknown_session :: "ExecutionId \<Rightarrow> SessionId \<Rightarrow> string" where
  "msg_checkpoint_unknown_session x s =
     ''workspace checkpoint execution '' @ as_str x @ '' references unknown session '' @ as_str s"

definition msg_checkpoint_workspace :: "ExecutionId \<Rightarrow> WorkspaceId \<Rightarrow> WorkspaceId \<Rightarrow> string" where
  "msg_checkpoint_workspace x w v =
     ''workspace checkpoint for '' @ as_str x @ '' uses workspace '' @ as_str w @ '' instead of '' @ as_str v"

definition msg_observation_unknown_execution :: "ExecutionId \<Rightarrow> string" where
  "msg_observation_unknown_execution x =
     ''workspace observation references unknown execution '' @ as_str x"

definition msg_observation_not_running :: "ExecutionId \<Rightarrow> string" where
  "msg_observation_not_running x =
     ''workspace observation references non-running execution '' @ as_str x"

definition msg_event_sequence :: "nat \<Rightarrow> nat \<Rightarrow> string" where
  "msg_event_sequence e a =
     ''frontend event sequence mismatch: expected '' @ show_nat e @ '', found '' @ show_nat a"

definition msg_event_unknown_execution :: "nat \<Rightarrow> ExecutionId \<Rightarrow> string" where
  "msg_event_unknown_execution n x =
     ''frontend event '' @ show_nat n @ '' references unknown execution '' @ as_str x"

definition msg_event_session :: "nat \<Rightarrow> ExecutionId \<Rightarrow> string" where
  "msg_event_session n x =
     ''frontend event '' @ show_nat n @ '' session does not match execution '' @ as_str x"

definition msg_tool_call_cursor :: "ToolCallId \<Rightarrow> ToolCallId \<Rightarrow> string" where
  "msg_tool_call_cursor e t =
     ''tool-call identity cursor mismatch: expected '' @ as_str e @ '', found '' @ as_str t"

end
