(* ===== verification/Journal.thy ===== *)
theory Journal
  imports Config Journal_Messages
begin

text \<open>
  The runtime journal (\<open>phenix-conductor/src/journal.rs\<close>): domain events, the durable projection
  they build, and \<open>apply_domain_event\<close>, which checks an event against the projection and
  updates it. There is one definition per arm of the Rust \<open>match\<close>. Rust's \<open>DurableProjection\<close>
  borrows the maps of the runtime mutably; here it is the record of those maps.

  The cursors are \<open>u64\<close> in the code and natural numbers here; \<open>Durable\<close> shows that every
  cursor is at most the number of journal entries plus one, so that an overflow would need
  more than \<open>2 ^ 64 - 2\<close> entries in memory. The messages are the definitions \<open>msg_\<dots>\<close>
  of the theory \<open>Journal_Messages\<close>.
\<close>

section \<open>Data\<close>

definition JOURNAL_FORMAT_VERSION :: nat where
  "JOURNAL_FORMAT_VERSION = 2"

datatype ExecutionPayload =
    InvocationPayload (payload_input: string)
  | OrchestrationPayload (payload_objective: string)

datatype JournalExecutionPayload =
    JInvocation string ExecutionAuthority
  | JOrchestration string ExecutionAuthority

fun payload_authority :: "JournalExecutionPayload \<Rightarrow> ExecutionAuthority" where
  "payload_authority (JInvocation input authority) = authority"
| "payload_authority (JOrchestration objective authority) = authority"

fun set_authority :: "ExecutionAuthority \<Rightarrow> JournalExecutionPayload \<Rightarrow> JournalExecutionPayload" where
  "set_authority authority (JInvocation input current) = JInvocation input authority"
| "set_authority authority (JOrchestration objective current) = JOrchestration objective authority"

fun journal_payload :: "ExecutionPayload \<Rightarrow> JournalExecutionPayload" where
  "journal_payload (InvocationPayload input) = JInvocation input read_only"
| "journal_payload (OrchestrationPayload objective) = JOrchestration objective read_only"

fun execution_payload :: "JournalExecutionPayload \<Rightarrow> ExecutionPayload" where
  "execution_payload (JInvocation input authority) = InvocationPayload input"
| "execution_payload (JOrchestration objective authority) = OrchestrationPayload objective"

record ResolvedRoute =
  ro_requested_target :: ExecutionTarget
  ro_model :: ModelTarget
  ro_config_revision :: ConfigRevisionId

record SessionRecord =
  sn_summary :: SessionSummary

record ExecutionRecord =
  xr_summary :: ExecutionSummary
  xr_payload :: ExecutionPayload
  xr_authority :: ExecutionAuthority
  xr_config_revision :: ConfigRevisionId

datatype (discs_sels) DomainEvent =
    ConfigurationRevisionActivated ConfigRevisionId ConfigRevisionFingerprint
  | SessionCreated SessionSummary
  | SessionConfigRebased SessionId ConfigRevisionId
  | SessionRenamed SessionId string
  | SessionTargetChanged SessionId ExecutionTarget
  | SessionClosed SessionId
  | ExecutionCreated ExecutionSummary JournalExecutionPayload
  | ExecutionStateChanged ExecutionId ExecutionState
  | AttemptGroupCreated AttemptGroup
  | AttemptFailureRecorded AttemptGroupId FailureAttemptSummary
  | AttemptRetryStarted AttemptGroupId ExecutionId
  | OrchestrationFailureInterfaceStarted ExecutionId ExecutionId ExecutionId
  | OrchestrationDecisionMade OrchestrationFailureDecisionRecord
  | OrchestrationNodeStarted ExecutionId OrchestrationNodeId ExecutionId
  | InvocationResolved ExecutionId ResolvedRoute
  | WorkspaceCheckpointCaptured ExecutionId WorkspaceId "(PathBuf, FileVersion) btree_map"
  | WorkspaceFileObserved ExecutionId FileObservation
  | FrontendEvent ExecutionEvent

record JournalEntry =
  je_sequence :: nat
  je_event :: DomainEvent

record RuntimeJournal =
  rj_format_version :: nat
  rj_config_revision :: ConfigRevisionId
  rj_config_fingerprint :: ConfigRevisionFingerprint
  rj_entries :: "JournalEntry list"

definition journal_new :: "ConfigRevisionId \<Rightarrow> ConfigRevisionFingerprint \<Rightarrow> RuntimeJournal" where
  "journal_new config_revision config_fingerprint =
     \<lparr>rj_format_version = JOURNAL_FORMAT_VERSION, rj_config_revision = config_revision,
      rj_config_fingerprint = config_fingerprint, rj_entries = []\<rparr>"

datatype JournalError =
    InvalidSequence (js_expected: nat) (js_actual: nat)
  | InvalidFormat string
  | InvalidEvent string

fun validate_entries :: "nat \<Rightarrow> JournalEntry list \<Rightarrow> JournalError option" where
  "validate_entries index [] = None"
| "validate_entries index (entry # rest) =
     (if je_sequence entry \<noteq> index + 1 then Some (InvalidSequence (index + 1) (je_sequence entry))
      else validate_entries (index + 1) rest)"

definition validate_structure :: "RuntimeJournal \<Rightarrow> JournalError option" where
  "validate_structure self =
     (if rj_format_version self \<noteq> JOURNAL_FORMAT_VERSION
      then Some (InvalidFormat (''unsupported journal format version: '' @ show_nat (rj_format_version self)))
      else validate_entries 0 (rj_entries self))"

fun display_JournalError :: "JournalError \<Rightarrow> string" where
  "display_JournalError (InvalidSequence expected actual) =
     ''journal sequence mismatch: expected '' @ show_nat expected @ '', found '' @ show_nat actual"
| "display_JournalError (InvalidFormat message) = ''invalid journal format: '' @ message"
| "display_JournalError (InvalidEvent message) = ''invalid journal event: '' @ message"

record DurableProjection =
  config_revisions :: "(ConfigRevisionId, ConfigRevisionSlot) btree_map"
  current_config_revision :: ConfigRevisionId
  sessions :: "(SessionId, SessionRecord) btree_map"
  executions :: "(ExecutionId, ExecutionRecord) btree_map"
  attempt_groups :: "(AttemptGroupId, AttemptGroup) btree_map"
  orchestration_decisions :: "(ExecutionId, OrchestrationFailureDecisionRecord) btree_map"
  orchestration_interfaces :: "(ExecutionId, ExecutionId) btree_map"
  orchestration_nodes :: "(ExecutionId, OrchestrationNodeId) btree_map"
  resolved_routes :: "(ExecutionId, ResolvedRoute) btree_map"
  read_sets :: "(ExecutionId, ExecutionReadSet) btree_map"
  events :: "ExecutionEvent list"
  next_config_revision :: nat
  next_session :: nat
  next_execution :: nat
  next_attempt_group :: nat
  next_event :: nat
  next_tool_call :: nat

fun is_terminal :: "ExecutionState \<Rightarrow> bool" where
  "is_terminal Completed = True"
| "is_terminal Failed = True"
| "is_terminal Cancelled = True"
| "is_terminal Interrupted = True"
| "is_terminal Pending = False"
| "is_terminal Running = False"

section \<open>Materialised input of a routed root execution\<close>

record AccumulatedMessage =
  am_execution_id :: ExecutionId
  am_role :: string
  am_content :: string

definition replayed_event :: "DurableProjection \<Rightarrow> ExecutionSummary \<Rightarrow> ExecutionEvent \<Rightarrow> bool" where
  "replayed_event state execution event \<longleftrightarrow>
     ev_session_id event = x_session_id execution \<and> ev_execution_id event \<noteq> x_id execution \<and>
     (case bt_get (executions state) (ev_execution_id event) of
        None \<Rightarrow> False
      | Some previous \<Rightarrow>
          x_kind (xr_summary previous) = RootKind \<and> x_parent_execution (xr_summary previous) = None)"

definition accumulate_message :: "AccumulatedMessage list \<Rightarrow> ExecutionEvent \<Rightarrow> AccumulatedMessage list" where
  "accumulate_message messages event =
     (case ev_kind event of
        UserInput body \<Rightarrow>
          messages @ [\<lparr>am_execution_id = ev_execution_id event, am_role = ''user'', am_content = body\<rparr>]
      | AssistantContentDelta body \<Rightarrow>
          if messages \<noteq> [] \<and> am_execution_id (last messages) = ev_execution_id event \<and>
             am_role (last messages) = ''assistant''
          then butlast messages @
            [(last messages)\<lparr>am_content := am_content (last messages) @ body\<rparr>]
          else messages @
            [\<lparr>am_execution_id = ev_execution_id event, am_role = ''assistant'', am_content = body\<rparr>]
      | _ \<Rightarrow> messages)"

definition replay_messages :: "DurableProjection \<Rightarrow> ExecutionSummary \<Rightarrow> AccumulatedMessage list" where
  "replay_messages state execution =
     foldl accumulate_message [] (filter (replayed_event state execution) (events state))"

definition materialize_routed_input ::
  "Externals \<Rightarrow> DurableProjection \<Rightarrow> ExecutionSummary \<Rightarrow> string \<Rightarrow> string" where
  "materialize_routed_input E state execution input =
     (let messages = replay_messages state execution in
      if messages = [] then input
      else let replay = to_json E (JArray (map (\<lambda>message.
             JObject [(''role'', JString (am_role message)), (''content'', JString (am_content message))])
             messages))
        in ''Continue the same Phenix conversation. The prior user/assistant messages are serialized as JSON in chronological order. Treat each entry according to its `role`, then answer the current user message.'' @
           nl @ nl @ ''Prior conversation:'' @ nl @ replay @ nl @ nl @ ''Current user message:'' @ nl @ input)"

definition materialize_execution_payload ::
  "Externals \<Rightarrow> DurableProjection \<Rightarrow> ExecutionSummary \<Rightarrow> JournalExecutionPayload \<Rightarrow> ExecutionPayload" where
  "materialize_execution_payload E state execution payload =
     (case payload of
        JInvocation input authority \<Rightarrow>
          if x_kind execution = RootKind \<and> is_Routed (x_target execution)
          then InvocationPayload (materialize_routed_input E state execution input)
          else execution_payload payload
      | JOrchestration objective authority \<Rightarrow> execution_payload payload)"

section \<open>Applying an event\<close>

type_synonym applied = "(JournalError, unit) outcome \<times> DurableProjection"

definition invalid :: "string \<Rightarrow> DurableProjection \<Rightarrow> applied" where
  "invalid reason st = (Err (InvalidEvent reason), st)"

definition applied :: "DurableProjection \<Rightarrow> applied" where
  "applied st = (Ok (), st)"

definition apply_revision_activated ::
  "ConfigRevisionId \<Rightarrow> ConfigRevisionFingerprint \<Rightarrow> DurableProjection \<Rightarrow> applied" where
  "apply_revision_activated revision fprint st =
     (let expected = numbered ''config-'' (next_config_revision st + 1) in
      if revision \<noteq> expected \<or> bt_contains_key (config_revisions st) revision
      then invalid (msg_revision_activation expected revision) st
      else applied (st\<lparr>
        config_revisions := bt_insert revision
          \<lparr>slot_fingerprint = fprint, slot_configuration = None\<rparr> (config_revisions st),
        current_config_revision := revision,
        next_config_revision := next_config_revision st + 1\<rparr>))"

definition session_workspace_error ::
  "SessionSummary \<Rightarrow> DurableProjection \<Rightarrow> string option" where
  "session_workspace_error session st =
     (case s_parent_session session of
        Some parent_id \<Rightarrow>
          (case bt_get (sessions st) parent_id of
             None \<Rightarrow> Some (msg_session_unknown_parent (s_id session) parent_id)
           | Some parent \<Rightarrow>
               if s_workspace_id (sn_summary parent) \<noteq> s_workspace_id session
               then Some (msg_session_parent_workspace (s_id session) (s_workspace_id session)
                            (s_workspace_id (sn_summary parent)))
               else None)
      | None \<Rightarrow>
          (case bt_values (sessions st) of
             [] \<Rightarrow> None
           | existing # _ \<Rightarrow>
               if s_workspace_id (sn_summary existing) \<noteq> s_workspace_id session
               then Some (msg_session_root_workspace (s_id session) (s_workspace_id session)
                            (s_workspace_id (sn_summary existing)))
               else None))"

definition apply_session_created :: "SessionSummary \<Rightarrow> DurableProjection \<Rightarrow> applied" where
  "apply_session_created session st =
     (let expected_id = numbered ''session-'' (next_session st + 1) in
      if \<not> bt_contains_key (config_revisions st) (s_config_revision session)
      then invalid (msg_session_unknown_revision (s_id session) (s_config_revision session)) st
      else if s_state session \<noteq> Active then invalid (msg_session_not_active (s_id session)) st
      else if s_id session \<noteq> expected_id then invalid (msg_session_cursor expected_id (s_id session)) st
      else case session_workspace_error session st of
        Some reason \<Rightarrow> invalid reason st
      | None \<Rightarrow>
          if bt_contains_key (sessions st) (s_id session)
          then invalid (msg_session_duplicate (s_id session)) st
          else applied (st\<lparr>
            sessions := bt_insert (s_id session) \<lparr>sn_summary = session\<rparr> (sessions st),
            next_session := next_session st + 1\<rparr>))"

definition update_session ::
  "SessionId \<Rightarrow> (SessionSummary \<Rightarrow> SessionSummary) \<Rightarrow> DurableProjection \<Rightarrow> DurableProjection" where
  "update_session session_id f st =
     st\<lparr>sessions := bt_modify session_id (\<lambda>r. r\<lparr>sn_summary := f (sn_summary r)\<rparr>) (sessions st)\<rparr>"

definition apply_session_rebased :: "SessionId \<Rightarrow> ConfigRevisionId \<Rightarrow> DurableProjection \<Rightarrow> applied" where
  "apply_session_rebased session_id config_revision st =
     (if \<not> bt_contains_key (config_revisions st) config_revision
      then invalid (msg_rebase_unknown_revision session_id config_revision) st
      else case bt_get (sessions st) session_id of
        None \<Rightarrow> invalid (msg_rebase_unknown_session session_id) st
      | Some session \<Rightarrow>
          if s_state (sn_summary session) = Closed then invalid (msg_rebase_closed session_id) st
          else applied (update_session session_id (\<lambda>s. s\<lparr>s_config_revision := config_revision\<rparr>) st))"

definition apply_session_renamed :: "SessionId \<Rightarrow> string \<Rightarrow> DurableProjection \<Rightarrow> applied" where
  "apply_session_renamed session_id name st =
     (case bt_get (sessions st) session_id of
        None \<Rightarrow> invalid (msg_rename_unknown_session session_id) st
      | Some session \<Rightarrow>
          if s_state (sn_summary session) = Closed then invalid (msg_rename_closed session_id) st
          else applied (update_session session_id (\<lambda>s. s\<lparr>s_name := Some name\<rparr>) st))"

definition apply_session_target_changed :: "SessionId \<Rightarrow> ExecutionTarget \<Rightarrow> DurableProjection \<Rightarrow> applied" where
  "apply_session_target_changed session_id target st =
     (case bt_get (sessions st) session_id of
        None \<Rightarrow> invalid (msg_target_unknown_session session_id) st
      | Some session \<Rightarrow>
          if s_state (sn_summary session) = Closed then invalid (msg_target_closed session_id) st
          else applied (update_session session_id (\<lambda>s. s\<lparr>s_default_target := target\<rparr>) st))"

definition session_has_active_execution :: "SessionId \<Rightarrow> DurableProjection \<Rightarrow> bool" where
  "session_has_active_execution session_id st \<longleftrightarrow>
     (\<exists>execution\<in>set (bt_values (executions st)).
        x_session_id (xr_summary execution) = session_id \<and>
        \<not> is_terminal (x_state (xr_summary execution)))"

definition apply_session_closed :: "SessionId \<Rightarrow> DurableProjection \<Rightarrow> applied" where
  "apply_session_closed session_id st =
     (case bt_get (sessions st) session_id of
        None \<Rightarrow> invalid (msg_close_unknown_session session_id) st
      | Some session \<Rightarrow>
          if s_state (sn_summary session) = Closed then invalid (msg_close_twice session_id) st
          else if session_has_active_execution session_id st
          then invalid (msg_close_active_executions session_id) st
          else applied (update_session session_id (\<lambda>s. s\<lparr>s_state := Closed\<rparr>) st))"

text \<open>The checks of a new execution against its parent, and the revision it is pinned to.\<close>

definition execution_parent_check ::
  "ExecutionSummary \<Rightarrow> JournalExecutionPayload \<Rightarrow> ConfigRevisionId \<Rightarrow> DurableProjection \<Rightarrow>
   string + ConfigRevisionId" where
  "execution_parent_check execution payload session_revision st =
     (case x_parent_execution execution of
        None \<Rightarrow> Inr session_revision
      | Some parent_id \<Rightarrow>
          (case bt_get (executions st) parent_id of
             None \<Rightarrow> Inl (msg_execution_unknown_parent (x_id execution) parent_id)
           | Some parent \<Rightarrow>
               (case x_callable execution of
                  Some callable \<Rightarrow>
                    if callable \<notin> au_callables (xr_authority parent)
                    then Inl (msg_execution_not_delegated (x_id execution) callable parent_id)
                    else if \<not> permits (xr_authority parent) (payload_authority payload)
                    then Inl (msg_execution_authority_exceeds (x_id execution) parent_id)
                    else Inr (xr_config_revision parent)
                | None \<Rightarrow>
                    if \<not> permits (xr_authority parent) (payload_authority payload)
                    then Inl (msg_execution_authority_exceeds (x_id execution) parent_id)
                    else Inr (xr_config_revision parent))))"

definition apply_execution_created ::
  "Externals \<Rightarrow> ExecutionSummary \<Rightarrow> JournalExecutionPayload \<Rightarrow> DurableProjection \<Rightarrow> applied" where
  "apply_execution_created E execution payload st =
     (case bt_get (sessions st) (x_session_id execution) of
        None \<Rightarrow> invalid (msg_execution_unknown_session (x_id execution) (x_session_id execution)) st
      | Some session \<Rightarrow>
          let expected_id = numbered ''execution-'' (next_execution st + 1) in
          if s_state (sn_summary session) = Closed
          then invalid (msg_execution_closed_session (x_id execution) (x_session_id execution)) st
          else if x_id execution \<noteq> expected_id
          then invalid (msg_execution_cursor expected_id (x_id execution)) st
          else case execution_parent_check execution payload (s_config_revision (sn_summary session)) st of
            Inl reason \<Rightarrow> invalid reason st
          | Inr config_revision \<Rightarrow>
              if bt_contains_key (executions st) (x_id execution)
              then invalid (msg_execution_duplicate (x_id execution)) st
              else applied (st\<lparr>
                executions := bt_insert (x_id execution)
                  \<lparr>xr_summary = execution,
                   xr_payload = materialize_execution_payload E st execution payload,
                   xr_authority = payload_authority payload,
                   xr_config_revision = config_revision\<rparr> (executions st),
                next_execution := next_execution st + 1\<rparr>))"

definition apply_state_changed :: "ExecutionId \<Rightarrow> ExecutionState \<Rightarrow> DurableProjection \<Rightarrow> applied" where
  "apply_state_changed execution_id next st =
     (case bt_get (executions st) execution_id of
        None \<Rightarrow> invalid (msg_state_unknown_execution execution_id) st
      | Some execution \<Rightarrow>
          if is_terminal (x_state (xr_summary execution)) then invalid (msg_state_terminal execution_id) st
          else applied (st\<lparr>executions := bt_modify execution_id
            (\<lambda>r. r\<lparr>xr_summary := (xr_summary r)\<lparr>x_state := next\<rparr>\<rparr>) (executions st)\<rparr>))"

definition group_owns :: "ExecutionId \<Rightarrow> DurableProjection \<Rightarrow> bool" where
  "group_owns execution_id st \<longleftrightarrow>
     (\<exists>grp\<in>set (bt_values (attempt_groups st)). contains_execution execution_id grp)"

definition attempt_matches ::
  "ExecutionRecord \<Rightarrow> ExecutionState \<Rightarrow> AttemptGroup \<Rightarrow> bool" where
  "attempt_matches execution state grp \<longleftrightarrow>
     x_kind (xr_summary execution) = AgentKind \<and> x_state (xr_summary execution) = state \<and>
     x_parent_execution (xr_summary execution) = Some (ag_parent_execution grp) \<and>
     x_callable (xr_summary execution) = Some (ag_callable grp)"

definition apply_group_created :: "AttemptGroup \<Rightarrow> DurableProjection \<Rightarrow> applied" where
  "apply_group_created grp st =
     (let expected_id = numbered ''attempt-group-'' (next_attempt_group st + 1);
          first_execution_id = hd (ag_attempts grp);
          first_failure = hd (ag_failures grp) in
      if ag_id grp \<noteq> expected_id then invalid (msg_group_cursor expected_id (ag_id grp)) st
      else if length (ag_attempts grp) \<noteq> 1 \<or> length (ag_failures grp) \<noteq> 1
      then invalid (msg_group_shape (ag_id grp)) st
      else if fa_execution_id first_failure \<noteq> first_execution_id \<or> fa_attempt first_failure \<noteq> 1
      then invalid (msg_group_first_failure (ag_id grp)) st
      else case bt_get (executions st) first_execution_id of
        None \<Rightarrow> invalid (msg_group_unknown_execution (ag_id grp) first_execution_id) st
      | Some execution \<Rightarrow>
          if \<not> attempt_matches execution Failed grp then invalid (msg_group_mismatch (ag_id grp)) st
          else if group_owns first_execution_id st then invalid (msg_group_overlap first_execution_id) st
          else let st' = st\<lparr>attempt_groups := bt_insert (ag_id grp) grp (attempt_groups st)\<rparr> in
            if bt_contains_key (attempt_groups st) (ag_id grp)
            then invalid (msg_group_duplicate (ag_id grp)) st'
            else applied (st'\<lparr>next_attempt_group := next_attempt_group st + 1\<rparr>))"

definition apply_failure_recorded ::
  "AttemptGroupId \<Rightarrow> FailureAttemptSummary \<Rightarrow> DurableProjection \<Rightarrow> applied" where
  "apply_failure_recorded group_id failure st =
     (case bt_get (attempt_groups st) group_id of
        None \<Rightarrow> invalid (msg_failure_unknown_group group_id) st
      | Some grp \<Rightarrow>
          if latest_execution grp \<noteq> Some (fa_execution_id failure)
          then invalid (msg_failure_not_latest (fa_execution_id failure) group_id) st
          else case attempt_for_execution (fa_execution_id failure) grp of
            None \<Rightarrow> (Panic ''latest execution belongs to its attempt group'', st)
          | Some expected_attempt \<Rightarrow>
              if fa_attempt failure \<noteq> expected_attempt
              then invalid (msg_failure_number (fa_execution_id failure) (fa_attempt failure) expected_attempt) st
              else if \<exists>existing\<in>set (ag_failures grp). fa_execution_id existing = fa_execution_id failure
              then invalid (msg_failure_twice (fa_execution_id failure)) st
              else case bt_get (executions st) (fa_execution_id failure) of
                None \<Rightarrow> invalid (msg_failure_unknown_execution (fa_execution_id failure)) st
              | Some execution \<Rightarrow>
                  if x_state (xr_summary execution) \<noteq> Failed
                  then invalid (msg_failure_not_failed (fa_execution_id failure)) st
                  else applied (st\<lparr>attempt_groups :=
                    bt_modify group_id (record_failure failure) (attempt_groups st)\<rparr>))"

definition apply_retry_started :: "AttemptGroupId \<Rightarrow> ExecutionId \<Rightarrow> DurableProjection \<Rightarrow> applied" where
  "apply_retry_started group_id execution_id st =
     (case bt_get (attempt_groups st) group_id of
        None \<Rightarrow> invalid (msg_retry_unknown_group group_id) st
      | Some grp \<Rightarrow>
          (case latest_execution grp of
             None \<Rightarrow> invalid (msg_retry_no_attempts group_id) st
           | Some previous \<Rightarrow>
               if \<not> (\<exists>failure\<in>set (ag_failures grp). fa_execution_id failure = previous)
               then invalid (msg_retry_before_failure group_id) st
               else if group_owns execution_id st then invalid (msg_group_overlap execution_id) st
               else case bt_get (executions st) execution_id of
                 None \<Rightarrow> invalid (msg_retry_unknown_execution execution_id) st
               | Some execution \<Rightarrow>
                   if \<not> attempt_matches execution Pending grp
                   then invalid (msg_retry_mismatch execution_id group_id) st
                   else applied (st\<lparr>attempt_groups :=
                     bt_modify group_id (record_retry execution_id) (attempt_groups st)\<rparr>)))"

definition running_orchestration :: "ExecutionRecord \<Rightarrow> bool" where
  "running_orchestration record \<longleftrightarrow>
     x_kind (xr_summary record) = OrchestrationKind \<and> x_state (xr_summary record) = Running"

definition agent_child :: "ExecutionRecord \<Rightarrow> ExecutionId \<Rightarrow> ExecutionState \<Rightarrow> bool" where
  "agent_child record parent state \<longleftrightarrow>
     x_parent_execution (xr_summary record) = Some parent \<and>
     x_kind (xr_summary record) = AgentKind \<and> x_state (xr_summary record) = state"

definition apply_interface_started ::
  "ExecutionId \<Rightarrow> ExecutionId \<Rightarrow> ExecutionId \<Rightarrow> DurableProjection \<Rightarrow> applied" where
  "apply_interface_started parent_execution failed_child interface_execution st =
     (if bt_contains_key (orchestration_interfaces st) failed_child
      then invalid (msg_interface_twice failed_child) st
      else case bt_get (executions st) parent_execution of
        None \<Rightarrow> invalid (msg_interface_unknown_parent parent_execution) st
      | Some parent \<Rightarrow>
          (case bt_get (executions st) failed_child of
             None \<Rightarrow> invalid (msg_interface_unknown_failed failed_child) st
           | Some failed \<Rightarrow>
               (case bt_get (executions st) interface_execution of
                  None \<Rightarrow> invalid (msg_interface_unknown_execution interface_execution) st
                | Some interface \<Rightarrow>
                    if \<not> running_orchestration parent \<or> \<not> agent_child failed parent_execution Failed \<or>
                       \<not> agent_child interface parent_execution Pending \<or>
                       interface_execution \<noteq> numbered ''execution-'' (next_execution st) \<or>
                       bt_contains_key (orchestration_nodes st) interface_execution
                    then invalid (msg_interface_binding failed_child) st
                    else applied (st\<lparr>orchestration_interfaces :=
                      bt_insert failed_child interface_execution (orchestration_interfaces st)\<rparr>))))"

definition decider_error ::
  "OrchestrationFailureDecisionRecord \<Rightarrow> DurableProjection \<Rightarrow> string option" where
  "decider_error decision st =
     (case fd_decider_execution decision of
        Some decider_id \<Rightarrow>
          if bt_get (orchestration_interfaces st) (fd_failed_child decision) \<noteq> Some decider_id
          then Some (msg_decider_not_bound decider_id (fd_failed_child decision))
          else (case bt_get (executions st) decider_id of
            None \<Rightarrow> Some (msg_decider_unknown decider_id)
          | Some decider \<Rightarrow>
              if x_parent_execution (xr_summary decider) \<noteq> Some (fd_parent_execution decision) \<or>
                 x_kind (xr_summary decider) \<noteq> AgentKind \<or>
                 x_state (xr_summary decider) \<notin> {Running, Completed}
              then Some (msg_decider_inactive decider_id) else None)
      | None \<Rightarrow> if fd_decision decision \<noteq> Fail then Some msg_decider_missing else None)"

definition recovery_error ::
  "OrchestrationFailureDecisionRecord \<Rightarrow> DurableProjection \<Rightarrow> string option" where
  "recovery_error decision st =
     (case recovery_execution (fd_decision decision) of
        None \<Rightarrow> None
      | Some recovery_id \<Rightarrow>
          (case bt_get (executions st) recovery_id of
             None \<Rightarrow> Some (msg_recovery_unknown recovery_id)
           | Some recovery \<Rightarrow>
               if recovery_id \<noteq> numbered ''execution-'' (next_execution st) \<or>
                  \<not> agent_child recovery (fd_parent_execution decision) Pending \<or>
                  bt_contains_key (orchestration_nodes st) recovery_id \<or>
                  recovery_id \<in> set (bt_values (orchestration_interfaces st)) \<or>
                  (\<exists>existing\<in>set (bt_values (orchestration_decisions st)).
                     recovery_execution (fd_decision existing) = Some recovery_id)
               then Some (msg_recovery_not_fresh recovery_id) else None))"

text \<open>The \<open>expect\<close> on the recovery execution repeats a lookup that has just succeeded.\<close>

definition backing_error ::
  "OrchestrationFailureDecisionRecord \<Rightarrow> ExecutionRecord \<Rightarrow> DurableProjection \<Rightarrow>
   (JournalError, unit) outcome" where
  "backing_error decision failed st =
     (case fd_decision decision of
        Retry execution_id \<Rightarrow>
          (case find (\<lambda>grp. contains_execution (fd_failed_child decision) grp \<and>
                     contains_execution execution_id grp) (bt_values (attempt_groups st)) of
             None \<Rightarrow> Err (InvalidEvent (msg_retry_not_backed (fd_failed_child decision)))
           | Some grp \<Rightarrow>
               if latest_execution grp \<noteq> Some execution_id
               then Err (InvalidEvent (msg_retry_not_latest execution_id)) else Ok ())
      | ChooseAnotherChild execution_id \<Rightarrow>
          (case bt_get (executions st) execution_id of
             None \<Rightarrow> Panic ''recovery reference validated above''
           | Some recovery \<Rightarrow>
               if x_callable (xr_summary recovery) = x_callable (xr_summary failed)
               then Err (InvalidEvent (msg_replacement_same_callable (fd_failed_child decision))) else Ok ())
      | Continue \<Rightarrow> Ok ()
      | Fail \<Rightarrow> Ok ())"

definition apply_decision_made ::
  "OrchestrationFailureDecisionRecord \<Rightarrow> DurableProjection \<Rightarrow> applied" where
  "apply_decision_made decision st =
     (let failed_child = fd_failed_child decision; parent_execution = fd_parent_execution decision in
      if bt_contains_key (orchestration_decisions st) failed_child
      then invalid (msg_decision_twice failed_child) st
      else case bt_get (executions st) parent_execution of
        None \<Rightarrow> invalid (msg_decision_unknown_parent parent_execution) st
      | Some parent \<Rightarrow>
          (case bt_get (executions st) failed_child of
             None \<Rightarrow> invalid (msg_decision_unknown_failed failed_child) st
           | Some failed \<Rightarrow>
               if \<not> running_orchestration parent \<or> \<not> agent_child failed parent_execution Failed
               then invalid (msg_decision_relation failed_child) st
               else case decider_error decision st of
                 Some reason \<Rightarrow> invalid reason st
               | None \<Rightarrow>
                   (case recovery_error decision st of
                      Some reason \<Rightarrow> invalid reason st
                    | None \<Rightarrow>
                        (case backing_error decision failed st of
                           Ok _ \<Rightarrow> applied (st\<lparr>orchestration_decisions :=
                             bt_insert failed_child decision (orchestration_decisions st)\<rparr>)
                         | r \<Rightarrow> (r, st)))))"

definition node_started ::
  "ExecutionId \<Rightarrow> OrchestrationNodeId \<Rightarrow> DurableProjection \<Rightarrow> bool" where
  "node_started execution_id node_id st \<longleftrightarrow>
     (\<exists>(child_id, existing_node)\<in>set (bt_entries (orchestration_nodes st)).
        existing_node = node_id \<and>
        Option.bind (bt_get (executions st) child_id) (\<lambda>r. x_parent_execution (xr_summary r)) =
          Some execution_id)"

definition apply_node_started ::
  "ExecutionId \<Rightarrow> OrchestrationNodeId \<Rightarrow> ExecutionId \<Rightarrow> DurableProjection \<Rightarrow> applied" where
  "apply_node_started execution_id node_id child_execution_id st =
     (case bt_get (executions st) execution_id of
        None \<Rightarrow> invalid (msg_node_unknown_execution execution_id) st
      | Some parent \<Rightarrow>
          if x_kind (xr_summary parent) \<noteq> OrchestrationKind
          then invalid (msg_node_not_orchestration execution_id) st
          else case bt_get (executions st) child_execution_id of
            None \<Rightarrow> invalid (msg_node_unknown_child node_id child_execution_id) st
          | Some child \<Rightarrow>
              if x_parent_execution (xr_summary child) \<noteq> Some execution_id
              then invalid (msg_node_wrong_parent node_id child_execution_id) st
              else if node_started execution_id node_id st then invalid (msg_node_twice execution_id node_id) st
              else if bt_contains_key (orchestration_nodes st) child_execution_id
              then invalid (msg_node_child_twice child_execution_id) st
              else applied (st\<lparr>orchestration_nodes :=
                bt_insert child_execution_id node_id (orchestration_nodes st)\<rparr>))"

definition fixed_route_mismatch :: "ResolvedRoute \<Rightarrow> bool" where
  "fixed_route_mismatch route =
     (case ro_requested_target route of
        Fixed expected \<Rightarrow> ro_model route \<noteq> expected
      | Routed profile \<Rightarrow> False)"

definition apply_invocation_resolved :: "ExecutionId \<Rightarrow> ResolvedRoute \<Rightarrow> DurableProjection \<Rightarrow> applied" where
  "apply_invocation_resolved execution_id route st =
     (case bt_get (executions st) execution_id of
        None \<Rightarrow> invalid (msg_route_unknown_execution execution_id) st
      | Some execution \<Rightarrow>
          if \<not> is_InvocationPayload (xr_payload execution)
          then invalid (msg_route_not_invocation execution_id) st
          else if ro_config_revision route \<noteq> xr_config_revision execution
          then invalid (msg_route_revision execution_id (ro_config_revision route)
                 (xr_config_revision execution)) st
          else if ro_requested_target route \<noteq> x_target (xr_summary execution)
          then invalid (msg_route_target execution_id) st
          else if fixed_route_mismatch route then invalid (msg_route_fixed_model execution_id) st
          else if bt_contains_key (resolved_routes st) execution_id
          then invalid (msg_route_twice execution_id) st
          else applied (st\<lparr>resolved_routes := bt_insert execution_id route (resolved_routes st)\<rparr>))"

definition apply_checkpoint_captured :: "ExecutionId \<Rightarrow> WorkspaceId \<Rightarrow> DurableProjection \<Rightarrow> applied" where
  "apply_checkpoint_captured execution_id workspace_id st =
     (case bt_get (executions st) execution_id of
        None \<Rightarrow> invalid (msg_checkpoint_unknown_execution execution_id) st
      | Some execution \<Rightarrow>
          if x_state (xr_summary execution) \<noteq> Pending
          then invalid (msg_checkpoint_not_pending execution_id) st
          else if au_filesystem (xr_authority execution) \<noteq> FsWrite
          then invalid (msg_checkpoint_not_writer execution_id) st
          else case bt_get (sessions st) (x_session_id (xr_summary execution)) of
            None \<Rightarrow> invalid (msg_checkpoint_unknown_session execution_id (x_session_id (xr_summary execution))) st
          | Some session \<Rightarrow>
              if s_workspace_id (sn_summary session) \<noteq> workspace_id
              then invalid (msg_checkpoint_workspace execution_id workspace_id
                     (s_workspace_id (sn_summary session))) st
              else applied st)"

definition apply_file_observed :: "ExecutionId \<Rightarrow> FileObservation \<Rightarrow> DurableProjection \<Rightarrow> applied" where
  "apply_file_observed execution_id observation st =
     (case bt_get (executions st) execution_id of
        None \<Rightarrow> invalid (msg_observation_unknown_execution execution_id) st
      | Some execution \<Rightarrow>
          if x_state (xr_summary execution) \<noteq> Running
          then invalid (msg_observation_not_running execution_id) st
          else applied (st\<lparr>read_sets := bt_insert execution_id
            (observe observation
              (case bt_get (read_sets st) execution_id of
                 None \<Rightarrow> read_set_new execution_id | Some rs \<Rightarrow> rs)) (read_sets st)\<rparr>))"

definition apply_frontend_event :: "ExecutionEvent \<Rightarrow> DurableProjection \<Rightarrow> applied" where
  "apply_frontend_event event st =
     (let expected = next_event st + 1 in
      if ev_sequence event \<noteq> expected then invalid (msg_event_sequence expected (ev_sequence event)) st
      else case bt_get (executions st) (ev_execution_id event) of
        None \<Rightarrow> invalid (msg_event_unknown_execution (ev_sequence event) (ev_execution_id event)) st
      | Some execution \<Rightarrow>
          if x_session_id (xr_summary execution) \<noteq> ev_session_id event
          then invalid (msg_event_session (ev_sequence event) (ev_execution_id event)) st
          else case ev_kind event of
            ToolCallStarted tool_call_id callable \<Rightarrow>
              let expected_id = numbered ''tool-call-'' (next_tool_call st + 1) in
              if tool_call_id \<noteq> expected_id
              then invalid (msg_tool_call_cursor expected_id tool_call_id) st
              else applied (st\<lparr>next_tool_call := next_tool_call st + 1,
                events := events st @ [event], next_event := ev_sequence event\<rparr>)
          | _ \<Rightarrow> applied (st\<lparr>events := events st @ [event], next_event := ev_sequence event\<rparr>))"

definition apply_domain_event :: "Externals \<Rightarrow> DomainEvent \<Rightarrow> DurableProjection \<Rightarrow> applied" where
  "apply_domain_event E event =
     (case event of
        ConfigurationRevisionActivated revision fprint \<Rightarrow> apply_revision_activated revision fprint
      | SessionCreated session \<Rightarrow> apply_session_created session
      | SessionConfigRebased session_id config_revision \<Rightarrow> apply_session_rebased session_id config_revision
      | SessionRenamed session_id name \<Rightarrow> apply_session_renamed session_id name
      | SessionTargetChanged session_id target \<Rightarrow> apply_session_target_changed session_id target
      | SessionClosed session_id \<Rightarrow> apply_session_closed session_id
      | ExecutionCreated execution payload \<Rightarrow> apply_execution_created E execution payload
      | ExecutionStateChanged execution_id state \<Rightarrow> apply_state_changed execution_id state
      | AttemptGroupCreated grp \<Rightarrow> apply_group_created grp
      | AttemptFailureRecorded group_id failure \<Rightarrow> apply_failure_recorded group_id failure
      | AttemptRetryStarted group_id execution_id \<Rightarrow> apply_retry_started group_id execution_id
      | OrchestrationFailureInterfaceStarted parent_execution failed_child interface_execution \<Rightarrow>
          apply_interface_started parent_execution failed_child interface_execution
      | OrchestrationDecisionMade decision \<Rightarrow> apply_decision_made decision
      | OrchestrationNodeStarted execution_id node_id child_execution_id \<Rightarrow>
          apply_node_started execution_id node_id child_execution_id
      | InvocationResolved execution_id route \<Rightarrow> apply_invocation_resolved execution_id route
      | WorkspaceCheckpointCaptured execution_id workspace_id files \<Rightarrow>
          apply_checkpoint_captured execution_id workspace_id
      | WorkspaceFileObserved execution_id observation \<Rightarrow> apply_file_observed execution_id observation
      | FrontendEvent event \<Rightarrow> apply_frontend_event event)"

end
