(* ===== verification/Durable.thy ===== *)
theory Durable
  imports Journal
begin

text \<open>
  The durable projection as a state machine over domain events.

  \<open>evolves\<close> says how a projection may change: executions keep their identity, payload, authority
  and pinned revision, terminal states are final, decisions, interfaces, node assignments and
  routes are never revised, attempt groups and the event log only grow. \<open>durable_inv\<close> is the
  well-formedness invariant. The lemmas show that every event the code accepts makes the
  projection evolve and keeps the invariant, and that a refused event changes nothing.
\<close>

section \<open>Numbered identifiers\<close>

definition ident_number :: "string \<Rightarrow> 'k ident \<Rightarrow> nat" where
  "ident_number prefix i = read_nat (drop (length prefix) (as_str i))"

lemma ident_number_numbered [simp]: "ident_number prefix (numbered prefix n) = n"
  by (simp add: ident_number_def numbered_def read_show_nat)

definition issued :: "string \<Rightarrow> nat \<Rightarrow> 'k ident \<Rightarrow> bool" where
  "issued prefix n i \<longleftrightarrow> (\<exists>m. 1 \<le> m \<and> m \<le> n \<and> i = numbered prefix m)"

lemma issued_Suc: "issued prefix (Suc n) i \<longleftrightarrow> issued prefix n i \<or> i = numbered prefix (Suc n)"
  by (auto simp: issued_def le_Suc_eq)

lemma issued_fresh: "\<not> issued prefix n (numbered prefix (Suc n))"
  by (auto simp: issued_def)

lemma issued_number: "issued prefix n i \<Longrightarrow> ident_number prefix i \<le> n \<and> i = numbered prefix (ident_number prefix i)"
  by (auto simp: issued_def)

abbreviation xnum :: "ExecutionId \<Rightarrow> nat" where
  "xnum \<equiv> ident_number ''execution-''"

section \<open>How a projection evolves\<close>

definition same_execution :: "ExecutionRecord \<Rightarrow> ExecutionRecord \<Rightarrow> bool" where
  "same_execution r r' \<longleftrightarrow>
     x_id (xr_summary r') = x_id (xr_summary r) \<and>
     x_session_id (xr_summary r') = x_session_id (xr_summary r) \<and>
     x_parent_execution (xr_summary r') = x_parent_execution (xr_summary r) \<and>
     x_kind (xr_summary r') = x_kind (xr_summary r) \<and>
     x_callable (xr_summary r') = x_callable (xr_summary r) \<and>
     x_target (xr_summary r') = x_target (xr_summary r) \<and>
     xr_payload r' = xr_payload r \<and> xr_authority r' = xr_authority r \<and>
     xr_config_revision r' = xr_config_revision r \<and>
     (is_terminal (x_state (xr_summary r)) \<longrightarrow> x_state (xr_summary r') = x_state (xr_summary r))"

definition same_session :: "SessionRecord \<Rightarrow> SessionRecord \<Rightarrow> bool" where
  "same_session r r' \<longleftrightarrow>
     s_id (sn_summary r') = s_id (sn_summary r) \<and>
     s_parent_session (sn_summary r') = s_parent_session (sn_summary r) \<and>
     s_workspace_id (sn_summary r') = s_workspace_id (sn_summary r) \<and>
     (s_state (sn_summary r) = Closed \<longrightarrow> r' = r)"

definition same_group :: "AttemptGroup \<Rightarrow> AttemptGroup \<Rightarrow> bool" where
  "same_group g g' \<longleftrightarrow>
     ag_id g' = ag_id g \<and> ag_parent_execution g' = ag_parent_execution g \<and>
     ag_callable g' = ag_callable g \<and> ag_goal g' = ag_goal g \<and>
     (\<exists>more. ag_attempts g' = ag_attempts g @ more) \<and>
     (\<exists>more. ag_failures g' = ag_failures g @ more)"

definition same_slot :: "ConfigRevisionSlot \<Rightarrow> ConfigRevisionSlot \<Rightarrow> bool" where
  "same_slot s s' \<longleftrightarrow> slot_fingerprint s' = slot_fingerprint s \<and>
     (\<forall>c. slot_configuration s = Some c \<longrightarrow> slot_configuration s' = Some c)"

definition same_read_set :: "ExecutionReadSet \<Rightarrow> ExecutionReadSet \<Rightarrow> bool" where
  "same_read_set r r' \<longleftrightarrow> rs_execution_id r' = rs_execution_id r \<and>
     bt_get (rs_files r) \<subseteq>\<^sub>m bt_get (rs_files r')"

text \<open>Every entry of a map persists, up to a relation between the old and the new value.\<close>

definition persists :: "('v \<Rightarrow> 'v \<Rightarrow> bool) \<Rightarrow> ('k::linorder, 'v) btree_map \<Rightarrow> ('k, 'v) btree_map \<Rightarrow> bool" where
  "persists R m m' \<longleftrightarrow> (\<forall>k v. bt_get m k = Some v \<longrightarrow> (\<exists>v'. bt_get m' k = Some v' \<and> R v v'))"

definition evolves :: "DurableProjection \<Rightarrow> DurableProjection \<Rightarrow> bool" where
  "evolves st st' \<longleftrightarrow>
     persists same_slot (config_revisions st) (config_revisions st') \<and>
     persists same_session (sessions st) (sessions st') \<and>
     persists same_execution (executions st) (executions st') \<and>
     persists same_group (attempt_groups st) (attempt_groups st') \<and>
     persists (=) (orchestration_decisions st) (orchestration_decisions st') \<and>
     persists (=) (orchestration_interfaces st) (orchestration_interfaces st') \<and>
     persists (=) (orchestration_nodes st) (orchestration_nodes st') \<and>
     persists (=) (resolved_routes st) (resolved_routes st') \<and>
     persists same_read_set (read_sets st) (read_sets st') \<and>
     (\<exists>more. events st' = events st @ more) \<and>
     next_config_revision st \<le> next_config_revision st' \<and> next_session st \<le> next_session st' \<and>
     next_execution st \<le> next_execution st' \<and> next_attempt_group st \<le> next_attempt_group st' \<and>
     next_event st \<le> next_event st' \<and> next_tool_call st \<le> next_tool_call st'"

lemma persists_refl: "(\<And>v. R v v) \<Longrightarrow> persists R m m"
  by (simp add: persists_def)

lemma persists_trans:
  "(\<And>u v w. R u v \<Longrightarrow> R v w \<Longrightarrow> R u w) \<Longrightarrow> persists R m m' \<Longrightarrow> persists R m' m'' \<Longrightarrow> persists R m m''"
  unfolding persists_def by meson

lemma persists_insert:
  assumes "\<And>v. R v v" and "\<And>w. bt_get m k = Some w \<Longrightarrow> R w v"
  shows "persists R m (bt_insert k v m)"
  using assms by (auto simp: persists_def)

lemma persists_modify: "(\<And>v. R v v) \<Longrightarrow> (\<And>v. bt_get m k = Some v \<Longrightarrow> R v (f v)) \<Longrightarrow> persists R m (bt_modify k f m)"
  by (auto simp: persists_def bt_get_modify)

lemma persistsD: "persists R m m' \<Longrightarrow> bt_get m k = Some v \<Longrightarrow> \<exists>v'. bt_get m' k = Some v' \<and> R v v'"
  by (simp add: persists_def)

lemma persists_eqD: "persists (=) m m' \<Longrightarrow> bt_get m k = Some v \<Longrightarrow> bt_get m' k = Some v"
  by (auto simp: persists_def)

lemma persists_contains: "persists R m m' \<Longrightarrow> bt_contains_key m k \<Longrightarrow> bt_contains_key m' k"
  by (fastforce simp: persists_def bt_contains_key_def)

lemma same_refl:
  "same_execution r r" "same_session s s" "same_group g g" "same_slot c c" "same_read_set o' o'"
  by (simp_all add: same_execution_def same_session_def same_group_def same_slot_def same_read_set_def)

lemma same_execution_trans: "same_execution a b \<Longrightarrow> same_execution b c \<Longrightarrow> same_execution a c"
  unfolding same_execution_def by metis

lemma same_session_trans: "same_session a b \<Longrightarrow> same_session b c \<Longrightarrow> same_session a c"
  unfolding same_session_def by metis

lemma same_group_trans: "same_group a b \<Longrightarrow> same_group b c \<Longrightarrow> same_group a c"
  by (auto simp: same_group_def)

lemma same_slot_trans: "same_slot a b \<Longrightarrow> same_slot b c \<Longrightarrow> same_slot a c"
  unfolding same_slot_def by metis

lemma same_read_set_trans: "same_read_set a b \<Longrightarrow> same_read_set b c \<Longrightarrow> same_read_set a c"
  by (auto simp: same_read_set_def intro: map_le_trans)

lemma evolves_refl: "evolves st st"
  by (simp add: evolves_def persists_refl same_refl)

lemma evolves_trans:
  assumes "evolves a b" and "evolves b c"
  shows "evolves a c"
proof -
  have "(\<exists>more. events c = events a @ more)"
    using assms by (auto simp: evolves_def)
  then show ?thesis
    using assms unfolding evolves_def
    by (auto intro: persists_trans [rotated] same_execution_trans same_session_trans same_group_trans
        same_slot_trans same_read_set_trans)
qed

section \<open>What an accepted event does\<close>

lemmas outcome_defs = invalid_def applied_def Let_def

lemma revision_activated_Ok:
  assumes "apply_revision_activated revision fprint st = (Ok u, st')"
  shows "revision = numbered ''config-'' (Suc (next_config_revision st)) \<and>
     \<not> bt_contains_key (config_revisions st) revision \<and>
     st' = st\<lparr>config_revisions := bt_insert revision
          \<lparr>slot_fingerprint = fprint, slot_configuration = None\<rparr> (config_revisions st),
        current_config_revision := revision,
        next_config_revision := Suc (next_config_revision st)\<rparr>"
  using assms by (auto simp: apply_revision_activated_def outcome_defs split: if_splits)

lemma session_created_Ok:
  assumes "apply_session_created session st = (Ok u, st')"
  shows "bt_contains_key (config_revisions st) (s_config_revision session) \<and>
     s_state session = Active \<and>
     s_id session = numbered ''session-'' (Suc (next_session st)) \<and>
     session_workspace_error session st = None \<and>
     \<not> bt_contains_key (sessions st) (s_id session) \<and>
     st' = st\<lparr>sessions := bt_insert (s_id session) \<lparr>sn_summary = session\<rparr> (sessions st),
            next_session := Suc (next_session st)\<rparr>"
  using assms
  by (auto simp: apply_session_created_def outcome_defs split: if_splits option.splits)

text \<open>The three changes of an active session, with the field they change.\<close>

lemma session_update_Ok:
  "apply_session_rebased sid revn st = (Ok u, st') \<Longrightarrow>
     bt_contains_key (config_revisions st) revn \<and> (\<exists>r. bt_get (sessions st) sid = Some r \<and> s_state (sn_summary r) = Active) \<and>
     st' = update_session sid (\<lambda>s. s\<lparr>s_config_revision := revn\<rparr>) st"
  "apply_session_renamed sid name st = (Ok u, st') \<Longrightarrow>
     (\<exists>r. bt_get (sessions st) sid = Some r \<and> s_state (sn_summary r) = Active) \<and>
     st' = update_session sid (\<lambda>s. s\<lparr>s_name := Some name\<rparr>) st"
  "apply_session_target_changed sid target st = (Ok u, st') \<Longrightarrow>
     (\<exists>r. bt_get (sessions st) sid = Some r \<and> s_state (sn_summary r) = Active) \<and>
     st' = update_session sid (\<lambda>s. s\<lparr>s_default_target := target\<rparr>) st"
  "apply_session_closed sid st = (Ok u, st') \<Longrightarrow>
     (\<exists>r. bt_get (sessions st) sid = Some r \<and> s_state (sn_summary r) = Active) \<and>
     \<not> session_has_active_execution sid st \<and>
     st' = update_session sid (\<lambda>s. s\<lparr>s_state := Closed\<rparr>) st"
  by (auto simp: apply_session_rebased_def apply_session_renamed_def apply_session_target_changed_def
      apply_session_closed_def outcome_defs split: if_splits option.splits intro: SessionState.exhaust)

lemma parent_check_Inr:
  assumes "execution_parent_check execution payload rev0 st = Inr revn"
  shows "x_parent_execution execution = None \<Longrightarrow> revn = rev0"
    and "x_parent_execution execution = Some p \<Longrightarrow>
       \<exists>parent. bt_get (executions st) p = Some parent \<and> revn = xr_config_revision parent \<and>
         permits (xr_authority parent) (payload_authority payload) \<and>
         (\<forall>c. x_callable execution = Some c \<longrightarrow> c \<in> au_callables (xr_authority parent))"
  using assms by (auto simp: execution_parent_check_def split: option.splits if_splits)

lemma execution_created_Ok:
  assumes "apply_execution_created E execution payload st = (Ok u, st')"
  obtains session revn where
    "bt_get (sessions st) (x_session_id execution) = Some session"
    "s_state (sn_summary session) = Active"
    "x_id execution = numbered ''execution-'' (Suc (next_execution st))"
    "execution_parent_check execution payload (s_config_revision (sn_summary session)) st = Inr revn"
    "\<not> bt_contains_key (executions st) (x_id execution)"
    "st' = st\<lparr>executions := bt_insert (x_id execution)
                  \<lparr>xr_summary = execution,
                   xr_payload = materialize_execution_payload E st execution payload,
                   xr_authority = payload_authority payload,
                   xr_config_revision = revn\<rparr> (executions st),
                next_execution := Suc (next_execution st)\<rparr>"
  using assms
  by (auto simp: apply_execution_created_def outcome_defs split: if_splits option.splits sum.splits
      intro: SessionState.exhaust)

lemma state_changed_Ok:
  assumes "apply_state_changed x next st = (Ok u, st')"
  obtains r where "bt_get (executions st) x = Some r" "\<not> is_terminal (x_state (xr_summary r))"
    "st' = st\<lparr>executions := bt_modify x
            (\<lambda>r. r\<lparr>xr_summary := (xr_summary r)\<lparr>x_state := next\<rparr>\<rparr>) (executions st)\<rparr>"
  using assms by (auto simp: apply_state_changed_def outcome_defs split: if_splits option.splits)

lemma group_created_Ok:
  assumes "apply_group_created g st = (Ok u, st')"
  obtains x f r where "ag_id g = numbered ''attempt-group-'' (Suc (next_attempt_group st))"
    "ag_attempts g = [x]" "ag_failures g = [f]" "fa_execution_id f = x" "fa_attempt f = 1"
    "bt_get (executions st) x = Some r" "attempt_matches r Failed g" "\<not> group_owns x st"
    "\<not> bt_contains_key (attempt_groups st) (ag_id g)"
    "st' = st\<lparr>attempt_groups := bt_insert (ag_id g) g (attempt_groups st),
       next_attempt_group := Suc (next_attempt_group st)\<rparr>"
proof -
  have "\<exists>x f. ag_attempts g = [x] \<and> ag_failures g = [f]"
    using assms by (auto simp: apply_group_created_def outcome_defs length_Suc_conv split: if_splits)
  then obtain x f where "ag_attempts g = [x]" "ag_failures g = [f]" by blast
  with assms that show ?thesis
    by (auto simp: apply_group_created_def outcome_defs split: if_splits option.splits)
qed

lemma failure_recorded_Ok:
  assumes "apply_failure_recorded gid failure st = (Ok u, st')"
  obtains g r where "bt_get (attempt_groups st) gid = Some g"
    "latest_execution g = Some (fa_execution_id failure)"
    "attempt_for_execution (fa_execution_id failure) g = Some (fa_attempt failure)"
    "\<forall>f\<in>set (ag_failures g). fa_execution_id f \<noteq> fa_execution_id failure"
    "bt_get (executions st) (fa_execution_id failure) = Some r" "x_state (xr_summary r) = Failed"
    "st' = st\<lparr>attempt_groups := bt_modify gid (record_failure failure) (attempt_groups st)\<rparr>"
  using assms by (auto simp: apply_failure_recorded_def outcome_defs split: if_splits option.splits)

lemma retry_started_Ok:
  assumes "apply_retry_started gid x st = (Ok u, st')"
  obtains g previous r where "bt_get (attempt_groups st) gid = Some g"
    "latest_execution g = Some previous"
    "\<exists>f\<in>set (ag_failures g). fa_execution_id f = previous" "\<not> group_owns x st"
    "bt_get (executions st) x = Some r" "attempt_matches r Pending g"
    "st' = st\<lparr>attempt_groups := bt_modify gid (record_retry x) (attempt_groups st)\<rparr>"
  using assms by (auto simp: apply_retry_started_def outcome_defs split: if_splits option.splits)

lemma interface_started_Ok:
  assumes "apply_interface_started p f i st = (Ok u, st')"
  obtains rp rf ri where "\<not> bt_contains_key (orchestration_interfaces st) f"
    "bt_get (executions st) p = Some rp" "bt_get (executions st) f = Some rf"
    "bt_get (executions st) i = Some ri" "running_orchestration rp" "agent_child rf p Failed"
    "agent_child ri p Pending" "i = numbered ''execution-'' (next_execution st)"
    "\<not> bt_contains_key (orchestration_nodes st) i"
    "st' = st\<lparr>orchestration_interfaces := bt_insert f i (orchestration_interfaces st)\<rparr>"
  using assms by (auto simp: apply_interface_started_def outcome_defs split: if_splits option.splits)

lemma decision_made_Ok:
  assumes "apply_decision_made d st = (Ok u, st')"
  obtains rp rf where "\<not> bt_contains_key (orchestration_decisions st) (fd_failed_child d)"
    "bt_get (executions st) (fd_parent_execution d) = Some rp"
    "bt_get (executions st) (fd_failed_child d) = Some rf"
    "running_orchestration rp" "agent_child rf (fd_parent_execution d) Failed"
    "decider_error d st = None" "recovery_error d st = None" "backing_error d rf st = Ok ()"
    "st' = st\<lparr>orchestration_decisions := bt_insert (fd_failed_child d) d (orchestration_decisions st)\<rparr>"
  using assms
  by (auto simp: apply_decision_made_def outcome_defs split: if_splits option.splits outcome.splits)

lemma node_started_Ok:
  assumes "apply_node_started p n c st = (Ok u, st')"
  obtains rp rc where "bt_get (executions st) p = Some rp" "x_kind (xr_summary rp) = OrchestrationKind"
    "bt_get (executions st) c = Some rc" "x_parent_execution (xr_summary rc) = Some p"
    "\<not> node_started p n st" "\<not> bt_contains_key (orchestration_nodes st) c"
    "st' = st\<lparr>orchestration_nodes := bt_insert c n (orchestration_nodes st)\<rparr>"
  using assms by (auto simp: apply_node_started_def outcome_defs split: if_splits option.splits)

lemma invocation_resolved_Ok:
  assumes "apply_invocation_resolved x route st = (Ok u, st')"
  obtains r where "bt_get (executions st) x = Some r" "is_InvocationPayload (xr_payload r)"
    "ro_config_revision route = xr_config_revision r"
    "ro_requested_target route = x_target (xr_summary r)" "\<not> fixed_route_mismatch route"
    "\<not> bt_contains_key (resolved_routes st) x"
    "st' = st\<lparr>resolved_routes := bt_insert x route (resolved_routes st)\<rparr>"
  using assms by (auto simp: apply_invocation_resolved_def outcome_defs split: if_splits option.splits)

lemma checkpoint_captured_Ok:
  "apply_checkpoint_captured x ws st = (Ok u, st') \<Longrightarrow> st' = st"
  by (auto simp: apply_checkpoint_captured_def outcome_defs split: if_splits option.splits)

lemma file_observed_Ok:
  assumes "apply_file_observed x ob st = (Ok u, st')"
  obtains r where "bt_get (executions st) x = Some r" "x_state (xr_summary r) = Running"
    "st' = st\<lparr>read_sets := bt_insert x (observe ob
              (case bt_get (read_sets st) x of None \<Rightarrow> read_set_new x | Some rs \<Rightarrow> rs)) (read_sets st)\<rparr>"
  using assms by (auto simp: apply_file_observed_def outcome_defs split: if_splits option.splits)

definition tool_call_started :: "ExecutionEvent \<Rightarrow> ToolCallId option" where
  "tool_call_started event = (case ev_kind event of ToolCallStarted t c \<Rightarrow> Some t | _ \<Rightarrow> None)"

lemma frontend_event_Ok:
  assumes "apply_frontend_event ev st = (Ok u, st')"
  obtains r where "ev_sequence ev = Suc (next_event st)"
    "bt_get (executions st) (ev_execution_id ev) = Some r"
    "x_session_id (xr_summary r) = ev_session_id ev"
    "\<forall>t. tool_call_started ev = Some t \<longrightarrow> t = numbered ''tool-call-'' (Suc (next_tool_call st))"
    "st' = st\<lparr>next_tool_call := next_tool_call st + (if tool_call_started ev = None then 0 else 1),
       events := events st @ [ev], next_event := Suc (next_event st)\<rparr>"
  using assms
  by (auto simp: apply_frontend_event_def outcome_defs tool_call_started_def
      split: if_splits option.splits ExecutionEventKind.splits)

lemmas event_OkD = revision_activated_Ok session_created_Ok session_update_Ok checkpoint_captured_Ok

lemmas event_OkE = execution_created_Ok state_changed_Ok group_created_Ok failure_recorded_Ok
  retry_started_Ok interface_started_Ok decision_made_Ok node_started_Ok invocation_resolved_Ok
  file_observed_Ok frontend_event_Ok

section \<open>An accepted event makes the projection evolve\<close>

lemma evolves_simple:
  "persists same_slot (config_revisions st) m \<Longrightarrow> evolves st (st\<lparr>config_revisions := m\<rparr>)"
  "persists same_session (sessions st) s \<Longrightarrow> evolves st (st\<lparr>sessions := s\<rparr>)"
  "persists same_execution (executions st) x \<Longrightarrow> evolves st (st\<lparr>executions := x\<rparr>)"
  "persists same_group (attempt_groups st) g \<Longrightarrow> evolves st (st\<lparr>attempt_groups := g\<rparr>)"
  "persists (=) (orchestration_decisions st) d \<Longrightarrow> evolves st (st\<lparr>orchestration_decisions := d\<rparr>)"
  "persists (=) (orchestration_interfaces st) i \<Longrightarrow> evolves st (st\<lparr>orchestration_interfaces := i\<rparr>)"
  "persists (=) (orchestration_nodes st) n \<Longrightarrow> evolves st (st\<lparr>orchestration_nodes := n\<rparr>)"
  "persists (=) (resolved_routes st) r \<Longrightarrow> evolves st (st\<lparr>resolved_routes := r\<rparr>)"
  "persists same_read_set (read_sets st) rs \<Longrightarrow> evolves st (st\<lparr>read_sets := rs\<rparr>)"
  by (simp_all add: evolves_def persists_refl same_refl)

lemma evolves_cursor:
  "evolves st st' \<Longrightarrow> evolves st (st'\<lparr>current_config_revision := c, next_config_revision := Suc (next_config_revision st')\<rparr>)"
  "evolves st st' \<Longrightarrow> evolves st (st'\<lparr>next_session := Suc (next_session st')\<rparr>)"
  "evolves st st' \<Longrightarrow> evolves st (st'\<lparr>next_execution := Suc (next_execution st')\<rparr>)"
  "evolves st st' \<Longrightarrow> evolves st (st'\<lparr>next_attempt_group := Suc (next_attempt_group st')\<rparr>)"
  by (simp_all add: evolves_def)

lemma evolves_update_session:
  assumes "bt_get (sessions st) sid = Some r" and "s_state (sn_summary r) = Active"
    and "\<And>s. s_id (f s) = s_id s \<and> s_parent_session (f s) = s_parent_session s \<and>
      s_workspace_id (f s) = s_workspace_id s"
  shows "evolves st (update_session sid f st)"
  unfolding update_session_def
  using assms by (intro evolves_simple persists_modify) (auto simp: same_refl same_session_def)

lemma same_read_set_observe: "same_read_set rs (observe ob rs)"
  by (auto simp: same_read_set_def map_le_def observe_get dom_def split: option.split)

lemma persists_new: "(\<And>v. R v v) \<Longrightarrow> \<not> bt_contains_key m k \<Longrightarrow> persists R m (bt_insert k v m)"
  by (rule persists_insert) (auto simp: bt_contains_key_def)

lemma apply_evolves:
  assumes "apply_domain_event E ev st = (Ok u, st')"
  shows "evolves st st'"
proof (cases ev)
  case (ConfigurationRevisionActivated revision fprint)
  with assms have st': "st' = (st\<lparr>config_revisions := bt_insert revision
      \<lparr>slot_fingerprint = fprint, slot_configuration = None\<rparr> (config_revisions st)\<rparr>)
        \<lparr>current_config_revision := revision, next_config_revision := Suc (next_config_revision st)\<rparr>"
    and new: "\<not> bt_contains_key (config_revisions st) revision"
    by (auto simp: apply_domain_event_def dest!: revision_activated_Ok)
  show ?thesis
    unfolding st' using new evolves_cursor(1) [OF evolves_simple(1) [OF persists_new]] same_refl by simp
next
  case (SessionCreated session)
  with assms have st': "st' = (st\<lparr>sessions := bt_insert (s_id session) \<lparr>sn_summary = session\<rparr> (sessions st)\<rparr>)
        \<lparr>next_session := Suc (next_session st)\<rparr>"
    and new: "\<not> bt_contains_key (sessions st) (s_id session)"
    by (auto simp: apply_domain_event_def dest!: session_created_Ok)
  show ?thesis
    unfolding st' using new evolves_cursor(2) [OF evolves_simple(2) [OF persists_new]] same_refl by simp
next
  case (SessionConfigRebased sid revn)
  with assms show ?thesis
    by (auto simp: apply_domain_event_def dest!: session_update_Ok intro: evolves_update_session)
next
  case (SessionRenamed sid name)
  with assms show ?thesis
    by (auto simp: apply_domain_event_def dest!: session_update_Ok intro: evolves_update_session)
next
  case (SessionTargetChanged sid target)
  with assms show ?thesis
    by (auto simp: apply_domain_event_def dest!: session_update_Ok intro: evolves_update_session)
next
  case (SessionClosed sid)
  with assms show ?thesis
    by (auto simp: apply_domain_event_def dest!: session_update_Ok intro: evolves_update_session)
next
  case (ExecutionCreated execution payload)
  with assms have "apply_execution_created E execution payload st = (Ok u, st')"
    by (simp add: apply_domain_event_def)
  then obtain r where st': "st' = (st\<lparr>executions := bt_insert (x_id execution) r (executions st)\<rparr>)
        \<lparr>next_execution := Suc (next_execution st)\<rparr>"
    and new: "\<not> bt_contains_key (executions st) (x_id execution)"
    by (rule execution_created_Ok) auto
  show ?thesis
    unfolding st' using new evolves_cursor(3) [OF evolves_simple(3) [OF persists_new]] same_refl by simp
next
  case (ExecutionStateChanged x state)
  with assms show ?thesis
    by (auto simp: apply_domain_event_def same_refl same_execution_def elim!: state_changed_Ok
        intro!: evolves_simple persists_modify)
next
  case (AttemptGroupCreated g)
  with assms have st': "st' = (st\<lparr>attempt_groups := bt_insert (ag_id g) g (attempt_groups st)\<rparr>)
        \<lparr>next_attempt_group := Suc (next_attempt_group st)\<rparr>"
    and new: "\<not> bt_contains_key (attempt_groups st) (ag_id g)"
    by (auto simp: apply_domain_event_def elim!: group_created_Ok)
  show ?thesis
    unfolding st' using new evolves_cursor(4) [OF evolves_simple(4) [OF persists_new]] same_refl by simp
next
  case (AttemptFailureRecorded gid failure)
  with assms show ?thesis
    by (auto simp: apply_domain_event_def same_refl same_group_def record_failure_def
        elim!: failure_recorded_Ok intro!: evolves_simple persists_modify)
next
  case (AttemptRetryStarted gid x)
  with assms show ?thesis
    by (auto simp: apply_domain_event_def same_refl same_group_def record_retry_def
        elim!: retry_started_Ok intro!: evolves_simple persists_modify)
next
  case (OrchestrationFailureInterfaceStarted p f i)
  with assms show ?thesis
    by (auto simp: apply_domain_event_def elim!: interface_started_Ok intro!: evolves_simple persists_new)
next
  case (OrchestrationDecisionMade d)
  with assms show ?thesis
    by (auto simp: apply_domain_event_def elim!: decision_made_Ok intro!: evolves_simple persists_new)
next
  case (OrchestrationNodeStarted p n c)
  with assms show ?thesis
    by (auto simp: apply_domain_event_def elim!: node_started_Ok intro!: evolves_simple persists_new)
next
  case (InvocationResolved x route)
  with assms show ?thesis
    by (auto simp: apply_domain_event_def elim!: invocation_resolved_Ok intro!: evolves_simple persists_new)
next
  case (WorkspaceCheckpointCaptured x ws files)
  with assms show ?thesis
    by (auto simp: apply_domain_event_def evolves_refl dest!: checkpoint_captured_Ok)
next
  case (WorkspaceFileObserved x ob)
  with assms show ?thesis
    by (auto simp: apply_domain_event_def same_refl same_read_set_observe elim!: file_observed_Ok
        intro!: evolves_simple persists_insert)
next
  case (FrontendEvent event)
  with assms show ?thesis
    by (auto simp: apply_domain_event_def evolves_def persists_refl same_refl elim!: frontend_event_Ok)
qed

end
