(* ===== verification/Durable_Inv.thy ===== *)
theory Durable_Inv
  imports Durable
begin

text \<open>
  The well-formedness invariant of the durable projection, one definition per map, and its
  preservation by every accepted event. Most events leave most maps alone, so each part has a
  frame lemma: it stays true when its own map is unchanged and the executions evolve.
\<close>

section \<open>The invariant\<close>

definition cursors_ok :: "DurableProjection \<Rightarrow> bool" where
  "cursors_ok st \<longleftrightarrow>
     (\<forall>k. bt_contains_key (config_revisions st) k \<longleftrightarrow> issued ''config-'' (next_config_revision st) k) \<and>
     (\<forall>k. bt_contains_key (sessions st) k \<longleftrightarrow> issued ''session-'' (next_session st) k) \<and>
     (\<forall>k. bt_contains_key (executions st) k \<longleftrightarrow> issued ''execution-'' (next_execution st) k) \<and>
     (\<forall>k. bt_contains_key (attempt_groups st) k \<longleftrightarrow> issued ''attempt-group-'' (next_attempt_group st) k)"

definition sessions_ok :: "DurableProjection \<Rightarrow> bool" where
  "sessions_ok st \<longleftrightarrow>
     bt_contains_key (config_revisions st) (current_config_revision st) \<and>
     (\<forall>k r. bt_get (sessions st) k = Some r \<longrightarrow>
        s_id (sn_summary r) = k \<and>
        bt_contains_key (config_revisions st) (s_config_revision (sn_summary r)) \<and>
        (\<forall>p. s_parent_session (sn_summary r) = Some p \<longrightarrow> bt_contains_key (sessions st) p)) \<and>
     (\<exists>ws. \<forall>k r. bt_get (sessions st) k = Some r \<longrightarrow> s_workspace_id (sn_summary r) = ws)"

text \<open>What holds of an execution: it is pinned to a known revision, and its parent is an older
  execution that delegates its callable and permits its authority, at the same revision.\<close>

definition child_of :: "ExecutionId \<Rightarrow> ExecutionRecord \<Rightarrow> ExecutionId \<Rightarrow> ExecutionRecord \<Rightarrow> bool" where
  "child_of k r p q \<longleftrightarrow>
     xnum p < xnum k \<and> permits (xr_authority q) (xr_authority r) \<and>
     xr_config_revision r = xr_config_revision q \<and>
     (\<forall>c. x_callable (xr_summary r) = Some c \<longrightarrow> c \<in> au_callables (xr_authority q))"

definition execution_ok :: "DurableProjection \<Rightarrow> ExecutionId \<Rightarrow> ExecutionRecord \<Rightarrow> bool" where
  "execution_ok st k r \<longleftrightarrow>
     x_id (xr_summary r) = k \<and>
     bt_contains_key (config_revisions st) (xr_config_revision r) \<and>
     (\<exists>s. bt_get (sessions st) (x_session_id (xr_summary r)) = Some s \<and>
        (s_state (sn_summary s) = Closed \<longrightarrow> is_terminal (x_state (xr_summary r)))) \<and>
     (\<forall>p. x_parent_execution (xr_summary r) = Some p \<longrightarrow>
        (\<exists>q. bt_get (executions st) p = Some q \<and> child_of k r p q))"

definition executions_ok :: "DurableProjection \<Rightarrow> bool" where
  "executions_ok st \<longleftrightarrow> (\<forall>k r. bt_get (executions st) k = Some r \<longrightarrow> execution_ok st k r)"

text \<open>An execution that is an agent child of the given parent.\<close>

definition agent_of :: "DurableProjection \<Rightarrow> ExecutionId \<Rightarrow> ExecutionId \<Rightarrow> bool" where
  "agent_of st p x \<longleftrightarrow>
     (\<exists>r. bt_get (executions st) x = Some r \<and> x_kind (xr_summary r) = AgentKind \<and>
        x_parent_execution (xr_summary r) = Some p)"

definition failed_in :: "DurableProjection \<Rightarrow> ExecutionId \<Rightarrow> bool" where
  "failed_in st x \<longleftrightarrow> (\<exists>r. bt_get (executions st) x = Some r \<and> x_state (xr_summary r) = Failed)"

definition orchestration_in :: "DurableProjection \<Rightarrow> ExecutionId \<Rightarrow> bool" where
  "orchestration_in st x \<longleftrightarrow>
     (\<exists>r. bt_get (executions st) x = Some r \<and> x_kind (xr_summary r) = OrchestrationKind)"

definition has_callable :: "DurableProjection \<Rightarrow> ExecutionId \<Rightarrow> CallableId \<Rightarrow> bool" where
  "has_callable st x c \<longleftrightarrow>
     (\<exists>r. bt_get (executions st) x = Some r \<and> x_callable (xr_summary r) = Some c)"

definition group_ok :: "DurableProjection \<Rightarrow> AttemptGroup \<Rightarrow> bool" where
  "group_ok st g \<longleftrightarrow>
     ag_attempts g \<noteq> [] \<and> distinct (ag_attempts g) \<and>
     (\<forall>x\<in>set (ag_attempts g). agent_of st (ag_parent_execution g) x \<and> has_callable st x (ag_callable g)) \<and>
     map fa_execution_id (ag_failures g) \<in> {ag_attempts g, butlast (ag_attempts g)} \<and>
     (\<forall>f\<in>set (ag_failures g). failed_in st (fa_execution_id f))"

definition attempts_ok :: "DurableProjection \<Rightarrow> bool" where
  "attempts_ok st \<longleftrightarrow>
     (\<forall>k g. bt_get (attempt_groups st) k = Some g \<longrightarrow> ag_id g = k \<and> group_ok st g) \<and>
     (\<forall>k k' g g' x. bt_get (attempt_groups st) k = Some g \<longrightarrow> bt_get (attempt_groups st) k' = Some g' \<longrightarrow>
        x \<in> set (ag_attempts g) \<longrightarrow> x \<in> set (ag_attempts g') \<longrightarrow> k = k')"

definition interfaces_ok :: "DurableProjection \<Rightarrow> bool" where
  "interfaces_ok st \<longleftrightarrow>
     (\<forall>f i. bt_get (orchestration_interfaces st) f = Some i \<longrightarrow>
        failed_in st f \<and> xnum f < xnum i \<and>
        (\<exists>p. orchestration_in st p \<and> agent_of st p f \<and> agent_of st p i))"

definition decisions_ok :: "DurableProjection \<Rightarrow> bool" where
  "decisions_ok st \<longleftrightarrow>
     (\<forall>f d. bt_get (orchestration_decisions st) f = Some d \<longrightarrow>
        fd_failed_child d = f \<and> failed_in st f \<and> orchestration_in st (fd_parent_execution d) \<and>
        agent_of st (fd_parent_execution d) f \<and>
        (\<forall>r. recovery_execution (fd_decision d) = Some r \<longrightarrow>
           agent_of st (fd_parent_execution d) r \<and> xnum f < xnum r) \<and>
        (\<forall>x. fd_decider_execution d = Some x \<longrightarrow> bt_get (orchestration_interfaces st) f = Some x))"

definition child_in :: "DurableProjection \<Rightarrow> ExecutionId \<Rightarrow> ExecutionId \<Rightarrow> bool" where
  "child_in st p x \<longleftrightarrow>
     (\<exists>r. bt_get (executions st) x = Some r \<and> x_parent_execution (xr_summary r) = Some p)"

definition nodes_ok :: "DurableProjection \<Rightarrow> bool" where
  "nodes_ok st \<longleftrightarrow>
     (\<forall>c n. bt_get (orchestration_nodes st) c = Some n \<longrightarrow>
        (\<exists>p. orchestration_in st p \<and> child_in st p c)) \<and>
     (\<forall>c c' n p. bt_get (orchestration_nodes st) c = Some n \<longrightarrow> bt_get (orchestration_nodes st) c' = Some n \<longrightarrow>
        child_in st p c \<longrightarrow> child_in st p c' \<longrightarrow> c = c')"

definition routes_ok :: "DurableProjection \<Rightarrow> bool" where
  "routes_ok st \<longleftrightarrow>
     (\<forall>x route. bt_get (resolved_routes st) x = Some route \<longrightarrow>
        (\<exists>r. bt_get (executions st) x = Some r \<and> is_InvocationPayload (xr_payload r) \<and>
           ro_requested_target route = x_target (xr_summary r) \<and>
           ro_config_revision route = xr_config_revision r \<and>
           (\<forall>m. ro_requested_target route = Fixed m \<longrightarrow> ro_model route = m)))"

definition read_sets_ok :: "DurableProjection \<Rightarrow> bool" where
  "read_sets_ok st \<longleftrightarrow>
     (\<forall>x rs. bt_get (read_sets st) x = Some rs \<longrightarrow>
        rs_execution_id rs = x \<and> bt_contains_key (executions st) x)"

definition events_ok :: "DurableProjection \<Rightarrow> bool" where
  "events_ok st \<longleftrightarrow>
     map ev_sequence (events st) = map Suc [0..<length (events st)] \<and>
     next_event st = length (events st) \<and>
     List.map_filter tool_call_started (events st) =
       map (\<lambda>i. numbered ''tool-call-'' (Suc i)) [0..<next_tool_call st] \<and>
     (\<forall>ev\<in>set (events st). \<exists>r. bt_get (executions st) (ev_execution_id ev) = Some r \<and>
        x_session_id (xr_summary r) = ev_session_id ev)"

definition durable_inv :: "DurableProjection \<Rightarrow> bool" where
  "durable_inv st \<longleftrightarrow>
     cursors_ok st \<and> sessions_ok st \<and> executions_ok st \<and> attempts_ok st \<and> interfaces_ok st \<and>
     decisions_ok st \<and> nodes_ok st \<and> routes_ok st \<and> read_sets_ok st \<and> events_ok st"

section \<open>Stability under evolution of the executions\<close>

lemma execution_facts_stable:
  assumes "persists same_execution (executions st) (executions st')"
  shows "agent_of st p x \<Longrightarrow> agent_of st' p x" and "failed_in st x \<Longrightarrow> failed_in st' x"
    and "orchestration_in st x \<Longrightarrow> orchestration_in st' x"
    and "has_callable st x c \<Longrightarrow> has_callable st' x c" and "child_in st p x \<Longrightarrow> child_in st' p x"
proof -
  have keep: "\<exists>r'. bt_get (executions st') x = Some r' \<and> same_execution r r'"
    if "bt_get (executions st) x = Some r" for x r
    using assms that by (rule persistsD)
  show "agent_of st p x \<Longrightarrow> agent_of st' p x" "orchestration_in st x \<Longrightarrow> orchestration_in st' x"
    "has_callable st x c \<Longrightarrow> has_callable st' x c" "child_in st p x \<Longrightarrow> child_in st' p x"
    using keep [of x]
    by (auto simp: agent_of_def orchestration_in_def has_callable_def child_in_def same_execution_def)
  show "failed_in st x \<Longrightarrow> failed_in st' x"
    using keep [of x] by (fastforce simp: failed_in_def same_execution_def)
qed

lemma child_in_back:
  assumes "persists same_execution (executions st) (executions st')"
    and "bt_contains_key (executions st) x" and "child_in st' p x"
  shows "child_in st p x"
proof -
  from assms(2) obtain r where r: "bt_get (executions st) x = Some r"
    by (auto simp: bt_contains_key_def)
  with persistsD [OF assms(1) r] assms(3) show ?thesis
    by (auto simp: child_in_def same_execution_def)
qed

lemma group_ok_stable:
  "persists same_execution (executions st) (executions st') \<Longrightarrow> group_ok st g \<Longrightarrow> group_ok st' g"
  by (auto simp: group_ok_def intro: execution_facts_stable)

lemma attempts_frame:
  "persists same_execution (executions st) (executions st') \<Longrightarrow>
   attempt_groups st' = attempt_groups st \<Longrightarrow> attempts_ok st \<Longrightarrow> attempts_ok st'"
  by (simp add: attempts_ok_def group_ok_stable)

lemma interfaces_frame:
  "persists same_execution (executions st) (executions st') \<Longrightarrow>
   orchestration_interfaces st' = orchestration_interfaces st \<Longrightarrow> interfaces_ok st \<Longrightarrow> interfaces_ok st'"
  by (fastforce simp: interfaces_ok_def intro: execution_facts_stable)

lemma decisions_frame:
  "persists same_execution (executions st) (executions st') \<Longrightarrow>
   persists (=) (orchestration_interfaces st) (orchestration_interfaces st') \<Longrightarrow>
   orchestration_decisions st' = orchestration_decisions st \<Longrightarrow> decisions_ok st \<Longrightarrow> decisions_ok st'"
  by (auto simp: decisions_ok_def intro: execution_facts_stable persists_eqD)

lemma nodes_frame:
  assumes "persists same_execution (executions st) (executions st')"
    and "orchestration_nodes st' = orchestration_nodes st" and "nodes_ok st"
  shows "nodes_ok st'"
proof -
  have earlier: "child_in st p c" if "bt_get (orchestration_nodes st) c = Some n" "child_in st' p c" for p c n
  proof -
    from that(1) assms(3) have "bt_contains_key (executions st) c"
      by (auto simp: nodes_ok_def child_in_def bt_contains_key_def)
    with child_in_back [OF assms(1)] that(2) show ?thesis by blast
  qed
  have "\<exists>p. orchestration_in st' p \<and> child_in st' p c" if "bt_get (orchestration_nodes st) c = Some n" for c n
    using that assms(3) execution_facts_stable(3,5) [OF assms(1)] unfolding nodes_ok_def by blast
  moreover have "c = c'" if "bt_get (orchestration_nodes st) c = Some n"
      "bt_get (orchestration_nodes st) c' = Some n" "child_in st' p c" "child_in st' p c'" for c c' n p
    using that assms(3) earlier unfolding nodes_ok_def by blast
  ultimately show ?thesis
    unfolding nodes_ok_def assms(2) by blast
qed

lemma routes_frame:
  "persists same_execution (executions st) (executions st') \<Longrightarrow>
   resolved_routes st' = resolved_routes st \<Longrightarrow> routes_ok st \<Longrightarrow> routes_ok st'"
  by (fastforce simp: routes_ok_def same_execution_def dest: persistsD)

lemma read_sets_frame:
  "persists same_execution (executions st) (executions st') \<Longrightarrow>
   read_sets st' = read_sets st \<Longrightarrow> read_sets_ok st \<Longrightarrow> read_sets_ok st'"
  by (auto simp: read_sets_ok_def intro: persists_contains)

lemma events_frame:
  assumes "persists same_execution (executions st) (executions st')"
    and "events st' = events st" "next_event st' = next_event st" "next_tool_call st' = next_tool_call st"
    and "events_ok st"
  shows "events_ok st'"
proof -
  have "\<exists>r. bt_get (executions st') (ev_execution_id ev) = Some r \<and> x_session_id (xr_summary r) = ev_session_id ev"
    if "ev \<in> set (events st)" for ev
  proof -
    from that assms(5) obtain r where "bt_get (executions st) (ev_execution_id ev) = Some r"
      and "x_session_id (xr_summary r) = ev_session_id ev"
      by (auto simp: events_ok_def)
    with persistsD [OF assms(1)] show ?thesis by (fastforce simp: same_execution_def)
  qed
  with assms(2-5) show ?thesis by (simp add: events_ok_def)
qed

section \<open>Which maps an event touches\<close>

lemma apply_frame:
  assumes "apply_domain_event E ev st = (Ok u, st')"
  shows "\<not> is_ConfigurationRevisionActivated ev \<Longrightarrow> config_revisions st' = config_revisions st \<and>
      current_config_revision st' = current_config_revision st \<and>
      next_config_revision st' = next_config_revision st"
    and "\<not> is_SessionCreated ev \<Longrightarrow> next_session st' = next_session st"
    and "\<not> is_ExecutionCreated ev \<Longrightarrow> next_execution st' = next_execution st"
    and "\<not> is_AttemptGroupCreated ev \<Longrightarrow> next_attempt_group st' = next_attempt_group st"
    and "\<not> is_OrchestrationFailureInterfaceStarted ev \<Longrightarrow>
      orchestration_interfaces st' = orchestration_interfaces st"
    and "\<not> is_OrchestrationDecisionMade ev \<Longrightarrow> orchestration_decisions st' = orchestration_decisions st"
    and "\<not> is_OrchestrationNodeStarted ev \<Longrightarrow> orchestration_nodes st' = orchestration_nodes st"
    and "\<not> is_InvocationResolved ev \<Longrightarrow> resolved_routes st' = resolved_routes st"
    and "\<not> is_WorkspaceFileObserved ev \<Longrightarrow> read_sets st' = read_sets st"
    and "\<not> is_FrontendEvent ev \<Longrightarrow> events st' = events st \<and> next_event st' = next_event st \<and>
      next_tool_call st' = next_tool_call st"
  using assms
  by (cases ev; auto simp: apply_domain_event_def update_session_def dest!: event_OkD elim!: event_OkE)+

lemma apply_frame_sessions:
  "apply_domain_event E ev st = (Ok u, st') \<Longrightarrow> \<not> is_SessionCreated ev \<Longrightarrow>
   \<not> is_SessionConfigRebased ev \<Longrightarrow> \<not> is_SessionRenamed ev \<Longrightarrow> \<not> is_SessionTargetChanged ev \<Longrightarrow>
   \<not> is_SessionClosed ev \<Longrightarrow> sessions st' = sessions st"
  by (cases ev; auto simp: apply_domain_event_def dest!: event_OkD elim!: event_OkE)

lemma apply_frame_executions:
  "apply_domain_event E ev st = (Ok u, st') \<Longrightarrow> \<not> is_ExecutionCreated ev \<Longrightarrow>
   \<not> is_ExecutionStateChanged ev \<Longrightarrow> executions st' = executions st"
  by (cases ev; auto simp: apply_domain_event_def update_session_def dest!: event_OkD elim!: event_OkE)

lemma apply_frame_groups:
  "apply_domain_event E ev st = (Ok u, st') \<Longrightarrow> \<not> is_AttemptGroupCreated ev \<Longrightarrow>
   \<not> is_AttemptFailureRecorded ev \<Longrightarrow> \<not> is_AttemptRetryStarted ev \<Longrightarrow> attempt_groups st' = attempt_groups st"
  by (cases ev; auto simp: apply_domain_event_def update_session_def dest!: event_OkD elim!: event_OkE)

section \<open>Preservation\<close>

lemma apply_keeps_executions:
  "apply_domain_event E ev st = (Ok u, st') \<Longrightarrow> persists same_execution (executions st) (executions st')"
  by (auto dest!: apply_evolves simp: evolves_def)

lemma cursors_preserved:
  assumes "cursors_ok st" and "apply_domain_event E ev st = (Ok u, st')"
  shows "cursors_ok st'"
  using assms
  by (cases ev)
    (auto simp: apply_domain_event_def cursors_ok_def update_session_def issued_Suc
      dest!: event_OkD elim!: event_OkE)

lemma sessions_update_ok:
  assumes "sessions_ok st" and "\<And>s. s_id (f s) = s_id s \<and> s_parent_session (f s) = s_parent_session s \<and>
      s_workspace_id (f s) = s_workspace_id s"
    and "\<And>s. bt_contains_key (config_revisions st) (s_config_revision s) \<Longrightarrow>
      bt_contains_key (config_revisions st) (s_config_revision (f s))"
  shows "sessions_ok (update_session sid f st)"
  using assms by (auto simp: sessions_ok_def update_session_def bt_get_modify split: if_splits)

lemma workspace_agrees:
  assumes "sessions_ok st" and "session_workspace_error session st = None"
    and "bt_get (sessions st) k = Some r"
  shows "s_workspace_id (sn_summary r) = s_workspace_id session"
proof (cases "s_parent_session session")
  case None
  have "r \<in> set (bt_values (sessions st))" using assms(3) by auto
  then obtain r0 rest where r0: "bt_values (sessions st) = r0 # rest"
    by (cases "bt_values (sessions st)") auto
  then have "r0 \<in> set (bt_values (sessions st))" by simp
  then obtain k0 where "bt_get (sessions st) k0 = Some r0" by auto
  with assms(1,3) have "s_workspace_id (sn_summary r) = s_workspace_id (sn_summary r0)"
    by (auto simp: sessions_ok_def)
  with assms(2) None r0 show ?thesis
    by (auto simp: session_workspace_error_def split: if_splits)
next
  case (Some p)
  with assms show ?thesis
    by (auto simp: session_workspace_error_def sessions_ok_def split: if_splits option.splits)
qed

lemma session_created_ok:
  assumes ok: "sessions_ok st" and created: "apply_session_created session st = (Ok u, st')"
  shows "sessions_ok st'"
proof -
  note facts = session_created_Ok [OF created]
  have parent: "bt_contains_key (sessions st) p" if "s_parent_session session = Some p" for p
    using that facts by (auto simp: session_workspace_error_def bt_contains_key_def split: option.splits)
  have "s_workspace_id (sn_summary r) = s_workspace_id session" if "bt_get (sessions st) k = Some r" for k r
    using workspace_agrees [OF ok _ that] facts by blast
  then have "\<exists>ws. \<forall>k r. bt_get (sessions st') k = Some r \<longrightarrow> s_workspace_id (sn_summary r) = ws"
    using facts by auto
  moreover have "s_id (sn_summary r) = k \<and>
      bt_contains_key (config_revisions st') (s_config_revision (sn_summary r)) \<and>
      (\<forall>p. s_parent_session (sn_summary r) = Some p \<longrightarrow> bt_contains_key (sessions st') p)"
    if "bt_get (sessions st') k = Some r" for k r
    using that facts ok parent by (auto simp: sessions_ok_def split: if_splits)
  ultimately show ?thesis
    using facts ok by (auto simp: sessions_ok_def)
qed

lemma sessions_preserved:
  assumes "sessions_ok st" and "apply_domain_event E ev st = (Ok u, st')"
  shows "sessions_ok st'"
proof (cases ev)
  case (SessionCreated session)
  with assms session_created_ok show ?thesis by (auto simp: apply_domain_event_def)
next
  case (ConfigurationRevisionActivated revision fprint)
  with assms show ?thesis
    by (auto simp: apply_domain_event_def sessions_ok_def dest!: revision_activated_Ok)
next
  case (SessionConfigRebased sid revn)
  with assms show ?thesis
    by (auto simp: apply_domain_event_def dest!: session_update_Ok intro!: sessions_update_ok)
next
  case (SessionRenamed sid name)
  with assms show ?thesis
    by (auto simp: apply_domain_event_def dest!: session_update_Ok intro!: sessions_update_ok)
next
  case (SessionTargetChanged sid target)
  with assms show ?thesis
    by (auto simp: apply_domain_event_def dest!: session_update_Ok intro!: sessions_update_ok)
next
  case (SessionClosed sid)
  with assms show ?thesis
    by (auto simp: apply_domain_event_def dest!: session_update_Ok intro!: sessions_update_ok)
qed (use assms apply_frame(1) [OF assms(2)] apply_frame_sessions [OF assms(2)] in
      \<open>simp_all add: sessions_ok_def\<close>)

subsection \<open>Executions\<close>

lemma execution_ok_frame:
  assumes "execution_ok st k r"
    and "\<And>c. bt_contains_key (config_revisions st) c \<Longrightarrow> bt_contains_key (config_revisions st') c"
    and "\<And>sid s. bt_get (sessions st) sid = Some s \<Longrightarrow> sid = x_session_id (xr_summary r) \<Longrightarrow>
      \<exists>s'. bt_get (sessions st') sid = Some s' \<and>
        (s_state (sn_summary s') = Closed \<longrightarrow> s_state (sn_summary s) = Closed \<or> is_terminal (x_state (xr_summary r)))"
    and "persists same_execution (executions st) (executions st')" and "same_execution r r'"
  shows "execution_ok st' k r'"
proof -
  note ok = assms(1) [unfolded execution_ok_def] and same = assms(5) [unfolded same_execution_def]
  from ok assms(3) obtain s' where s': "bt_get (sessions st') (x_session_id (xr_summary r)) = Some s'"
    and closed: "s_state (sn_summary s') = Closed \<longrightarrow> is_terminal (x_state (xr_summary r))"
    by blast
  have "\<exists>q'. bt_get (executions st') p = Some q' \<and> child_of k r' p q'"
    if "x_parent_execution (xr_summary r') = Some p" for p
  proof -
    from that ok same obtain q where "bt_get (executions st) p = Some q" "child_of k r p q" by auto
    moreover from persistsD [OF assms(4) this(1)] obtain q'
      where "bt_get (executions st') p = Some q'" "same_execution q q'" by blast
    ultimately show ?thesis
      using same by (auto simp: child_of_def same_execution_def)
  qed
  moreover have "is_terminal (x_state (xr_summary r'))" if "s_state (sn_summary s') = Closed"
    using that closed same by auto
  ultimately show ?thesis
    using ok same s' assms(2) by (auto simp: execution_ok_def)
qed

lemma executions_frame:
  assumes "executions_ok st" and "executions st' = executions st"
    and "\<And>c. bt_contains_key (config_revisions st) c \<Longrightarrow> bt_contains_key (config_revisions st') c"
    and "\<And>k r s. bt_get (executions st) k = Some r \<Longrightarrow>
      bt_get (sessions st) (x_session_id (xr_summary r)) = Some s \<Longrightarrow>
      \<exists>s'. bt_get (sessions st') (x_session_id (xr_summary r)) = Some s' \<and>
        (s_state (sn_summary s') = Closed \<longrightarrow> s_state (sn_summary s) = Closed \<or> is_terminal (x_state (xr_summary r)))"
  shows "executions_ok st'"
  unfolding executions_ok_def
proof (intro allI impI)
  fix k r
  assume "bt_get (executions st') k = Some r"
  then have r: "bt_get (executions st) k = Some r" by (simp add: assms(2))
  show "execution_ok st' k r"
  proof (rule execution_ok_frame [of st])
    show "execution_ok st k r" using assms(1) r by (simp add: executions_ok_def)
    show "\<exists>s'. bt_get (sessions st') sid = Some s' \<and>
        (s_state (sn_summary s') = Closed \<longrightarrow> s_state (sn_summary s) = Closed \<or> is_terminal (x_state (xr_summary r)))"
      if "bt_get (sessions st) sid = Some s" "sid = x_session_id (xr_summary r)" for sid s
      using assms(4) [OF r] that by blast
  qed (use assms(2,3) in \<open>simp_all add: persists_refl same_refl\<close>)
qed

lemma execution_created_ok:
  assumes "sessions_ok st" "cursors_ok st" "executions_ok st"
    and "apply_execution_created E execution payload st = (Ok u, st')"
  shows "executions_ok st'"
  using assms(4)
proof (rule execution_created_Ok)
  fix session revn
  let ?r = "\<lparr>xr_summary = execution, xr_payload = materialize_execution_payload E st execution payload,
      xr_authority = payload_authority payload, xr_config_revision = revn\<rparr>"
  assume session: "bt_get (sessions st) (x_session_id execution) = Some session"
    "s_state (sn_summary session) = Active"
    and new: "x_id execution = numbered ''execution-'' (Suc (next_execution st))"
    "\<not> bt_contains_key (executions st) (x_id execution)"
    and check: "execution_parent_check execution payload (s_config_revision (sn_summary session)) st = Inr revn"
    and st': "st' = st\<lparr>executions := bt_insert (x_id execution) ?r (executions st),
                next_execution := Suc (next_execution st)\<rparr>"
  have old: "execution_ok st' k r" if "bt_get (executions st) k = Some r" for k r
  proof (rule execution_ok_frame [of st])
    show "execution_ok st k r" using assms(3) that by (simp add: executions_ok_def)
  qed (use new in \<open>auto simp: st' same_refl intro!: persists_new\<close>)
  have parent: "\<exists>q. bt_get (executions st') p = Some q \<and> child_of (x_id execution) ?r p q"
    if p: "x_parent_execution execution = Some p" for p
  proof -
    from parent_check_Inr(2) [OF check p] obtain q where q: "bt_get (executions st) p = Some q"
      "revn = xr_config_revision q" "permits (xr_authority q) (payload_authority payload)"
      "\<forall>c. x_callable execution = Some c \<longrightarrow> c \<in> au_callables (xr_authority q)"
      by blast
    then have "issued ''execution-'' (next_execution st) p"
      using assms(2) by (auto simp: cursors_ok_def bt_contains_key_def)
    then have "xnum p < xnum (x_id execution)" and "p \<noteq> x_id execution"
      using new issued_number [of "''execution-''" "next_execution st" p] by auto
    with q show ?thesis by (auto simp: st' child_of_def)
  qed
  have "bt_contains_key (config_revisions st) revn"
  proof (cases "x_parent_execution execution")
    case None
    with parent_check_Inr(1) [OF check] assms(1) session(1) show ?thesis by (auto simp: sessions_ok_def)
  next
    case (Some p)
    from parent_check_Inr(2) [OF check Some] assms(3) show ?thesis
      by (auto simp: executions_ok_def execution_ok_def)
  qed
  then have "execution_ok st' (x_id execution) ?r"
    using session parent by (auto simp: execution_ok_def st')
  with old show ?thesis
    by (auto simp: executions_ok_def st')
qed

lemma state_changed_ok:
  assumes "executions_ok st" and "apply_state_changed x next st = (Ok u, st')"
  shows "executions_ok st'"
  using assms(2)
proof (rule state_changed_Ok)
  fix q
  assume q: "bt_get (executions st) x = Some q" and live: "\<not> is_terminal (x_state (xr_summary q))"
    and st': "st' = st\<lparr>executions := bt_modify x
            (\<lambda>r. r\<lparr>xr_summary := (xr_summary r)\<lparr>x_state := next\<rparr>\<rparr>) (executions st)\<rparr>"
  let ?new = "\<lambda>r. r\<lparr>xr_summary := (xr_summary r)\<lparr>x_state := next\<rparr>\<rparr>"
  have keep: "persists same_execution (executions st) (executions st')"
    using q live by (auto simp: st' same_refl same_execution_def intro!: persists_modify)
  have ok: "execution_ok st' k (if k = x then ?new r else r)" if r: "bt_get (executions st) k = Some r" for k r
  proof (rule execution_ok_frame [of st k r])
    show "execution_ok st k r" using assms(1) r by (simp add: executions_ok_def)
    show "same_execution r (if k = x then ?new r else r)"
      using r q live by (auto simp: same_refl same_execution_def)
    show "\<exists>s'. bt_get (sessions st') sid = Some s' \<and>
        (s_state (sn_summary s') = Closed \<longrightarrow> s_state (sn_summary s) = Closed \<or> is_terminal (x_state (xr_summary r)))"
      if "bt_get (sessions st) sid = Some s" for sid s
      using that by (simp add: st')
  qed (use keep in \<open>auto simp: st'\<close>)
  show ?thesis
    unfolding executions_ok_def
  proof (intro allI impI)
    fix k r'
    assume r': "bt_get (executions st') k = Some r'"
    then obtain r where "bt_get (executions st) k = Some r" "r' = (if k = x then ?new r else r)"
      by (auto simp: st' bt_get_modify split: if_splits)
    with ok show "execution_ok st' k r'" by blast
  qed
qed

lemma session_closed_ok:
  assumes "executions_ok st" and "apply_session_closed sid st = (Ok u, st')"
  shows "executions_ok st'"
proof -
  have st': "st' = update_session sid (\<lambda>s. s\<lparr>s_state := Closed\<rparr>) st"
    and idle: "\<not> session_has_active_execution sid st"
    using session_update_Ok(4) [OF assms(2)] by auto
  show ?thesis
    using idle
    by (intro executions_frame [OF assms(1)])
      (auto simp: st' update_session_def bt_get_modify session_has_active_execution_def)
qed

lemma session_fields_ok:
  assumes "executions_ok st" and "\<And>s. s_state (f s) = s_state s"
  shows "executions_ok (update_session sid f st)"
  using assms(2)
  by (intro executions_frame [OF assms(1)]) (auto simp: update_session_def bt_get_modify)

lemma executions_preserved:
  assumes "executions_ok st" "sessions_ok st" "cursors_ok st"
    and "apply_domain_event E ev st = (Ok u, st')"
  shows "executions_ok st'"
proof (cases "is_ExecutionCreated ev \<or> is_ExecutionStateChanged ev \<or> is_SessionClosed ev")
  case True
  with assms show ?thesis
    by (cases ev)
      (auto simp: apply_domain_event_def intro: execution_created_ok state_changed_ok session_closed_ok)
next
  case False
  then have same: "executions st' = executions st"
    using apply_frame_executions [OF assms(4)] by simp
  have revisions: "bt_contains_key (config_revisions st) c \<Longrightarrow> bt_contains_key (config_revisions st') c" for c
    using apply_evolves [OF assms(4)] persists_contains by (auto simp: evolves_def)
  have "\<exists>s'. bt_get (sessions st') k = Some s' \<and> s_state (sn_summary s') = s_state (sn_summary s)"
    if "bt_get (sessions st) k = Some s" for k s
    using False assms(4) that
    by (cases ev)
      (auto simp: apply_domain_event_def update_session_def bt_get_modify bt_contains_key_def
        dest!: event_OkD elim!: event_OkE)
  then show ?thesis
    using executions_frame [OF assms(1) same revisions] by metis
qed

subsection \<open>Attempt groups\<close>

lemma attempts_okI:
  assumes "\<And>k g. bt_get (attempt_groups st) k = Some g \<Longrightarrow> ag_id g = k \<and> group_ok st g"
    and "\<And>k k' g g' x. bt_get (attempt_groups st) k = Some g \<Longrightarrow> bt_get (attempt_groups st) k' = Some g' \<Longrightarrow>
        x \<in> set (ag_attempts g) \<Longrightarrow> x \<in> set (ag_attempts g') \<Longrightarrow> k = k'"
  shows "attempts_ok st"
  using assms unfolding attempts_ok_def by blast

lemma attempts_okD:
  assumes "attempts_ok st" and "bt_get (attempt_groups st) k = Some g"
  shows "ag_id g = k" "group_ok st g"
    and "bt_get (attempt_groups st) k' = Some g' \<Longrightarrow> x \<in> set (ag_attempts g) \<Longrightarrow> x \<in> set (ag_attempts g') \<Longrightarrow> k = k'"
  using assms unfolding attempts_ok_def by blast+

lemma group_owns_iff:
  "group_owns x st \<longleftrightarrow> (\<exists>k g. bt_get (attempt_groups st) k = Some g \<and> x \<in> set (ag_attempts g))"
  by (simp add: group_owns_def contains_execution_def bex_bt_values)

lemma group_created_ok:
  assumes ok: "attempts_ok st" and "apply_group_created g st = (Ok u, st')"
  shows "attempts_ok st'"
  using assms(2)
proof (rule group_created_Ok)
  fix x f r
  assume g: "ag_attempts g = [x]" "ag_failures g = [f]" "fa_execution_id f = x"
    "bt_get (executions st) x = Some r" "attempt_matches r Failed g" "\<not> group_owns x st"
    and st': "st' = st\<lparr>attempt_groups := bt_insert (ag_id g) g (attempt_groups st),
       next_attempt_group := Suc (next_attempt_group st)\<rparr>"
  have new: "group_ok st' g"
    using g by (auto simp: group_ok_def agent_of_def has_callable_def failed_in_def attempt_matches_def st')
  have old: "group_ok st' g'" if "bt_get (attempt_groups st) k = Some g'" for k g'
    using attempts_okD(2) [OF ok that] group_ok_stable [of st st'] by (simp add: st' persists_refl same_refl)
  have x: "x \<notin> set (ag_attempts g')" if "bt_get (attempt_groups st) k = Some g'" for k g'
    using g(6) that by (auto simp: group_owns_iff)
  show ?thesis
  proof (rule attempts_okI)
    fix k h
    assume "bt_get (attempt_groups st') k = Some h"
    then show "ag_id h = k \<and> group_ok st' h"
      using new old attempts_okD(1) [OF ok] by (auto simp: st' split: if_splits)
  next
    fix k k' h h' y
    assume "bt_get (attempt_groups st') k = Some h" "bt_get (attempt_groups st') k' = Some h'"
      "y \<in> set (ag_attempts h)" "y \<in> set (ag_attempts h')"
    then show "k = k'"
      using x g(1) attempts_okD(3) [OF ok] by (auto simp: st' split: if_splits)
  qed
qed

lemma latest_in: "latest_execution g = Some x \<Longrightarrow> x \<in> set (ag_attempts g) \<and> x = last (ag_attempts g)"
  by (auto simp: latest_execution_def split: if_splits)

text \<open>The two updates of a group keep it well formed.\<close>

lemma record_failure_ok:
  assumes "group_ok st g" and "latest_execution g = Some (fa_execution_id f)"
    and "\<forall>f'\<in>set (ag_failures g). fa_execution_id f' \<noteq> fa_execution_id f" and "failed_in st (fa_execution_id f)"
  shows "group_ok st (record_failure f g)"
proof -
  let ?x = "fa_execution_id f"
  have "?x \<in> set (ag_attempts g)" and x: "?x = last (ag_attempts g)"
    using latest_in [OF assms(2)] by auto
  moreover have "?x \<notin> set (map fa_execution_id (ag_failures g))" using assms(3) by auto
  ultimately have "map fa_execution_id (ag_failures g) \<noteq> ag_attempts g" by metis
  then have "map fa_execution_id (ag_failures g) = butlast (ag_attempts g)"
    using assms(1) by (simp add: group_ok_def)
  then have "map fa_execution_id (ag_failures (record_failure f g)) = ag_attempts (record_failure f g)"
    using x assms(1) by (simp add: record_failure_def group_ok_def)
  then show ?thesis
    using assms(1,4) by (auto simp: group_ok_def record_failure_def)
qed

lemma record_retry_ok:
  assumes "group_ok st g" and "latest_execution g = Some previous"
    and "\<exists>f\<in>set (ag_failures g). fa_execution_id f = previous" and "x \<notin> set (ag_attempts g)"
    and "agent_of st (ag_parent_execution g) x" "has_callable st x (ag_callable g)"
  shows "group_ok st (record_retry x g)"
proof -
  have last: "previous = last (ag_attempts g)" using latest_in [OF assms(2)] by simp
  have "previous \<in> set (map fa_execution_id (ag_failures g))" using assms(3) by auto
  moreover have "last (ag_attempts g) \<notin> set (butlast (ag_attempts g))"
    using assms(1) by (cases "ag_attempts g" rule: rev_cases) (auto simp: group_ok_def)
  ultimately have "map fa_execution_id (ag_failures g) = ag_attempts g"
    using assms(1) last by (auto simp: group_ok_def simp del: set_map)
  then show ?thesis
    using assms(1,4-6) by (auto simp: group_ok_def record_retry_def)
qed

lemma attempts_modify_ok:
  assumes ok: "attempts_ok st" and g: "bt_get (attempt_groups st) gid = Some g"
    and new: "group_ok st (f g)" "ag_id (f g) = ag_id g"
    and fresh: "\<And>x. x \<in> set (ag_attempts (f g)) \<Longrightarrow> x \<in> set (ag_attempts g) \<or> \<not> group_owns x st"
    and st': "st' = st\<lparr>attempt_groups := bt_modify gid f (attempt_groups st)\<rparr>"
  shows "attempts_ok st'"
proof -
  have stable: "group_ok st h \<Longrightarrow> group_ok st' h" for h
    using group_ok_stable [of st st'] by (simp add: st' persists_refl same_refl)
  have get: "bt_get (attempt_groups st') k = Some h \<longleftrightarrow>
      (if k = gid then h = f g else bt_get (attempt_groups st) k = Some h)" for k h
    using g by (auto simp: st' bt_get_modify)
  have other: "x \<notin> set (ag_attempts h)"
    if "bt_get (attempt_groups st) k = Some h" "k \<noteq> gid" "x \<in> set (ag_attempts (f g))" for k h x
    using fresh [OF that(3)] that attempts_okD(3) [OF ok g that(1)] by (auto simp: group_owns_iff)
  show ?thesis
  proof (rule attempts_okI)
    show "ag_id h = k \<and> group_ok st' h" if "bt_get (attempt_groups st') k = Some h" for k h
      using that new g attempts_okD(1,2) [OF ok] stable by (auto simp: get split: if_splits)
    show "k = k'" if "bt_get (attempt_groups st') k = Some h" "bt_get (attempt_groups st') k' = Some h'"
      "x \<in> set (ag_attempts h)" "x \<in> set (ag_attempts h')" for k k' h h' x
      using that other attempts_okD(3) [OF ok] by (auto simp: get split: if_splits)
  qed
qed

lemma failure_recorded_ok:
  assumes ok: "attempts_ok st" and "apply_failure_recorded gid f st = (Ok u, st')"
  shows "attempts_ok st'"
  using assms(2)
proof (rule failure_recorded_Ok)
  fix g r
  assume "bt_get (attempt_groups st) gid = Some g" "latest_execution g = Some (fa_execution_id f)"
    "\<forall>f'\<in>set (ag_failures g). fa_execution_id f' \<noteq> fa_execution_id f"
    "bt_get (executions st) (fa_execution_id f) = Some r" "x_state (xr_summary r) = Failed"
    "st' = st\<lparr>attempt_groups := bt_modify gid (record_failure f) (attempt_groups st)\<rparr>"
  then show ?thesis
    using record_failure_ok [of st g f] attempts_okD(2) [OF ok]
    by (intro attempts_modify_ok [OF ok, where f = "record_failure f"])
      (auto simp: failed_in_def record_failure_def)
qed

lemma retry_started_ok:
  assumes ok: "attempts_ok st" and "apply_retry_started gid x st = (Ok u, st')"
  shows "attempts_ok st'"
  using assms(2)
proof (rule retry_started_Ok)
  fix g previous r
  assume g: "bt_get (attempt_groups st) gid = Some g" and facts: "latest_execution g = Some previous"
    "\<exists>f\<in>set (ag_failures g). fa_execution_id f = previous" "\<not> group_owns x st"
    "bt_get (executions st) x = Some r" "attempt_matches r Pending g"
    and st': "st' = st\<lparr>attempt_groups := bt_modify gid (record_retry x) (attempt_groups st)\<rparr>"
  have "group_ok st (record_retry x g)"
    using facts g attempts_okD(2) [OF ok g]
    by (intro record_retry_ok) (auto simp: group_owns_iff agent_of_def has_callable_def attempt_matches_def)
  with facts(3) show ?thesis
    by (intro attempts_modify_ok [OF ok g _ _ _ st']) (auto simp: record_retry_def)
qed

lemma attempts_preserved:
  assumes "attempts_ok st" and "apply_domain_event E ev st = (Ok u, st')"
  shows "attempts_ok st'"
proof (cases "is_AttemptGroupCreated ev \<or> is_AttemptFailureRecorded ev \<or> is_AttemptRetryStarted ev")
  case True
  with assms show ?thesis
    by (cases ev)
      (auto simp: apply_domain_event_def intro: group_created_ok failure_recorded_ok retry_started_ok)
next
  case False
  with assms apply_frame_groups [OF assms(2)] show ?thesis
    by (intro attempts_frame [OF apply_keeps_executions [OF assms(2)]]) auto
qed

subsection \<open>Failure interfaces, decisions and nodes\<close>

text \<open>The latest execution is younger than every other execution.\<close>

lemma latest_youngest:
  assumes "cursors_ok st" and "bt_get (executions st) f = Some r" and "f \<noteq> numbered ''execution-'' (next_execution st)"
  shows "xnum f < xnum (numbered ''execution-'' (next_execution st))"
proof -
  have "issued ''execution-'' (next_execution st) f"
    using assms(1,2) by (auto simp: cursors_ok_def bt_contains_key_def)
  with assms(3) show ?thesis
    using issued_number [of "''execution-''" "next_execution st" f] by (auto simp: le_less)
qed

lemma interfaces_preserved:
  assumes "interfaces_ok st" "cursors_ok st" and ev: "apply_domain_event E ev st = (Ok u, st')"
  shows "interfaces_ok st'"
proof (cases "is_OrchestrationFailureInterfaceStarted ev")
  case False
  with assms apply_frame(5) [OF ev] show ?thesis
    by (intro interfaces_frame [OF apply_keeps_executions [OF ev]]) auto
next
  case True
  then obtain p f i where "apply_interface_started p f i st = (Ok u, st')"
    using ev by (cases ev) (auto simp: apply_domain_event_def)
  then show ?thesis
  proof (rule interface_started_Ok)
    fix rp rf ri
    assume facts: "bt_get (executions st) p = Some rp" "bt_get (executions st) f = Some rf"
      "bt_get (executions st) i = Some ri" "running_orchestration rp" "agent_child rf p Failed"
      "agent_child ri p Pending" "i = numbered ''execution-'' (next_execution st)"
      and st': "st' = st\<lparr>orchestration_interfaces := bt_insert f i (orchestration_interfaces st)\<rparr>"
    then have "f \<noteq> i" by (auto simp: agent_child_def)
    with latest_youngest [OF assms(2) facts(2)] facts(7) have "xnum f < xnum i" by simp
    moreover have "failed_in st' f" "orchestration_in st' p" "agent_of st' p f" "agent_of st' p i"
      using facts by (auto simp: st' failed_in_def orchestration_in_def agent_of_def
          running_orchestration_def agent_child_def)
    moreover have "interfaces_ok (st\<lparr>orchestration_interfaces := orchestration_interfaces st\<rparr>)"
      using assms(1) by simp
    ultimately show ?thesis
      using assms(1) facts(2)
      by (auto simp: interfaces_ok_def st' failed_in_def orchestration_in_def agent_of_def)
  qed
qed

lemma decisions_preserved:
  assumes "decisions_ok st" "cursors_ok st" and ev: "apply_domain_event E ev st = (Ok u, st')"
  shows "decisions_ok st'"
proof (cases "is_OrchestrationDecisionMade ev")
  case False
  with assms apply_frame(6) [OF ev] apply_evolves [OF ev] show ?thesis
    by (intro decisions_frame [OF apply_keeps_executions [OF ev]]) (auto simp: evolves_def)
next
  case True
  then obtain d where "apply_decision_made d st = (Ok u, st')"
    using ev by (cases ev) (auto simp: apply_domain_event_def)
  then show ?thesis
  proof (rule decision_made_Ok)
    fix rp rf
    let ?f = "fd_failed_child d" and ?p = "fd_parent_execution d"
    assume facts: "bt_get (executions st) ?p = Some rp" "bt_get (executions st) ?f = Some rf"
      "running_orchestration rp" "agent_child rf ?p Failed" "decider_error d st = None"
      "recovery_error d st = None"
      and st': "st' = st\<lparr>orchestration_decisions := bt_insert ?f d (orchestration_decisions st)\<rparr>"
    have recovery: "agent_of st ?p r \<and> xnum ?f < xnum r" if r: "recovery_execution (fd_decision d) = Some r" for r
    proof -
      from facts(6) r obtain rr where rr: "bt_get (executions st) r = Some rr" "agent_child rr ?p Pending"
        "r = numbered ''execution-'' (next_execution st)"
        by (auto simp: recovery_error_def split: option.splits if_splits)
      with facts(2,4) have "?f \<noteq> r" by (auto simp: agent_child_def)
      with latest_youngest [OF assms(2) facts(2)] rr show ?thesis
        by (auto simp: agent_of_def agent_child_def)
    qed
    have decider: "bt_get (orchestration_interfaces st) ?f = Some x" if "fd_decider_execution d = Some x" for x
      using facts(5) that by (auto simp: decider_error_def split: option.splits if_splits)
    have same: "failed_in st' = failed_in st" "orchestration_in st' = orchestration_in st"
      "agent_of st' = agent_of st" "orchestration_interfaces st' = orchestration_interfaces st"
      by (simp_all add: st' fun_eq_iff failed_in_def orchestration_in_def agent_of_def)
    have "failed_in st ?f" "orchestration_in st ?p" "agent_of st ?p ?f"
      using facts by (auto simp: failed_in_def orchestration_in_def agent_of_def running_orchestration_def
          agent_child_def)
    then show ?thesis
      using assms(1) recovery decider unfolding decisions_ok_def same by (auto simp: st')
  qed
qed

lemma nodes_preserved:
  assumes "nodes_ok st" and ev: "apply_domain_event E ev st = (Ok u, st')"
  shows "nodes_ok st'"
proof (cases "is_OrchestrationNodeStarted ev")
  case False
  with assms apply_frame(7) [OF ev] show ?thesis
    by (intro nodes_frame [OF apply_keeps_executions [OF ev]]) auto
next
  case True
  then obtain p n c where "apply_node_started p n c st = (Ok u, st')"
    using ev by (cases ev) (auto simp: apply_domain_event_def)
  then show ?thesis
  proof (rule node_started_Ok)
    fix rp rc
    assume facts: "bt_get (executions st) p = Some rp" "x_kind (xr_summary rp) = OrchestrationKind"
      "bt_get (executions st) c = Some rc" "x_parent_execution (xr_summary rc) = Some p"
      "\<not> node_started p n st"
      and st': "st' = st\<lparr>orchestration_nodes := bt_insert c n (orchestration_nodes st)\<rparr>"
    have same: "orchestration_in st' = orchestration_in st" "child_in st' = child_in st"
      by (simp_all add: st' fun_eq_iff orchestration_in_def child_in_def)
    have new: "orchestration_in st p" "child_in st p c"
      using facts by (auto simp: orchestration_in_def child_in_def)
    have only: "\<not> child_in st p c'" if "bt_get (orchestration_nodes st) c' = Some n" for c'
      using facts(5) that by (auto simp: node_started_def child_in_def bex_bt_entries)
    have parent: "child_in st q c \<Longrightarrow> q = p" for q
      using facts(3,4) by (auto simp: child_in_def)
    note ok = assms(1) [unfolded nodes_ok_def]
    have "\<exists>q. orchestration_in st q \<and> child_in st q k" if "bt_get (orchestration_nodes st') k = Some m" for k m
      using that ok new by (auto simp: st' split: if_splits)
    moreover have "k = k'" if "bt_get (orchestration_nodes st') k = Some m"
        "bt_get (orchestration_nodes st') k' = Some m" "child_in st q k" "child_in st q k'" for k k' m q
    proof (cases "k = c \<or> k' = c")
      case True
      with that parent have "q = p" by blast
      with that True only show ?thesis by (auto simp: st' split: if_splits)
    next
      case False
      with that ok show ?thesis by (auto simp: st')
    qed
    ultimately show ?thesis unfolding nodes_ok_def same by blast
  qed
qed

subsection \<open>Routes, read sets and events\<close>

lemma routes_preserved:
  assumes "routes_ok st" and ev: "apply_domain_event E ev st = (Ok u, st')"
  shows "routes_ok st'"
proof (cases "is_InvocationResolved ev")
  case False
  with assms apply_frame(8) [OF ev] show ?thesis
    by (intro routes_frame [OF apply_keeps_executions [OF ev]]) auto
next
  case True
  then obtain x route where "apply_invocation_resolved x route st = (Ok u, st')"
    using ev by (cases ev) (auto simp: apply_domain_event_def)
  with assms(1) show ?thesis
    by (fastforce simp: routes_ok_def fixed_route_mismatch_def elim!: invocation_resolved_Ok
        split: if_splits ExecutionTarget.splits)
qed

lemma read_sets_preserved:
  assumes "read_sets_ok st" and ev: "apply_domain_event E ev st = (Ok u, st')"
  shows "read_sets_ok st'"
proof (cases "is_WorkspaceFileObserved ev")
  case False
  with assms apply_frame(9) [OF ev] show ?thesis
    by (intro read_sets_frame [OF apply_keeps_executions [OF ev]]) auto
next
  case True
  then obtain x ob where "apply_file_observed x ob st = (Ok u, st')"
    using ev by (cases ev) (auto simp: apply_domain_event_def)
  with assms(1) show ?thesis
    by (auto simp: read_sets_ok_def bt_contains_key_def read_set_new_def elim!: file_observed_Ok
        split: option.splits if_splits)
qed

lemma map_filter_snoc: "List.map_filter f (xs @ [x]) = List.map_filter f xs @ (case f x of None \<Rightarrow> [] | Some y \<Rightarrow> [y])"
  by (auto simp: List.map_filter_def split: option.split)

lemma events_preserved:
  assumes "events_ok st" and ev: "apply_domain_event E ev st = (Ok u, st')"
  shows "events_ok st'"
proof (cases "is_FrontendEvent ev")
  case False
  with assms apply_frame(10) [OF ev] show ?thesis
    by (intro events_frame [OF apply_keeps_executions [OF ev]]) auto
next
  case True
  then obtain event where "apply_frontend_event event st = (Ok u, st')"
    using ev by (cases ev) (auto simp: apply_domain_event_def)
  with assms(1) show ?thesis
    by (auto simp: events_ok_def map_filter_snoc elim!: frontend_event_Ok split: option.splits)
qed

lemma apply_preserves_inv:
  assumes "durable_inv st" and "apply_domain_event E ev st = (Ok u, st')"
  shows "durable_inv st'"
  using assms unfolding durable_inv_def
  by (auto intro: cursors_preserved sessions_preserved executions_preserved attempts_preserved
      interfaces_preserved decisions_preserved nodes_preserved routes_preserved read_sets_preserved
      events_preserved)

section \<open>Refused events\<close>

text \<open>Only the duplicate check of an attempt group comes after a mutation, and the numbering of
  groups makes it unreachable.\<close>

lemma refused_unchanged:
  assumes "cursors_ok st" and "apply_domain_event E ev st = (r, st')" and "r \<noteq> Ok ()"
  shows "st' = st"
proof (cases "is_AttemptGroupCreated ev")
  case True
  then obtain g where g: "apply_group_created g st = (r, st')"
    using assms(2) by (cases ev) (auto simp: apply_domain_event_def)
  have "\<not> bt_contains_key (attempt_groups st) (numbered ''attempt-group-'' (Suc (next_attempt_group st)))"
    using assms(1) issued_fresh by (simp add: cursors_ok_def)
  with g assms(3) show ?thesis
    by (auto simp: apply_group_created_def outcome_defs split: if_splits option.splits)
next
  case False
  with assms(2,3) show ?thesis
    by (cases ev)
      (auto simp: apply_domain_event_def outcome_defs apply_revision_activated_def
        apply_session_created_def apply_session_rebased_def apply_session_renamed_def
        apply_session_target_changed_def apply_session_closed_def apply_execution_created_def
        apply_state_changed_def apply_failure_recorded_def apply_retry_started_def
        apply_interface_started_def apply_decision_made_def apply_node_started_def
        apply_invocation_resolved_def apply_checkpoint_captured_def apply_file_observed_def
        apply_frontend_event_def
        split: if_splits option.splits sum.splits outcome.splits ExecutionEventKind.splits)
qed

end
