(* ===== verification/Runtime.thy ===== *)
theory Runtime
  imports Durable_Inv
begin

text \<open>
  The conductor runtime (\<open>ConductorRuntime\<close> in \<open>phenix-conductor/src/lib.rs\<close>): its state, the
  journalled write path \<open>record_domain_event\<close>, configuration revisions, sessions, authority of a
  new execution, and the creation of executions. Methods on \<open>&self\<close> are functions of the runtime
  that return \<open>error + value\<close>; methods on \<open>&mut self\<close> are operations (\<open>op\<close>).

  The receiving end of the event channel belongs to the frontend. The channel is modelled by
  whether the receiver is still connected and by the events sent so far; that a bounded channel
  makes the sender wait is not modelled.
\<close>

section \<open>State and errors\<close>

datatype ConductorError =
    UnknownSession SessionId
  | UnknownConfigRevision ConfigRevisionId
  | UnboundConfigRevision ConfigRevisionId
  | ConfigRevisionAlreadyBound ConfigRevisionId
  | ConfigRevisionFingerprintMismatch ConfigRevisionId ConfigRevisionFingerprint ConfigRevisionFingerprint
  | ClosedSession SessionId
  | SessionHasActiveExecutions SessionId
  | UnknownExecution ExecutionId
  | WorkspaceMismatch WorkspaceId WorkspaceId
  | EmptyInput
  | InvalidLifecycle ExecutionId
  | InvalidFailureDecision ExecutionId ExecutionId
  | FailureDecisionDenied ExecutionId ExecutionId
  | DelegationDenied ExecutionId CallableId
  | NonModelExecution ExecutionId
  | NonProviderExecution ExecutionId
  | PolicyDenied ExecutionId PolicyDenial
  | CallableRegistryFailure CallableRegistryError
  | ExecutionProviderFailure ExecutionProviderError
  | JournalFailure JournalError
  | RoutingFailure RoutingRegistryError
  | ContextFailure ContextError
  | BackendFailure BackendError

primrec display_ConductorError :: "Externals \<Rightarrow> ConductorError \<Rightarrow> string" where
  "display_ConductorError E (UnknownSession s) = ''unknown session: '' @ as_str s"
| "display_ConductorError E (UnknownConfigRevision r) = ''unknown configuration revision: '' @ as_str r"
| "display_ConductorError E (UnboundConfigRevision r) =
     ''configuration revision is not bound in this process: '' @ as_str r"
| "display_ConductorError E (ConfigRevisionAlreadyBound r) =
     ''configuration revision is already bound: '' @ as_str r"
| "display_ConductorError E (ConfigRevisionFingerprintMismatch r expected actual) =
     ''configuration revision fingerprint mismatch for '' @ as_str r @ '': expected '' @ expected @
     '', found '' @ actual"
| "display_ConductorError E (ClosedSession s) = ''session is closed: '' @ as_str s"
| "display_ConductorError E (SessionHasActiveExecutions s) =
     ''session has active executions and cannot close: '' @ as_str s"
| "display_ConductorError E (UnknownExecution x) = ''unknown execution: '' @ as_str x"
| "display_ConductorError E (WorkspaceMismatch expected actual) =
     ''workspace binding mismatch: persisted '' @ as_str expected @ '', discovered '' @ as_str actual"
| "display_ConductorError E EmptyInput = ''input must not be empty''"
| "display_ConductorError E (InvalidLifecycle x) = ''execution is not runnable: '' @ as_str x"
| "display_ConductorError E (InvalidFailureDecision p x) =
     ''invalid failure decision for child '' @ as_str x @ '' of orchestration '' @ as_str p"
| "display_ConductorError E (FailureDecisionDenied p d) =
     ''execution '' @ as_str d @ '' may not decide failures for orchestration '' @ as_str p"
| "display_ConductorError E (DelegationDenied p c) =
     ''execution '' @ as_str p @ '' may not delegate callable '' @ as_str c"
| "display_ConductorError E (NonModelExecution x) = ''execution is not model-provider backed: '' @ as_str x"
| "display_ConductorError E (NonProviderExecution x) =
     ''execution is not non-model-provider backed: '' @ as_str x"
| "display_ConductorError E (PolicyDenied x denial) = dn_message denial"
| "display_ConductorError E (CallableRegistryFailure e) = display_CallableRegistryError e"
| "display_ConductorError E (ExecutionProviderFailure e) = display_ExecutionProviderError e"
| "display_ConductorError E (JournalFailure e) = display_JournalError e"
| "display_ConductorError E (RoutingFailure e) = display_RoutingRegistryError e"
| "display_ConductorError E (ContextFailure e) = display_ContextError E e"
| "display_ConductorError E (BackendFailure e) = display_BackendError e"

record EventChannel =
  ch_connected :: bool
  ch_sent :: "ExecutionEvent list"

record ConductorRuntime =
  rt_durable :: DurableProjection
  rt_workspace_id :: WorkspaceId
  rt_journal :: RuntimeJournal
  rt_skill_activations :: "(ExecutionId, SkillId set) btree_map"
  rt_policy :: InvocationPolicy
  rt_event_sink :: "EventChannel option"

type_synonym 'a rt = "(ConductorRuntime, ConductorError, 'a) op"

definition empty_projection ::
  "ConfigRevisionId \<Rightarrow> ConfigRevisionFingerprint \<Rightarrow> CompiledConfiguration option \<Rightarrow> DurableProjection" where
  "empty_projection revision fprint configuration = \<lparr>
     config_revisions = bt_insert revision
       \<lparr>slot_fingerprint = fprint, slot_configuration = configuration\<rparr> bt_empty,
     current_config_revision = revision, sessions = bt_empty, executions = bt_empty,
     attempt_groups = bt_empty, orchestration_decisions = bt_empty,
     orchestration_interfaces = bt_empty, orchestration_nodes = bt_empty,
     resolved_routes = bt_empty, read_sets = bt_empty, events = [],
     next_config_revision = 1, next_session = 0, next_execution = 0, next_attempt_group = 0,
     next_event = 0, next_tool_call = 0\<rparr>"

definition initial_revision :: ConfigRevisionId where
  "initial_revision = Ident ''config-1''"

definition runtime_new :: "Externals \<Rightarrow> ConductorRuntime" where
  "runtime_new E =
     (let fprint = fingerprint E configuration_default in
      \<lparr>rt_durable = empty_projection initial_revision fprint (Some configuration_default),
       rt_workspace_id = Ident ''workspace:in-memory'',
       rt_journal = journal_new initial_revision fprint,
       rt_skill_activations = bt_empty, rt_policy = policy_new, rt_event_sink = None\<rparr>)"

section \<open>Lookups\<close>

definition execution_record :: "ConductorRuntime \<Rightarrow> ExecutionId \<Rightarrow> ConductorError + ExecutionRecord" where
  "execution_record self execution_id =
     get_or (UnknownExecution execution_id) (bt_get (executions (rt_durable self)) execution_id)"

definition session_record :: "ConductorRuntime \<Rightarrow> SessionId \<Rightarrow> ConductorError + SessionRecord" where
  "session_record self session_id =
     get_or (UnknownSession session_id) (bt_get (sessions (rt_durable self)) session_id)"

definition configuration_revision ::
  "ConductorRuntime \<Rightarrow> ConfigRevisionId \<Rightarrow> ConductorError + CompiledConfiguration" where
  "configuration_revision self revision =
     bind_result (get_or (UnknownConfigRevision revision) (bt_get (config_revisions (rt_durable self)) revision))
       (\<lambda>slot. get_or (UnboundConfigRevision revision) (slot_configuration slot))"

definition current_configuration :: "ConductorRuntime \<Rightarrow> ConductorError + CompiledConfiguration" where
  "current_configuration self = configuration_revision self (current_config_revision (rt_durable self))"

definition configuration_for_session ::
  "ConductorRuntime \<Rightarrow> SessionId \<Rightarrow> ConductorError + CompiledConfiguration" where
  "configuration_for_session self session_id =
     bind_result (session_record self session_id)
       (\<lambda>session. configuration_revision self (s_config_revision (sn_summary session)))"

definition configuration_for_execution ::
  "ConductorRuntime \<Rightarrow> ExecutionId \<Rightarrow> ConductorError + CompiledConfiguration" where
  "configuration_for_execution self execution_id =
     bind_result (execution_record self execution_id)
       (\<lambda>execution. configuration_revision self (xr_config_revision execution))"

definition execution_config_revision ::
  "ConductorRuntime \<Rightarrow> ExecutionId \<Rightarrow> ConductorError + ConfigRevisionId" where
  "execution_config_revision self execution_id =
     bind_result (execution_record self execution_id) (\<lambda>execution. Inr (xr_config_revision execution))"

definition execution_authority ::
  "ConductorRuntime \<Rightarrow> ExecutionId \<Rightarrow> ConductorError + ExecutionAuthority" where
  "execution_authority self execution_id =
     bind_result (execution_record self execution_id) (\<lambda>execution. Inr (xr_authority execution))"

definition new_config_revision_id :: "ConductorRuntime \<Rightarrow> ConfigRevisionId" where
  "new_config_revision_id self = numbered ''config-'' (next_config_revision (rt_durable self) + 1)"

definition new_session_id :: "ConductorRuntime \<Rightarrow> SessionId" where
  "new_session_id self = numbered ''session-'' (next_session (rt_durable self) + 1)"

definition new_execution_id :: "ConductorRuntime \<Rightarrow> ExecutionId" where
  "new_execution_id self = numbered ''execution-'' (next_execution (rt_durable self) + 1)"

definition new_attempt_group_id :: "ConductorRuntime \<Rightarrow> AttemptGroupId" where
  "new_attempt_group_id self = numbered ''attempt-group-'' (next_attempt_group (rt_durable self) + 1)"

definition new_tool_call_id :: "ConductorRuntime \<Rightarrow> ToolCallId" where
  "new_tool_call_id self = numbered ''tool-call-'' (next_tool_call (rt_durable self) + 1)"

definition ensure_session_active :: "ConductorRuntime \<Rightarrow> SessionId \<Rightarrow> ConductorError + unit" where
  "ensure_session_active self session_id =
     bind_result (session_record self session_id)
       (\<lambda>session. if s_state (sn_summary session) = Closed then Inl (ClosedSession session_id) else Inr ())"

section \<open>Authority of a new execution\<close>

definition extend_envelope :: "ExecutionAuthority \<Rightarrow> ExecutionAuthority \<Rightarrow> ExecutionAuthority" where
  "extend_envelope envelope authority = \<lparr>
     au_filesystem = max (au_filesystem envelope) (au_filesystem authority),
     au_network = max (au_network envelope) (au_network authority),
     au_repository = max (au_repository envelope) (au_repository authority),
     au_ipc = au_ipc envelope \<union> au_ipc authority,
     au_secrets = au_secrets envelope \<union> au_secrets authority,
     au_callables = au_callables envelope \<union> au_callables authority\<rparr>"

definition authority_envelope :: "ExecutionAuthority list \<Rightarrow> ExecutionAuthority" where
  "authority_envelope authorities = foldl extend_envelope read_only authorities"

definition grant_callables :: "CallableId set \<Rightarrow> ExecutionAuthority \<Rightarrow> ExecutionAuthority" where
  "grant_callables callables authority =
     authority\<lparr>au_callables := au_callables authority \<union> callables\<rparr>"

definition agent_authority :: "CallableRegistry \<Rightarrow> CallableId \<Rightarrow> ConductorError + ExecutionAuthority" where
  "agent_authority callables callable =
     map_error CallableRegistryFailure
       (bind_result (agent_definition callables callable) (\<lambda>definition. Inr (ad_authority definition)))"

definition root_authority :: "CallableRegistry \<Rightarrow> ExecutionAuthority" where
  "root_authority callables =
     grant_callables
       (set (map cd_id (filter (\<lambda>descriptor. cd_kind descriptor \<in> {Agent, Orchestration})
         (registry_descriptors callables))))
       (authority_envelope (map ad_authority (agent_definitions callables)))"

definition orchestration_authority ::
  "CallableRegistry \<Rightarrow> CallableId \<Rightarrow> ConductorError + ExecutionAuthority" where
  "orchestration_authority callables callable =
     bind_result (map_error CallableRegistryFailure (orchestration callables callable)) (\<lambda>definition.
     bind_result (traverse (\<lambda>node. agent_authority callables (nd_callable node)) (od_nodes definition))
       (\<lambda>authorities.
     bind_result (traverse (agent_authority callables)
         (case od_interface_agent definition of None \<Rightarrow> [] | Some interface \<Rightarrow> [interface]))
       (\<lambda>interface_authorities.
     Inr (grant_callables (set (map nd_callable (od_nodes definition)) \<union> set_option (od_interface_agent definition))
       (authority_envelope (authorities @ interface_authorities))))))"

definition authority_revision ::
  "ConductorRuntime \<Rightarrow> ExecutionSummary \<Rightarrow> ConductorError + ConfigRevisionId" where
  "authority_revision self execution =
     (case x_parent_execution execution of
        Some parent_id \<Rightarrow>
          bind_result (execution_record self parent_id) (\<lambda>parent. Inr (xr_config_revision parent))
      | None \<Rightarrow>
          bind_result (session_record self (x_session_id execution))
            (\<lambda>session. Inr (s_config_revision (sn_summary session))))"

definition configured_authority_for_execution ::
  "ConductorRuntime \<Rightarrow> ExecutionSummary \<Rightarrow> ConductorError + ExecutionAuthority" where
  "configured_authority_for_execution self execution =
     bind_result (authority_revision self execution) (\<lambda>revision.
     bind_result (configuration_revision self revision) (\<lambda>configuration.
     let callables = cc_callables configuration in
     case x_kind execution of
       RootKind \<Rightarrow> Inr (root_authority callables)
     | AgentKind \<Rightarrow>
         (case x_callable execution of
            None \<Rightarrow> Inr read_only | Some callable \<Rightarrow> agent_authority callables callable)
     | OrchestrationKind \<Rightarrow>
         (case x_callable execution of
            None \<Rightarrow> Inr read_only | Some callable \<Rightarrow> orchestration_authority callables callable)))"

definition effective_authority_for_execution ::
  "ConductorRuntime \<Rightarrow> ExecutionSummary \<Rightarrow> ConductorError + ExecutionAuthority" where
  "effective_authority_for_execution self execution =
     bind_result (configured_authority_for_execution self execution) (\<lambda>configured.
       case x_parent_execution execution of
         None \<Rightarrow> Inr configured
       | Some parent_id \<Rightarrow>
           bind_result (execution_record self parent_id)
             (\<lambda>parent. Inr (attenuate (xr_authority parent) configured)))"

section \<open>The journalled write path\<close>

definition authorize_event :: "ConductorRuntime \<Rightarrow> DomainEvent \<Rightarrow> ConductorError + DomainEvent" where
  "authorize_event self event =
     (case event of
        ExecutionCreated execution payload \<Rightarrow>
          bind_result (effective_authority_for_execution self execution)
            (\<lambda>authority. Inr (ExecutionCreated execution (set_authority authority payload)))
      | _ \<Rightarrow> Inr event)"

definition deliver :: "DomainEvent \<Rightarrow> ConductorRuntime \<Rightarrow> ConductorRuntime" where
  "deliver event self =
     (case event of
        FrontendEvent frontend_event \<Rightarrow>
          (case rt_event_sink self of
             None \<Rightarrow> self
           | Some sink \<Rightarrow>
               if ch_connected sink
               then self\<lparr>rt_event_sink := Some (sink\<lparr>ch_sent := ch_sent sink @ [frontend_event]\<rparr>)\<rparr>
               else self\<lparr>rt_event_sink := None\<rparr>)
      | _ \<Rightarrow> self)"

definition push_entry :: "DomainEvent \<Rightarrow> RuntimeJournal \<Rightarrow> RuntimeJournal" where
  "push_entry event journal = journal\<lparr>rj_entries := rj_entries journal @
     [\<lparr>je_sequence = length (rj_entries journal) + 1, je_event = event\<rparr>]\<rparr>"

definition commit_event :: "Externals \<Rightarrow> DomainEvent \<Rightarrow> unit rt" where
  "commit_event E event self =
     (let (result, projection) = apply_domain_event E event (rt_durable self);
          pushed = push_entry event (rt_journal self)
      in case result of
           Ok _ \<Rightarrow> (Ok (), deliver event (self\<lparr>rt_durable := projection, rt_journal := pushed\<rparr>))
         | Err error \<Rightarrow>
             (Err (JournalFailure error), self\<lparr>rt_durable := projection,
                rt_journal := pushed\<lparr>rj_entries := butlast (rj_entries pushed)\<rparr>\<rparr>)
         | Panic message \<Rightarrow> (Panic message, self\<lparr>rt_durable := projection, rt_journal := pushed\<rparr>)
         | NoFuel \<Rightarrow> (NoFuel, self))"

definition record_domain_event :: "Externals \<Rightarrow> DomainEvent \<Rightarrow> unit rt" where
  "record_domain_event E event =
     and_then (query (\<lambda>self. authorize_event self event)) (commit_event E)"

definition push_event :: "Externals \<Rightarrow> ExecutionId \<Rightarrow> ExecutionEventKind \<Rightarrow> ExecutionEvent rt" where
  "push_event E execution_id kind =
     and_then (query (\<lambda>self. execution_record self execution_id)) (\<lambda>execution.
     and_then (gets (\<lambda>self. \<lparr>ev_sequence = next_event (rt_durable self) + 1,
         ev_session_id = x_session_id (xr_summary execution), ev_execution_id = execution_id,
         ev_kind = kind\<rparr>)) (\<lambda>event.
     and_then (record_domain_event E (FrontendEvent event)) (\<lambda>_. return event)))"

section \<open>Workspace and configuration revisions\<close>

definition bind_workspace :: "WorkspaceId \<Rightarrow> unit rt" where
  "bind_workspace workspace_id self =
     (case find (\<lambda>session. s_workspace_id (sn_summary session) \<noteq> workspace_id)
             (bt_values (sessions (rt_durable self))) of
        Some session \<Rightarrow> (Err (WorkspaceMismatch (s_workspace_id (sn_summary session)) workspace_id), self)
      | None \<Rightarrow> (Ok (), self\<lparr>rt_workspace_id := workspace_id\<rparr>))"

definition register_invocation_guard :: "InvocationGuard \<Rightarrow> unit rt" where
  "register_invocation_guard guard = modify (\<lambda>self. self\<lparr>rt_policy := policy_register guard (rt_policy self)\<rparr>)"

definition set_slot_configuration :: "ConfigRevisionId \<Rightarrow> CompiledConfiguration \<Rightarrow> ConductorRuntime \<Rightarrow> ConductorRuntime" where
  "set_slot_configuration revision configuration self =
     self\<lparr>rt_durable := (rt_durable self)\<lparr>config_revisions :=
       bt_modify revision (\<lambda>slot. slot\<lparr>slot_configuration := Some configuration\<rparr>)
         (config_revisions (rt_durable self))\<rparr>\<rparr>"

definition bind_configuration_revision ::
  "Externals \<Rightarrow> ConfigRevisionId \<Rightarrow> CompiledConfiguration \<Rightarrow> unit rt" where
  "bind_configuration_revision E revision configuration self =
     (case bt_get (config_revisions (rt_durable self)) revision of
        None \<Rightarrow> (Err (UnknownConfigRevision revision), self)
      | Some slot \<Rightarrow>
          if \<not> Option.is_none (slot_configuration slot) then (Err (ConfigRevisionAlreadyBound revision), self)
          else if fingerprint E configuration \<noteq> slot_fingerprint slot
          then (Err (ConfigRevisionFingerprintMismatch revision (slot_fingerprint slot)
                  (fingerprint E configuration)), self)
          else (Ok (), set_slot_configuration revision configuration self))"

definition reload_configuration :: "Externals \<Rightarrow> CompiledConfiguration \<Rightarrow> ConfigRevisionId rt" where
  "reload_configuration E configuration =
     and_then (gets new_config_revision_id) (\<lambda>revision.
     and_then (record_domain_event E
         (ConfigurationRevisionActivated revision (fingerprint E configuration))) (\<lambda>_.
     and_then (gets (\<lambda>self. bt_get (config_revisions (rt_durable self)) revision)) (\<lambda>slot.
     and_then (expect slot ''configuration activation creates a revision slot'') (\<lambda>_.
     and_then (modify (set_slot_configuration revision configuration)) (\<lambda>_.
     return revision)))))"

type_synonym config_update = "CompiledConfiguration \<Rightarrow> (ConductorError, CompiledConfiguration) outcome"

definition revise_configuration :: "Externals \<Rightarrow> config_update \<Rightarrow> ConfigRevisionId rt" where
  "revise_configuration E update =
     and_then (query current_configuration) (\<lambda>configuration.
     and_then (\<lambda>self. (update configuration, self)) (reload_configuration E))"

definition registered :: "(CallableRegistryError + CallableRegistry) \<Rightarrow> config_update" where
  "registered result configuration =
     (case result of
        Inl e \<Rightarrow> Err (CallableRegistryFailure e)
      | Inr callables \<Rightarrow> Ok (configuration\<lparr>cc_callables := callables\<rparr>))"

definition config_register_tool :: "CallableDescriptor \<Rightarrow> ToolHandler \<Rightarrow> config_update" where
  "config_register_tool descriptor handler configuration =
     registered (registry_register_tool descriptor handler (cc_callables configuration)) configuration"

definition config_register_agent :: "AgentDefinition \<Rightarrow> config_update" where
  "config_register_agent definition configuration =
     registered (registry_register_agent definition (cc_callables configuration)) configuration"

definition config_register_provider_agent :: "AgentDefinition \<Rightarrow> ExecutionProvider \<Rightarrow> config_update" where
  "config_register_provider_agent definition provider configuration =
     registered (registry_register_provider_agent definition provider (cc_callables configuration)) configuration"

definition config_register_orchestration :: "OrchestrationDefinition \<Rightarrow> config_update" where
  "config_register_orchestration definition configuration =
     (case register_orchestration definition (cc_callables configuration) of
        Ok callables \<Rightarrow> Ok (configuration\<lparr>cc_callables := callables\<rparr>)
      | Err e \<Rightarrow> Err (CallableRegistryFailure e)
      | Panic message \<Rightarrow> Panic message
      | NoFuel \<Rightarrow> NoFuel)"

definition config_register_routing_profile :: "RoutingProfile \<Rightarrow> config_update" where
  "config_register_routing_profile profile configuration =
     (case routing_register profile (cc_routing configuration) of
        Inl e \<Rightarrow> Err (RoutingFailure e)
      | Inr routing \<Rightarrow> Ok (configuration\<lparr>cc_routing := routing\<rparr>))"

definition register_tool :: "Externals \<Rightarrow> CallableDescriptor \<Rightarrow> ToolHandler \<Rightarrow> unit rt" where
  "register_tool E descriptor handler =
     and_then (revise_configuration E (config_register_tool descriptor handler)) (\<lambda>_. return ())"

definition register_agent :: "Externals \<Rightarrow> AgentDefinition \<Rightarrow> unit rt" where
  "register_agent E definition =
     and_then (revise_configuration E (config_register_agent definition)) (\<lambda>_. return ())"

definition register_provider_agent :: "Externals \<Rightarrow> AgentDefinition \<Rightarrow> ExecutionProvider \<Rightarrow> unit rt" where
  "register_provider_agent E definition provider =
     and_then (revise_configuration E (config_register_provider_agent definition provider)) (\<lambda>_. return ())"

definition runtime_register_orchestration :: "Externals \<Rightarrow> OrchestrationDefinition \<Rightarrow> unit rt" where
  "runtime_register_orchestration E definition =
     and_then (revise_configuration E (config_register_orchestration definition)) (\<lambda>_. return ())"

definition register_routing_profile :: "Externals \<Rightarrow> RoutingProfile \<Rightarrow> unit rt" where
  "register_routing_profile E profile =
     and_then (revise_configuration E (config_register_routing_profile profile)) (\<lambda>_. return ())"

definition install_context_registry :: "Externals \<Rightarrow> ContextRegistry \<Rightarrow> unit rt" where
  "install_context_registry E context =
     and_then (revise_configuration E (\<lambda>c. Ok (c\<lparr>cc_context := context\<rparr>))) (\<lambda>_. return ())"

definition install_skill_registry :: "Externals \<Rightarrow> SkillRegistry \<Rightarrow> unit rt" where
  "install_skill_registry E skills =
     and_then (revise_configuration E (\<lambda>c. Ok (c\<lparr>cc_skills := skills\<rparr>))) (\<lambda>_. return ())"

section \<open>Skills of an execution\<close>

definition activate_skills :: "ExecutionId \<Rightarrow> SkillId set \<Rightarrow> ConductorRuntime \<Rightarrow> ConductorRuntime" where
  "activate_skills execution_id skills self =
     self\<lparr>rt_skill_activations := bt_insert execution_id
       ((case bt_get (rt_skill_activations self) execution_id of None \<Rightarrow> {} | Some active \<Rightarrow> active) \<union> skills)
       (rt_skill_activations self)\<rparr>"

definition load_skill :: "ExecutionId \<Rightarrow> SkillId \<Rightarrow> string rt" where
  "load_skill execution_id skill_id =
     and_then (query (\<lambda>self. configuration_for_execution self execution_id)) (\<lambda>configuration.
     and_then (lift_result ContextFailure (model_skill_payload (cc_skills configuration) skill_id)) (\<lambda>payload.
     and_then (modify (activate_skills execution_id {skill_id})) (\<lambda>_.
     return payload)))"

definition read_skill_resource ::
  "ConductorRuntime \<Rightarrow> ExecutionId \<Rightarrow> SkillId \<Rightarrow> string \<Rightarrow> ConductorError + string" where
  "read_skill_resource self execution_id skill_id path =
     (if \<not> (case bt_get (rt_skill_activations self) execution_id of None \<Rightarrow> False | Some skills \<Rightarrow> skill_id \<in> skills)
      then Inl (ContextFailure (InactiveSkill skill_id))
      else bind_result (configuration_for_execution self execution_id) (\<lambda>configuration.
        map_error ContextFailure (skill_resource_payload (cc_skills configuration) skill_id path)))"

section \<open>Queries\<close>

definition permitted_tool_descriptors ::
  "ConductorRuntime \<Rightarrow> ExecutionId \<Rightarrow> ConductorError + CallableDescriptor list" where
  "permitted_tool_descriptors self execution_id =
     bind_result (execution_authority self execution_id) (\<lambda>authority.
     bind_result (configuration_for_execution self execution_id) (\<lambda>configuration.
     Inr (filter (\<lambda>descriptor. permits_capabilities (au_filesystem authority) (cd_capabilities descriptor))
       (registry_tool_descriptors (cc_callables configuration)))))"

definition attempt_group_for_execution :: "ConductorRuntime \<Rightarrow> ExecutionId \<Rightarrow> AttemptGroup option" where
  "attempt_group_for_execution self execution_id =
     find (contains_execution execution_id) (bt_values (attempt_groups (rt_durable self)))"

definition failed_child_for_interface :: "ConductorRuntime \<Rightarrow> ExecutionId \<Rightarrow> ExecutionId option" where
  "failed_child_for_interface self interface_execution =
     map_option fst (find (\<lambda>(failed_child, interface). interface = interface_execution)
       (bt_entries (orchestration_interfaces (rt_durable self))))"

definition execution_read_set :: "ConductorRuntime \<Rightarrow> ExecutionId \<Rightarrow> ConductorError + ExecutionReadSet" where
  "execution_read_set self execution_id =
     (if \<not> bt_contains_key (executions (rt_durable self)) execution_id
      then Inl (UnknownExecution execution_id)
      else Inr (case bt_get (read_sets (rt_durable self)) execution_id of
                  None \<Rightarrow> read_set_new execution_id | Some rs \<Rightarrow> rs))"

definition execution_workspace_validity ::
  "ConductorRuntime \<Rightarrow> ExecutionId \<Rightarrow> (PathBuf, FileVersion) btree_map \<Rightarrow>
   ConductorError + ExecutionWorkspaceValidity" where
  "execution_workspace_validity self execution_id current =
     bind_result (execution_read_set self execution_id) (\<lambda>rs. Inr (validity_against rs current))"

definition workspace_lease_request :: "ExecutionId \<Rightarrow> WorkspaceLeaseRequest rt" where
  "workspace_lease_request execution_id =
     and_then (query (\<lambda>self. execution_record self execution_id)) (\<lambda>execution.
     and_then (gets (\<lambda>self. bt_get (sessions (rt_durable self)) (x_session_id (xr_summary execution)))) (\<lambda>session.
     and_then (expect session ''execution session invariant'') (\<lambda>session.
     return \<lparr>lr_workspace_id = s_workspace_id (sn_summary session), lr_execution_id = execution_id,
       lr_mode = lease_mode_from (au_filesystem (xr_authority execution))\<rparr>)))"

definition events_since :: "ConductorRuntime \<Rightarrow> nat \<Rightarrow> ExecutionEvent list" where
  "events_since self sequence = filter (\<lambda>event. ev_sequence event > sequence) (events (rt_durable self))"

record RuntimeSnapshot =
  sn_sessions :: "SessionSummary list"
  sn_executions :: "ExecutionSummary list"
  sn_last_event_sequence :: nat

definition snapshot :: "ConductorRuntime \<Rightarrow> RuntimeSnapshot" where
  "snapshot self = \<lparr>
     sn_sessions = map sn_summary (bt_values (sessions (rt_durable self))),
     sn_executions = map xr_summary (bt_values (executions (rt_durable self))),
     sn_last_event_sequence = next_event (rt_durable self)\<rparr>"

definition subscribe_events :: "unit rt" where
  "subscribe_events = modify (\<lambda>self. self\<lparr>rt_event_sink := Some \<lparr>ch_connected = True, ch_sent = []\<rparr>\<rparr>)"

definition unsubscribe_events :: "unit rt" where
  "unsubscribe_events = modify (\<lambda>self. self\<lparr>rt_event_sink := None\<rparr>)"

section \<open>Policy checks\<close>

definition check_callable_policy ::
  "ConductorRuntime \<Rightarrow> ExecutionId \<Rightarrow> CallableDescriptor \<Rightarrow> CallableOperation \<Rightarrow> ConductorError + unit" where
  "check_callable_policy self execution_id descriptor operation =
     bind_result (execution_record self execution_id) (\<lambda>execution.
       map_error (PolicyDenied execution_id)
         (policy_check (rt_policy self)
           \<lparr>ic_session_id = x_session_id (xr_summary execution), ic_execution_id = execution_id,
            ic_config_revision = xr_config_revision execution,
            ic_subject = CallableSubject descriptor operation\<rparr>))"

definition check_model_policy :: "ConductorRuntime \<Rightarrow> PreparedInvocation \<Rightarrow> ConductorError + unit" where
  "check_model_policy self prepared =
     (let resolved = pi_resolved prepared in
      map_error (PolicyDenied (ri_execution_id resolved))
        (policy_check (rt_policy self)
          \<lparr>ic_session_id = ri_session_id resolved, ic_execution_id = ri_execution_id resolved,
           ic_config_revision = ri_config_revision resolved,
           ic_subject = ModelSubject prepared\<rparr>))"

section \<open>Sessions\<close>

definition create_session_at_revision ::
  "Externals \<Rightarrow> SessionId option \<Rightarrow> string option \<Rightarrow> ExecutionTarget \<Rightarrow> ConfigRevisionId \<Rightarrow> SessionSummary rt" where
  "create_session_at_revision E parent_session name target revision =
     and_then (query (\<lambda>self. configuration_revision self revision)) (\<lambda>_.
     and_then (query (\<lambda>self. case parent_session of
         Some parent \<Rightarrow> bind_result (session_record self parent) (\<lambda>p. Inr (s_workspace_id (sn_summary p)))
       | None \<Rightarrow> Inr (rt_workspace_id self))) (\<lambda>workspace_id.
     and_then (gets new_session_id) (\<lambda>session_id.
     let summary = \<lparr>s_id = session_id, s_parent_session = parent_session, s_name = name,
       s_workspace_id = workspace_id, s_config_revision = revision, s_default_target = target,
       s_state = Active\<rparr> in
     and_then (record_domain_event E (SessionCreated summary)) (\<lambda>_. return summary))))"

definition create_session ::
  "Externals \<Rightarrow> SessionId option \<Rightarrow> string option \<Rightarrow> ExecutionTarget \<Rightarrow> SessionSummary rt" where
  "create_session E parent_session name target =
     and_then (gets (\<lambda>self. current_config_revision (rt_durable self)))
       (create_session_at_revision E parent_session name target)"

definition fork_session :: "Externals \<Rightarrow> SessionId \<Rightarrow> string option \<Rightarrow> SessionSummary rt" where
  "fork_session E source name =
     and_then (query (\<lambda>self. session_record self source)) (\<lambda>record.
     let source = sn_summary record in
     create_session_at_revision E (Some (s_id source)) name (s_default_target source)
       (s_config_revision source))"

definition session_after :: "SessionId \<Rightarrow> string \<Rightarrow> SessionSummary rt" where
  "session_after session_id message =
     and_then (gets (\<lambda>self. bt_get (sessions (rt_durable self)) session_id)) (\<lambda>session.
     and_then (expect session message) (\<lambda>session. return (sn_summary session)))"

definition rebase_session :: "Externals \<Rightarrow> SessionId \<Rightarrow> ConfigRevisionId \<Rightarrow> SessionSummary rt" where
  "rebase_session E session_id revision =
     and_then (query (\<lambda>self. ensure_session_active self session_id)) (\<lambda>_.
     and_then (query (\<lambda>self. configuration_revision self revision)) (\<lambda>_.
     and_then (record_domain_event E (SessionConfigRebased session_id revision)) (\<lambda>_.
     session_after session_id ''rebased session remains present'')))"

definition validate_session_close :: "ConductorRuntime \<Rightarrow> SessionId \<Rightarrow> ConductorError + SessionSummary" where
  "validate_session_close self session_id =
     bind_result (session_record self session_id) (\<lambda>record.
       let session = sn_summary record in
       if s_state session = Closed then Inr session
       else if session_has_active_execution session_id (rt_durable self)
       then Inl (SessionHasActiveExecutions session_id)
       else Inr session)"

definition close_session :: "Externals \<Rightarrow> SessionId \<Rightarrow> SessionSummary rt" where
  "close_session E session_id =
     and_then (query (\<lambda>self. validate_session_close self session_id)) (\<lambda>session.
     if s_state session = Closed then return session
     else and_then (record_domain_event E (SessionClosed session_id)) (\<lambda>_.
       session_after session_id ''closed session remains present''))"

section \<open>Creating executions\<close>

definition submit :: "Externals \<Rightarrow> SessionId \<Rightarrow> string \<Rightarrow> ExecutionSummary rt" where
  "submit E session_id body =
     (if is_blank body then throw EmptyInput
      else
       and_then (query (\<lambda>self. ensure_session_active self session_id)) (\<lambda>_.
       and_then (gets (\<lambda>self. bt_get (sessions (rt_durable self)) session_id)) (\<lambda>session.
       and_then (expect session ''active session exists'') (\<lambda>session.
       and_then (gets new_execution_id) (\<lambda>execution_id.
       let summary = \<lparr>x_id = execution_id, x_session_id = session_id, x_parent_execution = None,
         x_kind = RootKind, x_callable = None, x_target = s_default_target (sn_summary session),
         x_state = Pending\<rparr> in
       and_then (record_domain_event E (ExecutionCreated summary (JInvocation body read_only))) (\<lambda>_.
       and_then (push_event E execution_id (UserInput body)) (\<lambda>_.
       and_then (push_event E execution_id (StateChanged Pending)) (\<lambda>_.
       return summary))))))))"

definition create_child ::
  "Externals \<Rightarrow> ExecutionId \<Rightarrow> ExecutionKind \<Rightarrow> CallableId \<Rightarrow> ExecutionPayload \<Rightarrow> ExecutionSummary rt" where
  "create_child E parent_id kind callable payload =
     and_then (query (\<lambda>self. execution_record self parent_id)) (\<lambda>record.
     if callable \<notin> au_callables (xr_authority record) then throw (DelegationDenied parent_id callable)
     else let parent = xr_summary record in
       and_then (query (\<lambda>self. ensure_session_active self (x_session_id parent))) (\<lambda>_.
       and_then (gets new_execution_id) (\<lambda>child_id.
       let child = \<lparr>x_id = child_id, x_session_id = x_session_id parent,
         x_parent_execution = Some (x_id parent), x_kind = kind, x_callable = Some callable,
         x_target = x_target parent, x_state = Pending\<rparr> in
       and_then (record_domain_event E (ExecutionCreated child (journal_payload payload))) (\<lambda>_.
       and_then (push_event E parent_id (ChildExecutionStarted child_id)) (\<lambda>_.
       and_then (push_event E child_id (StateChanged Pending)) (\<lambda>_.
       return child))))))"

definition start_agent_with_node ::
  "Externals \<Rightarrow> ExecutionId \<Rightarrow> CallableId \<Rightarrow> string \<Rightarrow> OrchestrationNodeId option \<Rightarrow> ExecutionSummary rt" where
  "start_agent_with_node E parent_id callable objective orchestration_node =
     and_then (query (\<lambda>self. configuration_for_execution self parent_id)) (\<lambda>configuration.
     let callables = cc_callables configuration in
     and_then (lift_result CallableRegistryFailure (registry_descriptor callables callable)) (\<lambda>descriptor.
     if cd_kind descriptor \<noteq> Agent
     then throw (CallableRegistryFailure (WrongKind callable Agent (cd_kind descriptor)))
     else
       and_then (lift_result CallableRegistryFailure (execution_provider callables callable)) (\<lambda>_.
       and_then (query (\<lambda>self. check_callable_policy self parent_id descriptor
           (if orchestration_node \<noteq> None then StartAgentNode else StartAgent))) (\<lambda>_.
       and_then (create_child E parent_id AgentKind callable (InvocationPayload objective)) (\<lambda>child.
       case orchestration_node of
         None \<Rightarrow> return child
       | Some node_id \<Rightarrow>
           and_then (record_domain_event E (OrchestrationNodeStarted parent_id node_id (x_id child)))
             (\<lambda>_. return child))))))"

definition start_agent ::
  "Externals \<Rightarrow> ExecutionId \<Rightarrow> CallableId \<Rightarrow> string \<Rightarrow> ExecutionSummary rt" where
  "start_agent E parent_id callable objective = start_agent_with_node E parent_id callable objective None"

end
