(* ===== verification/Lifecycle.thy ===== *)
theory Lifecycle
  imports Runtime
begin

text \<open>
  The lifecycle of executions and orchestrations (\<open>set_state\<close>, cancellation and
  \<open>start_orchestration\<close> of \<open>phenix-conductor/src/lib.rs\<close>; all of \<open>failure_decisions.rs\<close>).

  In the code \<open>set_state\<close>, the cancellation of descendants and \<open>refresh_orchestration\<close> call each
  other. Each of them takes the \<open>set_state\<close> it calls as an argument here (suffix \<open>_with\<close>), and
  \<open>set_state_fuel\<close> ties the knot with a bound on the nesting depth. The depth is bounded by the
  executions alive: a nested call either cancels a descendant or ends an orchestration that was
  still running. \<open>set_state\<close> passes \<open>2 * n + 3\<close> for \<open>n\<close> executions; the theory \<open>Lifecycle_Fuel\<close>
  shows that this is enough.
\<close>

section \<open>Subtrees and cancellation\<close>

definition subtree_visit ::
  "ExecutionId set \<Rightarrow> ExecutionId \<times> ExecutionRecord \<Rightarrow> ExecutionId set" where
  "subtree_visit subtree entry =
     (case x_parent_execution (xr_summary (snd entry)) of
        Some parent \<Rightarrow> if parent \<in> subtree then insert (fst entry) subtree else subtree
      | None \<Rightarrow> subtree)"

definition subtree_pass ::
  "(ExecutionId \<times> ExecutionRecord) list \<Rightarrow> ExecutionId set \<Rightarrow> ExecutionId set" where
  "subtree_pass entries subtree = foldl subtree_visit subtree entries"

lemma subtree_pass_bounds:
  "subtree \<subseteq> subtree_pass entries subtree \<and> subtree_pass entries subtree \<subseteq> subtree \<union> fst ` set entries"
  unfolding subtree_pass_def
proof (induction entries arbitrary: subtree)
  case (Cons e entries)
  have "subtree \<subseteq> subtree_visit subtree e \<and> subtree_visit subtree e \<subseteq> insert (fst e) subtree"
    by (auto simp: subtree_visit_def split: option.splits)
  with Cons [of "subtree_visit subtree e"] show ?case by auto
qed simp

function subtree_loop ::
  "(ExecutionId \<times> ExecutionRecord) list \<Rightarrow> ExecutionId set \<Rightarrow> ExecutionId set" where
  "subtree_loop entries subtree =
     (let after = subtree_pass entries subtree in
      if card after = card subtree then after else subtree_loop entries after)"
  by pat_completeness auto
termination
proof (relation "measure (\<lambda>(entries, subtree). card (fst ` set entries - subtree))", goal_cases)
  case (2 entries subtree after)
  have "finite subtree"
  proof (rule ccontr)
    assume "infinite subtree"
    moreover from this have "infinite (subtree_pass entries subtree)"
      using subtree_pass_bounds finite_subset by blast
    ultimately show False using 2 by simp
  qed
  then have "subtree_pass entries subtree \<noteq> subtree" using 2 by auto
  then have "fst ` set entries - subtree_pass entries subtree \<subset> fst ` set entries - subtree"
    using subtree_pass_bounds [of subtree entries] by blast
  then show ?case
    using 2 by (simp add: psubset_card_mono)
qed simp

declare subtree_loop.simps [simp del]

definition execution_subtree :: "ConductorRuntime \<Rightarrow> ExecutionId \<Rightarrow> ConductorError + ExecutionId set" where
  "execution_subtree self root =
     (if \<not> bt_contains_key (executions (rt_durable self)) root then Inl (UnknownExecution root)
      else Inr (subtree_loop (bt_entries (executions (rt_durable self))) {root}))"

type_synonym state_setter = "ExecutionId \<Rightarrow> ExecutionState \<Rightarrow> unit rt"

definition cancel_one :: "Externals \<Rightarrow> state_setter \<Rightarrow> ExecutionTerminationCause \<Rightarrow> ExecutionId \<Rightarrow> unit rt" where
  "cancel_one E ss cause execution_id =
     and_then (gets (\<lambda>self. bt_get (executions (rt_durable self)) execution_id)) (\<lambda>record.
     and_then (expect record ''collected execution'') (\<lambda>record.
     if is_terminal (x_state (xr_summary record)) then return ()
     else and_then (push_event E execution_id (ExecutionTerminated cause)) (\<lambda>_.
       ss execution_id Cancelled)))"

definition cancel_execution_set_with ::
  "Externals \<Rightarrow> state_setter \<Rightarrow> ExecutionId set \<Rightarrow> ExecutionTerminationCause \<Rightarrow> unit rt" where
  "cancel_execution_set_with E ss selected cause =
     for_each (cancel_one E ss cause) (sorted_list_of_set selected)"

definition cancel_descendants_with :: "Externals \<Rightarrow> state_setter \<Rightarrow> ExecutionId \<Rightarrow> unit rt" where
  "cancel_descendants_with E ss root =
     and_then (query (\<lambda>self. execution_subtree self root)) (\<lambda>subtree.
     cancel_execution_set_with E ss (subtree - {root}) (AncestorFailure root))"

section \<open>Failure decisions and recovery executions\<close>

datatype OrchestrationFailureDecisionRequest =
    RequestRetry
  | RequestChooseAnotherChild CallableId string
  | RequestContinue
  | RequestFail

definition record_orchestration_failure_decision ::
  "Externals \<Rightarrow> OrchestrationFailureDecisionRecord \<Rightarrow> unit rt" where
  "record_orchestration_failure_decision E decision =
     and_then (record_domain_event E (OrchestrationDecisionMade decision)) (\<lambda>_.
     and_then (push_event E (fd_parent_execution decision) (DecisionMade decision)) (\<lambda>_.
     return ()))"

definition record_fallback_fail :: "Externals \<Rightarrow> ExecutionId \<Rightarrow> ExecutionId \<Rightarrow> unit rt" where
  "record_fallback_fail E parent_id failed_child_id =
     and_then (gets (\<lambda>self. bt_contains_key (orchestration_decisions (rt_durable self)) failed_child_id)) (\<lambda>decided.
     if \<not> decided
     then record_orchestration_failure_decision E
       \<lparr>fd_parent_execution = parent_id, fd_failed_child = failed_child_id,
        fd_decider_execution = None, fd_decision = Fail\<rparr>
     else return ())"

definition create_recovery_agent ::
  "Externals \<Rightarrow> ExecutionId \<Rightarrow> CallableId \<Rightarrow> string \<Rightarrow> ExecutionSummary rt" where
  "create_recovery_agent E parent_id callable objective =
     and_then (query (\<lambda>self. configuration_for_execution self parent_id)) (\<lambda>configuration.
     let callables = cc_callables configuration in
     and_then (lift_result CallableRegistryFailure (registry_descriptor callables callable)) (\<lambda>descriptor.
     if cd_kind descriptor \<noteq> Agent
     then throw (CallableRegistryFailure (WrongKind callable Agent (cd_kind descriptor)))
     else
       and_then (lift_result CallableRegistryFailure (execution_provider callables callable)) (\<lambda>_.
       and_then (query (\<lambda>self. check_callable_policy self parent_id descriptor StartAgentNode)) (\<lambda>_.
       and_then (query (\<lambda>self. execution_record self parent_id)) (\<lambda>parent.
       if x_state (xr_summary parent) \<noteq> Running then throw (InvalidLifecycle parent_id)
       else if callable \<notin> au_callables (xr_authority parent) then throw (DelegationDenied parent_id callable)
       else
         and_then (gets new_execution_id) (\<lambda>child_id.
         let child = \<lparr>x_id = child_id, x_session_id = x_session_id (xr_summary parent),
           x_parent_execution = Some (x_id (xr_summary parent)), x_kind = AgentKind,
           x_callable = Some callable, x_target = x_target (xr_summary parent), x_state = Pending\<rparr> in
         and_then (record_domain_event E
             (ExecutionCreated child (journal_payload (InvocationPayload objective)))) (\<lambda>_.
         return child)))))))"

definition announce_recovery_child :: "Externals \<Rightarrow> ExecutionId \<Rightarrow> ExecutionSummary \<Rightarrow> unit rt" where
  "announce_recovery_child E parent_id child =
     and_then (push_event E parent_id (ChildExecutionStarted (x_id child))) (\<lambda>_.
     and_then (push_event E (x_id child) (StateChanged Pending)) (\<lambda>_. return ()))"

definition failure_objective :: "Externals \<Rightarrow> ExecutionId \<Rightarrow> ExecutionId \<Rightarrow> string \<Rightarrow> string" where
  "failure_objective E parent_id failed_child_id failed_callable =
     ''Decide how the orchestration should handle this failed child. Use the failure-decision tool exactly once.'' @
     nl @ nl @ ''Failure context JSON:'' @ nl @
     to_json E (JObject [(''parent_execution'', json_id parent_id), (''failed_child'', json_id failed_child_id),
       (''failed_callable'', JString failed_callable), (''state'', JString ''failed'')])"

definition start_failure_interface ::
  "Externals \<Rightarrow> ExecutionId \<Rightarrow> ExecutionId \<Rightarrow> CallableId \<Rightarrow> unit rt" where
  "start_failure_interface E parent_id failed_child_id interface_agent =
     and_then (gets (\<lambda>self. bt_contains_key (orchestration_interfaces (rt_durable self)) failed_child_id)) (\<lambda>started.
     if started then return ()
     else
       and_then (query (\<lambda>self. execution_record self failed_child_id)) (\<lambda>failed.
       let failed_callable = (case x_callable (xr_summary failed) of
             None \<Rightarrow> ''unknown'' | Some callable \<Rightarrow> as_str callable) in
       and_then (create_recovery_agent E parent_id interface_agent
           (failure_objective E parent_id failed_child_id failed_callable)) (\<lambda>interface.
       and_then (record_domain_event E
           (OrchestrationFailureInterfaceStarted parent_id failed_child_id (x_id interface))) (\<lambda>_.
       announce_recovery_child E parent_id interface))))"

section \<open>Orchestration progress\<close>

lemma visited_decreases:
  assumes "bt_get m k = Some v" and "k \<notin> visited"
  shows "card (set (bt_keys m) - insert k visited) < card (set (bt_keys m) - visited)"
proof (rule psubset_card_mono)
  have "k \<in> set (bt_keys m) - visited" using assms by (simp add: bt_contains_key_def)
  then show "set (bt_keys m) - insert k visited \<subset> set (bt_keys m) - visited" by blast
qed simp

function effective_state ::
  "ConductorRuntime \<Rightarrow> ExecutionId \<Rightarrow> ExecutionId set \<Rightarrow> ConductorError + ExecutionState" where
  "effective_state self current visited =
     (if current \<in> visited then Inl (InvalidLifecycle current)
      else case bt_get (executions (rt_durable self)) current of
        None \<Rightarrow> Inl (UnknownExecution current)
      | Some record \<Rightarrow>
          if x_state (xr_summary record) \<noteq> Failed then Inr (x_state (xr_summary record))
          else case bt_get (orchestration_decisions (rt_durable self)) current of
            None \<Rightarrow> Inr Failed
          | Some decision \<Rightarrow>
              (case fd_decision decision of
                 Retry execution_id \<Rightarrow> effective_state self execution_id (insert current visited)
               | ChooseAnotherChild execution_id \<Rightarrow> effective_state self execution_id (insert current visited)
               | Continue \<Rightarrow> Inr Completed
               | Fail \<Rightarrow> Inr Failed))"
  by pat_completeness auto
termination
  by (relation "measure (\<lambda>(self, current, visited). card (set (bt_keys (executions (rt_durable self))) - visited))")
    (simp_all add: visited_decreases)

declare effective_state.simps [simp del]

definition effective_orchestration_execution_state ::
  "ConductorRuntime \<Rightarrow> ExecutionId \<Rightarrow> ConductorError + ExecutionState" where
  "effective_orchestration_execution_state self execution_id = effective_state self execution_id {}"

definition node_children ::
  "ConductorRuntime \<Rightarrow> ExecutionId \<Rightarrow> (OrchestrationNodeId \<times> ExecutionId) list" where
  "node_children self execution_id =
     List.map_filter (\<lambda>record.
         map_option (\<lambda>node_id. (node_id, x_id (xr_summary record)))
           (bt_get (orchestration_nodes (rt_durable self)) (x_id (xr_summary record))))
       (filter (\<lambda>record. x_parent_execution (xr_summary record) = Some execution_id)
         (bt_values (executions (rt_durable self))))"

definition orchestration_node_states ::
  "ConductorRuntime \<Rightarrow> ExecutionId \<Rightarrow> ConductorError + (OrchestrationNodeId, ExecutionState) btree_map" where
  "orchestration_node_states self execution_id =
     bind_result (traverse (\<lambda>(node_id, child_id).
         bind_result (effective_orchestration_execution_state self child_id) (\<lambda>state. Inr (node_id, state)))
       (node_children self execution_id))
     (\<lambda>states. Inr (bt_of_list states))"

definition ready_nodes ::
  "OrchestrationDefinition \<Rightarrow> (OrchestrationNodeId, ExecutionState) btree_map \<Rightarrow> OrchestrationNode list" where
  "ready_nodes definition node_states =
     filter (\<lambda>node. \<not> bt_contains_key node_states (nd_id node) \<and>
         list_all (\<lambda>dependency. bt_get node_states dependency = Some Completed) (nd_depends_on node))
       (od_nodes definition)"

definition node_objective_text :: "OrchestrationNode \<Rightarrow> string \<Rightarrow> string" where
  "node_objective_text node objective =
     (case nd_objective node of
        Some node_objective \<Rightarrow>
          node_objective @ nl @ nl @ ''Orchestration objective:'' @ nl @ objective
      | None \<Rightarrow> objective)"

definition advance_orchestration_with :: "Externals \<Rightarrow> state_setter \<Rightarrow> ExecutionId \<Rightarrow> unit rt" where
  "advance_orchestration_with E ss execution_id =
     and_then (query (\<lambda>self. execution_record self execution_id)) (\<lambda>execution.
     case xr_payload execution of
       InvocationPayload _ \<Rightarrow> throw (NonModelExecution execution_id)
     | OrchestrationPayload objective \<Rightarrow>
         and_then (expect (x_callable (xr_summary execution)) ''orchestration execution has callable'') (\<lambda>callable.
         if x_state (xr_summary execution) \<noteq> Running then return ()
         else
           and_then (query (\<lambda>self. configuration_for_execution self execution_id)) (\<lambda>configuration.
           and_then (lift_result CallableRegistryFailure
               (orchestration (cc_callables configuration) callable)) (\<lambda>definition.
           and_then (query (\<lambda>self. orchestration_node_states self execution_id)) (\<lambda>node_states.
           let ready = ready_nodes definition node_states in
           if ready \<noteq> []
           then for_each (\<lambda>node.
               and_then (start_agent_with_node E execution_id (nd_callable node)
                 (node_objective_text node objective) (Some (nd_id node))) (\<lambda>_. return ())) ready
           else if bt_len node_states = length (od_nodes definition) \<and>
             list_all (\<lambda>state. state = Completed) (bt_values node_states)
           then ss execution_id Completed
           else return ())))))"

definition interface_ids_of :: "ConductorRuntime \<Rightarrow> ExecutionId \<Rightarrow> ExecutionId set" where
  "interface_ids_of self execution_id =
     set (List.map_filter (\<lambda>(failed, interface).
         (case bt_get (executions (rt_durable self)) failed of
            None \<Rightarrow> None
          | Some record \<Rightarrow>
              if x_parent_execution (xr_summary record) = Some execution_id then Some interface else None))
       (bt_entries (orchestration_interfaces (rt_durable self))))"

text \<open>The loop over the interfaces reads until it finds one that failed.\<close>

fun failed_interface :: "ExecutionId list \<Rightarrow> ExecutionId option rt" where
  "failed_interface [] = return None"
| "failed_interface (interface_id # rest) =
     and_then (gets (\<lambda>self. bt_get (executions (rt_durable self)) interface_id)) (\<lambda>record.
     and_then (expect record ''recorded failure interface execution exists'') (\<lambda>record.
     if x_state (xr_summary record) = Failed then return (Some interface_id)
     else failed_interface rest))"

definition failed_children_of :: "ConductorRuntime \<Rightarrow> ExecutionId \<Rightarrow> ExecutionId set \<Rightarrow> ExecutionId list" where
  "failed_children_of self execution_id interface_ids =
     map (\<lambda>record. x_id (xr_summary record))
       (filter (\<lambda>record. x_parent_execution (xr_summary record) = Some execution_id \<and>
           x_kind (xr_summary record) = AgentKind \<and> x_state (xr_summary record) = Failed \<and>
           x_id (xr_summary record) \<notin> interface_ids)
         (bt_values (executions (rt_durable self))))"

text \<open>The loop over the failed children skips decided ones and returns at the first other.\<close>

definition undecided_child :: "ConductorRuntime \<Rightarrow> ExecutionId list \<Rightarrow> ExecutionId option" where
  "undecided_child self failed_children =
     find (\<lambda>child. \<not> bt_contains_key (orchestration_decisions (rt_durable self)) child) failed_children"

definition handle_failed_child ::
  "Externals \<Rightarrow> state_setter \<Rightarrow> ExecutionId \<Rightarrow> OrchestrationDefinition \<Rightarrow> ExecutionId \<Rightarrow> unit rt" where
  "handle_failed_child E ss execution_id definition failed_child =
     (case od_interface_agent definition of
        None \<Rightarrow>
          and_then (record_fallback_fail E execution_id failed_child) (\<lambda>_. ss execution_id Failed)
      | Some interface_agent \<Rightarrow>
          and_then (gets (\<lambda>self. bt_get (orchestration_interfaces (rt_durable self)) failed_child)) (\<lambda>interface.
          case interface of
            Some interface_id \<Rightarrow>
              and_then (gets (\<lambda>self. bt_get (executions (rt_durable self)) interface_id)) (\<lambda>record.
              and_then (expect record ''recorded failure interface exists'') (\<lambda>record.
              if is_terminal (x_state (xr_summary record))
              then and_then (record_fallback_fail E execution_id failed_child) (\<lambda>_. ss execution_id Failed)
              else return ()))
          | None \<Rightarrow> start_failure_interface E execution_id failed_child interface_agent))"

definition settle_nodes :: "Externals \<Rightarrow> state_setter \<Rightarrow> ExecutionId \<Rightarrow> unit rt" where
  "settle_nodes E ss execution_id =
     and_then (query (\<lambda>self. orchestration_node_states self execution_id)) (\<lambda>node_states.
     if list_ex (\<lambda>state. state = Failed) (bt_values node_states) then ss execution_id Failed
     else if list_ex (\<lambda>state. state = Cancelled) (bt_values node_states) then ss execution_id Cancelled
     else if list_ex (\<lambda>state. state = Interrupted) (bt_values node_states) then ss execution_id Interrupted
     else advance_orchestration_with E ss execution_id)"

definition refresh_orchestration_with :: "Externals \<Rightarrow> state_setter \<Rightarrow> ExecutionId \<Rightarrow> unit rt" where
  "refresh_orchestration_with E ss execution_id =
     and_then (query (\<lambda>self. execution_record self execution_id)) (\<lambda>record.
     let summary = xr_summary record in
     if x_kind summary \<noteq> OrchestrationKind \<or> is_terminal (x_state summary) then return ()
     else
       and_then (expect (x_callable summary) ''orchestration execution has callable'') (\<lambda>callable.
       and_then (query (\<lambda>self. configuration_for_execution self execution_id)) (\<lambda>configuration.
       and_then (lift_result CallableRegistryFailure
           (orchestration (cc_callables configuration) callable)) (\<lambda>definition.
       and_then (gets (\<lambda>self. interface_ids_of self execution_id)) (\<lambda>interface_ids.
       and_then (failed_interface (sorted_list_of_set interface_ids)) (\<lambda>failed.
       case failed of
         Some interface_id \<Rightarrow>
           and_then (record_fallback_fail E execution_id interface_id) (\<lambda>_.
           and_then (gets (\<lambda>self. failed_child_for_interface self interface_id)) (\<lambda>original.
           and_then (case original of
               Some child \<Rightarrow> record_fallback_fail E execution_id child | None \<Rightarrow> return ()) (\<lambda>_.
           ss execution_id Failed)))
       | None \<Rightarrow>
           and_then (gets (\<lambda>self. undecided_child self
               (failed_children_of self execution_id interface_ids))) (\<lambda>undecided.
           case undecided of
             Some failed_child \<Rightarrow> handle_failed_child E ss execution_id definition failed_child
           | None \<Rightarrow> settle_nodes E ss execution_id)))))))"

section \<open>Changing the state of an execution\<close>

definition set_state_with :: "Externals \<Rightarrow> state_setter \<Rightarrow> state_setter" where
  "set_state_with E ss execution_id state =
     and_then (query (\<lambda>self. execution_record self execution_id)) (\<lambda>execution.
     if is_terminal (x_state (xr_summary execution)) then throw (InvalidLifecycle execution_id)
     else
       and_then (record_domain_event E (ExecutionStateChanged execution_id state)) (\<lambda>_.
       and_then (push_event E execution_id (StateChanged state)) (\<lambda>_.
       and_then (if state = Failed then cancel_descendants_with E ss execution_id else return ()) (\<lambda>_.
       if is_terminal state
       then
         and_then (modify (\<lambda>self. self\<lparr>rt_skill_activations :=
             bt_remove execution_id (rt_skill_activations self)\<rparr>)) (\<lambda>_.
         case x_parent_execution (xr_summary execution) of
           Some parent \<Rightarrow>
             and_then (push_event E parent (ChildExecutionFinished execution_id state)) (\<lambda>_.
             refresh_orchestration_with E ss parent)
         | None \<Rightarrow> return ())
       else return ()))))"

primrec set_state_fuel :: "Externals \<Rightarrow> nat \<Rightarrow> state_setter" where
  "set_state_fuel E 0 = (\<lambda>execution_id state. no_fuel)"
| "set_state_fuel E (Suc fuel) = set_state_with E (set_state_fuel E fuel)"

definition lifecycle_fuel :: "ConductorRuntime \<Rightarrow> nat" where
  "lifecycle_fuel self = 2 * bt_len (executions (rt_durable self)) + 3"

definition set_state :: "Externals \<Rightarrow> state_setter" where
  "set_state E execution_id state = (\<lambda>self. set_state_fuel E (lifecycle_fuel self) execution_id state self)"

definition cancel_execution :: "Externals \<Rightarrow> ExecutionId \<Rightarrow> unit rt" where
  "cancel_execution E root =
     and_then (query (\<lambda>self. execution_subtree self root)) (\<lambda>subtree.
     cancel_execution_set_with E (set_state E) subtree (ExplicitCancellation root))"

definition refresh_orchestration :: "Externals \<Rightarrow> ExecutionId \<Rightarrow> unit rt" where
  "refresh_orchestration E = refresh_orchestration_with E (set_state E)"

definition advance_orchestration :: "Externals \<Rightarrow> ExecutionId \<Rightarrow> unit rt" where
  "advance_orchestration E = advance_orchestration_with E (set_state E)"

definition check_node_callables ::
  "ExecutionId \<Rightarrow> CallableRegistry \<Rightarrow> CallableId list \<Rightarrow> unit rt" where
  "check_node_callables parent_id callables =
     for_each (\<lambda>callable.
       and_then (lift_result CallableRegistryFailure (registry_descriptor callables callable)) (\<lambda>descriptor.
       and_then (lift_result CallableRegistryFailure (execution_provider callables callable)) (\<lambda>_.
       query (\<lambda>self. check_callable_policy self parent_id descriptor StartAgentNode))))"

definition started_summary :: "ExecutionId \<Rightarrow> string \<Rightarrow> ExecutionSummary rt" where
  "started_summary execution_id message =
     and_then (gets (\<lambda>self. bt_get (executions (rt_durable self)) execution_id)) (\<lambda>record.
     and_then (expect record message) (\<lambda>record. return (xr_summary record)))"

definition start_orchestration ::
  "Externals \<Rightarrow> ExecutionId \<Rightarrow> CallableId \<Rightarrow> string \<Rightarrow> ExecutionSummary rt" where
  "start_orchestration E parent_id callable objective =
     and_then (query (\<lambda>self. configuration_for_execution self parent_id)) (\<lambda>configuration.
     let callables = cc_callables configuration in
     and_then (lift_result CallableRegistryFailure (orchestration callables callable)) (\<lambda>definition.
     and_then (query (\<lambda>self. check_callable_policy self parent_id (od_descriptor definition)
         StartOrchestration)) (\<lambda>_.
     and_then (check_node_callables parent_id callables
         (map nd_callable (od_nodes definition) @
          (case od_interface_agent definition of None \<Rightarrow> [] | Some interface \<Rightarrow> [interface]))) (\<lambda>_.
     and_then (create_child E parent_id OrchestrationKind callable (OrchestrationPayload objective)) (\<lambda>summary.
     and_then (set_state E (x_id summary) Running) (\<lambda>_.
     and_then (advance_orchestration E (x_id summary)) (\<lambda>_.
     started_summary (x_id summary) ''orchestration exists after creation'')))))))"

section \<open>Deciding a failure\<close>

definition ensure_decider_delegates ::
  "ConductorRuntime \<Rightarrow> ExecutionId \<Rightarrow> CallableId \<Rightarrow> ConductorError + unit" where
  "ensure_decider_delegates self decider_execution_id callable =
     bind_result (execution_record self decider_execution_id) (\<lambda>decider.
       if callable \<in> au_callables (xr_authority decider) then Inr ()
       else Inl (DelegationDenied decider_execution_id callable))"

definition last_error_message :: "ConductorRuntime \<Rightarrow> ExecutionId \<Rightarrow> string option" where
  "last_error_message self execution_id =
     Option.bind (find (\<lambda>event. ev_execution_id event = execution_id \<and>
         (case ev_kind event of ErrorEvent code message \<Rightarrow> True | _ \<Rightarrow> False)) (rev (events (rt_durable self))))
       (\<lambda>event. case ev_kind event of ErrorEvent code message \<Rightarrow> Some message | _ \<Rightarrow> None)"

definition runtime_failure_summary ::
  "ConductorRuntime \<Rightarrow> ExecutionId \<Rightarrow> 32 word \<Rightarrow> ConductorError + FailureAttemptSummary" where
  "runtime_failure_summary self execution_id attempt =
     bind_result (execution_record self execution_id) (\<lambda>execution.
       if x_state (xr_summary execution) \<noteq> Failed then Inl (InvalidLifecycle execution_id)
       else Inr \<lparr>fa_execution_id = execution_id, fa_attempt = attempt,
         fa_approach = ''execute '' @ (case x_callable (xr_summary execution) of
            None \<Rightarrow> ''execution'' | Some callable \<Rightarrow> as_str callable),
         fa_failure_at = ''execution'',
         fa_reason = (case last_error_message self execution_id of
            None \<Rightarrow> ''execution failed'' | Some message \<Rightarrow> message),
         fa_completed_work = []\<rparr>)"

definition json_FailureAttemptSummary :: "FailureAttemptSummary \<Rightarrow> Json" where
  "json_FailureAttemptSummary f = JObject
     [(''execution_id'', json_id (fa_execution_id f)), (''attempt'', JNumber (show_nat (unat (fa_attempt f)))),
      (''approach'', JString (fa_approach f)), (''failure_at'', JString (fa_failure_at f)),
      (''reason'', JString (fa_reason f)), (''completed_work'', JArray (map JString (fa_completed_work f)))]"

definition json_RetryContext :: "RetryContext \<Rightarrow> Json" where
  "json_RetryContext c = JObject
     [(''goal'', JString (rc_goal c)), (''failures'', JArray (map json_FailureAttemptSummary (rc_failures c)))]"

definition retry_input :: "Externals \<Rightarrow> AttemptGroup \<Rightarrow> string" where
  "retry_input E g =
     ''Retry the same goal. Use only the compact failure context below; do not infer prior transcript content.'' @
     nl @ nl @ ''Retry context JSON:'' @ nl @ to_json E (json_RetryContext (retry_context g))"

text \<open>What a retry needs of the failed execution: its parent, its callable and its goal.\<close>

definition retry_source ::
  "ConductorRuntime \<Rightarrow> ExecutionId \<Rightarrow> ConductorError + ExecutionId \<times> CallableId \<times> string" where
  "retry_source self failed_execution_id =
     bind_result (execution_record self failed_execution_id) (\<lambda>failed.
     bind_result (get_or (InvalidFailureDecision failed_execution_id failed_execution_id)
         (x_parent_execution (xr_summary failed))) (\<lambda>parent_id.
     bind_result (get_or (InvalidFailureDecision parent_id failed_execution_id)
         (x_callable (xr_summary failed))) (\<lambda>callable.
     case xr_payload failed of
       InvocationPayload input \<Rightarrow> Inr (parent_id, callable, input)
     | OrchestrationPayload _ \<Rightarrow> Inl (InvalidFailureDecision parent_id failed_execution_id))))"

text \<open>The group of the failed execution: the existing one, with this failure recorded, or a new one.\<close>

definition retry_group ::
  "Externals \<Rightarrow> ExecutionId \<Rightarrow> ExecutionId \<Rightarrow> CallableId \<Rightarrow> string \<Rightarrow> AttemptGroupId rt" where
  "retry_group E failed_execution_id parent_id callable original_goal =
     and_then (gets (\<lambda>self. find (\<lambda>(group_id, g). contains_execution failed_execution_id g)
         (bt_entries (attempt_groups (rt_durable self))))) (\<lambda>existing.
     case existing of
       Some (group_id, g) \<Rightarrow>
         if latest_execution g \<noteq> Some failed_execution_id
         then throw (InvalidFailureDecision parent_id failed_execution_id)
         else if \<not> list_ex (\<lambda>failure. fa_execution_id failure = failed_execution_id) (ag_failures g)
         then
           and_then (ok_or (attempt_for_execution failed_execution_id g)
               (InvalidFailureDecision parent_id failed_execution_id)) (\<lambda>attempt.
           and_then (query (\<lambda>self. runtime_failure_summary self failed_execution_id attempt)) (\<lambda>failure.
           and_then (record_domain_event E (AttemptFailureRecorded group_id failure)) (\<lambda>_.
           return group_id)))
         else return group_id
     | None \<Rightarrow>
         and_then (gets new_attempt_group_id) (\<lambda>group_id.
         and_then (query (\<lambda>self. runtime_failure_summary self failed_execution_id 1)) (\<lambda>first_failure.
         and_then (record_domain_event E (AttemptGroupCreated
             (from_first_failure group_id parent_id callable original_goal first_failure))) (\<lambda>_.
         return group_id))))"

definition create_retry_recovery :: "Externals \<Rightarrow> ExecutionId \<Rightarrow> ExecutionSummary rt" where
  "create_retry_recovery E failed_execution_id =
     and_then (query (\<lambda>self. retry_source self failed_execution_id)) (\<lambda>(parent_id, callable, original_goal).
     and_then (retry_group E failed_execution_id parent_id callable original_goal) (\<lambda>group_id.
     and_then (gets (\<lambda>self. bt_get (attempt_groups (rt_durable self)) group_id)) (\<lambda>g.
     and_then (expect g ''attempt group was recorded before retry'') (\<lambda>g.
     and_then (create_recovery_agent E parent_id callable (retry_input E g)) (\<lambda>retry.
     and_then (record_domain_event E (AttemptRetryStarted group_id (x_id retry))) (\<lambda>_.
     return retry))))))"

record decision_scope =
  sc_parent_id :: ExecutionId
  sc_failed_child :: ExecutionId
  sc_failed :: ExecutionRecord
  sc_definition :: OrchestrationDefinition

text \<open>The checks that come before the request is looked at.\<close>

definition decision_scope_of ::
  "ConductorRuntime \<Rightarrow> ExecutionId \<Rightarrow> ConductorError + decision_scope" where
  "decision_scope_of self decider_execution_id =
     bind_result (execution_record self decider_execution_id) (\<lambda>decider.
     bind_result (get_or (FailureDecisionDenied decider_execution_id decider_execution_id)
         (x_parent_execution (xr_summary decider))) (\<lambda>parent_id.
     bind_result (get_or (FailureDecisionDenied parent_id decider_execution_id)
         (failed_child_for_interface self decider_execution_id)) (\<lambda>failed_child_id.
     let invalid_decision = InvalidFailureDecision parent_id failed_child_id in
     if bt_contains_key (orchestration_decisions (rt_durable self)) failed_child_id \<or>
        x_state (xr_summary decider) \<notin> {Running, Completed}
     then Inl invalid_decision
     else
     bind_result (execution_record self failed_child_id) (\<lambda>failed.
     if x_state (xr_summary failed) \<noteq> Failed then Inl invalid_decision
     else
     bind_result (execution_record self parent_id) (\<lambda>parent.
     if x_kind (xr_summary parent) \<noteq> OrchestrationKind \<or> x_state (xr_summary parent) \<noteq> Running
     then Inl invalid_decision
     else
     bind_result (get_or invalid_decision (x_callable (xr_summary parent))) (\<lambda>orchestration_callable.
     bind_result (configuration_for_execution self parent_id) (\<lambda>configuration.
     bind_result (map_error CallableRegistryFailure
         (orchestration (cc_callables configuration) orchestration_callable)) (\<lambda>definition.
     if od_interface_agent definition \<noteq> x_callable (xr_summary decider)
     then Inl (FailureDecisionDenied parent_id decider_execution_id)
     else Inr \<lparr>sc_parent_id = parent_id, sc_failed_child = failed_child_id, sc_failed = failed,
            sc_definition = definition\<rparr>))))))))"

definition decide ::
  "Externals \<Rightarrow> ExecutionId \<Rightarrow> decision_scope \<Rightarrow> OrchestrationFailureDecision \<Rightarrow> unit rt" where
  "decide E decider_execution_id scope decision =
     record_orchestration_failure_decision E
       \<lparr>fd_parent_execution = sc_parent_id scope, fd_failed_child = sc_failed_child scope,
        fd_decider_execution = Some decider_execution_id, fd_decision = decision\<rparr>"

definition perform_decision ::
  "Externals \<Rightarrow> ExecutionId \<Rightarrow> decision_scope \<Rightarrow> OrchestrationFailureDecisionRequest \<Rightarrow>
   ExecutionSummary option rt" where
  "perform_decision E decider_execution_id scope request =
     (let invalid_decision = InvalidFailureDecision (sc_parent_id scope) (sc_failed_child scope);
          failed_callable = x_callable (xr_summary (sc_failed scope)) in
      case request of
        RequestRetry \<Rightarrow>
          and_then (ok_or failed_callable invalid_decision) (\<lambda>callable.
          and_then (query (\<lambda>self. ensure_decider_delegates self decider_execution_id callable)) (\<lambda>_.
          and_then (create_retry_recovery E (sc_failed_child scope)) (\<lambda>recovery.
          and_then (decide E decider_execution_id scope (Retry (x_id recovery))) (\<lambda>_.
          and_then (announce_recovery_child E (sc_parent_id scope) recovery) (\<lambda>_.
          return (Some recovery))))))
      | RequestChooseAnotherChild callable objective \<Rightarrow>
          if is_blank objective \<or> failed_callable = Some callable \<or>
             od_interface_agent (sc_definition scope) = Some callable
          then throw invalid_decision
          else
            and_then (query (\<lambda>self. ensure_decider_delegates self decider_execution_id callable)) (\<lambda>_.
            and_then (create_recovery_agent E (sc_parent_id scope) callable objective) (\<lambda>recovery.
            and_then (decide E decider_execution_id scope (ChooseAnotherChild (x_id recovery))) (\<lambda>_.
            and_then (announce_recovery_child E (sc_parent_id scope) recovery) (\<lambda>_.
            return (Some recovery)))))
      | RequestContinue \<Rightarrow>
          and_then (decide E decider_execution_id scope Continue) (\<lambda>_. return None)
      | RequestFail \<Rightarrow>
          and_then (decide E decider_execution_id scope Fail) (\<lambda>_. return None))"

definition decide_orchestration_failure ::
  "Externals \<Rightarrow> ExecutionId \<Rightarrow> OrchestrationFailureDecisionRequest \<Rightarrow> ExecutionSummary option rt" where
  "decide_orchestration_failure E decider_execution_id request =
     and_then (query (\<lambda>self. decision_scope_of self decider_execution_id)) (\<lambda>scope.
     and_then (perform_decision E decider_execution_id scope request) (\<lambda>recovery.
     and_then (refresh_orchestration E (sc_parent_id scope)) (\<lambda>_.
     return recovery)))"

end
