(* ===== verification/Lifecycle_Facts.thy ===== *)
theory Lifecycle_Facts
  imports Lifecycle
begin

text \<open>
  Pure parts of the lifecycle compared with reference definitions: the loop that collects the
  subtree of an execution computes its descendants, and following recovery decisions from a known
  execution always ends with a state, because every recovery execution is younger than the
  execution it replaces.
\<close>

section \<open>Subtrees\<close>

definition child_rel :: "ConductorRuntime \<Rightarrow> (ExecutionId \<times> ExecutionId) set" where
  "child_rel s = {(p, x). child_in (rt_durable s) p x}"

definition descendants :: "ConductorRuntime \<Rightarrow> ExecutionId \<Rightarrow> ExecutionId set" where
  "descendants s root = (child_rel s)\<^sup>* `` {root}"

lemma subtree_pass_mono: "subtree \<subseteq> subtree_pass entries subtree"
  using subtree_pass_bounds by blast

lemma subtree_pass_Cons:
  "subtree_pass (e # entries) subtree = subtree_pass entries (subtree_visit subtree e)"
  by (simp add: subtree_pass_def)

lemma subtree_pass_sound:
  assumes "subtree \<subseteq> D"
    and "\<And>x r p. (x, r) \<in> set entries \<Longrightarrow> x_parent_execution (xr_summary r) = Some p \<Longrightarrow> p \<in> D \<Longrightarrow> x \<in> D"
  shows "subtree_pass entries subtree \<subseteq> D"
  using assms
proof (induction entries arbitrary: subtree)
  case Nil
  then show ?case by (simp add: subtree_pass_def)
next
  case (Cons e entries)
  have "subtree_visit subtree e \<subseteq> D"
    using Cons.prems(1) Cons.prems(2) [of "fst e" "snd e"]
    by (auto simp: subtree_visit_def split: option.splits if_splits)
  then show ?case
    unfolding subtree_pass_Cons by (rule Cons.IH) (rule Cons.prems(2), auto)
qed

lemma subtree_pass_closed:
  assumes "(x, r) \<in> set entries" and "x_parent_execution (xr_summary r) = Some p" and "p \<in> subtree"
  shows "x \<in> subtree_pass entries subtree"
  using assms
proof (induction entries arbitrary: subtree)
  case (Cons e entries)
  show ?case
  proof (cases "e = (x, r)")
    case True
    with Cons.prems have "x \<in> subtree_visit subtree e" by (simp add: subtree_visit_def)
    then show ?thesis unfolding subtree_pass_Cons using subtree_pass_mono by blast
  next
    case False
    moreover have "subtree \<subseteq> subtree_visit subtree e"
      by (auto simp: subtree_visit_def split: option.splits)
    ultimately show ?thesis
      unfolding subtree_pass_Cons using Cons.prems by (intro Cons.IH) auto
  qed
qed simp

lemma child_rel_entries:
  "(p, x) \<in> child_rel s \<longleftrightarrow>
     (\<exists>r. (x, r) \<in> set (bt_entries (executions (rt_durable s))) \<and> x_parent_execution (xr_summary r) = Some p)"
  by (simp add: child_rel_def child_in_def)

lemma subtree_loop_descendants:
  assumes "finite subtree" and "root \<in> subtree" and "subtree \<subseteq> descendants s root"
  shows "subtree_loop (bt_entries (executions (rt_durable s))) subtree = descendants s root"
  using assms
proof (induction "bt_entries (executions (rt_durable s))" subtree rule: subtree_loop.induct)
  case (1 subtree)
  let ?entries = "bt_entries (executions (rt_durable s))"
  let ?after = "subtree_pass ?entries subtree"
  have fin: "finite ?after"
    using subtree_pass_bounds [of subtree ?entries] 1(2) by (meson finite_UnI finite_imageI finite_set finite_subset)
  have mono: "subtree \<subseteq> ?after" by (rule subtree_pass_mono)
  have step: "x \<in> descendants s root" if "p \<in> descendants s root" "(p, x) \<in> child_rel s" for p x
    using that by (auto simp: descendants_def)
  have within: "?after \<subseteq> descendants s root"
    using 1(4) by (rule subtree_pass_sound) (rule step, assumption, auto simp: child_rel_entries)
  show ?case
  proof (cases "card ?after = card subtree")
    case True
    then have same: "?after = subtree" using mono fin by (metis card_subset_eq)
    have "descendants s root \<subseteq> subtree"
    proof
      fix x assume "x \<in> descendants s root"
      then have "(root, x) \<in> (child_rel s)\<^sup>*" by (simp add: descendants_def)
      then show "x \<in> subtree"
      proof (induction rule: rtrancl_induct)
        case base
        show ?case by (rule 1(3))
      next
        case (step p x)
        then show ?case using subtree_pass_closed [of x _ ?entries p subtree] same
          by (auto simp: child_rel_entries)
      qed
    qed
    with True within same show ?thesis by (subst subtree_loop.simps) (simp add: Let_def)
  next
    case False
    have "subtree_loop ?entries ?after = descendants s root"
      using 1(1) [OF refl _ fin _ within] False 1(3) mono by blast
    with False show ?thesis by (subst subtree_loop.simps) (simp add: Let_def)
  qed
qed

lemma execution_subtree_descendants:
  "execution_subtree s root =
     (if bt_contains_key (executions (rt_durable s)) root then Inr (descendants s root)
      else Inl (UnknownExecution root))"
proof -
  have "root \<in> descendants s root" by (simp add: descendants_def)
  then show ?thesis by (simp add: execution_subtree_def subtree_loop_descendants)
qed

section \<open>Following recoveries\<close>

lemma recovery_known:
  assumes "durable_inv st" and "bt_get (orchestration_decisions st) x = Some d"
    and "recovery_execution (fd_decision d) = Some r"
  shows "bt_contains_key (executions st) r" and "xnum x < xnum r"
proof -
  have "agent_of st (fd_parent_execution d) r \<and> xnum x < xnum r"
    using assms by (auto simp: durable_inv_def decisions_ok_def)
  then show "bt_contains_key (executions st) r" "xnum x < xnum r"
    by (auto simp: agent_of_def bt_contains_key_def)
qed

lemma effective_state_settles:
  assumes "durable_inv (rt_durable s)"
    and "bt_contains_key (executions (rt_durable s)) x" and "\<forall>y\<in>visited. xnum y < xnum x"
  shows "\<exists>state. effective_state s x visited = Inr state"
  using assms
proof (induction s x visited rule: effective_state.induct)
  case (1 s x visited)
  then have "x \<notin> visited" by auto
  moreover from 1 obtain rec where rec: "bt_get (executions (rt_durable s)) x = Some rec"
    by (auto simp: bt_contains_key_def)
  moreover have "\<exists>state. effective_state s r (insert x visited) = Inr state"
    if failed: "x_state (xr_summary rec) = Failed"
      and d: "bt_get (orchestration_decisions (rt_durable s)) x = Some d"
      and r: "fd_decision d = Retry r \<or> fd_decision d = ChooseAnotherChild r" for d r
  proof -
    from r have "recovery_execution (fd_decision d) = Some r" by auto
    with recovery_known [OF 1(3) d] have r': "bt_contains_key (executions (rt_durable s)) r" "xnum x < xnum r"
      by auto
    with 1(5) have "\<forall>y\<in>insert x visited. xnum y < xnum r" by auto
    with 1(1,2) r r' 1(3) \<open>x \<notin> visited\<close> rec failed d show ?thesis by metis
  qed
  ultimately show ?case
    by (subst effective_state.simps) (auto split: option.split OrchestrationFailureDecision.split)
qed

end
