(* ===== verification/Drive.thy ===== *)
theory Drive
  imports Lifecycle
begin

text \<open>
  Running an execution (\<open>resolve_invocation\<close>, \<open>prepare_invocation\<close>, \<open>drive_execution\<close>,
  \<open>drive_provider_execution\<close> and \<open>invoke_tool\<close> of \<open>phenix-conductor/src/lib.rs\<close>,
  \<open>prepare_provider_execution\<close> of \<open>execution_provider.rs\<close>) and the top-level entry point
  \<open>start_session_callable\<close> of \<open>callables.rs\<close>, with the operations \<open>server.rs\<close> adds to the
  runtime. The backend and the provider are foreign code: a
  turn is an interaction tree, and \<open>run_backend\<close> and \<open>run_provider\<close> answer its calls with the
  host methods of the runtime.
\<close>

section \<open>Resolving and preparing an invocation\<close>

definition execution_provider_kind ::
  "ConductorRuntime \<Rightarrow> ExecutionId \<Rightarrow> ConductorError + ExecutionProviderKind" where
  "execution_provider_kind self execution_id =
     bind_result (execution_record self execution_id) (\<lambda>execution.
     bind_result (configuration_revision self (xr_config_revision execution)) (\<lambda>configuration.
     case x_callable (xr_summary execution) of
       None \<Rightarrow>
         if x_kind (xr_summary execution) = RootKind then Inr ModelProvider
         else Inl (NonProviderExecution execution_id)
     | Some callable \<Rightarrow>
         bind_result (map_error CallableRegistryFailure
             (execution_provider (cc_callables configuration) callable))
           (\<lambda>binding. Inr (binding_kind binding))))"

definition model_input ::
  "ConductorRuntime \<Rightarrow> ExecutionId \<Rightarrow> ConductorError + ExecutionSummary \<times> string" where
  "model_input self execution_id =
     bind_result (execution_record self execution_id) (\<lambda>execution.
       if x_kind (xr_summary execution) = OrchestrationKind then Inl (NonModelExecution execution_id)
       else case xr_payload execution of
         InvocationPayload input \<Rightarrow> Inr (xr_summary execution, input)
       | OrchestrationPayload _ \<Rightarrow> Inl (NonModelExecution execution_id))"

definition resolve_model ::
  "CompiledConfiguration \<Rightarrow> ExecutionSummary \<Rightarrow> ConductorError + ModelTarget" where
  "resolve_model configuration summary =
     (case x_target summary of
        Fixed model \<Rightarrow> Inr model
      | Routed profile \<Rightarrow>
          map_error RoutingFailure (routing_resolve (cc_routing configuration) profile (x_callable summary)))"

definition resolve_route ::
  "Externals \<Rightarrow> ExecutionId \<Rightarrow> CompiledConfiguration \<Rightarrow> ExecutionSummary \<Rightarrow> ConfigRevisionId \<Rightarrow> ResolvedRoute rt" where
  "resolve_route E execution_id configuration summary execution_revision =
     and_then (gets (\<lambda>self. bt_get (resolved_routes (rt_durable self)) execution_id)) (\<lambda>known.
     case known of
       Some route \<Rightarrow> return route
     | None \<Rightarrow>
         and_then (lift_result id (resolve_model configuration summary)) (\<lambda>model.
         let route = \<lparr>ro_requested_target = x_target summary, ro_model = model,
           ro_config_revision = execution_revision\<rparr> in
         and_then (record_domain_event E (InvocationResolved execution_id route)) (\<lambda>_. return route)))"

definition resolve_invocation :: "Externals \<Rightarrow> ExecutionId \<Rightarrow> ResolvedInvocation rt" where
  "resolve_invocation E execution_id =
     and_then (query (\<lambda>self. model_input self execution_id)) (\<lambda>(summary, input).
     and_then (query (\<lambda>self. execution_provider_kind self execution_id)) (\<lambda>kind.
     if kind \<noteq> ModelProvider then throw (NonModelExecution execution_id)
     else
       and_then (query (\<lambda>self. configuration_for_execution self execution_id)) (\<lambda>configuration.
       and_then (query (\<lambda>self. execution_config_revision self execution_id)) (\<lambda>execution_revision.
       and_then (resolve_route E execution_id configuration summary execution_revision) (\<lambda>route.
       and_then (lift_result ContextFailure (compose_prompt_with_activations (cc_context configuration)
           (cc_skills configuration) input)) (\<lambda>(prompt, explicit_skills).
       and_then (if explicit_skills \<noteq> {} then modify (activate_skills execution_id explicit_skills)
                 else return ()) (\<lambda>_.
       and_then (query (\<lambda>self. permitted_tool_descriptors self execution_id)) (\<lambda>tools.
       return \<lparr>ri_execution_id = execution_id, ri_session_id = x_session_id summary,
         ri_config_revision = ro_config_revision route, ri_callable = x_callable summary,
         ri_requested_target = ro_requested_target route, ri_model = ro_model route,
         ri_prompt = prompt, ri_tools = \<lparr>tp_callables = tools\<rparr>\<rparr>))))))))"

definition prepare_invocation ::
  "ConductorRuntime \<Rightarrow> ResolvedInvocation \<Rightarrow> BackendCapabilities \<Rightarrow> ConductorError + PreparedInvocation" where
  "prepare_invocation self resolved capabilities =
     bind_result (execution_record self (ri_execution_id resolved)) (\<lambda>execution.
       if x_state (xr_summary execution) \<noteq> Pending then Inl (InvalidLifecycle (ri_execution_id resolved))
       else
         bind_result (map_error BackendFailure (prepare_tools (ri_tools resolved) capabilities)) (\<lambda>tools.
         let prepared = \<lparr>pi_resolved = resolved, pi_tools = tools\<rparr> in
         bind_result (check_model_policy self prepared) (\<lambda>_. Inr prepared)))"

section \<open>The host of a backend turn\<close>

definition conductor_protocol_error :: "Externals \<Rightarrow> ConductorError \<Rightarrow> BackendError" where
  "conductor_protocol_error E error = Protocol (display_ConductorError E error)"

type_synonym 'a host = "(ConductorRuntime, BackendError, 'a) op"

fun backend_event_kind :: "BackendEvent \<Rightarrow> ExecutionEventKind" where
  "backend_event_kind (ContentDelta body) = AssistantContentDelta body"
| "backend_event_kind (BackendReasoningDelta body) = ReasoningDelta body"

definition host_emit :: "Externals \<Rightarrow> ExecutionId \<Rightarrow> BackendEvent \<Rightarrow> unit host" where
  "host_emit E execution_id event =
     map_err (conductor_protocol_error E)
       (and_then (push_event E execution_id (backend_event_kind event)) (\<lambda>_. return ()))"

definition record_file_observation :: "Externals \<Rightarrow> ExecutionId \<Rightarrow> FileObservation \<Rightarrow> unit rt" where
  "record_file_observation E execution_id observation =
     record_domain_event E (WorkspaceFileObserved execution_id observation)"

definition into_backend_result :: "ToolOutcome \<Rightarrow> ToolResult" where
  "into_backend_result outcome = \<lparr>tr_output = to_output outcome, tr_success = to_success outcome\<rparr>"

text \<open>The call of the tool itself, once policy and arguments are accepted.\<close>

definition call_tool ::
  "Externals \<Rightarrow> CallableRegistry \<Rightarrow> ExecutionId \<Rightarrow> ToolInvocation \<Rightarrow> ToolResult host" where
  "call_tool E callables execution_id invocation =
     and_then (map_err (conductor_protocol_error E)
         (query (\<lambda>self. execution_authority self execution_id))) (\<lambda>authority.
     and_then (lift_result (\<lambda>error. Protocol (display_CallableRegistryError error))
         (registry_invoke_tool callables \<lparr>tc_authority = authority\<rparr> (ti_callable invocation)
           (ti_arguments_json invocation))) (\<lambda>outcome.
     and_then (if to_success outcome
               then map_err (conductor_protocol_error E)
                 (for_each (record_file_observation E execution_id) (to_file_observations outcome))
               else return ()) (\<lambda>_.
     return (into_backend_result outcome))))"

definition tool_result ::
  "Externals \<Rightarrow> CallableRegistry \<Rightarrow> CallableDescriptor \<Rightarrow> ExecutionId \<Rightarrow> ToolInvocation \<Rightarrow> ToolResult host" where
  "tool_result E callables descriptor execution_id invocation =
     and_then (gets (\<lambda>self. check_callable_policy self execution_id descriptor InvokeTool)) (\<lambda>policy.
     case policy of
       Inr _ \<Rightarrow>
         (case json_error E (ti_arguments_json invocation) of
            None \<Rightarrow> call_tool E callables execution_id invocation
          | Some error \<Rightarrow>
              return \<lparr>tr_output = ''invalid JSON tool arguments: '' @ error, tr_success = False\<rparr>)
     | Inl error \<Rightarrow>
         (case error of
            PolicyDenied _ denial \<Rightarrow> return \<lparr>tr_output = dn_message denial, tr_success = False\<rparr>
          | _ \<Rightarrow> throw (conductor_protocol_error E error)))"

definition invoke_tool ::
  "Externals \<Rightarrow> ExecutionId \<Rightarrow> CallableId set \<Rightarrow> ToolInvocation \<Rightarrow> ToolResult host" where
  "invoke_tool E execution_id allowed invocation =
     and_then (map_err (conductor_protocol_error E)
         (query (\<lambda>self. configuration_for_execution self execution_id))) (\<lambda>configuration.
     let callables = cc_callables configuration in
     if ti_callable invocation \<notin> allowed \<or> \<not> registry_contains callables (ti_callable invocation)
     then throw (Protocol (''backend invoked unprovisioned tool '' @ as_str (ti_callable invocation)))
     else
       and_then (gets new_tool_call_id) (\<lambda>tool_call_id.
       and_then (map_err (conductor_protocol_error E)
           (push_event E execution_id (ToolCallStarted tool_call_id (ti_callable invocation)))) (\<lambda>_.
       and_then (map_err (conductor_protocol_error E)
           (push_event E execution_id (ToolCallArguments tool_call_id (ti_arguments_json invocation)))) (\<lambda>_.
       and_then (lift_result (\<lambda>error. Protocol (display_CallableRegistryError error))
           (registry_descriptor callables (ti_callable invocation))) (\<lambda>descriptor.
       and_then (tool_result E callables descriptor execution_id invocation) (\<lambda>result.
       and_then (map_err (conductor_protocol_error E)
           (push_event E execution_id (ToolCallFinished tool_call_id (tr_output result) (tr_success result)))) (\<lambda>_.
       return result)))))))"

primrec run_backend ::
  "Externals \<Rightarrow> ExecutionId \<Rightarrow> CallableId set \<Rightarrow> backend_run \<Rightarrow> (BackendError + unit) rt" where
  "run_backend E execution_id allowed (EmitThen event k) =
     and_then (catch_result (host_emit E execution_id event)) (\<lambda>answer. run_backend E execution_id allowed (k answer))"
| "run_backend E execution_id allowed (InvokeThen invocation k) =
     and_then (catch_result (invoke_tool E execution_id allowed invocation))
       (\<lambda>answer. run_backend E execution_id allowed (k answer))"
| "run_backend E execution_id allowed (RunDone result) = return result"

section \<open>Driving an execution\<close>

text \<open>What both drivers do with the result of the foreign call.\<close>

definition finish_run :: "Externals \<Rightarrow> ('f \<Rightarrow> ConductorError) \<Rightarrow> ExecutionId \<Rightarrow> 'f + unit \<Rightarrow> unit rt" where
  "finish_run E conv execution_id result =
     (case result of
        Inl error \<Rightarrow> and_then (set_state E execution_id Failed) (\<lambda>_. throw (conv error))
      | Inr _ \<Rightarrow>
          and_then (gets (\<lambda>self. case bt_get (executions (rt_durable self)) execution_id of
              None \<Rightarrow> False | Some execution \<Rightarrow> x_state (xr_summary execution) = Running)) (\<lambda>running.
          if running then set_state E execution_id Completed else return ()))"

definition drive_execution :: "Externals \<Rightarrow> ExecutionId \<Rightarrow> Backend \<Rightarrow> unit rt" where
  "drive_execution E execution_id backend =
     and_then (resolve_invocation E execution_id) (\<lambda>resolved.
     and_then (query (\<lambda>self. prepare_invocation self resolved (be_capabilities backend))) (\<lambda>prepared.
     and_then (lift_result BackendFailure
         (be_open_session backend (backend_session_request prepared))) (\<lambda>session.
     and_then (set_state E execution_id Running) (\<lambda>_.
     and_then (run_backend E execution_id (allowed_tools prepared)
         (session (backend_execution_request prepared))) (\<lambda>result.
     finish_run E BackendFailure execution_id result)))))"

definition provider_source ::
  "ConductorRuntime \<Rightarrow> ExecutionId \<Rightarrow> ConductorError + ExecutionSummary \<times> string" where
  "provider_source self execution_id =
     bind_result (execution_record self execution_id) (\<lambda>execution.
       if x_state (xr_summary execution) \<noteq> Pending then Inl (InvalidLifecycle execution_id)
       else case xr_payload execution of
         InvocationPayload input \<Rightarrow> Inr (xr_summary execution, input)
       | OrchestrationPayload _ \<Rightarrow> Inl (NonProviderExecution execution_id))"

definition prepare_provider_execution ::
  "ConductorRuntime \<Rightarrow> ExecutionId \<Rightarrow> ConductorError + ExecutionProvider \<times> ExecutionProviderRequest" where
  "prepare_provider_execution self execution_id =
     bind_result (provider_source self execution_id) (\<lambda>(summary, input).
     bind_result (get_or (NonProviderExecution execution_id) (x_callable summary)) (\<lambda>callable.
     bind_result (configuration_for_execution self execution_id) (\<lambda>configuration.
     bind_result (map_error CallableRegistryFailure
         (registry_descriptor (cc_callables configuration) callable)) (\<lambda>descriptor.
     bind_result (map_error CallableRegistryFailure
         (execution_provider (cc_callables configuration) callable)) (\<lambda>binding.
     bind_result (get_or (NonProviderExecution execution_id) (binding_provider binding)) (\<lambda>provider.
     bind_result (check_callable_policy self execution_id descriptor DispatchProvider) (\<lambda>_.
     bind_result (execution_config_revision self execution_id) (\<lambda>config_revision.
     Inr (provider, \<lparr>pr_execution_id = execution_id, pr_session_id = x_session_id summary,
       pr_parent_execution = x_parent_execution summary, pr_callable = callable,
       pr_config_revision = config_revision, pr_objective = input\<rparr>)))))))))"

fun provider_event_kind :: "ExecutionProviderEvent \<Rightarrow> ExecutionEventKind" where
  "provider_event_kind (ProviderContentDelta body) = AssistantContentDelta body"
| "provider_event_kind (ProviderReasoningDelta body) = ReasoningDelta body"

definition provider_emit ::
  "Externals \<Rightarrow> ExecutionId \<Rightarrow> ExecutionProviderEvent \<Rightarrow> (ConductorRuntime, ExecutionProviderError, unit) op" where
  "provider_emit E execution_id event =
     map_err (\<lambda>error. ProviderProtocol (display_ConductorError E error))
       (and_then (push_event E execution_id (provider_event_kind event)) (\<lambda>_. return ()))"

primrec run_provider ::
  "Externals \<Rightarrow> ExecutionId \<Rightarrow> provider_run \<Rightarrow> (ExecutionProviderError + unit) rt" where
  "run_provider E execution_id (ProviderEmit event k) =
     and_then (catch_result (provider_emit E execution_id event)) (\<lambda>answer. run_provider E execution_id (k answer))"
| "run_provider E execution_id (ProviderDone result) = return result"

text \<open>\<open>drive_provider_execution\<close> repeats the steps of \<open>prepare_provider_execution\<close> in place.\<close>

definition drive_provider_execution :: "Externals \<Rightarrow> ExecutionId \<Rightarrow> unit rt" where
  "drive_provider_execution E execution_id =
     and_then (query (\<lambda>self. prepare_provider_execution self execution_id)) (\<lambda>(provider, request).
     and_then (set_state E execution_id Running) (\<lambda>_.
     and_then (run_provider E execution_id (ep_execute provider request)) (\<lambda>result.
     finish_run E ExecutionProviderFailure execution_id result)))"

section \<open>Top-level callables of a session\<close>

definition check_session_callable_policy ::
  "ConductorRuntime \<Rightarrow> SessionId \<Rightarrow> ExecutionId \<Rightarrow> CallableDescriptor \<Rightarrow> CallableOperation \<Rightarrow>
   ConductorError + unit" where
  "check_session_callable_policy self session_id execution_id descriptor operation =
     bind_result (session_record self session_id) (\<lambda>session.
       map_error (PolicyDenied execution_id)
         (policy_check (rt_policy self)
           \<lparr>ic_session_id = session_id, ic_execution_id = execution_id,
            ic_config_revision = s_config_revision (sn_summary session),
            ic_subject = CallableSubject descriptor operation\<rparr>))"

definition create_session_callable_execution ::
  "Externals \<Rightarrow> SessionId \<Rightarrow> ExecutionId \<Rightarrow> ExecutionKind \<Rightarrow> CallableId \<Rightarrow> ExecutionPayload \<Rightarrow> string \<Rightarrow>
   ExecutionSummary rt" where
  "create_session_callable_execution E session_id execution_id kind callable payload user_input =
     and_then (query (\<lambda>self. session_record self session_id)) (\<lambda>session.
     let summary = \<lparr>x_id = execution_id, x_session_id = session_id, x_parent_execution = None,
       x_kind = kind, x_callable = Some callable, x_target = s_default_target (sn_summary session),
       x_state = Pending\<rparr> in
     and_then (record_domain_event E (ExecutionCreated summary (journal_payload payload))) (\<lambda>_.
     and_then (push_event E execution_id (UserInput user_input)) (\<lambda>_.
     and_then (push_event E execution_id (StateChanged Pending)) (\<lambda>_.
     return summary))))"

definition check_session_node_callables ::
  "SessionId \<Rightarrow> ExecutionId \<Rightarrow> CallableRegistry \<Rightarrow> CallableId list \<Rightarrow> unit rt" where
  "check_session_node_callables session_id execution_id callables =
     for_each (\<lambda>callable.
       and_then (lift_result CallableRegistryFailure (registry_descriptor callables callable)) (\<lambda>descriptor.
       and_then (lift_result CallableRegistryFailure (execution_provider callables callable)) (\<lambda>_.
       query (\<lambda>self. check_session_callable_policy self session_id execution_id descriptor StartAgentNode))))"

definition start_session_callable ::
  "Externals \<Rightarrow> SessionId \<Rightarrow> CallableId \<Rightarrow> string \<Rightarrow> ExecutionSummary rt" where
  "start_session_callable E session_id callable objective =
     (if is_blank objective then throw EmptyInput
      else
       and_then (query (\<lambda>self. configuration_for_session self session_id)) (\<lambda>configuration.
       let callables = cc_callables configuration in
       and_then (lift_result CallableRegistryFailure (registry_descriptor callables callable)) (\<lambda>descriptor.
       and_then (gets new_execution_id) (\<lambda>execution_id.
       case cd_kind descriptor of
         Agent \<Rightarrow>
           and_then (lift_result CallableRegistryFailure (execution_provider callables callable)) (\<lambda>_.
           and_then (query (\<lambda>self. check_session_callable_policy self session_id execution_id
               descriptor StartAgent)) (\<lambda>_.
           create_session_callable_execution E session_id execution_id AgentKind callable
             (InvocationPayload objective) objective))
       | Orchestration \<Rightarrow>
           and_then (lift_result CallableRegistryFailure (orchestration callables callable)) (\<lambda>definition.
           and_then (query (\<lambda>self. check_session_callable_policy self session_id execution_id
               (od_descriptor definition) StartOrchestration)) (\<lambda>_.
           and_then (check_session_node_callables session_id execution_id callables
               (map nd_callable (od_nodes definition) @
                (case od_interface_agent definition of None \<Rightarrow> [] | Some interface \<Rightarrow> [interface]))) (\<lambda>_.
           and_then (create_session_callable_execution E session_id execution_id OrchestrationKind callable
               (OrchestrationPayload objective) objective) (\<lambda>summary.
           and_then (set_state E (x_id summary) Running) (\<lambda>_.
           and_then (advance_orchestration E (x_id summary)) (\<lambda>_.
           started_summary (x_id summary) ''orchestration exists after top-level creation''))))))
       | Tool \<Rightarrow> throw (CallableRegistryFailure (NotExecutable callable))))))"

section \<open>Operations the server adds to the runtime\<close>

definition rename_session :: "Externals \<Rightarrow> SessionId \<Rightarrow> string \<Rightarrow> SessionSummary rt" where
  "rename_session E session_id name =
     and_then (query (\<lambda>self. ensure_session_active self session_id)) (\<lambda>_.
     and_then (record_domain_event E (SessionRenamed session_id name)) (\<lambda>_.
     session_after session_id ''renamed session remains present''))"

definition set_session_target :: "Externals \<Rightarrow> SessionId \<Rightarrow> ExecutionTarget \<Rightarrow> SessionSummary rt" where
  "set_session_target E session_id target =
     and_then (query (\<lambda>self. ensure_session_active self session_id)) (\<lambda>_.
     and_then (record_domain_event E (SessionTargetChanged session_id target)) (\<lambda>_.
     session_after session_id ''retargeted session remains present''))"

definition record_workspace_checkpoint ::
  "Externals \<Rightarrow> ExecutionId \<Rightarrow> WorkspaceId \<Rightarrow> (PathBuf, FileVersion) btree_map \<Rightarrow> unit rt" where
  "record_workspace_checkpoint E execution_id workspace_id files =
     record_domain_event E (WorkspaceCheckpointCaptured execution_id workspace_id files)"

definition execution_state :: "ConductorRuntime \<Rightarrow> ExecutionId \<Rightarrow> ExecutionState option" where
  "execution_state self execution_id =
     map_option (\<lambda>record. x_state (xr_summary record)) (bt_get (executions (rt_durable self)) execution_id)"

definition running_invocations :: "ConductorRuntime \<Rightarrow> ExecutionId list" where
  "running_invocations self =
     map fst (filter (\<lambda>(execution_id, record).
         x_state (xr_summary record) = Running \<and> is_InvocationPayload (xr_payload record))
       (bt_entries (executions (rt_durable self))))"

definition interrupt_non_resumable_executions :: "Externals \<Rightarrow> unit rt" where
  "interrupt_non_resumable_executions E =
     and_then (gets running_invocations) (for_each (\<lambda>execution_id. set_state E execution_id Interrupted))"

end
