(* ===== verification/Journaled.thy ===== *)
theory Journaled
  imports Drive
begin

text \<open>
  Every operation of the runtime changes the durable state only through
  \<open>record_domain_event\<close>. The locales turn that into a proof rule: a reflexive and transitive
  relation between runtimes that holds across the recording of an event, across changes of the
  volatile fields and across binding a configuration to its slot holds across every operation.
  \<open>agent_events\<close> is for the operations that create agent executions only, with the state setter
  of the mutually recursive ones as a parameter; \<open>lifecycle_events\<close> adds that the runtime's own
  state setter keeps the relation, and \<open>journaled\<close> extends it to all operations.
\<close>

section \<open>The events an operation records\<close>

fun is_invocation :: "JournalExecutionPayload \<Rightarrow> bool" where
  "is_invocation (JInvocation input authority) = True"
| "is_invocation (JOrchestration objective authority) = False"

text \<open>A new execution is pending, an orchestration has a callable and the payload of one, every
  other execution has the payload of an invocation, and a child runs in the session of its
  parent.\<close>

definition in_parent_session :: "DurableProjection \<Rightarrow> ExecutionSummary \<Rightarrow> bool" where
  "in_parent_session st x \<longleftrightarrow>
     (\<forall>p. x_parent_execution x = Some p \<longrightarrow>
        (\<exists>k r. bt_get (executions st) k = Some r \<and> x_id (xr_summary r) = p \<and>
           x_session_id (xr_summary r) = x_session_id x))"

definition new_execution_ok :: "ConductorRuntime \<Rightarrow> ExecutionSummary \<Rightarrow> JournalExecutionPayload \<Rightarrow> bool" where
  "new_execution_ok s x payload \<longleftrightarrow>
     x_state x = Pending \<and> (x_kind x = OrchestrationKind \<longleftrightarrow> \<not> is_invocation payload) \<and>
     (x_kind x = RootKind \<longleftrightarrow> x_callable x = None) \<and> in_parent_session (rt_durable s) x"

definition runtime_event :: "ConductorRuntime \<Rightarrow> DomainEvent \<Rightarrow> bool" where
  "runtime_event s event =
     (case event of ExecutionCreated x payload \<Rightarrow> new_execution_ok s x payload | _ \<Rightarrow> True)"

definition agent_event :: "ConductorRuntime \<Rightarrow> DomainEvent \<Rightarrow> bool" where
  "agent_event s event =
     (case event of
        ExecutionCreated x payload \<Rightarrow> new_execution_ok s x payload \<and> x_kind x = AgentKind
      | _ \<Rightarrow> True)"

lemmas event_class_simps = runtime_event_def agent_event_def new_execution_ok_def

lemma in_parent_session_root: "x_parent_execution x = None \<Longrightarrow> in_parent_session st x"
  by (simp add: in_parent_session_def)

lemma in_parent_session_child:
  "execution_record s p = Inr r \<Longrightarrow> x_parent_execution x = Some (x_id (xr_summary r)) \<Longrightarrow>
   x_session_id x = x_session_id (xr_summary r) \<Longrightarrow> in_parent_session (rt_durable s) x"
  by (auto simp: in_parent_session_def execution_record_def get_or_def split: option.splits)

lemma journal_payload_invocation [simp]: "is_invocation (journal_payload p) \<longleftrightarrow> is_InvocationPayload p"
  by (cases p) simp_all

section \<open>Operations that create agents only\<close>

locale agent_events = trace_rel R N
  for R :: "ConductorRuntime \<Rightarrow> ConductorRuntime \<Rightarrow> bool" and N :: "ConductorRuntime \<Rightarrow> bool" +
  fixes E :: Externals
  assumes commit_agent_at: "agent_event s event \<Longrightarrow> keeps_at R N (record_domain_event E event) s"
    and volatile: "rt_durable s' = rt_durable s \<Longrightarrow> rt_journal s' = rt_journal s \<Longrightarrow> R s s'"
begin

lemma commit_agent: "(\<And>s. agent_event s event) \<Longrightarrow> op_keeps R N (record_domain_event E event)"
  by (simp add: op_keeps_at commit_agent_at)

lemma keeps_case_payload [keeps]:
  "(\<And>x. op_keeps R N (f x)) \<Longrightarrow> (\<And>x. op_keeps R N (g x)) \<Longrightarrow> op_keeps R N (case_ExecutionPayload f g p)"
  by (cases p) simp_all

lemma keeps_case_request [keeps]:
  "op_keeps R N a \<Longrightarrow> (\<And>x y. op_keeps R N (b x y)) \<Longrightarrow> op_keeps R N c \<Longrightarrow> op_keeps R N d \<Longrightarrow>
   op_keeps R N (case_OrchestrationFailureDecisionRequest a b c d request)"
  by (cases request) simp_all

lemma volatile_keeps:
  "(\<And>s. rt_durable (f s) = rt_durable s \<and> rt_journal (f s) = rt_journal s) \<Longrightarrow> op_keeps R N (modify f)"
  by (simp add: op_keeps_def modify_def volatile)

lemma drop_activations_keeps [keeps]:
  "op_keeps R N (modify (\<lambda>self. self\<lparr>rt_skill_activations := bt_remove x (rt_skill_activations self)\<rparr>))"
  by (rule volatile_keeps) simp

lemma push_event_keeps [keeps]: "op_keeps R N (push_event E x kind)"
  unfolding push_event_def by (intro keeps commit_agent) (simp add: event_class_simps)

text \<open>A child is created in the state its parent was read in.\<close>

lemma create_child_keeps:
  assumes "\<And>s x. x_kind x = kind \<Longrightarrow> x_state x = Pending \<Longrightarrow> x_callable x = Some c \<Longrightarrow>
      in_parent_session (rt_durable s) x \<Longrightarrow>
      keeps_at R N (record_domain_event E (ExecutionCreated x (journal_payload payload))) s"
  shows "op_keeps R N (create_child E p kind c payload)"
proof (unfold op_keeps_at create_child_def Let_def, intro allI keeps_at_query keeps_at_if keeps_at_gets)
  fix s r
  assume parent: "execution_record s p = Inr r"
  let ?x = "\<lparr>x_id = new_execution_id s, x_session_id = x_session_id (xr_summary r),
    x_parent_execution = Some (x_id (xr_summary r)), x_kind = kind, x_callable = Some c,
    x_target = x_target (xr_summary r), x_state = Pending\<rparr>"
  show "keeps_at R N
      (and_then (record_domain_event E (ExecutionCreated ?x (journal_payload payload))) (\<lambda>_.
       and_then (push_event E p (ChildExecutionStarted (new_execution_id s))) (\<lambda>_.
       and_then (push_event E (new_execution_id s) (StateChanged Pending)) (\<lambda>_. return ?x)))) s"
  proof (rule keeps_at_and_then)
    show "keeps_at R N (record_domain_event E (ExecutionCreated ?x (journal_payload payload))) s"
      by (rule assms) (simp_all add: in_parent_session_child [OF parent])
  qed (intro keeps_at_op keeps)
qed (intro keeps_at_op keeps)

lemma create_agent_child_keeps [keeps]: "op_keeps R N (create_child E p AgentKind c (InvocationPayload input))"
  by (rule create_child_keeps, rule commit_agent_at) (simp add: event_class_simps)

lemma start_agent_with_node_keeps [keeps]: "op_keeps R N (start_agent_with_node E p c objective node)"
  unfolding start_agent_with_node_def Let_def
  by (intro keeps commit_agent) (simp_all add: event_class_simps)

lemma record_decision_keeps [keeps]: "op_keeps R N (record_orchestration_failure_decision E d)"
  unfolding record_orchestration_failure_decision_def
  by (intro keeps commit_agent) (simp add: event_class_simps)

lemma fallback_fail_keeps [keeps]: "op_keeps R N (record_fallback_fail E p x)"
  unfolding record_fallback_fail_def by (intro keeps)

lemma recovery_agent_keeps [keeps]: "op_keeps R N (create_recovery_agent E p c objective)"
proof (unfold op_keeps_at create_recovery_agent_def Let_def,
    intro allI keeps_at_query keeps_at_if keeps_at_gets keeps_at_lift)
  fix s r
  assume parent: "execution_record s p = Inr r"
  let ?x = "\<lparr>x_id = new_execution_id s, x_session_id = x_session_id (xr_summary r),
    x_parent_execution = Some (x_id (xr_summary r)), x_kind = AgentKind, x_callable = Some c,
    x_target = x_target (xr_summary r), x_state = Pending\<rparr>"
  show "keeps_at R N (and_then (record_domain_event E
      (ExecutionCreated ?x (journal_payload (InvocationPayload objective)))) (\<lambda>_. return ?x)) s"
    by (intro keeps_at_and_then commit_agent_at keeps_at_op keeps)
      (simp add: event_class_simps in_parent_session_child [OF parent])
qed (intro keeps_at_op keeps)+

lemma announce_keeps [keeps]: "op_keeps R N (announce_recovery_child E p child)"
  unfolding announce_recovery_child_def by (intro keeps)

lemma failure_interface_keeps [keeps]: "op_keeps R N (start_failure_interface E p x c)"
  unfolding start_failure_interface_def Let_def
  by (intro keeps commit_agent) (simp add: event_class_simps)

lemma failed_interface_keeps [keeps]: "op_keeps R N (failed_interface ids)"
proof (induction ids)
  case Nil
  show ?case unfolding failed_interface.simps by (intro keeps)
next
  case (Cons x ids)
  then show ?case unfolding failed_interface.simps by (intro keeps)
qed

text \<open>The mutually recursive operations, for any \<open>set_state\<close> that keeps the relation.\<close>

lemma cancel_set_keeps:
  "(\<And>x. op_keeps R N (ss x Cancelled)) \<Longrightarrow> op_keeps R N (cancel_execution_set_with E ss ids cause)"
  unfolding cancel_execution_set_with_def cancel_one_def by (intro keeps) simp

lemma cancel_descendants_keeps:
  "(\<And>x. op_keeps R N (ss x Cancelled)) \<Longrightarrow> op_keeps R N (cancel_descendants_with E ss root)"
  unfolding cancel_descendants_with_def by (intro keeps cancel_set_keeps) simp

lemma advance_keeps: "(\<And>st. op_keeps R N (ss x st)) \<Longrightarrow> op_keeps R N (advance_orchestration_with E ss x)"
  unfolding advance_orchestration_with_def Let_def by (intro keeps) simp

lemma handle_failed_keeps:
  "(\<And>st. op_keeps R N (ss x st)) \<Longrightarrow> op_keeps R N (handle_failed_child E ss x definition child)"
  unfolding handle_failed_child_def by (intro keeps) simp_all

lemma settle_keeps: "(\<And>st. op_keeps R N (ss x st)) \<Longrightarrow> op_keeps R N (settle_nodes E ss x)"
  unfolding settle_nodes_def by (intro keeps advance_keeps) simp_all

lemma refresh_keeps: "(\<And>st. op_keeps R N (ss x st)) \<Longrightarrow> op_keeps R N (refresh_orchestration_with E ss x)"
  unfolding refresh_orchestration_with_def Let_def
  by (intro keeps handle_failed_keeps settle_keeps) simp_all

lemma set_state_with_keeps: "(\<And>x st. op_keeps R N (ss x st)) \<Longrightarrow> op_keeps R N (set_state_with E ss x st)"
  unfolding set_state_with_def
  by (intro keeps commit_agent cancel_descendants_keeps refresh_keeps)
    (simp_all add: event_class_simps)

end

section \<open>Operations built on a state change\<close>

locale lifecycle_events = agent_events R N E
  for R :: "ConductorRuntime \<Rightarrow> ConductorRuntime \<Rightarrow> bool" and N :: "ConductorRuntime \<Rightarrow> bool"
    and E :: Externals +
  assumes set_state_keeps [keeps]: "op_keeps R N (set_state E x state)"
begin

lemma cancel_execution_keeps [keeps]: "op_keeps R N (cancel_execution E root)"
  unfolding cancel_execution_def by (intro keeps cancel_set_keeps)

lemma refresh_orchestration_keeps [keeps]: "op_keeps R N (refresh_orchestration E x)"
  unfolding refresh_orchestration_def by (intro refresh_keeps keeps)

lemma advance_orchestration_keeps [keeps]: "op_keeps R N (advance_orchestration E x)"
  unfolding advance_orchestration_def by (intro advance_keeps keeps)

lemma check_node_callables_keeps [keeps]: "op_keeps R N (check_node_callables p callables cs)"
  unfolding check_node_callables_def by (intro keeps)

lemma started_summary_keeps [keeps]: "op_keeps R N (started_summary x message)"
  unfolding started_summary_def by (intro keeps)

lemma retry_group_keeps [keeps]: "op_keeps R N (retry_group E x p c goal)"
  unfolding retry_group_def by (intro keeps commit_agent) (simp_all add: event_class_simps)

lemma retry_recovery_keeps [keeps]: "op_keeps R N (create_retry_recovery E x)"
  unfolding create_retry_recovery_def by (intro keeps commit_agent) (simp add: event_class_simps)

lemma perform_decision_keeps [keeps]: "op_keeps R N (perform_decision E x scope request)"
  unfolding perform_decision_def decide_def Let_def
  by (intro keeps)

lemma decide_failure_keeps [keeps]: "op_keeps R N (decide_orchestration_failure E x request)"
  unfolding decide_orchestration_failure_def by (intro keeps)

end

text \<open>A relation that says nothing about running out of fuel is kept by any amount of it.\<close>

locale unlimited_events = agent_events R N E
  for R :: "ConductorRuntime \<Rightarrow> ConductorRuntime \<Rightarrow> bool" and N :: "ConductorRuntime \<Rightarrow> bool"
    and E :: Externals +
  assumes may_stop: "N s"
begin

lemma set_state_fuel_keeps: "op_keeps R N (set_state_fuel E fuel x state)"
proof (induction fuel arbitrary: x state)
  case 0
  show ?case by (simp add: op_keeps_def no_fuel_def may_stop)
next
  case (Suc fuel)
  then show ?case by (simp add: set_state_with_keeps)
qed

lemma unlimited_set_state_keeps: "op_keeps R N (set_state E x state)"
  unfolding set_state_def by (rule keeps_state) (rule set_state_fuel_keeps)

end

sublocale unlimited_events \<subseteq> lifecycle_events R N E
  by unfold_locales (rule unlimited_set_state_keeps)

section \<open>All operations\<close>

lemma activated_slot:
  assumes "record_domain_event E (ConfigurationRevisionActivated revision fprint) s = (Ok u, s')"
  shows "bt_get (config_revisions (rt_durable s')) revision =
    Some \<lparr>slot_fingerprint = fprint, slot_configuration = None\<rparr>"
  using assms
  by (auto simp: record_domain_event_def authorize_event_def commit_event_def deliver_def
      apply_domain_event_def query_def Let_def split: prod.splits outcome.splits
      dest!: revision_activated_Ok)

lemma config_update_returns:
  "config_register_tool d h c \<noteq> NoFuel" "config_register_agent a c \<noteq> NoFuel"
  "config_register_provider_agent a p c \<noteq> NoFuel" "config_register_routing_profile profile c \<noteq> NoFuel"
  "config_register_orchestration o' c \<noteq> NoFuel"
proof -
  have "register_orchestration o' (cc_callables c) \<noteq> NoFuel"
    by (cases rule: register_orchestration_cases [of o' "cc_callables c"]) (auto split: sum.split)
  then show "config_register_orchestration o' c \<noteq> NoFuel"
    by (auto simp: config_register_orchestration_def split: outcome.split)
qed (auto simp: config_register_tool_def config_register_agent_def config_register_provider_agent_def
    config_register_routing_profile_def registered_def split: sum.split)

locale journaled = lifecycle_events R N E
  for R :: "ConductorRuntime \<Rightarrow> ConductorRuntime \<Rightarrow> bool" and N :: "ConductorRuntime \<Rightarrow> bool"
    and E :: Externals +
  assumes commit_any_at: "runtime_event s event \<Longrightarrow> keeps_at R N (record_domain_event E event) s"
    and bind_slot: "bt_get (config_revisions (rt_durable s)) revision = Some slot \<Longrightarrow>
      slot_configuration slot = None \<Longrightarrow> slot_fingerprint slot = fingerprint E configuration \<Longrightarrow>
      R s (set_slot_configuration revision configuration s)"
begin

lemma commit_any: "(\<And>s. runtime_event s event) \<Longrightarrow> op_keeps R N (record_domain_event E event)"
  by (simp add: op_keeps_at commit_any_at)

lemma keeps_case_kind [keeps]:
  "op_keeps R N a \<Longrightarrow> op_keeps R N b \<Longrightarrow> op_keeps R N c \<Longrightarrow> op_keeps R N (case_CallableKind a b c kind)"
  by (cases kind) simp_all

lemma keeps_constant: "result \<noteq> NoFuel \<Longrightarrow> op_keeps R N (\<lambda>self. (result, self))"
  by (simp add: op_keeps_def rel_refl)

lemma activate_skills_keeps [keeps]: "op_keeps R N (modify (activate_skills x skills))"
  by (rule volatile_keeps) (simp add: activate_skills_def)

lemma event_sink_keeps [keeps]: "op_keeps R N subscribe_events" "op_keeps R N unsubscribe_events"
  unfolding subscribe_events_def unsubscribe_events_def by (rule volatile_keeps, simp)+

lemma guard_keeps [keeps]: "op_keeps R N (register_invocation_guard g)"
  unfolding register_invocation_guard_def by (rule volatile_keeps) simp

lemma bind_workspace_keeps [keeps]: "op_keeps R N (bind_workspace w)"
  by (auto simp: op_keeps_def bind_workspace_def rel_refl intro: volatile split: option.split)

lemma bind_configuration_keeps [keeps]: "op_keeps R N (bind_configuration_revision E revision c)"
  by (auto simp: op_keeps_def bind_configuration_revision_def rel_refl Option.is_none_def
      intro: bind_slot split: option.split)

lemma reload_keeps [keeps]: "op_keeps R N (reload_configuration E c)"
proof (rule op_keepsI, goal_cases)
  case (1 s r s')
  let ?rev = "new_config_revision_id s"
  let ?event = "ConfigurationRevisionActivated ?rev (fingerprint E c)"
  note run = 1
  obtain r1 s1 where m: "record_domain_event E ?event s = (r1, s1)" by force
  have R: "R s s1" if "returned r1"
    using op_keepsD [OF commit_any m that] by (simp add: event_class_simps)
  show "R s s'"
  proof (cases r1)
    case (Ok u)
    with m have slot: "bt_get (config_revisions (rt_durable s1)) ?rev =
        Some \<lparr>slot_fingerprint = fingerprint E c, slot_configuration = None\<rparr>"
      by (simp add: activated_slot)
    with run m Ok have "s' = set_slot_configuration ?rev c s1"
      by (simp add: reload_configuration_def expect_def return_def modify_def and_then_def gets_def)
    with R Ok bind_slot [OF slot] show ?thesis by (auto intro: rel_trans)
  next
    case (Err e)
    with run m R show ?thesis by (simp add: reload_configuration_def)
  qed (use run m in \<open>auto simp: reload_configuration_def and_then_def gets_def\<close>)
next
  case (2 s s')
  let ?event = "ConfigurationRevisionActivated (new_config_revision_id s) (fingerprint E c)"
  have ev: "runtime_event t ?event" for t by (simp add: event_class_simps)
  from 2 have "\<exists>s1. record_domain_event E ?event s = (NoFuel, s1)"
    by (auto simp: reload_configuration_def and_then_def gets_def modify_def return_def expect_def panic_def
        split: prod.splits outcome.splits option.splits)
  with op_keeps_fuel [OF commit_any [OF ev]] show ?case by blast
qed

lemma revise_keeps: "(\<And>c. update c \<noteq> NoFuel) \<Longrightarrow> op_keeps R N (revise_configuration E update)"
  unfolding revise_configuration_def by (intro keeps keeps_constant)

lemma register_keeps [keeps]:
  "op_keeps R N (register_tool E d h)" "op_keeps R N (register_agent E a)"
  "op_keeps R N (register_provider_agent E a p)" "op_keeps R N (runtime_register_orchestration E o')"
  "op_keeps R N (register_routing_profile E profile)" "op_keeps R N (install_context_registry E context)"
  "op_keeps R N (install_skill_registry E skills)"
  unfolding register_tool_def register_agent_def register_provider_agent_def
    runtime_register_orchestration_def register_routing_profile_def install_context_registry_def
    install_skill_registry_def by (intro keeps revise_keeps, simp add: config_update_returns)+

lemma load_skill_keeps [keeps]: "op_keeps R N (load_skill x skill)"
  unfolding load_skill_def by (intro keeps)

lemma lease_request_keeps [keeps]: "op_keeps R N (workspace_lease_request x)"
  unfolding workspace_lease_request_def by (intro keeps)

lemma session_at_keeps [keeps]: "op_keeps R N (create_session_at_revision E p name target revision)"
  unfolding create_session_at_revision_def Let_def
  by (intro keeps commit_any) (simp add: event_class_simps)

lemma session_keeps [keeps]:
  "op_keeps R N (create_session E p name target)" "op_keeps R N (fork_session E source name)"
  unfolding create_session_def fork_session_def Let_def by (intro keeps)+

lemma session_after_keeps [keeps]: "op_keeps R N (session_after x message)"
  unfolding session_after_def by (intro keeps)

lemma rebase_keeps [keeps]: "op_keeps R N (rebase_session E x revision)"
  unfolding rebase_session_def by (intro keeps commit_any) (simp add: event_class_simps)

lemma close_keeps [keeps]: "op_keeps R N (close_session E x)"
  unfolding close_session_def by (intro keeps commit_any) (simp add: event_class_simps)

lemma submit_keeps [keeps]: "op_keeps R N (submit E x body)"
  unfolding submit_def Let_def
  by (intro keeps commit_any) (simp add: event_class_simps in_parent_session_root)

lemma create_orchestration_keeps [keeps]:
  "op_keeps R N (create_child E p OrchestrationKind c (OrchestrationPayload objective))"
  by (rule create_child_keeps, rule commit_any_at) (simp add: event_class_simps)

lemma start_agent_keeps [keeps]: "op_keeps R N (start_agent E p c objective)"
  unfolding start_agent_def by (intro keeps)

lemma start_orchestration_keeps [keeps]: "op_keeps R N (start_orchestration E p c objective)"
  unfolding start_orchestration_def Let_def by (intro keeps)

lemma session_callable_keeps [keeps]:
  "op_keeps R N (create_session_callable_execution E s x AgentKind c (InvocationPayload objective) input)"
  "op_keeps R N (create_session_callable_execution E s x OrchestrationKind c (OrchestrationPayload objective) input)"
  unfolding create_session_callable_execution_def Let_def
  by (intro keeps commit_any, simp add: event_class_simps in_parent_session_root)+

lemma session_nodes_keeps [keeps]: "op_keeps R N (check_session_node_callables s x callables cs)"
  unfolding check_session_node_callables_def by (intro keeps)

lemma start_session_callable_keeps [keeps]: "op_keeps R N (start_session_callable E s c objective)"
  unfolding start_session_callable_def Let_def by (intro keeps)

lemma resolve_route_keeps [keeps]: "op_keeps R N (resolve_route E x c summary revision)"
  unfolding resolve_route_def Let_def by (intro keeps commit_any) (simp add: event_class_simps)

lemma resolve_invocation_keeps [keeps]: "op_keeps R N (resolve_invocation E x)"
  unfolding resolve_invocation_def by (intro keeps)

lemma observation_keeps [keeps]: "op_keeps R N (record_file_observation E x observation)"
  unfolding record_file_observation_def by (intro commit_any) (simp add: event_class_simps)

lemma call_tool_keeps [keeps]: "op_keeps R N (call_tool E callables x invocation)"
  unfolding call_tool_def by (intro keeps)

lemma tool_result_keeps [keeps]: "op_keeps R N (tool_result E callables d x invocation)"
proof -
  have denied: "op_keeps R N (case error of
      PolicyDenied _ denial \<Rightarrow> return \<lparr>tr_output = dn_message denial, tr_success = False\<rparr>
    | _ \<Rightarrow> throw (conductor_protocol_error E error))" for error
    by (cases error) (simp_all add: keeps_pure)
  show ?thesis
    unfolding tool_result_def by (intro keeps denied)
qed

lemma invoke_tool_keeps [keeps]: "op_keeps R N (invoke_tool E x allowed invocation)"
  unfolding invoke_tool_def Let_def by (intro keeps)

lemma emit_keeps [keeps]: "op_keeps R N (host_emit E x event)" "op_keeps R N (provider_emit E x event')"
  unfolding host_emit_def provider_emit_def by (intro keeps)+

lemma run_backend_keeps [keeps]: "op_keeps R N (run_backend E x allowed run)"
  by (induction run) (unfold run_backend.simps, (intro keeps; blast)+)

lemma run_provider_keeps [keeps]: "op_keeps R N (run_provider E x run)"
  by (induction run) (unfold run_provider.simps, (intro keeps; blast)+)

lemma finish_run_keeps [keeps]: "op_keeps R N (finish_run E conv x result)"
  unfolding finish_run_def by (intro keeps)

lemma drive_keeps [keeps]: "op_keeps R N (drive_execution E x backend)"
  "op_keeps R N (drive_provider_execution E x)"
  unfolding drive_execution_def drive_provider_execution_def by (intro keeps)+

lemma session_update_keeps [keeps]:
  "op_keeps R N (rename_session E x name)" "op_keeps R N (set_session_target E x target)"
  unfolding rename_session_def set_session_target_def
  by (intro keeps commit_any, simp add: event_class_simps)+

lemma checkpoint_keeps [keeps]: "op_keeps R N (record_workspace_checkpoint E x w files)"
  unfolding record_workspace_checkpoint_def by (intro commit_any) (simp add: event_class_simps)

lemma interrupt_keeps [keeps]: "op_keeps R N (interrupt_non_resumable_executions E)"
  unfolding interrupt_non_resumable_executions_def by (intro keeps)

end

end
