(* ===== verification/Replay.thy ===== *)
theory Replay
  imports Journaled
begin

text \<open>
  Rebuilding a runtime from its journal (\<open>ConductorRuntime::restore\<close> in
  \<open>phenix-conductor/src/persistence.rs\<close>). A journal records which configuration
  revisions exist, not the configurations bound to them; \<open>erase\<close> forgets the bindings, and
  applying an event commutes with it.
\<close>

section \<open>Restoring a runtime\<close>

text \<open>The payload of the two library errors is the text they display.\<close>

datatype PersistenceError =
    PersistenceIo string
  | PersistenceJson string
  | InvalidJournal string

fun display_PersistenceError :: "PersistenceError \<Rightarrow> string" where
  "display_PersistenceError (PersistenceIo error) = ''persistence I/O error: '' @ error"
| "display_PersistenceError (PersistenceJson error) = ''invalid persistence JSON: '' @ error"
| "display_PersistenceError (InvalidJournal message) = ''invalid runtime journal: '' @ message"

fun replay_entries :: "Externals \<Rightarrow> JournalEntry list \<Rightarrow> DurableProjection \<Rightarrow> applied" where
  "replay_entries E [] projection = applied projection"
| "replay_entries E (entry # rest) projection =
     (case apply_domain_event E (je_event entry) projection of
        (Ok _, projection') \<Rightarrow> replay_entries E rest projection'
      | refused \<Rightarrow> refused)"

definition restore :: "Externals \<Rightarrow> RuntimeJournal \<Rightarrow> (PersistenceError, ConductorRuntime) outcome" where
  "restore E journal =
     (case validate_structure journal of
        Some error \<Rightarrow> Err (InvalidJournal (display_JournalError error))
      | None \<Rightarrow>
          (case replay_entries E (rj_entries journal)
              (empty_projection (rj_config_revision journal) (rj_config_fingerprint journal) None) of
             (Ok _, projection) \<Rightarrow>
               Ok ((runtime_new E)\<lparr>rt_durable := projection, rt_journal := journal,
                 rt_workspace_id := (case bt_values (sessions projection) of
                    session # _ \<Rightarrow> s_workspace_id (sn_summary session)
                  | [] \<Rightarrow> rt_workspace_id (runtime_new E))\<rparr>)
           | (Err error, _) \<Rightarrow> Err (InvalidJournal (display_JournalError error))
           | (Panic message, _) \<Rightarrow> Panic message
           | (NoFuel, _) \<Rightarrow> NoFuel))"

section \<open>Forgetting the bound configurations\<close>

definition erase :: "DurableProjection \<Rightarrow> DurableProjection" where
  "erase st = st\<lparr>config_revisions :=
     bt_map (\<lambda>slot. slot\<lparr>slot_configuration := None\<rparr>) (config_revisions st)\<rparr>"

lemma bt_map_insert: "bt_map f (bt_insert k v m) = bt_insert k (f v) (bt_map f m)"
  by (rule bt_eqI) simp

lemma bt_map_empty [simp]: "bt_map f bt_empty = bt_empty"
  by (rule bt_eqI) simp

lemma erase_simps [simp]:
  "current_config_revision (erase st) = current_config_revision st"
  "sessions (erase st) = sessions st" "executions (erase st) = executions st"
  "attempt_groups (erase st) = attempt_groups st"
  "orchestration_decisions (erase st) = orchestration_decisions st"
  "orchestration_interfaces (erase st) = orchestration_interfaces st"
  "orchestration_nodes (erase st) = orchestration_nodes st"
  "resolved_routes (erase st) = resolved_routes st" "read_sets (erase st) = read_sets st"
  "events (erase st) = events st" "next_config_revision (erase st) = next_config_revision st"
  "next_session (erase st) = next_session st" "next_execution (erase st) = next_execution st"
  "next_attempt_group (erase st) = next_attempt_group st" "next_event (erase st) = next_event st"
  "next_tool_call (erase st) = next_tool_call st"
  "bt_contains_key (config_revisions (erase st)) k = bt_contains_key (config_revisions st) k"
  by (simp_all add: erase_def)

lemma erase_updates:
  "(erase st)\<lparr>sessions := m1\<rparr> = erase (st\<lparr>sessions := m1\<rparr>)"
  "(erase st)\<lparr>executions := m2\<rparr> = erase (st\<lparr>executions := m2\<rparr>)"
  "(erase st)\<lparr>attempt_groups := m3\<rparr> = erase (st\<lparr>attempt_groups := m3\<rparr>)"
  "(erase st)\<lparr>orchestration_decisions := m4\<rparr> = erase (st\<lparr>orchestration_decisions := m4\<rparr>)"
  "(erase st)\<lparr>orchestration_interfaces := m5\<rparr> = erase (st\<lparr>orchestration_interfaces := m5\<rparr>)"
  "(erase st)\<lparr>orchestration_nodes := m6\<rparr> = erase (st\<lparr>orchestration_nodes := m6\<rparr>)"
  "(erase st)\<lparr>resolved_routes := m7\<rparr> = erase (st\<lparr>resolved_routes := m7\<rparr>)"
  "(erase st)\<lparr>read_sets := m8\<rparr> = erase (st\<lparr>read_sets := m8\<rparr>)"
  "(erase st)\<lparr>events := m9\<rparr> = erase (st\<lparr>events := m9\<rparr>)"
  "(erase st)\<lparr>current_config_revision := revn\<rparr> = erase (st\<lparr>current_config_revision := revn\<rparr>)"
  "(erase st)\<lparr>next_config_revision := n\<rparr> = erase (st\<lparr>next_config_revision := n\<rparr>)"
  "(erase st)\<lparr>next_session := n\<rparr> = erase (st\<lparr>next_session := n\<rparr>)"
  "(erase st)\<lparr>next_execution := n\<rparr> = erase (st\<lparr>next_execution := n\<rparr>)"
  "(erase st)\<lparr>next_attempt_group := n\<rparr> = erase (st\<lparr>next_attempt_group := n\<rparr>)"
  "(erase st)\<lparr>next_event := n\<rparr> = erase (st\<lparr>next_event := n\<rparr>)"
  "(erase st)\<lparr>next_tool_call := n\<rparr> = erase (st\<lparr>next_tool_call := n\<rparr>)"
  by (simp_all add: erase_def)

lemma erase_add_slot:
  "(erase st)\<lparr>config_revisions := bt_insert k \<lparr>slot_fingerprint = f, slot_configuration = None\<rparr>
     (config_revisions (erase st))\<rparr> =
   erase (st\<lparr>config_revisions := bt_insert k \<lparr>slot_fingerprint = f, slot_configuration = None\<rparr>
     (config_revisions st)\<rparr>)"
  by (simp add: erase_def bt_map_insert)

lemma erase_outcomes:
  "invalid reason (erase st) = map_prod id erase (invalid reason st)"
  "applied (erase st) = map_prod id erase (applied st)"
  by (simp_all add: invalid_def applied_def)

lemma replay_messages_erase [simp]: "replay_messages (erase st) x = replay_messages st x"
  by (simp add: replay_messages_def replayed_event_def [abs_def])

lemma materialize_erase [simp]:
  "materialize_execution_payload E (erase st) x p = materialize_execution_payload E st x p"
  by (cases p) (simp_all add: materialize_execution_payload_def materialize_routed_input_def)

lemma erase_checks [simp]:
  "session_workspace_error s (erase st) = session_workspace_error s st"
  "execution_parent_check x p revn (erase st) = execution_parent_check x p revn st"
  "session_has_active_execution sid (erase st) = session_has_active_execution sid st"
  "group_owns k (erase st) = group_owns k st" "decider_error d (erase st) = decider_error d st"
  "recovery_error d (erase st) = recovery_error d st"
  "backing_error d r (erase st) = backing_error d r st"
  "node_started k n (erase st) = node_started k n st"
  "update_session sid f (erase st) = erase (update_session sid f st)"
  by (simp_all add: session_workspace_error_def execution_parent_check_def
      session_has_active_execution_def group_owns_def decider_error_def
      recovery_error_def backing_error_def node_started_def update_session_def erase_updates
      split: option.split OrchestrationFailureDecision.split)

lemma apply_erase: "apply_domain_event E ev (erase st) = map_prod id erase (apply_domain_event E ev st)"
  by (cases ev)
    (auto simp: apply_domain_event_def apply_revision_activated_def apply_session_created_def
      apply_session_rebased_def apply_session_renamed_def apply_session_target_changed_def
      apply_session_closed_def apply_execution_created_def apply_state_changed_def
      apply_group_created_def apply_failure_recorded_def apply_retry_started_def
      apply_interface_started_def apply_decision_made_def apply_node_started_def
      apply_invocation_resolved_def apply_checkpoint_captured_def apply_file_observed_def
      apply_frontend_event_def Let_def erase_updates erase_add_slot erase_outcomes
      split: option.split sum.split outcome.split ExecutionEventKind.split)


lemma erase_idem [simp]: "erase (erase st) = erase st"
proof -
  have "bt_map (slot_configuration_update (\<lambda>_. None)) (bt_map (slot_configuration_update (\<lambda>_. None)) m) =
      bt_map (slot_configuration_update (\<lambda>_. None)) m" for m :: "(ConfigRevisionId, ConfigRevisionSlot) btree_map"
    by (rule bt_eqI) (simp add: option.map_comp comp_def)
  then show ?thesis by (simp add: erase_def)
qed

lemma erase_empty [simp]: "erase (empty_projection revision fprint c) = empty_projection revision fprint None"
  by (simp add: erase_def empty_projection_def bt_map_insert)

text \<open>Binding a configuration to a slot is invisible to the erasure.\<close>

lemma erase_set_slot [simp]:
  "erase (rt_durable (set_slot_configuration revision c s)) = erase (rt_durable s)"
proof -
  have "bt_map (slot_configuration_update (\<lambda>_. None))
        (bt_modify revision (slot_configuration_update (\<lambda>_. Some c)) m) =
      bt_map (slot_configuration_update (\<lambda>_. None)) m" for m :: "(ConfigRevisionId, ConfigRevisionSlot) btree_map"
    by (rule bt_eqI) (simp add: bt_get_modify option.map_comp comp_def)
  then show ?thesis by (simp add: erase_def set_slot_configuration_def)
qed

section \<open>Replaying\<close>

lemma replay_append:
  "replay_entries E (xs @ ys) st =
     (case replay_entries E xs st of (Ok _, st') \<Rightarrow> replay_entries E ys st' | refused \<Rightarrow> refused)"
  by (induction xs arbitrary: st) (auto simp: applied_def split: prod.split outcome.split)

lemma replay_snoc:
  assumes "replay_entries E xs st = (Ok (), erase st1)"
    and "apply_domain_event E (je_event entry) st1 = (Ok u, st2)"
  shows "replay_entries E (xs @ [entry]) st = (Ok (), erase st2)"
  using assms by (simp add: replay_append apply_erase applied_def)

lemma validate_entries_append:
  "validate_entries n (xs @ ys) =
     (case validate_entries n xs of None \<Rightarrow> validate_entries (n + length xs) ys | Some e \<Rightarrow> Some e)"
  by (induction n xs rule: validate_entries.induct) (simp_all cong: option.case_cong)

lemma validate_pushed: "validate_structure j = None \<Longrightarrow> validate_structure (push_entry ev j) = None"
  by (simp add: validate_structure_def push_entry_def validate_entries_append split: if_splits)

text \<open>Applying an event never panics while the number of attempts fits in 32 bits.\<close>

lemma position_Some: "x \<in> set xs \<Longrightarrow> \<exists>i < length xs. position (\<lambda>y. y = x) xs = Some i"
  by (induction xs) auto

lemma attempt_number_exists:
  assumes "contains_execution x g" and "length (ag_attempts g) < 2 ^ 32"
  shows "\<exists>n. attempt_for_execution x g = Some n"
proof -
  from assms(1) obtain i where "i < length (ag_attempts g)"
      and "position (\<lambda>y. y = x) (ag_attempts g) = Some i"
    using position_Some by (fastforce simp: contains_execution_def)
  with assms(2) show ?thesis by (simp add: attempt_for_execution_def u32_try_from_def)
qed

lemma attempts_bounded:
  assumes "durable_inv st" and "bt_get (attempt_groups st) k = Some g"
  shows "length (ag_attempts g) \<le> bt_len (executions st)"
proof -
  have "group_ok st g" using assms by (simp add: durable_inv_def attempts_ok_def)
  then have "distinct (ag_attempts g)" and "set (ag_attempts g) \<subseteq> dom (bt_get (executions st))"
    by (auto simp: group_ok_def agent_of_def)
  then show ?thesis
    unfolding bt_len_dom by (metis card_mono distinct_card finite_dom_bt_get)
qed

lemma apply_returns:
  assumes "durable_inv st" and "bt_len (executions st) < 2 ^ 32"
  shows "returned (fst (apply_domain_event E ev st))"
proof -
  have number: "\<exists>n. attempt_for_execution x g = Some n"
    if "bt_get (attempt_groups st) k = Some g" and "latest_execution g = Some x" for k g x
    using that attempts_bounded [OF assms(1)] assms(2) latest_in [of g x]
    by (fastforce intro: attempt_number_exists simp: contains_execution_def)
  then have recorded: "returned (fst (apply_failure_recorded k f st))" for k f
    by (fastforce simp: apply_failure_recorded_def outcome_defs split: option.split)
  have decided: "returned (fst (apply_decision_made d st))" for d
    by (auto simp: apply_decision_made_def outcome_defs backing_error_def recovery_error_def
        split: option.split OrchestrationFailureDecision.split outcome.split)
  show ?thesis
    using recorded decided
    by (cases ev)
      (auto simp: apply_domain_event_def outcome_defs apply_revision_activated_def
        apply_session_created_def apply_session_rebased_def apply_session_renamed_def
        apply_session_target_changed_def apply_session_closed_def apply_execution_created_def
        apply_state_changed_def apply_group_created_def apply_retry_started_def
        apply_interface_started_def apply_node_started_def apply_invocation_resolved_def
        apply_checkpoint_captured_def apply_file_observed_def apply_frontend_event_def
        split: option.split sum.split ExecutionEventKind.split)
qed

section \<open>Recording an event\<close>

lemma record_event_Ok:
  assumes "record_domain_event E ev s = (Ok u, s')"
  obtains ev' where "authorize_event s ev = Inr ev'"
    and "apply_domain_event E ev' (rt_durable s) = (Ok (), rt_durable s')"
    and "rt_journal s' = push_entry ev' (rt_journal s)"
proof -
  have same: "rt_durable (deliver e t) = rt_durable t \<and> rt_journal (deliver e t) = rt_journal t" for e t
    by (auto simp: deliver_def split: DomainEvent.split option.split)
  show thesis
    using assms that
    by (auto simp: record_domain_event_def commit_event_def same Let_def and_then_def query_def
        split: prod.splits outcome.splits sum.splits)
qed

lemma authorize_same:
  "authorize_event s ev = Inr ev' \<Longrightarrow>
     ev' = ev \<or> (\<exists>x p a. ev = ExecutionCreated x p \<and> ev' = ExecutionCreated x (set_authority a p))"
  by (auto simp: authorize_event_def bind_result_def split: DomainEvent.splits sum.splits)

lemma set_authority_invocation [simp]: "is_invocation (set_authority a p) = is_invocation p"
  by (cases p) simp_all

lemma authorize_runtime_event:
  "runtime_event s ev \<Longrightarrow> authorize_event s ev = Inr ev' \<Longrightarrow> runtime_event s ev'"
  by (drule authorize_same) (auto simp: event_class_simps)

lemma authorize_agent_event:
  "agent_event s ev \<Longrightarrow> authorize_event s ev = Inr ev' \<Longrightarrow> agent_event s ev'"
  by (drule authorize_same) (auto simp: event_class_simps)

end
