(* ===== verification/Reachable.thy ===== *)
theory Reachable
  imports Replay
begin

text \<open>
  The runtime as a state machine. A step is a call of one of its operations that returns, a
  reachable runtime is a new one, one reached by a step, or one restored from the journal of a
  reachable runtime. The invariant joins the well-formed projection with the journal: replaying
  the journal gives the projection back, up to the bound configurations. \<open>journaled\<close> is
  interpreted on the relation that carries the invariant and the evolution of the projection.
\<close>

section \<open>The invariant of a runtime\<close>

definition kinds_ok :: "DurableProjection \<Rightarrow> bool" where
  "kinds_ok st \<longleftrightarrow>
     (\<forall>k r. bt_get (executions st) k = Some r \<longrightarrow>
        (x_kind (xr_summary r) = OrchestrationKind \<longleftrightarrow> \<not> is_InvocationPayload (xr_payload r)) \<and>
        (x_kind (xr_summary r) = RootKind \<longleftrightarrow> x_callable (xr_summary r) = None))"

text \<open>An execution runs in the session of its parent.\<close>

definition sessions_inherited :: "DurableProjection \<Rightarrow> bool" where
  "sessions_inherited st \<longleftrightarrow>
     (\<forall>k r p q. bt_get (executions st) k = Some r \<longrightarrow> x_parent_execution (xr_summary r) = Some p \<longrightarrow>
        bt_get (executions st) p = Some q \<longrightarrow> x_session_id (xr_summary q) = x_session_id (xr_summary r))"

definition bindings_ok :: "Externals \<Rightarrow> DurableProjection \<Rightarrow> bool" where
  "bindings_ok E st \<longleftrightarrow>
     (\<forall>k slot c. bt_get (config_revisions st) k = Some slot \<longrightarrow> slot_configuration slot = Some c \<longrightarrow>
        slot_fingerprint slot = fingerprint E c)"

definition journal_ok :: "Externals \<Rightarrow> ConductorRuntime \<Rightarrow> bool" where
  "journal_ok E s \<longleftrightarrow>
     validate_structure (rt_journal s) = None \<and>
     replay_entries E (rj_entries (rt_journal s))
       (empty_projection (rj_config_revision (rt_journal s)) (rj_config_fingerprint (rt_journal s)) None) =
       (Ok (), erase (rt_durable s))"

definition runtime_inv :: "Externals \<Rightarrow> ConductorRuntime \<Rightarrow> bool" where
  "runtime_inv E s \<longleftrightarrow>
     durable_inv (rt_durable s) \<and> kinds_ok (rt_durable s) \<and> sessions_inherited (rt_durable s) \<and>
     bindings_ok E (rt_durable s) \<and> journal_ok E s"

definition extends :: "ConductorRuntime \<Rightarrow> ConductorRuntime \<Rightarrow> bool" where
  "extends s s' \<longleftrightarrow>
     evolves (rt_durable s) (rt_durable s') \<and>
     (\<exists>more. rt_journal s' = (rt_journal s)\<lparr>rj_entries := rj_entries (rt_journal s) @ more\<rparr>)"

definition sound :: "Externals \<Rightarrow> ConductorRuntime \<Rightarrow> ConductorRuntime \<Rightarrow> bool" where
  "sound E s s' \<longleftrightarrow> (runtime_inv E s \<longrightarrow> runtime_inv E s' \<and> extends s s')"

lemma extends_refl: "extends s s"
  by (auto simp: extends_def evolves_refl intro: exI [of _ "[]"])

lemma extends_trans: "extends s t \<Longrightarrow> extends t u \<Longrightarrow> extends s u"
  by (auto simp: extends_def intro: evolves_trans)

section \<open>Recording an event\<close>

lemma record_event_Err:
  assumes "record_domain_event E ev s = (Err e, s')" and "cursors_ok (rt_durable s)"
  shows "s' = s"
proof (cases "authorize_event s ev")
  case (Inl e')
  with assms show ?thesis by (simp add: record_domain_event_def)
next
  case (Inr ev')
  obtain r st where app: "apply_domain_event E ev' (rt_durable s) = (r, st)" by force
  with Inr assms(1) have r: "\<exists>error. r = Err error"
    and s': "s' = s\<lparr>rt_durable := st, rt_journal := (rt_journal s)\<lparr>rj_entries := rj_entries (rt_journal s)\<rparr>\<rparr>"
    by (auto simp: record_domain_event_def commit_event_def push_entry_def Let_def split: outcome.splits)
  with app assms(2) have "st = rt_durable s" by (auto dest: refused_unchanged)
  with s' show ?thesis by simp
qed

lemma materialized_invocation:
  "is_InvocationPayload (materialize_execution_payload E st x p) = is_invocation p"
  by (cases p) (simp_all add: materialize_execution_payload_def)

lemma apply_kinds:
  assumes "kinds_ok st" and "runtime_event s ev" and "apply_domain_event E ev st = (Ok u, st')"
  shows "kinds_ok st'"
proof (cases "is_ExecutionCreated ev \<or> is_ExecutionStateChanged ev")
  case True
  with assms show ?thesis
    by (cases ev)
      (auto simp: apply_domain_event_def kinds_ok_def event_class_simps materialized_invocation
        bt_get_modify elim!: execution_created_Ok state_changed_Ok split: if_splits)
next
  case False
  with apply_frame_executions [OF assms(3)] assms(1) show ?thesis
    by (simp add: kinds_ok_def)
qed

lemma created_inherits:
  assumes "sessions_inherited st" and "executions_ok st" and "in_parent_session st x"
    and "apply_execution_created E x payload st = (Ok u, st')"
  shows "sessions_inherited st'"
  using assms(4)
proof (rule execution_created_Ok)
  let ?new = "x_id x"
  fix revn
  assume fresh: "\<not> bt_contains_key (executions st) ?new"
    and st': "st' = st\<lparr>executions := bt_insert ?new
        \<lparr>xr_summary = x, xr_payload = materialize_execution_payload E st x payload,
         xr_authority = payload_authority payload, xr_config_revision = revn\<rparr> (executions st),
       next_execution := Suc (next_execution st)\<rparr>"
  show ?thesis
    unfolding sessions_inherited_def
  proof (intro allI impI)
    fix k r p q
    assume k: "bt_get (executions st') k = Some r" and p: "x_parent_execution (xr_summary r) = Some p"
      and q: "bt_get (executions st') p = Some q"
    have old: "\<exists>q0. bt_get (executions st) p = Some q0 \<and> x_session_id (xr_summary q0) = x_session_id (xr_summary r)"
    proof (cases "k = ?new")
      case True
      with k p assms(3) obtain k0 r0 where "bt_get (executions st) k0 = Some r0" "x_id (xr_summary r0) = p"
          "x_session_id (xr_summary r0) = x_session_id (xr_summary r)"
        by (auto simp: st' in_parent_session_def)
      moreover from this(1) assms(2) have "execution_ok st k0 r0" by (simp add: executions_ok_def)
      ultimately show ?thesis by (simp add: execution_ok_def)
    next
      case False
      with k have "bt_get (executions st) k = Some r" by (simp add: st')
      moreover from this assms(2) have "execution_ok st k r" by (simp add: executions_ok_def)
      with p obtain q0 where "bt_get (executions st) p = Some q0" by (auto simp: execution_ok_def)
      ultimately show ?thesis using p assms(1) by (auto simp: sessions_inherited_def)
    qed
    with fresh q show "x_session_id (xr_summary q) = x_session_id (xr_summary r)"
      by (auto simp: st' bt_contains_key_def split: if_splits)
  qed
qed

lemma apply_inherits:
  assumes "sessions_inherited (rt_durable s)" and "executions_ok (rt_durable s)" and "runtime_event s ev"
    and "apply_domain_event E ev (rt_durable s) = (Ok u, st')"
  shows "sessions_inherited st'"
proof (cases "is_ExecutionCreated ev \<or> is_ExecutionStateChanged ev")
  case True
  then consider x payload where "ev = ExecutionCreated x payload" | x state where "ev = ExecutionStateChanged x state"
    by (cases ev) auto
  then show ?thesis
  proof cases
    case 1
    with assms(3,4) have "in_parent_session (rt_durable s) x"
        "apply_execution_created E x payload (rt_durable s) = (Ok u, st')"
      by (simp_all add: apply_domain_event_def event_class_simps)
    with assms(1,2) show ?thesis by (rule created_inherits)
  next
    case 2
    with assms(4) have "apply_state_changed x state (rt_durable s) = (Ok u, st')"
      by (simp add: apply_domain_event_def)
    then have same: "bt_get (executions st') k = Some r \<Longrightarrow> \<exists>r0. bt_get (executions (rt_durable s)) k = Some r0 \<and>
        x_parent_execution (xr_summary r0) = x_parent_execution (xr_summary r) \<and>
        x_session_id (xr_summary r0) = x_session_id (xr_summary r)" for k r
      by (rule state_changed_Ok) (auto simp: bt_get_modify split: if_splits)
    show ?thesis
      unfolding sessions_inherited_def
    proof (intro allI impI)
      fix k r p q
      assume "bt_get (executions st') k = Some r" "x_parent_execution (xr_summary r) = Some p"
        "bt_get (executions st') p = Some q"
      with same [of k r] same [of p q] assms(1) show "x_session_id (xr_summary q) = x_session_id (xr_summary r)"
        by (auto simp: sessions_inherited_def)
    qed
  qed
next
  case False
  with apply_frame_executions [OF assms(4)] assms(1) show ?thesis
    by (simp add: sessions_inherited_def)
qed

lemma apply_bindings:
  assumes "bindings_ok E st" and "apply_domain_event E ev st = (Ok u, st')"
  shows "bindings_ok E st'"
proof (cases "is_ConfigurationRevisionActivated ev")
  case True
  with assms show ?thesis
    by (cases ev) (auto simp: apply_domain_event_def bindings_ok_def dest!: revision_activated_Ok
        split: if_splits)
next
  case False
  with apply_frame(1) [OF assms(2)] assms(1) show ?thesis by (simp add: bindings_ok_def)
qed

lemma record_event_sound:
  assumes "runtime_event s ev" and "runtime_inv E s" and "record_domain_event E ev s = (Ok u, s')"
  shows "runtime_inv E s' \<and> extends s s'"
proof -
  from assms(3) obtain ev' where auth: "authorize_event s ev = Inr ev'"
    and app: "apply_domain_event E ev' (rt_durable s) = (Ok (), rt_durable s')"
    and push: "rt_journal s' = push_entry ev' (rt_journal s)"
    by (rule record_event_Ok)
  note inv = assms(2) [unfolded runtime_inv_def journal_ok_def]
  have "durable_inv (rt_durable s')" "bindings_ok E (rt_durable s')"
    using inv app by (auto intro: apply_preserves_inv apply_bindings)
  moreover have "kinds_ok (rt_durable s')"
    using inv app authorize_runtime_event [OF assms(1) auth] by (auto intro: apply_kinds)
  moreover have "sessions_inherited (rt_durable s')"
    using inv app authorize_runtime_event [OF assms(1) auth]
    by (auto simp: durable_inv_def intro: apply_inherits)
  moreover have "journal_ok E s'"
    using inv validate_pushed [of "rt_journal s" ev'] app push
    by (simp add: journal_ok_def push_entry_def replay_snoc)
  moreover have "extends s s'"
    using push apply_evolves [OF app] by (auto simp: extends_def push_entry_def)
  ultimately show ?thesis by (simp add: runtime_inv_def)
qed

section \<open>Every operation carries the invariant\<close>

lemma record_event_keeps: "runtime_event s ev \<Longrightarrow> keeps_at (sound E) (\<lambda>_. True) (record_domain_event E ev) s"
proof (rule keeps_atI, unfold sound_def, rule impI)
  fix r s'
  assume ev: "runtime_event s ev" and run: "record_domain_event E ev s = (r, s')" "returned r"
    and inv: "runtime_inv E s"
  show "runtime_inv E s' \<and> extends s s'"
  proof (cases r)
    case (Ok u)
    with ev run inv show ?thesis by (simp add: record_event_sound)
  next
    case (Err e)
    with run inv have "s' = s"
      by (auto simp: runtime_inv_def durable_inv_def intro: record_event_Err)
    with inv show ?thesis by (simp add: extends_refl)
  qed (use run in simp_all)
qed simp

lemma durable_inv_erase [simp]: "durable_inv (erase st) = durable_inv st"
  unfolding durable_inv_def cursors_ok_def sessions_ok_def executions_ok_def execution_ok_def
    attempts_ok_def group_ok_def interfaces_ok_def decisions_ok_def nodes_ok_def routes_ok_def
    read_sets_ok_def events_ok_def agent_of_def failed_in_def orchestration_in_def
    has_callable_def child_in_def erase_simps ..

lemma bind_slot_durable_inv:
  "durable_inv (rt_durable (set_slot_configuration revision c s)) = durable_inv (rt_durable s)"
  using durable_inv_erase [of "rt_durable (set_slot_configuration revision c s)"] by simp

lemma bind_slot_journal: "journal_ok E (set_slot_configuration revision c s) = journal_ok E s"
proof -
  have "rt_journal (set_slot_configuration revision c s) = rt_journal s"
    by (simp add: set_slot_configuration_def)
  then show ?thesis by (simp add: journal_ok_def)
qed

lemma bind_slot_bindings:
  assumes "bindings_ok E (rt_durable s)"
    and "bt_get (config_revisions (rt_durable s)) revision = Some slot"
    and "slot_fingerprint slot = fingerprint E c"
  shows "bindings_ok E (rt_durable (set_slot_configuration revision c s))"
  using assms by (auto simp: bindings_ok_def set_slot_configuration_def bt_get_modify split: if_splits)

lemma bind_slot_kinds: "kinds_ok (rt_durable (set_slot_configuration revision c s)) = kinds_ok (rt_durable s)"
  by (simp add: kinds_ok_def set_slot_configuration_def)

lemma bind_slot_inherited:
  "sessions_inherited (rt_durable (set_slot_configuration revision c s)) = sessions_inherited (rt_durable s)"
  by (simp add: sessions_inherited_def set_slot_configuration_def)

lemma bind_slot_extends:
  assumes "bt_get (config_revisions (rt_durable s)) revision = Some slot"
    and "slot_configuration slot = None"
  shows "extends s (set_slot_configuration revision c s)"
proof -
  have "persists same_slot (config_revisions (rt_durable s))
      (config_revisions (rt_durable (set_slot_configuration revision c s)))"
    using assms by (auto simp: persists_def set_slot_configuration_def bt_get_modify same_slot_def)
  then show ?thesis
    by (auto simp: extends_def evolves_def set_slot_configuration_def persists_refl same_refl
        intro: exI [of _ "[]"])
qed

interpretation unlimited: unlimited_events "sound E" "\<lambda>_. True" E for E
proof unfold_locales
  show "sound E s s" for s
    by (simp add: sound_def extends_refl)
  show "sound E s t \<Longrightarrow> sound E t u \<Longrightarrow> sound E s u" for s t u
    by (auto simp: sound_def intro: extends_trans)
  show "agent_event s ev \<Longrightarrow> keeps_at (sound E) (\<lambda>_. True) (record_domain_event E ev) s" for s ev
    by (rule record_event_keeps) (auto simp: event_class_simps split: DomainEvent.splits)
  show "sound E s s'" if "rt_durable s' = rt_durable s" "rt_journal s' = rt_journal s" for s s'
    using that
    by (auto simp: sound_def runtime_inv_def journal_ok_def extends_def evolves_refl intro: exI [of _ "[]"])
qed simp_all

interpretation runtime: journaled "sound E" "\<lambda>_. True" E for E
proof unfold_locales
  show "runtime_event s ev \<Longrightarrow> keeps_at (sound E) (\<lambda>_. True) (record_domain_event E ev) s" for s ev
    by (rule record_event_keeps)
  show "sound E s (set_slot_configuration revision c s)"
    if "bt_get (config_revisions (rt_durable s)) revision = Some slot"
      and "slot_configuration slot = None" and "slot_fingerprint slot = fingerprint E c"
    for s revision slot c
    using that
    by (simp add: sound_def runtime_inv_def bind_slot_durable_inv bind_slot_journal
        bind_slot_bindings bind_slot_kinds bind_slot_inherited bind_slot_extends)
qed

section \<open>Reachable runtimes\<close>

text \<open>
  One rule per operation the server, the frontend protocol and the tools call on the runtime. An
  operation that panics poisons the lock around the runtime, so only calls that return are steps.
\<close>

inductive runtime_step :: "Externals \<Rightarrow> ConductorRuntime \<Rightarrow> ConductorRuntime \<Rightarrow> bool" for E where
  step_create_session: "create_session E parent name target s = (r, s') \<Longrightarrow> returned r \<Longrightarrow> runtime_step E s s'"
| step_fork_session: "fork_session E session name s = (r, s') \<Longrightarrow> returned r \<Longrightarrow> runtime_step E s s'"
| step_rebase_session: "rebase_session E session revision s = (r, s') \<Longrightarrow> returned r \<Longrightarrow> runtime_step E s s'"
| step_rename_session: "rename_session E session name s = (r, s') \<Longrightarrow> returned r \<Longrightarrow> runtime_step E s s'"
| step_set_session_target: "set_session_target E session target s = (r, s') \<Longrightarrow> returned r \<Longrightarrow> runtime_step E s s'"
| step_close_session: "close_session E session s = (r, s') \<Longrightarrow> returned r \<Longrightarrow> runtime_step E s s'"
| step_submit: "submit E session body s = (r, s') \<Longrightarrow> returned r \<Longrightarrow> runtime_step E s s'"
| step_start_session_callable: "start_session_callable E session callable objective s = (r, s') \<Longrightarrow> returned r \<Longrightarrow> runtime_step E s s'"
| step_start_agent: "start_agent E execution callable objective s = (r, s') \<Longrightarrow> returned r \<Longrightarrow> runtime_step E s s'"
| step_start_orchestration: "start_orchestration E execution callable objective s = (r, s') \<Longrightarrow> returned r \<Longrightarrow> runtime_step E s s'"
| step_drive: "drive_execution E execution backend s = (r, s') \<Longrightarrow> returned r \<Longrightarrow> runtime_step E s s'"
| step_drive_provider: "drive_provider_execution E execution s = (r, s') \<Longrightarrow> returned r \<Longrightarrow> runtime_step E s s'"
| step_resolve: "resolve_invocation E execution s = (r, s') \<Longrightarrow> returned r \<Longrightarrow> runtime_step E s s'"
| step_emit: "push_event E execution kind s = (r, s') \<Longrightarrow> returned r \<Longrightarrow> runtime_step E s s'"
| step_invoke: "invoke_tool E execution allowed invocation s = (r, s') \<Longrightarrow> returned r \<Longrightarrow> runtime_step E s s'"
| step_checkpoint: "record_workspace_checkpoint E execution workspace files s = (r, s') \<Longrightarrow> returned r \<Longrightarrow> runtime_step E s s'"
| step_set_state: "set_state E execution state s = (r, s') \<Longrightarrow> returned r \<Longrightarrow> runtime_step E s s'"
| step_cancel: "cancel_execution E execution s = (r, s') \<Longrightarrow> returned r \<Longrightarrow> runtime_step E s s'"
| step_refresh: "refresh_orchestration E execution s = (r, s') \<Longrightarrow> returned r \<Longrightarrow> runtime_step E s s'"
| step_decide: "decide_orchestration_failure E execution request s = (r, s') \<Longrightarrow> returned r \<Longrightarrow> runtime_step E s s'"
| step_interrupt: "interrupt_non_resumable_executions E s = (r, s') \<Longrightarrow> returned r \<Longrightarrow> runtime_step E s s'"
| step_load_skill: "load_skill execution skill s = (r, s') \<Longrightarrow> returned r \<Longrightarrow> runtime_step E s s'"
| step_reload: "reload_configuration E configuration s = (r, s') \<Longrightarrow> returned r \<Longrightarrow> runtime_step E s s'"
| step_bind: "bind_configuration_revision E revision configuration s = (r, s') \<Longrightarrow> returned r \<Longrightarrow> runtime_step E s s'"
| step_register_tool: "register_tool E descriptor handler s = (r, s') \<Longrightarrow> returned r \<Longrightarrow> runtime_step E s s'"
| step_register_agent: "register_agent E agent s = (r, s') \<Longrightarrow> returned r \<Longrightarrow> runtime_step E s s'"
| step_register_provider_agent: "register_provider_agent E agent provider s = (r, s') \<Longrightarrow> returned r \<Longrightarrow> runtime_step E s s'"
| step_register_orchestration: "runtime_register_orchestration E orch s = (r, s') \<Longrightarrow> returned r \<Longrightarrow> runtime_step E s s'"
| step_register_profile: "register_routing_profile E profile s = (r, s') \<Longrightarrow> returned r \<Longrightarrow> runtime_step E s s'"
| step_install_context: "install_context_registry E context s = (r, s') \<Longrightarrow> returned r \<Longrightarrow> runtime_step E s s'"
| step_install_skills: "install_skill_registry E skills s = (r, s') \<Longrightarrow> returned r \<Longrightarrow> runtime_step E s s'"
| step_register_guard: "register_invocation_guard guard s = (r, s') \<Longrightarrow> returned r \<Longrightarrow> runtime_step E s s'"
| step_bind_workspace: "bind_workspace workspace s = (r, s') \<Longrightarrow> returned r \<Longrightarrow> runtime_step E s s'"
| step_subscribe: "subscribe_events s = (r, s') \<Longrightarrow> returned r \<Longrightarrow> runtime_step E s s'"
| step_unsubscribe: "unsubscribe_events s = (r, s') \<Longrightarrow> returned r \<Longrightarrow> runtime_step E s s'"

inductive reachable :: "Externals \<Rightarrow> ConductorRuntime \<Rightarrow> bool" for E where
  reachable_new: "reachable E (runtime_new E)"
| reachable_step: "reachable E s \<Longrightarrow> runtime_step E s s' \<Longrightarrow> reachable E s'"
| reachable_restart: "reachable E s \<Longrightarrow> restore E (rt_journal s) = Ok s' \<Longrightarrow> reachable E s'"

lemma runtime_step_sound: "runtime_step E s s' \<Longrightarrow> sound E s s'"
  by (induction rule: runtime_step.induct) (erule op_keepsD [rotated], assumption, rule keeps)+

lemma initial_revision_numbered: "initial_revision = numbered ''config-'' (Suc 0)"
  by code_simp

lemma issued_first: "\<not> issued prefix 0 k" "issued prefix (Suc 0) k \<longleftrightarrow> k = numbered prefix (Suc 0)"
  by (auto simp: issued_def dest: le_antisym)

lemma empty_projection_inv: "durable_inv (empty_projection initial_revision fprint c)"
  by (simp add: durable_inv_def cursors_ok_def sessions_ok_def executions_ok_def attempts_ok_def
      interfaces_ok_def decisions_ok_def nodes_ok_def routes_ok_def read_sets_ok_def events_ok_def
      empty_projection_def initial_revision_numbered map_filter_simps issued_first)

lemma runtime_new_inv: "runtime_inv E (runtime_new E)"
  by (simp add: runtime_inv_def runtime_new_def Let_def empty_projection_inv journal_ok_def
      journal_new_def validate_structure_def applied_def)
    (simp add: kinds_ok_def sessions_inherited_def bindings_ok_def empty_projection_def)

lemma erased_bindings: "bindings_ok E (erase st)"
  by (auto simp: bindings_ok_def erase_def)

lemma restore_inv:
  assumes "runtime_inv E s"
  shows "\<exists>s'. restore E (rt_journal s) = Ok s' \<and> rt_durable s' = erase (rt_durable s) \<and>
     rt_journal s' = rt_journal s \<and> runtime_inv E s'"
proof -
  obtain s' where s': "restore E (rt_journal s) = Ok s'" "rt_durable s' = erase (rt_durable s)"
      "rt_journal s' = rt_journal s"
    using assms by (simp add: restore_def runtime_inv_def journal_ok_def)
  moreover have "runtime_inv E s'"
    using assms s'(2,3) by (simp add: runtime_inv_def journal_ok_def kinds_ok_def sessions_inherited_def erased_bindings)
  ultimately show ?thesis by blast
qed

lemma reachable_inv: "reachable E s \<Longrightarrow> runtime_inv E s"
proof (induction rule: reachable.induct)
  case reachable_new
  show ?case by (rule runtime_new_inv)
next
  case (reachable_step s s')
  then show ?case by (blast dest: runtime_step_sound [unfolded sound_def])
next
  case (reachable_restart s s')
  with restore_inv [OF reachable_restart.IH] show ?case by auto
qed

lemma reachable_durable: "reachable E s \<Longrightarrow> durable_inv (rt_durable s)"
  by (simp add: reachable_inv [unfolded runtime_inv_def])

end
