(* ===== verification/Sample.thy ===== *)
theory Sample
  imports Reachable
begin

text \<open>
  A concrete run for the witnesses: a configuration with one agent and one orchestration is
  registered, a session is opened, the orchestration is started and its only child runs. The
  third-party functions are replaced by simple ones.
\<close>

definition sample_externals :: Externals where
  "sample_externals = \<lparr>to_json = (\<lambda>_. ''{}''), json_error = (\<lambda>_. None), sha256_hex = (\<lambda>_. ''00''),
     debug_str = id\<rparr>"

definition sample_worker :: AgentDefinition where
  "sample_worker = \<lparr>ad_descriptor = sample_descriptor ''worker'' Agent, ad_authority = read_only\<rparr>"

definition sample_run :: "unit rt" where
  "sample_run =
     and_then (register_agent sample_externals sample_worker) (\<lambda>_.
     and_then (runtime_register_orchestration sample_externals
       (sample_orchestration [sample_node ''a'' []])) (\<lambda>_.
     and_then (create_session sample_externals None None (Fixed (sample_target ''m''))) (\<lambda>_.
     and_then (start_session_callable sample_externals (Ident ''session-1'') (Ident ''flow'') ''go'') (\<lambda>_.
     set_state sample_externals (Ident ''execution-2'') Running))))"

definition sample_state :: ConductorRuntime where
  "sample_state = snd (sample_run (runtime_new sample_externals))"

definition state_is :: "ConductorRuntime \<Rightarrow> string \<Rightarrow> ExecutionState \<Rightarrow> bool" where
  "state_is s x state \<longleftrightarrow>
     map_option (\<lambda>r. (x_state (xr_summary r), x_parent_execution (xr_summary r)))
       (bt_get (executions (rt_durable s)) (Ident x)) =
     Some (state, if x = ''execution-1'' then None else Some (Ident ''execution-1''))"

lemma sample_evaluated:
  "case sample_run (runtime_new sample_externals) of
     (Ok _, s) \<Rightarrow> state_is s ''execution-1'' Running \<and> state_is s ''execution-2'' Running
   | _ \<Rightarrow> False"
  by code_simp

lemma sample_run_Ok: "sample_run (runtime_new sample_externals) = (Ok (), sample_state)"
  using sample_evaluated by (auto simp: sample_state_def split: prod.splits outcome.splits)

lemma sample_executions:
  "state_is sample_state ''execution-1'' Running" "state_is sample_state ''execution-2'' Running"
  using sample_evaluated by (simp_all add: sample_run_Ok)

text \<open>A sequence of successful operations leads from a reachable runtime to a reachable one.\<close>

lemma reachable_then:
  assumes "and_then m f s = (Ok y, t)" and "reachable E s"
    and "\<And>x s'. m s = (Ok x, s') \<Longrightarrow> runtime_step E s s'"
  obtains x s' where "f x s' = (Ok y, t)" and "reachable E s'"
  using assms by (metis and_then_OkE reachable_step)

lemma sample_last_step:
  "\<exists>s. reachable sample_externals s \<and>
     set_state sample_externals (Ident ''execution-2'') Running s = (Ok (), sample_state)"
proof -
  note run = sample_run_Ok [unfolded sample_run_def]
  from run reachable_new obtain s1 where
    "and_then (runtime_register_orchestration sample_externals
       (sample_orchestration [sample_node ''a'' []])) (\<lambda>_.
     and_then (create_session sample_externals None None (Fixed (sample_target ''m''))) (\<lambda>_.
     and_then (start_session_callable sample_externals (Ident ''session-1'') (Ident ''flow'') ''go'') (\<lambda>_.
     set_state sample_externals (Ident ''execution-2'') Running))) s1 = (Ok (), sample_state)"
    and "reachable sample_externals s1"
    by (rule reachable_then) (auto intro: step_register_agent)
  then obtain s2 where
    "and_then (create_session sample_externals None None (Fixed (sample_target ''m''))) (\<lambda>_.
     and_then (start_session_callable sample_externals (Ident ''session-1'') (Ident ''flow'') ''go'') (\<lambda>_.
     set_state sample_externals (Ident ''execution-2'') Running)) s2 = (Ok (), sample_state)"
    and "reachable sample_externals s2"
    by (rule reachable_then) (auto intro: step_register_orchestration)
  then obtain s3 where
    "and_then (start_session_callable sample_externals (Ident ''session-1'') (Ident ''flow'') ''go'') (\<lambda>_.
     set_state sample_externals (Ident ''execution-2'') Running) s3 = (Ok (), sample_state)"
    and "reachable sample_externals s3"
    by (rule reachable_then) (auto intro: step_create_session)
  then obtain s4 where "set_state sample_externals (Ident ''execution-2'') Running s4 = (Ok (), sample_state)"
    and "reachable sample_externals s4"
    by (rule reachable_then) (auto intro: step_start_session_callable)
  then show ?thesis by blast
qed

lemma sample_step: "\<exists>s. reachable sample_externals s \<and> runtime_step sample_externals s sample_state"
  using sample_last_step by (metis returned.simps(1) step_set_state)

lemma sample_state_reachable: "reachable sample_externals sample_state"
  using sample_step by (blast intro: reachable_step)

section \<open>A closed session\<close>

definition closing_run :: "unit rt" where
  "closing_run =
     and_then (create_session sample_externals None None (Fixed (sample_target ''m''))) (\<lambda>_.
     and_then (submit sample_externals (Ident ''session-1'') ''hi'') (\<lambda>_.
     and_then (cancel_execution sample_externals (Ident ''execution-1'')) (\<lambda>_.
     and_then (close_session sample_externals (Ident ''session-1'')) (\<lambda>_. return ()))))"

definition closed_state :: ConductorRuntime where
  "closed_state = snd (closing_run (runtime_new sample_externals))"

lemma closing_evaluated:
  "case closing_run (runtime_new sample_externals) of
     (Ok _, s) \<Rightarrow>
       map_option (\<lambda>r. x_session_id (xr_summary r)) (bt_get (executions (rt_durable s)) (Ident ''execution-1'')) =
         Some (Ident ''session-1'') \<and>
       map_option (\<lambda>r. s_state (sn_summary r)) (bt_get (sessions (rt_durable s)) (Ident ''session-1'')) = Some Closed
   | _ \<Rightarrow> False"
  by code_simp

lemma closing_run_Ok: "closing_run (runtime_new sample_externals) = (Ok (), closed_state)"
  using closing_evaluated by (auto simp: closed_state_def split: prod.splits outcome.splits)

lemma closed_facts:
  "map_option (\<lambda>r. x_session_id (xr_summary r)) (bt_get (executions (rt_durable closed_state)) (Ident ''execution-1'')) =
     Some (Ident ''session-1'')"
  "map_option (\<lambda>r. s_state (sn_summary r)) (bt_get (sessions (rt_durable closed_state)) (Ident ''session-1'')) =
     Some Closed"
  using closing_evaluated by (simp_all add: closing_run_Ok)

lemma closed_state_reachable: "reachable sample_externals closed_state"
proof -
  note run = closing_run_Ok [unfolded closing_run_def]
  from run reachable_new obtain s1 where
    "and_then (submit sample_externals (Ident ''session-1'') ''hi'') (\<lambda>_.
     and_then (cancel_execution sample_externals (Ident ''execution-1'')) (\<lambda>_.
     and_then (close_session sample_externals (Ident ''session-1'')) (\<lambda>_. return ()))) s1 = (Ok (), closed_state)"
    and "reachable sample_externals s1"
    by (rule reachable_then) (auto intro: step_create_session)
  then obtain s2 where
    "and_then (cancel_execution sample_externals (Ident ''execution-1'')) (\<lambda>_.
     and_then (close_session sample_externals (Ident ''session-1'')) (\<lambda>_. return ())) s2 = (Ok (), closed_state)"
    and "reachable sample_externals s2"
    by (rule reachable_then) (auto intro: step_submit)
  then obtain s3 where
    "and_then (close_session sample_externals (Ident ''session-1'')) (\<lambda>_. return ()) s3 = (Ok (), closed_state)"
    and "reachable sample_externals s3"
    by (rule reachable_then) (auto intro: step_cancel)
  then obtain s4 where "(return () :: unit rt) s4 = (Ok (), closed_state)" and "reachable sample_externals s4"
    by (rule reachable_then) (auto intro: step_close_session)
  then show ?thesis by (simp add: return_def)
qed

end
