(* ===== verification/Execution_Groups.thy ===== *)
theory Execution_Groups
  imports Scheduler Lifecycle_Facts Sample
begin

text \<open>
  What the workers read from a snapshot of the runtime (\<open>execution_group_id\<close>,
  \<open>execution_has_blocking_ancestor\<close>, \<open>pending_execution_jobs\<close> and \<open>execution_group_quiescent\<close> in
  \<open>phenix-conductor/src/server.rs\<close>). The two loops climb from an execution to its root and would
  not end on a cyclic parent relation, so they are partial functions: \<open>None\<close> is a loop that does not
  return. On the snapshot of a reachable runtime they always return, and compute the root and the
  failed ancestors of an execution.
\<close>

section \<open>Climbing to the root\<close>

definition find_execution :: "ExecutionSummary list \<Rightarrow> ExecutionId \<Rightarrow> ExecutionSummary option" where
  "find_execution xs k = find (\<lambda>execution. x_id execution = k) xs"

partial_function (option) execution_group_id ::
  "ExecutionSummary list \<Rightarrow> ExecutionId \<Rightarrow> ExecutionId option option" where
  "execution_group_id xs current =
     (case find_execution xs current of
        None \<Rightarrow> Some None
      | Some execution \<Rightarrow>
          (case x_parent_execution execution of
             None \<Rightarrow> Some (Some current)
           | Some parent \<Rightarrow> execution_group_id xs parent))"

partial_function (option) blocking_loop :: "ExecutionSummary list \<Rightarrow> ExecutionId option \<Rightarrow> bool option" where
  "blocking_loop xs parent =
     (case parent of
        None \<Rightarrow> Some False
      | Some parent_id \<Rightarrow>
          (case find_execution xs parent_id of
             None \<Rightarrow> Some True
           | Some parent_execution \<Rightarrow>
               if x_state parent_execution = Failed \<or> x_state parent_execution = Cancelled \<or>
                  x_state parent_execution = Interrupted
               then Some True
               else blocking_loop xs (x_parent_execution parent_execution)))"

declare execution_group_id.simps [code] blocking_loop.simps [code]

definition execution_has_blocking_ancestor :: "ExecutionSummary list \<Rightarrow> ExecutionId \<Rightarrow> bool option" where
  "execution_has_blocking_ancestor xs execution_id =
     blocking_loop xs (Option.bind (find_execution xs execution_id) x_parent_execution)"

section \<open>The jobs of a group\<close>

text \<open>The closure of the filter: its three conjuncts are evaluated from left to right.\<close>

definition is_pending_in :: "ExecutionSummary list \<Rightarrow> ExecutionId \<Rightarrow> ExecutionSummary \<Rightarrow> bool option" where
  "is_pending_in xs group_id execution =
     (if x_state execution \<noteq> Pending then Some False
      else Option.bind (execution_group_id xs (x_id execution)) (\<lambda>root.
        if root \<noteq> Some group_id then Some False
        else map_option Not (execution_has_blocking_ancestor xs (x_id execution))))"

fun filter_option :: "('a \<Rightarrow> bool option) \<Rightarrow> 'a list \<Rightarrow> 'a list option" where
  "filter_option f [] = Some []"
| "filter_option f (x # xs) =
     Option.bind (f x) (\<lambda>b. map_option (\<lambda>ys. if b then x # ys else ys) (filter_option f xs))"

definition pending_execution_jobs :: "ConductorRuntime \<Rightarrow> ExecutionId \<Rightarrow> ExecutionJob list option" where
  "pending_execution_jobs runtime group_id =
     (let xs = sn_executions (snapshot runtime) in
      map_option (map (\<lambda>execution. \<lparr>jb_execution_id = x_id execution,
          jb_session_id = x_session_id execution, jb_group_id = group_id\<rparr>))
        (filter_option (is_pending_in xs group_id) xs))"

fun quiescent_loop ::
  "ExecutionSummary list \<Rightarrow> ExecutionId \<Rightarrow> bool \<Rightarrow> ExecutionSummary list \<Rightarrow> bool option" where
  "quiescent_loop xs group_id found [] = Some found"
| "quiescent_loop xs group_id found (execution # rest) =
     Option.bind (execution_group_id xs (x_id execution)) (\<lambda>root.
       if root \<noteq> Some group_id then quiescent_loop xs group_id found rest
       else case x_state execution of
         Running \<Rightarrow> Some False
       | Pending \<Rightarrow>
           Option.bind (execution_has_blocking_ancestor xs (x_id execution)) (\<lambda>blocked.
             if \<not> blocked then Some False else quiescent_loop xs group_id True rest)
       | _ \<Rightarrow> quiescent_loop xs group_id True rest)"

definition execution_group_quiescent :: "ConductorRuntime \<Rightarrow> ExecutionId \<Rightarrow> bool option" where
  "execution_group_quiescent runtime group_id =
     (let xs = sn_executions (snapshot runtime) in quiescent_loop xs group_id False xs)"

text \<open>\<open>enqueue_pending_execution_group\<close>: the jobs found are put on the queue in snapshot order.\<close>

definition enqueue_pending_execution_group ::
  "ConductorRuntime \<Rightarrow> ExecutionId \<Rightarrow> ExecutionQueueState \<Rightarrow> ExecutionQueueState option" where
  "enqueue_pending_execution_group runtime group_id q =
     map_option (\<lambda>jobs. foldl (\<lambda>q job. enqueue job q) q jobs) (pending_execution_jobs runtime group_id)"

section \<open>On a reachable snapshot\<close>

definition is_root :: "ConductorRuntime \<Rightarrow> ExecutionId \<Rightarrow> bool" where
  "is_root s g \<longleftrightarrow> (\<exists>r. bt_get (executions (rt_durable s)) g = Some r \<and> x_parent_execution (xr_summary r) = None)"

definition halted :: "ConductorRuntime \<Rightarrow> ExecutionId \<Rightarrow> bool" where
  "halted s x \<longleftrightarrow>
     (\<exists>r. bt_get (executions (rt_durable s)) x = Some r \<and> x_state (xr_summary r) \<in> {Failed, Cancelled, Interrupted})"

definition blocked :: "ConductorRuntime \<Rightarrow> ExecutionId \<Rightarrow> bool" where
  "blocked s x \<longleftrightarrow> (\<exists>a. a \<noteq> x \<and> x \<in> descendants s a \<and> halted s a)"

lemma find_snapshot:
  assumes "executions_ok (rt_durable s)"
  shows "find_execution (sn_executions (snapshot s)) k = map_option xr_summary (bt_get (executions (rt_durable s)) k)"
proof (cases "bt_get (executions (rt_durable s)) k")
  case None
  have "x_id (xr_summary r) \<noteq> k" if "r \<in> set (bt_values (executions (rt_durable s)))" for r
    using assms that None by (auto simp: executions_ok_def execution_ok_def)
  with None show ?thesis by (auto simp: find_execution_def snapshot_def find_None_iff)
next
  case (Some r)
  have unique: "r' = r" if "bt_get (executions (rt_durable s)) k' = Some r'" "x_id (xr_summary r') = k" for k' r'
    using assms that Some by (auto simp: executions_ok_def execution_ok_def)
  have "x_id (xr_summary r) = k" using assms Some by (auto simp: executions_ok_def execution_ok_def)
  moreover have "xr_summary r \<in> set (sn_executions (snapshot s))"
    using Some by (auto simp: snapshot_def intro!: imageI)
  ultimately obtain x where x: "find (\<lambda>e. x_id e = k) (sn_executions (snapshot s)) = Some x"
    by (cases "find (\<lambda>e. x_id e = k) (sn_executions (snapshot s))") (auto simp: find_None_iff)
  then have "x_id x = k" "x \<in> set (sn_executions (snapshot s))"
    by (auto simp: find_Some_iff)
  then have "x = xr_summary r" using unique by (auto simp: snapshot_def)
  with x Some show ?thesis by (simp add: find_execution_def)
qed

lemma parent_older:
  assumes "executions_ok (rt_durable s)" and "(p, x) \<in> child_rel s"
  shows "xnum p < xnum x" and "bt_contains_key (executions (rt_durable s)) p"
proof -
  obtain r where r: "bt_get (executions (rt_durable s)) x = Some r" "x_parent_execution (xr_summary r) = Some p"
    using assms(2) by (auto simp: child_rel_def child_in_def)
  with assms(1) have "execution_ok (rt_durable s) x r" by (simp add: executions_ok_def)
  with r show "xnum p < xnum x" "bt_contains_key (executions (rt_durable s)) p"
    by (auto simp: execution_ok_def child_of_def bt_contains_key_def)
qed

lemma descendant_younger:
  assumes "executions_ok (rt_durable s)" and "x \<in> descendants s a"
  shows "xnum a \<le> xnum x"
proof -
  have "(a, x) \<in> (child_rel s)\<^sup>*" using assms(2) by (simp add: descendants_def)
  then show ?thesis
    by (induction rule: rtrancl_induct) (auto dest: parent_older(1) [OF assms(1)])
qed

lemma group_of_child:
  assumes "executions_ok (rt_durable s)" and "(p, x) \<in> child_rel s"
  shows "execution_group_id (sn_executions (snapshot s)) x = execution_group_id (sn_executions (snapshot s)) p"
  using assms(2)
  by (subst execution_group_id.simps) (auto simp: find_snapshot [OF assms(1)] child_rel_def child_in_def)

lemma group_of_root:
  assumes "executions_ok (rt_durable s)" and "is_root s g"
  shows "execution_group_id (sn_executions (snapshot s)) g = Some (Some g)"
  using assms(2) by (subst execution_group_id.simps) (auto simp: find_snapshot [OF assms(1)] is_root_def)

lemma group_of_descendant:
  assumes "executions_ok (rt_durable s)" and "is_root s g" and "x \<in> descendants s g"
  shows "execution_group_id (sn_executions (snapshot s)) x = Some (Some g)"
proof -
  have "(g, x) \<in> (child_rel s)\<^sup>*" using assms(3) by (simp add: descendants_def)
  then show ?thesis
    by (induction rule: rtrancl_induct)
      (simp_all add: group_of_root [OF assms(1,2)] group_of_child [OF assms(1)])
qed

lemma has_root:
  assumes "executions_ok (rt_durable s)" and "bt_get (executions (rt_durable s)) x = Some r"
  shows "\<exists>g. is_root s g \<and> x \<in> descendants s g"
  using assms(2)
proof (induction "xnum x" arbitrary: x r rule: less_induct)
  case less
  show ?case
  proof (cases "x_parent_execution (xr_summary r)")
    case None
    with less.prems show ?thesis by (auto simp: is_root_def descendants_def)
  next
    case (Some p)
    with less.prems have child: "(p, x) \<in> child_rel s" by (auto simp: child_rel_def child_in_def)
    with parent_older [OF assms(1) this] less.hyps obtain g where "is_root s g" "p \<in> descendants s g"
      by (auto simp: bt_contains_key_def)
    with child show ?thesis by (auto simp: descendants_def intro: rtrancl_into_rtrancl)
  qed
qed

lemma group_id_spec:
  assumes "executions_ok (rt_durable s)" and "bt_get (executions (rt_durable s)) x = Some r"
  shows "\<exists>root. execution_group_id (sn_executions (snapshot s)) x = Some (Some root) \<and>
    (\<forall>g. is_root s g \<and> x \<in> descendants s g \<longleftrightarrow> root = g)"
proof -
  obtain root where root: "is_root s root" "x \<in> descendants s root" using has_root [OF assms] by blast
  moreover have "root = g" if "is_root s g" "x \<in> descendants s g" for g
    using group_of_descendant [OF assms(1) root] group_of_descendant [OF assms(1) that] by simp
  ultimately show ?thesis using group_of_descendant [OF assms(1) root] by blast
qed

lemma ancestor_step:
  assumes "executions_ok (rt_durable s)"
  shows "a \<noteq> x \<and> x \<in> descendants s a \<longleftrightarrow> (\<exists>p. (p, x) \<in> child_rel s \<and> p \<in> descendants s a)"
proof
  assume "a \<noteq> x \<and> x \<in> descendants s a"
  then show "\<exists>p. (p, x) \<in> child_rel s \<and> p \<in> descendants s a"
    by (auto simp: descendants_def elim: rtranclE)
next
  assume "\<exists>p. (p, x) \<in> child_rel s \<and> p \<in> descendants s a"
  then obtain p where p: "(p, x) \<in> child_rel s" "p \<in> descendants s a" by blast
  then have "xnum a < xnum x"
    using parent_older(1) [OF assms p(1)] descendant_younger [OF assms p(2)] by simp
  with p show "a \<noteq> x \<and> x \<in> descendants s a"
    by (auto simp: descendants_def intro: rtrancl_into_rtrancl)
qed

lemma blocked_parent:
  assumes "executions_ok (rt_durable s)" and "bt_get (executions (rt_durable s)) x = Some r"
  shows "blocked s x \<longleftrightarrow>
    (\<exists>p. x_parent_execution (xr_summary r) = Some p \<and> (halted s p \<or> blocked s p))"
proof -
  have parent: "(p, x) \<in> child_rel s \<longleftrightarrow> x_parent_execution (xr_summary r) = Some p" for p
    using assms(2) by (simp add: child_rel_def child_in_def)
  have self: "p \<in> descendants s p" for p by (simp add: descendants_def)
  have "blocked s x \<longleftrightarrow> (\<exists>p a. x_parent_execution (xr_summary r) = Some p \<and> p \<in> descendants s a \<and> halted s a)"
    using ancestor_step [OF assms(1), of _ x] unfolding blocked_def parent by blast
  moreover have "(\<exists>a. p \<in> descendants s a \<and> halted s a) \<longleftrightarrow> halted s p \<or> blocked s p" for p
    using self [of p] unfolding blocked_def by metis
  ultimately show ?thesis by simp
qed

lemma blocking_spec:
  assumes "executions_ok (rt_durable s)" and "bt_get (executions (rt_durable s)) x = Some r"
  shows "blocking_loop (sn_executions (snapshot s)) (x_parent_execution (xr_summary r)) = Some (blocked s x)"
  using assms(2)
proof (induction "xnum x" arbitrary: x r rule: less_induct)
  case less
  show ?case
  proof (cases "x_parent_execution (xr_summary r)")
    case None
    with blocked_parent [OF assms(1) less.prems] show ?thesis by (subst blocking_loop.simps) simp
  next
    case (Some p)
    with less.prems have "(p, x) \<in> child_rel s" by (auto simp: child_rel_def child_in_def)
    from parent_older [OF assms(1) this] obtain q
      where q: "xnum p < xnum x" "bt_get (executions (rt_durable s)) p = Some q"
      by (auto simp: bt_contains_key_def)
    with Some blocked_parent [OF assms(1) less.prems] less.hyps [OF q]
    show ?thesis by (subst blocking_loop.simps) (auto simp: find_snapshot [OF assms(1)] halted_def)
  qed
qed

lemma blocking_ancestor_spec:
  assumes "executions_ok (rt_durable s)" and "bt_get (executions (rt_durable s)) x = Some r"
  shows "execution_has_blocking_ancestor (sn_executions (snapshot s)) x = Some (blocked s x)"
  using blocking_spec [OF assms] assms(2)
  by (simp add: execution_has_blocking_ancestor_def find_snapshot [OF assms(1)])

section \<open>Groups and their jobs\<close>

definition in_group :: "ConductorRuntime \<Rightarrow> ExecutionId \<Rightarrow> ExecutionSummary \<Rightarrow> bool" where
  "in_group s g x \<longleftrightarrow> is_root s g \<and> x_id x \<in> descendants s g"

definition ready_in :: "ConductorRuntime \<Rightarrow> ExecutionId \<Rightarrow> ExecutionSummary \<Rightarrow> bool" where
  "ready_in s g x \<longleftrightarrow> x_state x = Pending \<and> in_group s g x \<and> \<not> blocked s (x_id x)"

definition job_of :: "ExecutionId \<Rightarrow> ExecutionSummary \<Rightarrow> ExecutionJob" where
  "job_of g x = \<lparr>jb_execution_id = x_id x, jb_session_id = x_session_id x, jb_group_id = g\<rparr>"

lemma snapshot_execution:
  assumes "executions_ok (rt_durable s)" and "x \<in> set (sn_executions (snapshot s))"
  obtains r where "bt_get (executions (rt_durable s)) (x_id x) = Some r" and "x = xr_summary r"
proof -
  from assms(2) obtain k r where r: "bt_get (executions (rt_durable s)) k = Some r" "x = xr_summary r"
    by (auto simp: snapshot_def)
  with assms(1) have "execution_ok (rt_durable s) k r" by (simp add: executions_ok_def)
  then have "x_id x = k" by (simp add: execution_ok_def r(2))
  with r that show thesis by blast
qed

lemma is_pending_in_spec:
  assumes "executions_ok (rt_durable s)" and "x \<in> set (sn_executions (snapshot s))"
  shows "is_pending_in (sn_executions (snapshot s)) g x = Some (ready_in s g x)"
proof -
  obtain r where r: "bt_get (executions (rt_durable s)) (x_id x) = Some r"
    using assms by (rule snapshot_execution)
  obtain root where "execution_group_id (sn_executions (snapshot s)) (x_id x) = Some (Some root)"
      "\<And>g. is_root s g \<and> x_id x \<in> descendants s g \<longleftrightarrow> root = g"
    using group_id_spec [OF assms(1) r] by blast
  then show ?thesis
    by (simp add: is_pending_in_def ready_in_def in_group_def blocking_ancestor_spec [OF assms(1) r])
qed

lemma filter_option_total: "(\<And>x. x \<in> set xs \<Longrightarrow> f x = Some (P x)) \<Longrightarrow> filter_option f xs = Some (filter P xs)"
  by (induction xs) auto

lemma pending_jobs_spec:
  assumes "executions_ok (rt_durable s)"
  shows "pending_execution_jobs s g = Some (map (job_of g) (filter (ready_in s g) (sn_executions (snapshot s))))"
  by (simp add: pending_execution_jobs_def Let_def job_of_def [abs_def]
      filter_option_total [OF is_pending_in_spec [OF assms]])

lemma quiescent_loop_spec:
  assumes "executions_ok (rt_durable s)" and "set rest \<subseteq> set (sn_executions (snapshot s))"
  shows "quiescent_loop (sn_executions (snapshot s)) g found rest =
    Some ((found \<or> (\<exists>x\<in>set rest. in_group s g x)) \<and>
      (\<forall>x\<in>set rest. in_group s g x \<longrightarrow> x_state x \<noteq> Running \<and> \<not> ready_in s g x))"
  using assms(2)
proof (induction rest arbitrary: found)
  case (Cons x rest)
  then have x: "x \<in> set (sn_executions (snapshot s))" by simp
  obtain r where r: "bt_get (executions (rt_durable s)) (x_id x) = Some r"
    using assms(1) x by (rule snapshot_execution)
  obtain root where root: "execution_group_id (sn_executions (snapshot s)) (x_id x) = Some (Some root)"
      "\<And>g. in_group s g x \<longleftrightarrow> root = g"
    using group_id_spec [OF assms(1) r] by (auto simp: in_group_def)
  from Cons have "\<And>found. quiescent_loop (sn_executions (snapshot s)) g found rest =
    Some ((found \<or> (\<exists>x\<in>set rest. in_group s g x)) \<and>
      (\<forall>x\<in>set rest. in_group s g x \<longrightarrow> x_state x \<noteq> Running \<and> \<not> ready_in s g x))"
    by simp
  then show ?case
    by (auto simp: root ready_in_def blocking_ancestor_spec [OF assms(1) r] split: ExecutionState.split)
qed simp

lemma reachable_executions: "reachable E s \<Longrightarrow> executions_ok (rt_durable s)"
  using reachable_durable by (simp add: durable_inv_def)

lemma same_session_below:
  assumes "reachable E s" and "x \<in> descendants s g" and "bt_get (executions (rt_durable s)) g = Some q"
    and "bt_get (executions (rt_durable s)) x = Some r"
  shows "x_session_id (xr_summary r) = x_session_id (xr_summary q)"
proof -
  have inherited: "sessions_inherited (rt_durable s)" and ok: "executions_ok (rt_durable s)"
    using reachable_inv [OF assms(1)] by (simp_all add: runtime_inv_def durable_inv_def)
  have "(g, x) \<in> (child_rel s)\<^sup>*" using assms(2) by (simp add: descendants_def)
  then show ?thesis
    using assms(4)
  proof (induction arbitrary: r rule: rtrancl_induct)
    case base
    with assms(3) show ?case by simp
  next
    case (step p x)
    then have parent: "x_parent_execution (xr_summary r) = Some p"
      by (simp add: child_rel_def child_in_def)
    obtain a where a: "bt_get (executions (rt_durable s)) p = Some a"
      using parent_older(2) [OF ok step(2)] by (auto simp: bt_contains_key_def)
    have "x_session_id (xr_summary a) = x_session_id (xr_summary r)"
      using inherited step.prems parent a by (simp only: sessions_inherited_def)
    with step.IH [OF a] show ?case by simp
  qed
qed

section \<open>The runtime and the scheduler together\<close>

text \<open>
  The server starts a queue on some reachable runtime. From then on the runtime takes its steps and
  the workers theirs, in any order; the jobs on the queue are the ones
  \<open>enqueue_pending_execution_group\<close> reads from the runtime.
\<close>

inductive serving :: "Externals \<Rightarrow> ConductorRuntime \<Rightarrow> Scheduler \<Rightarrow> bool" for E where
  serving_start: "reachable E s \<Longrightarrow> serving E s scheduler_init"
| serving_runtime: "serving E s q \<Longrightarrow> runtime_step E s s' \<Longrightarrow> serving E s' q"
| serving_enqueue: "serving E s q \<Longrightarrow> enqueue_pending_execution_group s g (sd_queue q) = Some queue \<Longrightarrow>
     serving E s (q\<lparr>sd_queue := queue\<rparr>)"
| serving_take: "serving E s q \<Longrightarrow> next_job (sd_queue q) = (NextJob job, queue) \<Longrightarrow>
     serving E s (q\<lparr>sd_queue := queue, sd_running := job # sd_running q,
       sd_taken := jb_execution_id job # sd_taken q\<rparr>)"
| serving_complete: "serving E s q \<Longrightarrow> job \<in> set (sd_running q) \<Longrightarrow>
     complete job release (sd_queue q) = (Ok b :: (unit, bool) outcome, queue) \<Longrightarrow>
     serving E s (q\<lparr>sd_queue := queue, sd_running := remove1 job (sd_running q)\<rparr>)"
| serving_close: "serving E s q \<Longrightarrow> serving E s (q\<lparr>sd_queue := close_queue (sd_queue q)\<rparr>)"

text \<open>A job names an execution of the runtime, its session, and the root of its tree.\<close>

definition job_ok :: "ConductorRuntime \<Rightarrow> ExecutionJob \<Rightarrow> bool" where
  "job_ok s job \<longleftrightarrow>
     is_root s (jb_group_id job) \<and> jb_execution_id job \<in> descendants s (jb_group_id job) \<and>
     map_option (\<lambda>r. x_session_id (xr_summary r)) (bt_get (executions (rt_durable s)) (jb_execution_id job)) =
       Some (jb_session_id job) \<and>
     map_option (\<lambda>r. x_session_id (xr_summary r)) (bt_get (executions (rt_durable s)) (jb_group_id job)) =
       Some (jb_session_id job)"

text \<open>The session of a group, for the groups of the runtime; the workers only meet those.\<close>

definition session_of_group :: "ConductorRuntime \<Rightarrow> ExecutionId \<Rightarrow> SessionId" where
  "session_of_group s g =
     (case bt_get (executions (rt_durable s)) g of Some r \<Rightarrow> x_session_id (xr_summary r) | None \<Rightarrow> Ident [])"

definition jobs_ok :: "ConductorRuntime \<Rightarrow> Scheduler \<Rightarrow> bool" where
  "jobs_ok s q \<longleftrightarrow> (\<forall>job\<in>set (qs_pending (sd_queue q)) \<union> set (sd_running q). job_ok s job)"

lemma summary_evolves:
  assumes "evolves (rt_durable s) (rt_durable s')" and "bt_get (executions (rt_durable s)) x = Some r"
  shows "\<exists>r'. bt_get (executions (rt_durable s')) x = Some r' \<and>
    x_parent_execution (xr_summary r') = x_parent_execution (xr_summary r) \<and>
    x_session_id (xr_summary r') = x_session_id (xr_summary r)"
  using assms by (auto simp: evolves_def same_execution_def dest!: persistsD)

lemma descendants_evolve:
  assumes "evolves (rt_durable s) (rt_durable s')"
  shows "descendants s g \<subseteq> descendants s' g"
proof -
  have "child_rel s \<subseteq> child_rel s'"
    using summary_evolves [OF assms] unfolding child_rel_def child_in_def by fastforce
  then show ?thesis unfolding descendants_def using rtrancl_mono by blast
qed

lemma job_ok_evolves:
  assumes "evolves (rt_durable s) (rt_durable s')" and "job_ok s job"
  shows "job_ok s' job"
  using assms(2) descendants_evolve [OF assms(1)] summary_evolves [OF assms(1)]
  unfolding job_ok_def is_root_def by fastforce

lemma pending_job_ok:
  assumes "reachable E s" and "pending_execution_jobs s g = Some jobs" and "job \<in> set jobs"
  shows "job_ok s job"
proof -
  note ok = reachable_executions [OF assms(1)]
  from assms(2,3) obtain x where x: "x \<in> set (sn_executions (snapshot s))" "ready_in s g x" "job = job_of g x"
    by (auto simp: pending_jobs_spec [OF ok])
  obtain r where r: "bt_get (executions (rt_durable s)) (x_id x) = Some r" "x = xr_summary r"
    using ok x(1) by (rule snapshot_execution)
  have g: "is_root s g" "x_id x \<in> descendants s g" using x(2) by (simp_all add: ready_in_def in_group_def)
  then obtain q where q: "bt_get (executions (rt_durable s)) g = Some q" by (auto simp: is_root_def)
  have "x_session_id x = x_session_id (xr_summary q)"
    using same_session_below [OF assms(1) g(2) q r(1)] r(2) by simp
  with g q r(1) show ?thesis by (simp add: job_ok_def job_of_def x(3) flip: r(2))
qed

definition active_known :: "ConductorRuntime \<Rightarrow> Scheduler \<Rightarrow> bool" where
  "active_known s q \<longleftrightarrow>
     (\<forall>session g. bt_get (qs_active_sessions (sd_queue q)) session = Some g \<longrightarrow>
        bt_contains_key (executions (rt_durable s)) g)"

definition serving_inv :: "ConductorRuntime \<Rightarrow> Scheduler \<Rightarrow> bool" where
  "serving_inv s q \<longleftrightarrow> jobs_ok s q \<and> active_known s q \<and> sched_inv (session_of_group s) q"

lemma job_session: "job_ok s job \<Longrightarrow> session_of_group s (jb_group_id job) = jb_session_id job"
  by (auto simp: job_ok_def session_of_group_def)

lemma job_group_known: "job_ok s job \<Longrightarrow> bt_contains_key (executions (rt_durable s)) (jb_group_id job)"
  by (auto simp: job_ok_def bt_contains_key_def)

lemma sched_inv_cong:
  assumes "sched_inv f q"
    and "\<And>job. job \<in> set (qs_pending (sd_queue q)) \<union> set (sd_running q) \<Longrightarrow> f' (jb_group_id job) = f (jb_group_id job)"
    and "\<And>session g. bt_get (qs_active_sessions (sd_queue q)) session = Some g \<Longrightarrow> f' g = f g"
  shows "sched_inv f' q"
  using assms unfolding sched_inv_def sessions_reserved_def by simp

lemma serving_inv_runtime:
  assumes "serving_inv s q" and "evolves (rt_durable s) (rt_durable s')"
  shows "serving_inv s' q"
proof -
  have same: "session_of_group s' g = session_of_group s g" and known: "bt_contains_key (executions (rt_durable s')) g"
    if "bt_contains_key (executions (rt_durable s)) g" for g
    using that summary_evolves [OF assms(2), of g] by (auto simp: session_of_group_def bt_contains_key_def)
  have jobs: "jobs_ok s' q" and active: "active_known s' q"
    using assms(1) job_ok_evolves [OF assms(2)] known
    by (auto simp: serving_inv_def jobs_ok_def active_known_def)
  have "sched_inv (session_of_group s') q"
  proof (rule sched_inv_cong)
    show "sched_inv (session_of_group s) q" using assms(1) by (simp add: serving_inv_def)
    show "session_of_group s' (jb_group_id job) = session_of_group s (jb_group_id job)"
      if "job \<in> set (qs_pending (sd_queue q)) \<union> set (sd_running q)" for job
      using that assms(1) by (intro same job_group_known) (auto simp: serving_inv_def jobs_ok_def)
    show "session_of_group s' g = session_of_group s g"
      if "bt_get (qs_active_sessions (sd_queue q)) session = Some g" for session g
      using that assms(1) by (intro same) (auto simp: serving_inv_def active_known_def)
  qed
  with jobs active show ?thesis by (simp add: serving_inv_def)
qed

lemma serving_inv_enqueue:
  assumes "serving_inv s q" and "job_ok s job"
  shows "serving_inv s (q\<lparr>sd_queue := enqueue job (sd_queue q)\<rparr>)"
  using assms sched_inv_enqueue [of "session_of_group s" q job] job_session [OF assms(2)]
  by (auto simp: serving_inv_def jobs_ok_def active_known_def enqueue_def)

lemma serving_inv_enqueue_all:
  "serving_inv s q \<Longrightarrow> \<forall>job\<in>set jobs. job_ok s job \<Longrightarrow>
   serving_inv s (q\<lparr>sd_queue := foldl (\<lambda>q job. enqueue job q) (sd_queue q) jobs\<rparr>)"
proof (induction jobs arbitrary: q)
  case (Cons job jobs)
  then have "serving_inv s (q\<lparr>sd_queue := enqueue job (sd_queue q)\<rparr>)" by (simp add: serving_inv_enqueue)
  with Cons show ?case by fastforce
qed simp

lemma serving_inv_take:
  assumes inv: "serving_inv s q" and step: "next_job (sd_queue q) = (NextJob job, queue)"
  shows "serving_inv s (q\<lparr>sd_queue := queue, sd_running := job # sd_running q,
       sd_taken := jb_execution_id job # sd_taken q\<rparr>)"
proof -
  from step have "set (qs_pending queue) \<union> {job} = set (qs_pending (sd_queue q))"
    and sessions: "\<And>session g. bt_get (qs_active_sessions queue) session = Some g \<Longrightarrow>
      g = jb_group_id job \<or> bt_get (qs_active_sessions (sd_queue q)) session = Some g"
    by (auto elim!: next_jobE split: option.splits if_splits)
  with inv have jobs: "jobs_ok s (q\<lparr>sd_queue := queue, sd_running := job # sd_running q,
       sd_taken := jb_execution_id job # sd_taken q\<rparr>)" and "job_ok s job"
    by (auto simp: serving_inv_def jobs_ok_def)
  then have "active_known s (q\<lparr>sd_queue := queue, sd_running := job # sd_running q,
       sd_taken := jb_execution_id job # sd_taken q\<rparr>)"
    using inv sessions by (auto simp: serving_inv_def active_known_def intro: job_group_known)
  with jobs inv step show ?thesis by (simp add: serving_inv_def sched_inv_take)
qed

lemma serving_inv_complete:
  assumes inv: "serving_inv s q" and job: "job \<in> set (sd_running q)"
    and step: "complete job release (sd_queue q) = (Ok b, queue)"
  shows "serving_inv s (q\<lparr>sd_queue := queue, sd_running := remove1 job (sd_running q)\<rparr>)"
proof -
  have sched: "sched_inv (session_of_group s) q" using inv by (simp add: serving_inv_def)
  have pending: "qs_pending queue = qs_pending (sd_queue q)"
    and sessions: "bt_get (qs_active_sessions queue) session = Some g \<Longrightarrow>
       bt_get (qs_active_sessions (sd_queue q)) session = Some g" for session g
    using step by (auto elim!: completeE [OF sched job] split: if_splits)
  have "active_known s (q\<lparr>sd_queue := queue, sd_running := remove1 job (sd_running q)\<rparr>)"
    using inv by (auto simp: serving_inv_def active_known_def dest!: sessions)
  with inv sched_inv_complete [OF sched job step] show ?thesis
    by (auto simp: serving_inv_def jobs_ok_def pending dest: set_remove1_subset [THEN subsetD])
qed

lemma serving_holds: "serving E s q \<Longrightarrow> reachable E s \<and> serving_inv s q"
proof (induction rule: serving.induct)
  case (serving_start s)
  then show ?case
    using schedulable_inv [OF sched_start]
    by (simp add: serving_inv_def jobs_ok_def active_known_def scheduler_init_def queue_default_def)
next
  case (serving_runtime s q s')
  then have "evolves (rt_durable s) (rt_durable s')"
    using runtime_step_sound [of E s s'] reachable_inv [of E s] by (simp add: sound_def extends_def)
  with serving_runtime show ?case by (auto intro: reachable_step serving_inv_runtime)
next
  case (serving_enqueue s q g queue)
  then obtain jobs where "pending_execution_jobs s g = Some jobs"
      "queue = foldl (\<lambda>q job. enqueue job q) (sd_queue q) jobs"
    by (auto simp: enqueue_pending_execution_group_def)
  with serving_enqueue show ?case by (auto intro: serving_inv_enqueue_all pending_job_ok)
next
  case (serving_close s q)
  then show ?case
    by (simp add: serving_inv_def jobs_ok_def active_known_def close_queue_def sched_inv_defs)
qed (auto intro: serving_inv_take serving_inv_complete)

section \<open>What the workers can rely on\<close>



text \<open>C40. With the queue filled from the runtime, two executions of one session are executed at the
  same time only when they belong to the same execution tree of the runtime.\<close>

theorem one_tree_per_session:
  assumes "serving E s q" and "j \<in> set (sd_running q)" and "j' \<in> set (sd_running q)"
  shows "\<exists>r r'. bt_get (executions (rt_durable s)) (jb_execution_id j) = Some r \<and>
    bt_get (executions (rt_durable s)) (jb_execution_id j') = Some r' \<and>
    (x_session_id (xr_summary r) = x_session_id (xr_summary r') \<longrightarrow>
       (\<exists>root. is_root s root \<and> jb_execution_id j \<in> descendants s root \<and> jb_execution_id j' \<in> descendants s root))"
proof -
  have inv: "serving_inv s q" using serving_holds [OF assms(1)] by blast
  then have ok: "job_ok s j" "job_ok s j'" and sched: "sched_inv (session_of_group s) q"
    using assms(2,3) by (auto simp: serving_inv_def jobs_ok_def)
  have "jb_session_id j = jb_session_id j' \<Longrightarrow> jb_group_id j = jb_group_id j'"
    using sched_holds [OF sched assms(2)] sched_holds [OF sched assms(3)] by simp
  with ok show ?thesis unfolding job_ok_def by fastforce
qed

definition two_roots :: "unit rt" where
  "two_roots =
     and_then (create_session sample_externals None None (Fixed (sample_target ''m''))) (\<lambda>_.
     and_then (submit sample_externals (Ident ''session-1'') ''hi'') (\<lambda>_.
     and_then (submit sample_externals (Ident ''session-1'') ''ho'') (\<lambda>_. return ())))"

definition two_roots_state :: ConductorRuntime where
  "two_roots_state = snd (two_roots (runtime_new sample_externals))"

lemma two_roots_evaluated:
  "case two_roots (runtime_new sample_externals) of
     (Ok _, s) \<Rightarrow>
       (case Option.bind (enqueue_pending_execution_group s (Ident ''execution-1'') queue_default)
           (enqueue_pending_execution_group s (Ident ''execution-2'')) of
          Some q \<Rightarrow> (case next_job q of (NextJob job, q') \<Rightarrow>
            jb_execution_id job = Ident ''execution-1'' \<and> fst (next_job q') = NextWait | _ \<Rightarrow> False)
        | None \<Rightarrow> False)
   | _ \<Rightarrow> False"
  by code_simp

lemma two_roots_Ok: "two_roots (runtime_new sample_externals) = (Ok (), two_roots_state)"
  using two_roots_evaluated by (auto simp: two_roots_state_def split: prod.splits outcome.splits)

lemma two_roots_reachable: "reachable sample_externals two_roots_state"
proof -
  note run = two_roots_Ok [unfolded two_roots_def]
  from run reachable_new obtain s1 where
    "and_then (submit sample_externals (Ident ''session-1'') ''hi'') (\<lambda>_.
     and_then (submit sample_externals (Ident ''session-1'') ''ho'') (\<lambda>_. return ())) s1 = (Ok (), two_roots_state)"
    and "reachable sample_externals s1"
    by (rule reachable_then) (auto intro: step_create_session)
  then obtain s2 where
    "and_then (submit sample_externals (Ident ''session-1'') ''ho'') (\<lambda>_. return ()) s2 = (Ok (), two_roots_state)"
    and "reachable sample_externals s2"
    by (rule reachable_then) (auto intro: step_submit)
  then obtain s3 where "(return () :: unit rt) s3 = (Ok (), two_roots_state)" and "reachable sample_externals s3"
    by (rule reachable_then) (auto intro: step_submit)
  then show ?thesis by (simp add: return_def)
qed

lemma two_roots_serving:
  "\<exists>q job. serving sample_externals two_roots_state q \<and> sd_running q = [job] \<and>
     jb_execution_id job = Ident ''execution-1'' \<and> fst (next_job (sd_queue q)) = NextWait"
proof -
  obtain q1 q2 job q3 where steps:
    "enqueue_pending_execution_group two_roots_state (Ident ''execution-1'') queue_default = Some q1"
    "enqueue_pending_execution_group two_roots_state (Ident ''execution-2'') q1 = Some q2"
    "next_job q2 = (NextJob job, q3)" "jb_execution_id job = Ident ''execution-1''"
    "fst (next_job q3) = NextWait"
    using two_roots_evaluated unfolding two_roots_Ok
    by (auto split: option.splits prod.splits next_result.splits bind_splits)
  let ?t = "scheduler_init\<lparr>sd_queue := q2\<rparr>"
  have "serving sample_externals two_roots_state (scheduler_init\<lparr>sd_queue := q1\<rparr>)"
    using serving_enqueue [OF serving_start [OF two_roots_reachable]] steps(1)
    by (simp add: scheduler_init_def)
  from serving_enqueue [OF this] steps(2) have "serving sample_externals two_roots_state ?t" by simp
  from serving_take [OF this] steps(3)
  have "serving sample_externals two_roots_state (?t\<lparr>sd_queue := q3, sd_running := job # sd_running ?t,
      sd_taken := jb_execution_id job # sd_taken ?t\<rparr>)" by simp
  with steps(4,5) show ?thesis
    by (intro exI conjI) (assumption, simp_all add: scheduler_init_def)
qed

theorem one_tree_per_session_witness:
  "\<exists>q r. serving sample_externals two_roots_state q \<and>
     bt_get (executions (rt_durable two_roots_state)) (Ident ''execution-1'') = Some r"
  using two_roots_serving one_tree_per_session [of sample_externals two_roots_state]
  by (metis list.set_intros(1))

end
