(* ===== verification/Semantic_Tools.thy ===== *)
theory Semantic_Tools
  imports Reachable
begin

text \<open>
  The conductor's own tools (\<open>phenix-conductor/src/semantic_tools.rs\<close>): which of them an
  execution is offered, how their arguments are parsed, and what a call does to the runtime. The
  deserialisation code that \<open>serde\<close> derives for the argument types is not part of the sources, so
  the record \<open>ToolParsers\<close> is a parameter: one function per derived type, from the text of the
  arguments to \<open>serde\<close>'s message or the value.
\<close>

section \<open>Tool names and arguments\<close>

definition ORCHESTRATION_LIST_ID :: string where
  "ORCHESTRATION_LIST_ID = ''phenix_orchestration_list''"

definition ORCHESTRATION_START_ID :: string where
  "ORCHESTRATION_START_ID = ''phenix_orchestration_start''"

definition ORCHESTRATION_DECIDE_FAILURE_ID :: string where
  "ORCHESTRATION_DECIDE_FAILURE_ID = ''phenix_orchestration_decide_failure''"

definition SKILL_LOAD_ID :: string where
  "SKILL_LOAD_ID = ''phenix_skill_load''"

definition SKILL_RESOURCE_READ_ID :: string where
  "SKILL_RESOURCE_READ_ID = ''phenix_skill_resource_read''"

lemmas semantic_ids = ORCHESTRATION_LIST_ID_def ORCHESTRATION_START_ID_def
  ORCHESTRATION_DECIDE_FAILURE_ID_def SKILL_LOAD_ID_def SKILL_RESOURCE_READ_ID_def

definition is_semantic_tool :: "CallableId \<Rightarrow> bool" where
  "is_semantic_tool callable \<longleftrightarrow> as_str callable \<in>
     {ORCHESTRATION_LIST_ID, ORCHESTRATION_START_ID, ORCHESTRATION_DECIDE_FAILURE_ID, SKILL_LOAD_ID,
      SKILL_RESOURCE_READ_ID}"

record OrchestrationStartInput =
  si_orchestration :: string
  si_objective :: string

datatype OrchestrationDecisionInput =
    InputRetry
  | InputChooseAnotherChild string string
  | InputContinue
  | InputFail

record SkillLoadInput =
  sl_skill :: string

record SkillResourceReadInput =
  sr_skill :: string
  sr_path :: string

record ToolParsers =
  parse_value :: "string \<Rightarrow> string + Json"
  parse_start_input :: "string \<Rightarrow> string + OrchestrationStartInput"
  parse_decision_input :: "string \<Rightarrow> string + OrchestrationDecisionInput"
  parse_skill_load_input :: "string \<Rightarrow> string + SkillLoadInput"
  parse_resource_input :: "string \<Rightarrow> string + SkillResourceReadInput"

definition id_message :: "invalid_id \<Rightarrow> string" where
  "id_message error = ''identifier must not be empty''"

definition parse_list :: "ToolParsers \<Rightarrow> string \<Rightarrow> string + unit" where
  "parse_list P arguments_json =
     bind_result (map_error (\<lambda>error. ''invalid orchestration list arguments: '' @ error)
       (parse_value P arguments_json)) (\<lambda>value.
     case value of
       JObject object \<Rightarrow>
         if object \<noteq> [] then Inl ''orchestration list arguments must be empty'' else Inr ()
     | _ \<Rightarrow> Inl ''orchestration list arguments must be an object'')"

definition parse_start :: "ToolParsers \<Rightarrow> string \<Rightarrow> string + CallableId \<times> string" where
  "parse_start P arguments_json =
     bind_result (map_error (\<lambda>error. ''invalid orchestration start arguments: '' @ error)
       (parse_start_input P arguments_json)) (\<lambda>input.
     if is_blank (si_objective input) then Inl ''orchestration objective must not be empty''
     else bind_result (map_error (\<lambda>error. ''invalid orchestration id: '' @ id_message error)
       (parse_id (si_orchestration input))) (\<lambda>orchestration.
     Inr (orchestration, si_objective input)))"

definition parse_failure_decision :: "ToolParsers \<Rightarrow> string \<Rightarrow> string + OrchestrationFailureDecisionRequest" where
  "parse_failure_decision P arguments_json =
     bind_result (map_error (\<lambda>error. ''invalid orchestration failure decision: '' @ error)
       (parse_decision_input P arguments_json)) (\<lambda>input.
     case input of
       InputRetry \<Rightarrow> Inr RequestRetry
     | InputChooseAnotherChild callable objective \<Rightarrow>
         if is_blank objective then Inl ''replacement objective must not be empty''
         else bind_result (map_error (\<lambda>error. ''invalid replacement callable id: '' @ id_message error)
           (parse_id callable)) (\<lambda>callable. Inr (RequestChooseAnotherChild callable objective))
     | InputContinue \<Rightarrow> Inr RequestContinue
     | InputFail \<Rightarrow> Inr RequestFail)"

definition parse_skill_load :: "ToolParsers \<Rightarrow> string \<Rightarrow> string + SkillId" where
  "parse_skill_load P arguments_json =
     bind_result (map_error (\<lambda>error. ''invalid skill load arguments: '' @ error)
       (parse_skill_load_input P arguments_json)) (\<lambda>input.
     map_error (\<lambda>error. ''invalid skill id: '' @ id_message error) (parse_id (sl_skill input)))"

definition parse_skill_resource_read :: "ToolParsers \<Rightarrow> string \<Rightarrow> string + SkillId \<times> string" where
  "parse_skill_resource_read P arguments_json =
     bind_result (map_error (\<lambda>error. ''invalid skill resource read arguments: '' @ error)
       (parse_resource_input P arguments_json)) (\<lambda>input.
     if is_blank (sr_path input) then Inl ''skill resource path must not be empty''
     else bind_result (map_error (\<lambda>error. ''invalid skill id: '' @ id_message error)
       (parse_id (sr_skill input))) (\<lambda>skill. Inr (skill, sr_path input)))"

section \<open>Outputs\<close>

fun json_ExecutionState :: "ExecutionState \<Rightarrow> Json" where
  "json_ExecutionState Pending = JString ''pending''"
| "json_ExecutionState Running = JString ''running''"
| "json_ExecutionState Completed = JString ''completed''"
| "json_ExecutionState Failed = JString ''failed''"
| "json_ExecutionState Cancelled = JString ''cancelled''"
| "json_ExecutionState Interrupted = JString ''interrupted''"

definition list_output :: "Externals \<Rightarrow> CallableDescriptor list \<Rightarrow> string" where
  "list_output E orchestrations = to_json E (JObject [(''orchestrations'', JArray
     (map (\<lambda>descriptor. JObject
        [(''id'', json_id (cd_id descriptor)), (''kind'', JString ''orchestration''),
         (''description'', JString (cd_description descriptor)),
         (''input_schema'', cd_input_schema descriptor), (''output_schema'', cd_output_schema descriptor),
         (''capabilities'', json_set JString (cd_capabilities descriptor)),
         (''policy'', JObject [(''requires_permission'', JBool (requires_permission (cd_policy descriptor)))])])
       orchestrations))])"

definition start_output :: "Externals \<Rightarrow> ExecutionSummary \<Rightarrow> string" where
  "start_output E execution = to_json E (JObject
     [(''execution_id'', json_id (x_id execution)), (''callable'', json_opt json_id (x_callable execution)),
      (''kind'', JString ''orchestration''), (''state'', json_ExecutionState (x_state execution))])"

fun json_decision :: "OrchestrationFailureDecision \<Rightarrow> Json" where
  "json_decision (Retry x) = JObject [(''type'', JString ''retry''), (''execution_id'', json_id x)]"
| "json_decision (ChooseAnotherChild x) =
     JObject [(''type'', JString ''choose_another_child''), (''execution_id'', json_id x)]"
| "json_decision Continue = JObject [(''type'', JString ''continue'')]"
| "json_decision Fail = JObject [(''type'', JString ''fail'')]"

definition decision_output :: "Externals \<Rightarrow> OrchestrationFailureDecisionRecord \<Rightarrow> string" where
  "decision_output E decided = to_json E (JObject
     [(''parent_execution'', json_id (fd_parent_execution decided)),
      (''failed_child'', json_id (fd_failed_child decided)),
      (''decider_execution'', json_opt json_id (fd_decider_execution decided)),
      (''decision'', json_decision (fd_decision decided))])"

section \<open>Descriptors\<close>

definition no_capabilities :: CapabilitySet where
  "no_capabilities = {}"

definition json_strings :: "string list \<Rightarrow> Json" where
  "json_strings xs = JArray (map JString xs)"

definition semantic_descriptor :: "string \<Rightarrow> string \<Rightarrow> Json \<Rightarrow> Json \<Rightarrow> CallableDescriptor" where
  "semantic_descriptor callable description input_schema output_schema =
     \<lparr>cd_id = Ident callable, cd_kind = Tool, cd_description = description,
      cd_input_schema = input_schema, cd_output_schema = output_schema,
      cd_capabilities = no_capabilities, cd_policy = \<lparr>requires_permission = False\<rparr>\<rparr>"

definition json_nonempty_string :: Json where
  "json_nonempty_string = JObject [(''type'', JString ''string''), (''minLength'', JNumber ''1'')]"

definition json_described_string :: "string \<Rightarrow> Json" where
  "json_described_string description =
     JObject [(''type'', JString ''string''), (''minLength'', JNumber ''1''), (''description'', JString description)]"

definition json_closed_object :: "string list \<Rightarrow> (string \<times> Json) list \<Rightarrow> Json" where
  "json_closed_object required properties = JObject
     [(''type'', JString ''object''), (''additionalProperties'', JBool False),
      (''required'', json_strings required), (''properties'', JObject properties)]"

definition json_const :: "string \<Rightarrow> Json" where
  "json_const value = JObject [(''const'', JString value)]"

definition orchestration_decide_failure_descriptor :: CallableDescriptor where
  "orchestration_decide_failure_descriptor = semantic_descriptor ORCHESTRATION_DECIDE_FAILURE_ID
     ''Record exactly one parent decision for the failed child assigned to this orchestration interface execution.''
     (JObject [(''oneOf'', JArray
       [json_closed_object [''decision''] [(''decision'', json_const ''retry'')],
        json_closed_object [''decision'', ''callable'', ''objective'']
          [(''decision'', json_const ''choose_another_child''), (''callable'', json_nonempty_string),
           (''objective'', json_nonempty_string)],
        json_closed_object [''decision''] [(''decision'', json_const ''continue'')],
        json_closed_object [''decision''] [(''decision'', json_const ''fail'')]])])
     (JObject [(''type'', JString ''object'')])"

definition skill_load_descriptor :: CallableDescriptor where
  "skill_load_descriptor = semantic_descriptor SKILL_LOAD_ID
     ''Load the full instructions and resource inventory for one discoverable Phenix skill by id. Use the available-skills catalog from context instead of guessing names.''
     (json_closed_object [''skill''] [(''skill'', json_described_string ''Skill id from the available-skills catalog'')])
     (JObject [(''type'', JString ''string'')])"

definition skill_resource_read_descriptor :: CallableDescriptor where
  "skill_resource_read_descriptor = semantic_descriptor SKILL_RESOURCE_READ_ID
     ''Read one frozen text resource listed by a skill that is active for this execution. A skill becomes active through explicit manual invocation or a successful phenix_skill_load.''
     (json_closed_object [''skill'', ''path''] [(''skill'', json_nonempty_string),
       (''path'', json_described_string ''Relative resource path exactly as listed by the active skill'')])
     (JObject [(''type'', JString ''string'')])"

definition orchestration_list_descriptor :: CallableDescriptor where
  "orchestration_list_descriptor = semantic_descriptor ORCHESTRATION_LIST_ID
     ''List the orchestrations this Phenix root agent can call. Use this instead of guessing orchestration names.''
     (JObject [(''type'', JString ''object''), (''additionalProperties'', JBool False), (''properties'', JObject [])])
     (JObject [(''type'', JString ''object''), (''required'', json_strings [''orchestrations'']),
       (''properties'', JObject [(''orchestrations'', JObject [(''type'', JString ''array'')])])])"

definition orchestration_start_descriptor :: CallableDescriptor where
  "orchestration_start_descriptor = semantic_descriptor ORCHESTRATION_START_ID
     ''Start one conductor-owned orchestration returned by phenix_orchestration_list with a concrete objective.''
     (json_closed_object [''orchestration'', ''objective'']
       [(''orchestration'', json_described_string ''Orchestration id returned by phenix_orchestration_list''),
        (''objective'', json_described_string ''Objective for the orchestration'')])
     (JObject [(''type'', JString ''object''),
       (''required'', json_strings [''execution_id'', ''callable'', ''kind'', ''state''])])"

definition orchestration_descriptors :: "CallableDescriptor list" where
  "orchestration_descriptors = [orchestration_list_descriptor, orchestration_start_descriptor]"

section \<open>Offering the tools\<close>

definition callable_descriptors_for_execution ::
  "ConductorRuntime \<Rightarrow> ExecutionId \<Rightarrow> ConductorError + CallableDescriptor list" where
  "callable_descriptors_for_execution self execution_id =
     bind_result (configuration_for_execution self execution_id)
       (\<lambda>configuration. Inr (registry_descriptors (cc_callables configuration)))"

definition has_model_invocable_skills_for_execution ::
  "ConductorRuntime \<Rightarrow> ExecutionId \<Rightarrow> ConductorError + bool" where
  "has_model_invocable_skills_for_execution self execution_id =
     bind_result (configuration_for_execution self execution_id)
       (\<lambda>configuration. Inr (has_model_invocable_skills (cc_skills configuration)))"

definition has_skills_for_execution :: "ConductorRuntime \<Rightarrow> ExecutionId \<Rightarrow> ConductorError + bool" where
  "has_skills_for_execution self execution_id =
     bind_result (configuration_for_execution self execution_id)
       (\<lambda>configuration. Inr (has_skills (cc_skills configuration)))"

definition provide_tools :: "CallableDescriptor list \<Rightarrow> ResolvedInvocation \<Rightarrow> ResolvedInvocation" where
  "provide_tools added resolved = resolved\<lparr>ri_tools := \<lparr>tp_callables = tp_callables (ri_tools resolved) @ added\<rparr>\<rparr>"

definition extend_semantic_tools ::
  "ConductorRuntime \<Rightarrow> ResolvedInvocation \<Rightarrow> ConductorError + ResolvedInvocation" where
  "extend_semantic_tools runtime resolved =
     (let execution_id = ri_execution_id resolved;
          is_root = list_ex (\<lambda>execution. x_id execution = execution_id \<and> x_kind execution = RootKind)
            (sn_executions (snapshot runtime)) in
      bind_result (callable_descriptors_for_execution runtime execution_id) (\<lambda>descriptors.
      let has_orchestrations = list_ex (\<lambda>descriptor. cd_kind descriptor = Orchestration) descriptors;
          resolved = (if is_root \<and> has_orchestrations then provide_tools orchestration_descriptors resolved
                      else resolved);
          resolved = (case failed_child_for_interface runtime execution_id of
                        Some _ \<Rightarrow> provide_tools [orchestration_decide_failure_descriptor] resolved
                      | None \<Rightarrow> resolved) in
      bind_result (has_model_invocable_skills_for_execution runtime execution_id) (\<lambda>eligible.
      let resolved = (if eligible then provide_tools [skill_load_descriptor] resolved else resolved) in
      bind_result (has_skills_for_execution runtime execution_id) (\<lambda>skills.
      Inr (if skills then provide_tools [skill_resource_read_descriptor] resolved else resolved)))))"

section \<open>Calling a tool\<close>

type_synonym semantic_outcome = "(ConductorRuntime, string, string) op"

definition decide_failure_outcome ::
  "Externals \<Rightarrow> ExecutionId \<Rightarrow> OrchestrationFailureDecisionRequest \<Rightarrow> semantic_outcome" where
  "decide_failure_outcome E execution_id decision =
     and_then (gets (\<lambda>self. failed_child_for_interface self execution_id)) (\<lambda>failed.
     and_then (ok_or failed ''execution is not an orchestration failure interface'') (\<lambda>failed_child.
     and_then (map_err (display_ConductorError E) (decide_orchestration_failure E execution_id decision)) (\<lambda>_.
     and_then (gets (\<lambda>self. bt_get (orchestration_decisions (rt_durable self)) failed_child)) (\<lambda>decided.
     and_then (expect decided ''successful decision is durably recorded'') (\<lambda>decided.
     return (decision_output E decided))))))"

definition semantic_outcome_of ::
  "Externals \<Rightarrow> ToolParsers \<Rightarrow> ExecutionId \<Rightarrow> ToolInvocation \<Rightarrow> semantic_outcome" where
  "semantic_outcome_of E P execution_id invocation =
     (let callable = as_str (ti_callable invocation); arguments = ti_arguments_json invocation in
      if callable = ORCHESTRATION_LIST_ID then
        and_then (lift_result id (parse_list P arguments)) (\<lambda>_.
        and_then (map_err (display_ConductorError E)
            (query (\<lambda>self. callable_descriptors_for_execution self execution_id))) (\<lambda>descriptors.
        return (list_output E (filter (\<lambda>descriptor. cd_kind descriptor = Orchestration) descriptors))))
      else if callable = SKILL_LOAD_ID then
        and_then (lift_result id (parse_skill_load P arguments)) (\<lambda>skill.
        map_err (display_ConductorError E) (load_skill execution_id skill))
      else if callable = SKILL_RESOURCE_READ_ID then
        and_then (lift_result id (parse_skill_resource_read P arguments)) (\<lambda>(skill, path).
        map_err (display_ConductorError E) (query (\<lambda>self. read_skill_resource self execution_id skill path)))
      else if callable = ORCHESTRATION_START_ID then
        and_then (lift_result id (parse_start P arguments)) (\<lambda>(orchestration, objective).
        and_then (map_err (display_ConductorError E)
            (start_orchestration E execution_id orchestration objective)) (\<lambda>execution.
        return (start_output E execution)))
      else if callable = ORCHESTRATION_DECIDE_FAILURE_ID then
        and_then (lift_result id (parse_failure_decision P arguments))
          (\<lambda>decision. decide_failure_outcome E execution_id decision)
      else panic ''internal error: entered unreachable code: semantic tool was checked before dispatch'')"

fun semantic_result :: "string + string \<Rightarrow> ToolResult" where
  "semantic_result (Inr output) = \<lparr>tr_output = output, tr_success = True\<rparr>"
| "semantic_result (Inl output) = \<lparr>tr_output = output, tr_success = False\<rparr>"

definition invoke_semantic ::
  "Externals \<Rightarrow> ToolParsers \<Rightarrow> ExecutionId \<Rightarrow> CallableId set \<Rightarrow> ToolInvocation \<Rightarrow> ToolResult host" where
  "invoke_semantic E P execution_id allowed invocation =
     (if ti_callable invocation \<notin> allowed \<or> \<not> is_semantic_tool (ti_callable invocation)
      then throw (Protocol (''backend invoked unprovisioned semantic tool '' @ as_str (ti_callable invocation)))
      else
       and_then (gets new_tool_call_id) (\<lambda>tool_call_id.
       and_then (map_err (conductor_protocol_error E)
           (push_event E execution_id (ToolCallStarted tool_call_id (ti_callable invocation)))) (\<lambda>_.
       and_then (map_err (conductor_protocol_error E)
           (push_event E execution_id (ToolCallArguments tool_call_id (ti_arguments_json invocation)))) (\<lambda>_.
       and_then (catch_result (semantic_outcome_of E P execution_id invocation)) (\<lambda>outcome.
       let result = semantic_result outcome in
       and_then (map_err (conductor_protocol_error E)
           (push_event E execution_id (ToolCallFinished tool_call_id (tr_output result) (tr_success result)))) (\<lambda>_.
       return result))))))"

end
