(* ===== verification/Protocol_Types.thy ===== *)
theory Protocol_Types
  imports Reachable
begin

text \<open>
  The messages between a frontend and the conductor (\<open>phenix-protocol/src/lib.rs\<close>), the
  catalogues they carry (\<open>phenix-core/src/lib.rs\<close>), and how the errors of the conductor become
  protocol errors (\<open>phenix-conductor/src/server.rs\<close>). Numbers that only count up are natural
  numbers.
\<close>

section \<open>Catalogues\<close>

record ModelDescriptor =
  md_target :: ModelTarget
  md_name :: string
  md_selectable :: bool

datatype AuthenticationMethodKind = AgentAuth | ApiKeyAuth | EnvironmentAuth | TerminalAuth

datatype AuthenticationInput = ApiKey string

record AuthenticationMethodDescriptor =
  am_id :: AuthenticationMethodId
  am_backend :: BackendId
  am_provider :: ProviderId
  am_kind :: AuthenticationMethodKind
  am_name :: string
  am_description :: "string option"
  am_selectable :: bool

datatype AuthenticationState = NotRequired | Required | Authenticated

record BackendCatalog =
  ct_backend :: BackendId
  ct_models :: "ModelDescriptor list"
  ct_authentication_state :: AuthenticationState
  ct_authentication_methods :: "AuthenticationMethodDescriptor list"

section \<open>Messages\<close>

datatype Command =
    Initialize "nat option"
  | GetSnapshot
  | GetCallableCatalog
  | GetRoutingCatalog
  | GetSkillCatalog
  | CreateSession "SessionId option" "string option" ExecutionTarget
  | ForkSession SessionId "string option"
  | RenameSession SessionId string
  | SetSessionTarget SessionId ExecutionTarget
  | CloseSession SessionId
  | Submit SessionId string
  | StartCallable SessionId CallableId string
  | CancelExecution ExecutionId
  | RefreshBackendCatalog BackendId
  | SelectAuthentication BackendId AuthenticationMethodId "AuthenticationInput option"

record ClientMessage =
  cm_id :: nat
  cm_command :: Command

datatype Reply =
    Initialized RuntimeSnapshot "ExecutionEvent list" "BackendCatalog list"
  | SnapshotReply RuntimeSnapshot "BackendCatalog list"
  | CallableCatalog "CallableDescriptor list"
  | RoutingCatalog "RoutingProfileDescriptor list"
  | SkillCatalog "SkillDescriptor list"
  | SessionReply SessionSummary
  | ExecutionReply ExecutionSummary
  | CatalogReply BackendCatalog
  | Accepted

datatype ErrorCode =
    InvalidRequest
  | UnknownId
  | PolicyDeniedCode
  | UnsupportedCapability
  | RoutingFailureCode
  | AuthenticationRequired
  | BackendTransport
  | BackendProtocol
  | ExecutionProviderFailureCode
  | ToolFailure
  | CancelledCode

record ProtocolError =
  pe_code :: ErrorCode
  pe_message :: string
  pe_session_id :: "SessionId option"
  pe_execution_id :: "ExecutionId option"

datatype ResponsePayload = ResponseOk Reply | ResponseError ProtocolError

datatype ServerMessage = Response nat ResponsePayload | EventMessage ExecutionEvent

text \<open>\<open>format!("{:?}", error.code).to_lowercase()\<close>.\<close>

fun code_name :: "ErrorCode \<Rightarrow> string" where
  "code_name InvalidRequest = ''invalidrequest''"
| "code_name UnknownId = ''unknownid''"
| "code_name PolicyDeniedCode = ''policydenied''"
| "code_name UnsupportedCapability = ''unsupportedcapability''"
| "code_name RoutingFailureCode = ''routingfailure''"
| "code_name AuthenticationRequired = ''authenticationrequired''"
| "code_name BackendTransport = ''backendtransport''"
| "code_name BackendProtocol = ''backendprotocol''"
| "code_name ExecutionProviderFailureCode = ''executionproviderfailure''"
| "code_name ToolFailure = ''toolfailure''"
| "code_name CancelledCode = ''cancelled''"

section \<open>Errors\<close>

definition protocol_error :: "ErrorCode \<Rightarrow> string \<Rightarrow> ProtocolError" where
  "protocol_error code message =
     \<lparr>pe_code = code, pe_message = message, pe_session_id = None, pe_execution_id = None\<rparr>"

fun map_backend_error :: "BackendError \<Rightarrow> ProtocolError" where
  "map_backend_error (BackendUnsupported message) = protocol_error UnsupportedCapability message"
| "map_backend_error (Transport message) = protocol_error BackendTransport message"
| "map_backend_error (Protocol message) = protocol_error BackendProtocol message"

fun map_execution_provider_error :: "ExecutionProviderError \<Rightarrow> ProtocolError" where
  "map_execution_provider_error (ProviderUnsupported message) = protocol_error UnsupportedCapability message"
| "map_execution_provider_error (ProviderFailed message) = protocol_error ExecutionProviderFailureCode message"
| "map_execution_provider_error (ProviderProtocol message) = protocol_error ExecutionProviderFailureCode message"

definition session_error :: "ErrorCode \<Rightarrow> string \<Rightarrow> SessionId \<Rightarrow> ProtocolError" where
  "session_error code message session_id = (protocol_error code message)\<lparr>pe_session_id := Some session_id\<rparr>"

definition execution_error :: "ErrorCode \<Rightarrow> string \<Rightarrow> ExecutionId \<Rightarrow> ProtocolError" where
  "execution_error code message execution_id = (protocol_error code message)\<lparr>pe_execution_id := Some execution_id\<rparr>"

primrec map_conductor_error :: "Externals \<Rightarrow> ConductorError \<Rightarrow> ProtocolError" where
  "map_conductor_error E (UnknownSession s) = session_error UnknownId (''unknown session: '' @ as_str s) s"
| "map_conductor_error E (UnknownConfigRevision r) =
     protocol_error UnknownId (''unknown configuration revision: '' @ as_str r)"
| "map_conductor_error E (UnboundConfigRevision r) =
     protocol_error InvalidRequest (''configuration revision is not bound in this process: '' @ as_str r)"
| "map_conductor_error E (ConfigRevisionAlreadyBound r) =
     protocol_error InvalidRequest (''configuration revision is already bound: '' @ as_str r)"
| "map_conductor_error E (ConfigRevisionFingerprintMismatch r expected actual) =
     protocol_error InvalidRequest (''configuration revision fingerprint mismatch for '' @ as_str r @
       '': expected '' @ expected @ '', found '' @ actual)"
| "map_conductor_error E (ClosedSession s) = session_error InvalidRequest (''session is closed: '' @ as_str s) s"
| "map_conductor_error E (SessionHasActiveExecutions s) =
     session_error InvalidRequest (''session has active executions and cannot close: '' @ as_str s) s"
| "map_conductor_error E (UnknownExecution x) = execution_error UnknownId (''unknown execution: '' @ as_str x) x"
| "map_conductor_error E (WorkspaceMismatch expected actual) =
     protocol_error InvalidRequest (''workspace binding mismatch: persisted '' @ as_str expected @
       '', discovered '' @ as_str actual)"
| "map_conductor_error E EmptyInput = protocol_error InvalidRequest ''input must not be empty''"
| "map_conductor_error E (InvalidLifecycle x) =
     execution_error InvalidRequest (''invalid execution lifecycle: '' @ as_str x) x"
| "map_conductor_error E (InvalidFailureDecision p x) =
     execution_error InvalidRequest (''invalid failure decision for child '' @ as_str x @
       '' of orchestration '' @ as_str p) p"
| "map_conductor_error E (FailureDecisionDenied p d) =
     execution_error PolicyDeniedCode (''execution '' @ as_str d @
       '' may not decide failures for orchestration '' @ as_str p) d"
| "map_conductor_error E (DelegationDenied p c) =
     execution_error PolicyDeniedCode (''execution '' @ as_str p @ '' may not delegate callable '' @ as_str c) p"
| "map_conductor_error E (NonModelExecution x) =
     execution_error UnsupportedCapability (''execution is not model-backed: '' @ as_str x) x"
| "map_conductor_error E (NonProviderExecution x) =
     execution_error UnsupportedCapability (''execution is not provider-backed: '' @ as_str x) x"
| "map_conductor_error E (PolicyDenied x denial) = execution_error PolicyDeniedCode (dn_message denial) x"
| "map_conductor_error E (CallableRegistryFailure e) =
     protocol_error InvalidRequest (display_CallableRegistryError e)"
| "map_conductor_error E (ExecutionProviderFailure e) = map_execution_provider_error e"
| "map_conductor_error E (JournalFailure e) = protocol_error BackendProtocol (display_JournalError e)"
| "map_conductor_error E (RoutingFailure e) = protocol_error RoutingFailureCode (display_RoutingRegistryError e)"
| "map_conductor_error E (ContextFailure e) = protocol_error InvalidRequest (display_ContextError E e)"
| "map_conductor_error E (BackendFailure e) = map_backend_error e"

text \<open>The error of the workspace consistency layer is opaque here: its text.\<close>

datatype ServerError =
    ServerIo string
  | ServerJson string
  | ServerPersistence PersistenceError
  | ServerRuntime ConductorError
  | ServerConsistency string
  | WorkspaceConsistencyNotInstalled
  | WorkspaceConsistencyUnavailable WorkspaceId
  | WorkspaceLeaseStatePoisoned
  | DuplicateBackend BackendId
  | OutputClosed
  | StatePoisoned string
  | WorkerPanicked

fun display_ServerError :: "Externals \<Rightarrow> ServerError \<Rightarrow> string" where
  "display_ServerError E (ServerIo error) = error"
| "display_ServerError E (ServerJson error) = error"
| "display_ServerError E (ServerPersistence error) = display_PersistenceError error"
| "display_ServerError E (ServerRuntime error) = display_ConductorError E error"
| "display_ServerError E (ServerConsistency error) = error"
| "display_ServerError E WorkspaceConsistencyNotInstalled = ''workspace consistency is not installed''"
| "display_ServerError E (WorkspaceConsistencyUnavailable workspace) =
     ''workspace consistency is not installed for writable workspace '' @ as_str workspace"
| "display_ServerError E WorkspaceLeaseStatePoisoned = ''workspace lease state lock poisoned''"
| "display_ServerError E (DuplicateBackend backend) = ''backend already registered: '' @ as_str backend"
| "display_ServerError E OutputClosed = ''frontend output channel closed''"
| "display_ServerError E (StatePoisoned name) = name @ '' lock poisoned''"
| "display_ServerError E WorkerPanicked = ''frontend server worker panicked''"

end
