(* ===== verification/Server.thy ===== *)
theory Server
  imports Lease Execution_Groups Semantic_Tools Protocol_Types
begin

text \<open>
  The server around the runtime (\<open>ConductorServer\<close> in \<open>phenix-conductor/src/server.rs\<close> with
  \<open>JsonFileStore\<close> of \<open>persistence.rs\<close>): shared state, locking, persistence and the handling of
  requests. Worker threads run at the same time. Whatever they do between two acquisitions of the
  runtime lock by the modelled thread is one application of \<open>en_others\<close>, a function of the
  environment that the theorems constrain; a state change under the lock is atomic. A runtime
  operation that panics, or would never return, leaves the lock poisoned for the other threads.

  Backends, the file system and the other threads are parameters: a backend's methods answer
  through the functions of \<open>ServerBackend\<close>, and \<open>en_save\<close> decides whether the write of a journal
  succeeds. The file is replaced by renaming a complete temporary file, so a failed write leaves
  the previous journal. The bounded output channel is the list of messages sent, and whether its
  receiver still exists.
\<close>

section \<open>State\<close>

record BackendSession =
  bs_execute :: "BackendExecutionRequest \<Rightarrow> backend_run"
  bs_cancel :: "ExecutionId \<Rightarrow> BackendError + unit"

record ServerBackend =
  sb_capabilities :: BackendCapabilities
  sb_catalog :: "BackendError + BackendCatalog"
  sb_authenticate :: "AuthenticationMethodId \<Rightarrow> AuthenticationInput option \<Rightarrow> BackendError + unit"
  sb_open_session :: "BackendSessionRequest \<Rightarrow> BackendError + BackendSession"
  sb_open_persistent_session :: "SessionId \<Rightarrow> BackendSessionRequest \<Rightarrow> BackendError + BackendSession"
  sb_close_persistent_session :: "SessionId \<Rightarrow> BackendError + unit"

text \<open>What is left of a live scope for the frontend: how it answers a cancellation.\<close>

datatype LiveExecutionScope =
    BackendScope "ExecutionId \<Rightarrow> BackendError + unit"
  | ProviderScope "ExecutionId \<Rightarrow> ExecutionProviderError + unit"

record JsonFileStore =
  so_saved :: "RuntimeJournal option"

record Server =
  sv_runtime :: ConductorRuntime
  sv_poisoned :: bool
  sv_catalogs :: "(BackendId, BackendCatalog) btree_map"
  sv_scopes :: "(ExecutionId, LiveExecutionScope) btree_map"
  sv_leases :: WorkspaceLeaseState
  sv_phases :: "(ExecutionId, WorkspacePhase) btree_map"
  sv_store :: "JsonFileStore option"
  sv_queue :: ExecutionQueueState
  sv_output :: "ServerMessage list"
  sv_output_open :: bool
  sv_time :: nat

record Environment =
  en_others :: "nat \<Rightarrow> Server \<Rightarrow> Server"
  en_save :: "nat \<Rightarrow> PersistenceError option"
  en_backends :: "(BackendId, ServerBackend) btree_map"
  en_parsers :: ToolParsers
  en_baseline :: "(nat \<Rightarrow> string + (PathBuf, FileVersion) btree_map) option"
  en_cancel_provider :: "ExecutionProvider \<Rightarrow> ExecutionId \<Rightarrow> ExecutionProviderError + unit"

type_synonym 'a sv = "(Server, ServerError, 'a) op"

section \<open>Locks and persistence\<close>

definition interference :: "Environment \<Rightarrow> (Server, 'e, unit) op" where
  "interference W = modify (\<lambda>sv. (en_others W (sv_time sv) sv)\<lparr>sv_time := Suc (sv_time sv)\<rparr>)"

text \<open>The runtime lock, taken for one operation.\<close>

definition under_lock :: "'e \<Rightarrow> (ConductorRuntime, 'e, 'a) op \<Rightarrow> (Server, 'e, 'a) op" where
  "under_lock error m sv =
     (if sv_poisoned sv then (Err error, sv)
      else case m (sv_runtime sv) of
        (result, runtime) \<Rightarrow> (result, sv\<lparr>sv_runtime := runtime, sv_poisoned := \<not> returned result\<rparr>))"

definition locked :: "Environment \<Rightarrow> 'e \<Rightarrow> (ConductorRuntime, 'e, 'a) op \<Rightarrow> (Server, 'e, 'a) op" where
  "locked W error m = and_then (interference W) (\<lambda>_. under_lock error m)"

definition poisoned_runtime :: ServerError where
  "poisoned_runtime = StatePoisoned ''conductor runtime''"

definition store_save :: "Environment \<Rightarrow> RuntimeJournal \<Rightarrow> (Server, PersistenceError, unit) op" where
  "store_save W journal sv =
     (case validate_structure journal of
        Some error \<Rightarrow> (Err (InvalidJournal (display_JournalError error)), sv)
      | None \<Rightarrow>
          (case en_save W (sv_time sv) of
             Some error \<Rightarrow> (Err error, sv)
           | None \<Rightarrow>
               (Ok (), sv\<lparr>sv_store := map_option (\<lambda>store. store\<lparr>so_saved := Some journal\<rparr>) (sv_store sv)\<rparr>)))"

definition persist_shared :: "Environment \<Rightarrow> (Server, PersistenceError, unit) op" where
  "persist_shared W =
     and_then (gets sv_store) (\<lambda>store.
     case store of
       None \<Rightarrow> return ()
     | Some _ \<Rightarrow>
         and_then (locked W (InvalidJournal ''runtime lock poisoned'') (gets rt_journal)) (\<lambda>journal.
         store_save W journal))"

definition persist :: "Environment \<Rightarrow> unit sv" where
  "persist W = map_err ServerPersistence (persist_shared W)"

definition respond :: "nat \<Rightarrow> ProtocolError + Reply \<Rightarrow> unit sv" where
  "respond request_id result sv =
     (if sv_output_open sv
      then (Ok (), sv\<lparr>sv_output := sv_output sv @ [Response request_id
        (case result of Inr reply \<Rightarrow> ResponseOk reply | Inl error \<Rightarrow> ResponseError error)]\<rparr>)
      else (Err OutputClosed, sv))"

definition enqueue_pending_group :: "Environment \<Rightarrow> ExecutionId \<Rightarrow> unit sv" where
  "enqueue_pending_group W group_id =
     and_then (locked W poisoned_runtime (\<lambda>runtime.
         case pending_execution_jobs runtime group_id of None \<Rightarrow> (NoFuel, runtime) | Some jobs \<Rightarrow> (Ok jobs, runtime)))
       (for_each (\<lambda>job. modify (\<lambda>sv. sv\<lparr>sv_queue := enqueue job (sv_queue sv)\<rparr>)))"

section \<open>Backends\<close>

definition backend_not_registered :: "BackendId \<Rightarrow> BackendError" where
  "backend_not_registered backend_id = BackendUnsupported (''backend is not registered: '' @ as_str backend_id)"

type_synonym 'a sb = "(Server, BackendError, 'a) op"

definition server_catalogs :: "Server \<Rightarrow> BackendCatalog list" where
  "server_catalogs self = bt_values (sv_catalogs self)"

definition refresh_backend :: "Environment \<Rightarrow> BackendId \<Rightarrow> BackendCatalog sb" where
  "refresh_backend W backend_id =
     and_then (ok_or (bt_get (en_backends W) backend_id) (backend_not_registered backend_id)) (\<lambda>backend.
     and_then (lift_result id (sb_catalog backend)) (\<lambda>catalog.
     if ct_backend catalog \<noteq> backend_id
     then throw (Protocol (''backend catalog id '' @ as_str (ct_backend catalog) @
       '' does not match registry key '' @ as_str backend_id))
     else and_then (modify (\<lambda>self. self\<lparr>sv_catalogs := bt_insert backend_id catalog (sv_catalogs self)\<rparr>))
       (\<lambda>_. return catalog)))"

definition refresh_all_catalogs :: "Environment \<Rightarrow> unit sb" where
  "refresh_all_catalogs W =
     for_each (\<lambda>backend_id. and_then (refresh_backend W backend_id) (\<lambda>_. return ())) (bt_keys (en_backends W))"

definition authenticate ::
  "Environment \<Rightarrow> BackendId \<Rightarrow> AuthenticationMethodId \<Rightarrow> AuthenticationInput option \<Rightarrow> BackendCatalog sb" where
  "authenticate W backend_id method_id input =
     and_then (ok_or (bt_get (en_backends W) backend_id) (backend_not_registered backend_id)) (\<lambda>backend.
     and_then (lift_result id (sb_authenticate backend method_id input)) (\<lambda>_.
     refresh_backend W backend_id))"

fun scope_cancel :: "LiveExecutionScope \<Rightarrow> ExecutionId \<Rightarrow> ProtocolError + unit" where
  "scope_cancel (BackendScope cancel) execution_id =
     (case cancel execution_id of
        Inr _ \<Rightarrow> Inr ()
      | Inl (BackendUnsupported _) \<Rightarrow> Inr ()
      | Inl error \<Rightarrow> Inl (map_backend_error error))"
| "scope_cancel (ProviderScope cancel) execution_id =
     (case cancel execution_id of
        Inr _ \<Rightarrow> Inr ()
      | Inl (ProviderUnsupported _) \<Rightarrow> Inr ()
      | Inl error \<Rightarrow> Inl (map_execution_provider_error error))"

section \<open>Requests that answer with a protocol error\<close>

type_synonym 'a sp = "(Server, ProtocolError, 'a) op"

definition lock_poisoned_error :: ProtocolError where
  "lock_poisoned_error = protocol_error BackendProtocol ''conductor runtime lock poisoned''"

definition server_cancel_execution :: "Externals \<Rightarrow> Environment \<Rightarrow> ExecutionId \<Rightarrow> Reply sp" where
  "server_cancel_execution E W root =
     and_then (gets (\<lambda>self. bt_entries (sv_scopes self))) (\<lambda>active.
     and_then (locked W lock_poisoned_error
         (and_then (map_err (map_conductor_error E) (cancel_execution E root)) (\<lambda>_.
          gets (\<lambda>runtime. filter (\<lambda>(execution_id, _). execution_state runtime execution_id = Some Cancelled) active))))
       (\<lambda>cancelled_active.
     and_then (for_each (\<lambda>(execution_id, scope). lift_result id (scope_cancel scope execution_id)) cancelled_active)
       (\<lambda>_. return Accepted)))"

definition server_close_session :: "Externals \<Rightarrow> Environment \<Rightarrow> SessionId \<Rightarrow> Reply sp" where
  "server_close_session E W session_id =
     and_then (locked W lock_poisoned_error (map_err (map_conductor_error E)
         (query (\<lambda>runtime. validate_session_close runtime session_id)))) (\<lambda>session.
     if s_state session = Closed then return (SessionReply session)
     else
       and_then (for_each (\<lambda>backend. lift_result map_backend_error (sb_close_persistent_session backend session_id))
           (bt_values (en_backends W))) (\<lambda>_.
       and_then (locked W lock_poisoned_error (map_err (map_conductor_error E) (close_session E session_id)))
         (\<lambda>session. return (SessionReply session))))"

definition callable_descriptors :: "ConductorRuntime \<Rightarrow> ConductorError + CallableDescriptor list" where
  "callable_descriptors self =
     bind_result (current_configuration self) (\<lambda>configuration. Inr (registry_descriptors (cc_callables configuration)))"

definition routing_profiles :: "ConductorRuntime \<Rightarrow> ConductorError + RoutingProfileDescriptor list" where
  "routing_profiles self =
     bind_result (current_configuration self) (\<lambda>configuration. Inr (routing_descriptors (cc_routing configuration)))"

definition runtime_skill_descriptors :: "ConductorRuntime \<Rightarrow> ConductorError + SkillDescriptor list" where
  "runtime_skill_descriptors self =
     bind_result (current_configuration self) (\<lambda>configuration. Inr (skill_descriptors (cc_skills configuration)))"

text \<open>\<open>self.lock_runtime()?\<close> followed by a call whose error becomes the reply.\<close>

definition runtime_reply :: "Externals \<Rightarrow> Environment \<Rightarrow> 'a rt \<Rightarrow> ('a \<Rightarrow> Reply) \<Rightarrow> (ProtocolError + Reply) sv" where
  "runtime_reply E W m reply =
     and_then (locked W poisoned_runtime (catch_result m))
       (\<lambda>result. return (map_error (map_conductor_error E) (map_sum id reply result)))"

definition runtime_query :: "Environment \<Rightarrow> (ConductorRuntime \<Rightarrow> ConductorError + 'a) \<Rightarrow> 'a sv" where
  "runtime_query W q = locked W poisoned_runtime (map_err ServerRuntime (query q))"

section \<open>Handling a request\<close>

definition server_submit :: "Externals \<Rightarrow> Environment \<Rightarrow> nat \<Rightarrow> SessionId \<Rightarrow> string \<Rightarrow> unit sv" where
  "server_submit E W request_id session_id body =
     and_then (locked W poisoned_runtime (catch_result (submit E session_id body))) (\<lambda>result.
     case result of
       Inl error \<Rightarrow> respond request_id (Inl (map_conductor_error E error))
     | Inr execution \<Rightarrow>
         and_then (persist W) (\<lambda>_.
         and_then (respond request_id (Inr (ExecutionReply execution))) (\<lambda>_.
         enqueue_pending_group W (x_id execution))))"

definition server_start_callable ::
  "Externals \<Rightarrow> Environment \<Rightarrow> nat \<Rightarrow> SessionId \<Rightarrow> CallableId \<Rightarrow> string \<Rightarrow> unit sv" where
  "server_start_callable E W request_id session_id callable objective =
     and_then (locked W poisoned_runtime (catch_result (start_session_callable E session_id callable objective)))
       (\<lambda>result.
     case result of
       Inl error \<Rightarrow> respond request_id (Inl (map_conductor_error E error))
     | Inr execution \<Rightarrow>
         and_then (persist W) (\<lambda>_.
         and_then (respond request_id (Inr (ExecutionReply execution))) (\<lambda>_.
         enqueue_pending_group W (x_id execution))))"

definition initialize :: "Externals \<Rightarrow> Environment \<Rightarrow> nat option \<Rightarrow> Reply sp" where
  "initialize E W after_sequence =
     and_then (map_err map_backend_error (refresh_all_catalogs W)) (\<lambda>_.
     and_then (locked W (protocol_error BackendProtocol (display_ServerError E poisoned_runtime))
         (gets (\<lambda>runtime. (snapshot runtime, events_since runtime (case after_sequence of None \<Rightarrow> 0 | Some n \<Rightarrow> n)))))
       (\<lambda>(snap, since). and_then (gets server_catalogs) (\<lambda>backends. return (Initialized snap since backends))))"

fun persists_reply :: "Command \<Rightarrow> bool" where
  "persists_reply (CreateSession _ _ _) = True"
| "persists_reply (ForkSession _ _) = True"
| "persists_reply (RenameSession _ _) = True"
| "persists_reply (SetSessionTarget _ _) = True"
| "persists_reply (CloseSession _) = True"
| "persists_reply (CancelExecution _) = True"
| "persists_reply _ = False"

text \<open>The reply of the commands that are dispatched after the early returns.\<close>

primrec reply_of :: "Externals \<Rightarrow> Environment \<Rightarrow> Command \<Rightarrow> (ProtocolError + Reply) sv" where
  "reply_of E W (Initialize after_sequence) = catch_result (initialize E W after_sequence)"
| "reply_of E W GetSnapshot =
     and_then (locked W poisoned_runtime (gets snapshot)) (\<lambda>snap.
     and_then (gets server_catalogs) (\<lambda>backends. return (Inr (SnapshotReply snap backends))))"
| "reply_of E W GetCallableCatalog = panic ''internal error: entered unreachable code: callable catalog handled before dispatch''"
| "reply_of E W GetRoutingCatalog = panic ''internal error: entered unreachable code: routing catalog handled before dispatch''"
| "reply_of E W GetSkillCatalog = panic ''internal error: entered unreachable code: skill catalog handled before dispatch''"
| "reply_of E W (CreateSession parent_session name target) =
     runtime_reply E W (create_session E parent_session name target) SessionReply"
| "reply_of E W (ForkSession session_id name) = runtime_reply E W (fork_session E session_id name) SessionReply"
| "reply_of E W (RenameSession session_id name) = runtime_reply E W (rename_session E session_id name) SessionReply"
| "reply_of E W (SetSessionTarget session_id target) =
     runtime_reply E W (set_session_target E session_id target) SessionReply"
| "reply_of E W (CloseSession session_id) = catch_result (server_close_session E W session_id)"
| "reply_of E W (Submit _ _) = panic ''internal error: entered unreachable code: submit handled before dispatch''"
| "reply_of E W (StartCallable _ _ _) = panic ''internal error: entered unreachable code: callable start handled before dispatch''"
| "reply_of E W (CancelExecution execution_id) = catch_result (server_cancel_execution E W execution_id)"
| "reply_of E W (RefreshBackendCatalog backend_id) =
     catch_result (and_then (map_err map_backend_error (refresh_backend W backend_id)) (\<lambda>catalog. return (CatalogReply catalog)))"
| "reply_of E W (SelectAuthentication backend_id method_id input) =
     catch_result (and_then (map_err map_backend_error (authenticate W backend_id method_id input))
       (\<lambda>catalog. return (CatalogReply catalog)))"

definition dispatch :: "Externals \<Rightarrow> Environment \<Rightarrow> nat \<Rightarrow> Command \<Rightarrow> unit sv" where
  "dispatch E W request_id command =
     and_then (reply_of E W command) (\<lambda>reply.
     and_then (if persists_reply command then persist W else return ()) (\<lambda>_.
     respond request_id reply))"

definition handle_message :: "Externals \<Rightarrow> Environment \<Rightarrow> ClientMessage \<Rightarrow> unit sv" where
  "handle_message E W message =
     (let request_id = cm_id message in
      case cm_command message of
        Submit session_id body \<Rightarrow> server_submit E W request_id session_id body
      | StartCallable session_id callable objective \<Rightarrow>
          server_start_callable E W request_id session_id callable objective
      | GetCallableCatalog \<Rightarrow>
          and_then (runtime_query W callable_descriptors)
            (\<lambda>callables. respond request_id (Inr (CallableCatalog callables)))
      | GetRoutingCatalog \<Rightarrow>
          and_then (runtime_query W routing_profiles)
            (\<lambda>profiles. respond request_id (Inr (RoutingCatalog profiles)))
      | GetSkillCatalog \<Rightarrow>
          and_then (runtime_query W runtime_skill_descriptors)
            (\<lambda>skills. respond request_id (Inr (SkillCatalog skills)))
      | command \<Rightarrow> dispatch E W request_id command)"

text \<open>One line of input: blank lines are skipped, and a line that is not a message is answered
  with the request number 0. \<open>parse\<close> is the deserialiser derived for \<open>ClientMessage\<close>.\<close>

definition read_request ::
  "Externals \<Rightarrow> Environment \<Rightarrow> (string \<Rightarrow> string + ClientMessage) \<Rightarrow> string \<Rightarrow> unit sv" where
  "read_request E W parse line =
     (if is_blank line then return ()
      else case parse line of
        Inr message \<Rightarrow> handle_message E W message
      | Inl error \<Rightarrow>
          respond 0 (Inl (protocol_error InvalidRequest (''invalid client message: '' @ error))))"

definition read_requests ::
  "Externals \<Rightarrow> Environment \<Rightarrow> (string \<Rightarrow> string + ClientMessage) \<Rightarrow> string list \<Rightarrow> unit sv" where
  "read_requests E W parse lines = for_each (read_request E W parse) lines"

end
