(* ===== verification/Worker.thy ===== *)
theory Worker
  imports Server
begin

text \<open>
  The worker threads (\<open>execution_loop\<close> and \<open>execute_execution\<close> with their helpers in
  \<open>phenix-conductor/src/server.rs\<close>) and the start of the server. A worker takes the workspace
  lease of its execution, opens a backend session or finds the provider, moves the execution to
  running, answers the calls of the foreign turn and records how it ended; every change is
  persisted before the worker goes on. Leases and live scopes are released on every path that
  leaves their scope, which \<open>finally\<close> expresses.
\<close>

section \<open>Ending an execution\<close>

definition fail_runtime_execution :: "Externals \<Rightarrow> ExecutionId \<Rightarrow> ProtocolError \<Rightarrow> unit rt" where
  "fail_runtime_execution E execution_id error =
     and_then (gets (\<lambda>runtime. execution_state runtime execution_id)) (\<lambda>state.
     case state of
       None \<Rightarrow> throw (UnknownExecution execution_id)
     | Some state \<Rightarrow>
         if is_terminal state then return ()
         else
           and_then (push_event E execution_id
             (ErrorEvent (code_name (pe_code error)) (pe_message error))) (\<lambda>_.
           set_state E execution_id Failed))"

definition fail_shared_execution :: "Externals \<Rightarrow> Environment \<Rightarrow> ExecutionId \<Rightarrow> ProtocolError \<Rightarrow> unit sv" where
  "fail_shared_execution E W execution_id error =
     and_then (locked W poisoned_runtime (map_err ServerRuntime (fail_runtime_execution E execution_id error))) (\<lambda>_.
     persist W)"

text \<open>Under the lock: a pending execution starts running, anything else does not.\<close>

definition begin_under_lock :: "Externals \<Rightarrow> ExecutionId \<Rightarrow> bool rt" where
  "begin_under_lock E execution_id =
     and_then (gets (\<lambda>runtime. execution_state runtime execution_id)) (\<lambda>state.
     case state of
       Some Pending \<Rightarrow> and_then (set_state E execution_id Running) (\<lambda>_. return True)
     | Some state \<Rightarrow>
         if is_terminal state then return False
         else
           and_then (fail_runtime_execution E execution_id
             (protocol_error InvalidRequest (''execution is not pending: '' @ as_str execution_id))) (\<lambda>_.
           return False)
     | None \<Rightarrow> return False)"

definition begin_execution :: "Externals \<Rightarrow> Environment \<Rightarrow> ExecutionId \<Rightarrow> bool sv" where
  "begin_execution E W execution_id =
     and_then (locked W poisoned_runtime (map_err ServerRuntime (begin_under_lock E execution_id)))
       (\<lambda>should_execute. and_then (persist W) (\<lambda>_. return should_execute))"

definition finish_under_lock :: "Externals \<Rightarrow> ExecutionId \<Rightarrow> ProtocolError + unit \<Rightarrow> unit rt" where
  "finish_under_lock E execution_id result =
     and_then (gets (\<lambda>runtime. execution_state runtime execution_id)) (\<lambda>state.
     if state = Some Running then
       (case result of
          Inr _ \<Rightarrow> set_state E execution_id Completed
        | Inl error \<Rightarrow> fail_runtime_execution E execution_id error)
     else return ())"

definition finish_model_execution ::
  "Externals \<Rightarrow> Environment \<Rightarrow> ExecutionId \<Rightarrow> BackendError + unit \<Rightarrow> unit sv" where
  "finish_model_execution E W execution_id result =
     and_then (locked W poisoned_runtime (map_err ServerRuntime
         (finish_under_lock E execution_id (map_error map_backend_error result)))) (\<lambda>_.
     persist W)"

definition finish_provider_execution ::
  "Externals \<Rightarrow> Environment \<Rightarrow> ExecutionId \<Rightarrow> ExecutionProviderError + unit \<Rightarrow> unit sv" where
  "finish_provider_execution E W execution_id result =
     and_then (locked W poisoned_runtime (map_err ServerRuntime
         (finish_under_lock E execution_id (map_error map_execution_provider_error result)))) (\<lambda>_.
     persist W)"

section \<open>The hosts of a foreign turn\<close>

definition host_persist :: "Environment \<Rightarrow> unit sb" where
  "host_persist W = map_err (\<lambda>error.
     Transport (''failed to persist conductor state: '' @ display_PersistenceError error)) (persist_shared W)"

definition host_poisoned :: BackendError where
  "host_poisoned = Protocol ''conductor runtime lock poisoned''"

definition running_or :: "'e \<Rightarrow> ExecutionId \<Rightarrow> (ConductorRuntime, 'e, unit) op" where
  "running_or error execution_id =
     and_then (gets (\<lambda>runtime. execution_state runtime execution_id)) (\<lambda>state.
     ensure (state = Some Running) error)"

definition emit_after_end :: "ExecutionId \<Rightarrow> BackendError" where
  "emit_after_end execution_id =
     Protocol (''backend emitted an event after execution '' @ as_str execution_id @ '' became terminal'')"

definition shared_emit :: "Externals \<Rightarrow> Environment \<Rightarrow> ExecutionId \<Rightarrow> BackendEvent \<Rightarrow> unit sb" where
  "shared_emit E W execution_id event =
     and_then (locked W host_poisoned
         (and_then (running_or (emit_after_end execution_id) execution_id) (\<lambda>_.
          and_then (map_err (conductor_protocol_error E)
            (push_event E execution_id (backend_event_kind event))) (\<lambda>_. return ())))) (\<lambda>_.
     host_persist W)"

definition tool_after_end :: "ExecutionId \<Rightarrow> BackendError" where
  "tool_after_end execution_id =
     Protocol (''backend invoked a tool after execution '' @ as_str execution_id @ '' became terminal'')"

definition shared_invoke_tool ::
  "Externals \<Rightarrow> Environment \<Rightarrow> ExecutionId \<Rightarrow> CallableId set \<Rightarrow> ToolInvocation \<Rightarrow> ToolResult sb" where
  "shared_invoke_tool E W execution_id allowed invocation =
     and_then (locked W host_poisoned
         (and_then (running_or (tool_after_end execution_id) execution_id) (\<lambda>_.
          if is_semantic_tool (ti_callable invocation)
          then invoke_semantic E (en_parsers W) execution_id allowed invocation
          else invoke_tool E execution_id allowed invocation))) (\<lambda>result.
     and_then (host_persist W) (\<lambda>_. return result))"

primrec serve_backend ::
  "Externals \<Rightarrow> Environment \<Rightarrow> ExecutionId \<Rightarrow> CallableId set \<Rightarrow> backend_run \<Rightarrow> (BackendError + unit) sv" where
  "serve_backend E W execution_id allowed (EmitThen event k) =
     and_then (catch_result (shared_emit E W execution_id event))
       (\<lambda>answer. serve_backend E W execution_id allowed (k answer))"
| "serve_backend E W execution_id allowed (InvokeThen invocation k) =
     and_then (catch_result (shared_invoke_tool E W execution_id allowed invocation))
       (\<lambda>answer. serve_backend E W execution_id allowed (k answer))"
| "serve_backend E W execution_id allowed (RunDone result) = return result"

type_synonym 'a sx = "(Server, ExecutionProviderError, 'a) op"

definition provider_persist :: "Environment \<Rightarrow> unit sx" where
  "provider_persist W = map_err (\<lambda>error.
     ProviderFailed (''failed to persist conductor state: '' @ display_PersistenceError error)) (persist_shared W)"

definition provider_after_end :: "ExecutionId \<Rightarrow> ExecutionProviderError" where
  "provider_after_end execution_id =
     ProviderProtocol (''provider emitted an event after execution '' @ as_str execution_id @ '' became terminal'')"

definition shared_provider_emit ::
  "Externals \<Rightarrow> Environment \<Rightarrow> ExecutionId \<Rightarrow> ExecutionProviderEvent \<Rightarrow> unit sx" where
  "shared_provider_emit E W execution_id event =
     and_then (locked W (ProviderProtocol ''conductor runtime lock poisoned'')
         (and_then (running_or (provider_after_end execution_id) execution_id) (\<lambda>_.
          and_then (map_err (\<lambda>error. ProviderProtocol (display_ConductorError E error))
            (push_event E execution_id (provider_event_kind event))) (\<lambda>_. return ())))) (\<lambda>_.
     provider_persist W)"

primrec serve_provider ::
  "Externals \<Rightarrow> Environment \<Rightarrow> ExecutionId \<Rightarrow> provider_run \<Rightarrow> (ExecutionProviderError + unit) sv" where
  "serve_provider E W execution_id (ProviderEmit event k) =
     and_then (catch_result (shared_provider_emit E W execution_id event))
       (\<lambda>answer. serve_provider E W execution_id (k answer))"
| "serve_provider E W execution_id (ProviderDone result) = return result"

section \<open>Executing one execution\<close>

definition with_scope :: "ExecutionId \<Rightarrow> LiveExecutionScope \<Rightarrow> 'a sv \<Rightarrow> 'a sv" where
  "with_scope execution_id scope body =
     and_then (modify (\<lambda>sv. sv\<lparr>sv_scopes := bt_insert execution_id scope (sv_scopes sv)\<rparr>)) (\<lambda>_.
     finally_do body (\<lambda>sv. sv\<lparr>sv_scopes := bt_remove execution_id (sv_scopes sv)\<rparr>))"

definition resolve_for_worker :: "Externals \<Rightarrow> ExecutionId \<Rightarrow> ResolvedInvocation rt" where
  "resolve_for_worker E execution_id =
     and_then (resolve_invocation E execution_id) (\<lambda>invocation.
     query (\<lambda>runtime. extend_semantic_tools runtime invocation))"

definition open_backend_session ::
  "ServerBackend \<Rightarrow> PreparedInvocation \<Rightarrow> BackendError + BackendSession" where
  "open_backend_session backend prepared =
     (if bc_persistent_sessions (sb_capabilities backend) \<and> \<not> is_Routed (ri_requested_target (pi_resolved prepared))
      then sb_open_persistent_session backend (ri_session_id (pi_resolved prepared)) (backend_session_request prepared)
      else sb_open_session backend (backend_session_request prepared))"

definition execute_model_execution :: "Externals \<Rightarrow> Environment \<Rightarrow> ExecutionId \<Rightarrow> unit sv" where
  "execute_model_execution E W execution_id =
     and_then (locked W poisoned_runtime (catch_result (resolve_for_worker E execution_id))) (\<lambda>resolved.
     case resolved of
       Inl error \<Rightarrow> fail_shared_execution E W execution_id (map_conductor_error E error)
     | Inr resolved \<Rightarrow>
         and_then (persist W) (\<lambda>_.
         let backend_id = mt_backend (ri_model resolved) in
         case bt_get (en_backends W) backend_id of
           None \<Rightarrow> fail_shared_execution E W execution_id (map_backend_error (backend_not_registered backend_id))
         | Some backend \<Rightarrow>
             and_then (locked W poisoned_runtime (gets (\<lambda>runtime.
                 prepare_invocation runtime resolved (sb_capabilities backend)))) (\<lambda>prepared.
             case prepared of
               Inl error \<Rightarrow> fail_shared_execution E W execution_id (map_conductor_error E error)
             | Inr prepared \<Rightarrow>
                 (case open_backend_session backend prepared of
                    Inl error \<Rightarrow> fail_shared_execution E W execution_id (map_backend_error error)
                  | Inr session \<Rightarrow>
                      with_scope execution_id (BackendScope (bs_cancel session))
                        (and_then (begin_execution E W execution_id) (\<lambda>started.
                         if \<not> started then return ()
                         else
                           and_then (serve_backend E W execution_id (allowed_tools prepared)
                             (bs_execute session (backend_execution_request prepared))) (\<lambda>result.
                           finish_model_execution E W execution_id result)))))))"

definition execute_provider_execution :: "Externals \<Rightarrow> Environment \<Rightarrow> ExecutionId \<Rightarrow> unit sv" where
  "execute_provider_execution E W execution_id =
     and_then (locked W poisoned_runtime (gets (\<lambda>runtime. prepare_provider_execution runtime execution_id))) (\<lambda>prepared.
     case prepared of
       Inl error \<Rightarrow> fail_shared_execution E W execution_id (map_conductor_error E error)
     | Inr (provider, request) \<Rightarrow>
         with_scope execution_id (ProviderScope (en_cancel_provider W provider))
           (and_then (begin_execution E W execution_id) (\<lambda>started.
            if \<not> started then return ()
            else
              and_then (serve_provider E W execution_id (ep_execute provider request)) (\<lambda>result.
              finish_provider_execution E W execution_id result))))"

text \<open>Waiting for a lease is a wait for the other threads: the lease is granted after what they do,
  or the worker never goes on.\<close>

definition acquire_lease :: "Environment \<Rightarrow> WorkspaceLeaseRequest \<Rightarrow> unit sv" where
  "acquire_lease W request =
     and_then (interference W) (\<lambda>_ sv.
       case acquire_attempt request (sv_leases sv) of
         (Granted, leases) \<Rightarrow> (Ok (), sv\<lparr>sv_leases := leases\<rparr>)
       | (Waiting, leases) \<Rightarrow> (NoFuel, sv\<lparr>sv_leases := leases\<rparr>)
       | (AcquirePoisoned, leases) \<Rightarrow> (Err WorkspaceLeaseStatePoisoned, sv\<lparr>sv_leases := leases\<rparr>))"

definition with_lease :: "Environment \<Rightarrow> WorkspaceLeaseRequest \<Rightarrow> 'a sv \<Rightarrow> 'a sv" where
  "with_lease W request body =
     and_then (acquire_lease W request) (\<lambda>_.
     finally_do body (\<lambda>sv. sv\<lparr>sv_leases := manager_release request (sv_leases sv)\<rparr>))"

definition enter_phase :: "ExecutionId \<Rightarrow> WorkspaceLeaseMode \<Rightarrow> bool sv" where
  "enter_phase group_id mode sv =
     (let (starts, phase) = phase_enter mode
        (case bt_get (sv_phases sv) group_id of None \<Rightarrow> phase_default | Some phase \<Rightarrow> phase)
      in (Ok starts, sv\<lparr>sv_phases := bt_insert group_id phase (sv_phases sv)\<rparr>))"

definition IN_MEMORY_WORKSPACE_ID :: string where
  "IN_MEMORY_WORKSPACE_ID = ''workspace:in-memory''"

definition checkpoint_write_phase :: "Externals \<Rightarrow> Environment \<Rightarrow> ExecutionId \<Rightarrow> WorkspaceId \<Rightarrow> unit sv" where
  "checkpoint_write_phase E W execution_id workspace_id =
     and_then (ok_or (en_baseline W) (WorkspaceConsistencyUnavailable workspace_id)) (\<lambda>baseline.
     and_then (gets sv_time) (\<lambda>now.
     and_then (lift_result ServerConsistency (baseline now)) (\<lambda>files.
     and_then (locked W poisoned_runtime (map_err ServerRuntime
         (record_workspace_checkpoint E execution_id workspace_id files))) (\<lambda>_.
     persist W))))"

text \<open>What the worker reads about a pending execution: \<open>None\<close> when there is nothing to do.\<close>

definition pending_lease_request ::
  "ExecutionId \<Rightarrow> (ConductorRuntime, ServerError, (ConductorError + WorkspaceLeaseRequest) option) op" where
  "pending_lease_request execution_id runtime =
     (if execution_state runtime execution_id = Some Pending then
        (case execution_has_blocking_ancestor (sn_executions (snapshot runtime)) execution_id of
           None \<Rightarrow> (NoFuel, runtime)
         | Some stopped \<Rightarrow>
             if stopped then (Ok None, runtime)
             else and_then (catch_result (workspace_lease_request execution_id)) (\<lambda>request. return (Some request)) runtime)
      else (Ok None, runtime))"

definition pending_provider_kind ::
  "ConductorRuntime \<Rightarrow> ExecutionId \<Rightarrow> (ConductorError + ExecutionProviderKind) option" where
  "pending_provider_kind runtime execution_id =
     (if execution_state runtime execution_id = Some Pending
      then Some (execution_provider_kind runtime execution_id) else None)"

definition execute_leased ::
  "Externals \<Rightarrow> Environment \<Rightarrow> ExecutionId \<Rightarrow> ExecutionId \<Rightarrow> WorkspaceLeaseRequest \<Rightarrow> unit sv" where
  "execute_leased E W execution_id group_id request =
     and_then (enter_phase group_id (lr_mode request)) (\<lambda>starts_write_phase.
     and_then (if starts_write_phase \<and> as_str (lr_workspace_id request) \<noteq> IN_MEMORY_WORKSPACE_ID
               then checkpoint_write_phase E W execution_id (lr_workspace_id request) else return ()) (\<lambda>_.
     and_then (locked W poisoned_runtime (gets (\<lambda>runtime. pending_provider_kind runtime execution_id))) (\<lambda>kind.
     case kind of
       None \<Rightarrow> return ()
     | Some (Inl error) \<Rightarrow> fail_shared_execution E W execution_id (map_conductor_error E error)
     | Some (Inr provider_kind) \<Rightarrow>
         if provider_kind = ModelProvider then execute_model_execution E W execution_id
         else execute_provider_execution E W execution_id)))"

definition execute_execution :: "Externals \<Rightarrow> Environment \<Rightarrow> ExecutionId \<Rightarrow> ExecutionId \<Rightarrow> unit sv" where
  "execute_execution E W execution_id group_id =
     and_then (locked W poisoned_runtime (pending_lease_request execution_id)) (\<lambda>lease_request.
     case lease_request of
       None \<Rightarrow> return ()
     | Some (Inl error) \<Rightarrow> fail_shared_execution E W execution_id (map_conductor_error E error)
     | Some (Inr request) \<Rightarrow> with_lease W request (execute_leased E W execution_id group_id request))"

section \<open>The loop of a worker\<close>

text \<open>\<open>complete\<close> takes the queue lock; a group that was released leaves its write phase.\<close>

definition complete_job :: "Environment \<Rightarrow> ExecutionJob \<Rightarrow> bool \<Rightarrow> bool sv" where
  "complete_job W job release_group =
     and_then (interference W) (\<lambda>_ sv.
       case complete job release_group (sv_queue sv) of
         (result, queue) \<Rightarrow> (result, sv\<lparr>sv_queue := queue\<rparr>))"

definition group_quiescent :: "Environment \<Rightarrow> ExecutionId \<Rightarrow> bool sv" where
  "group_quiescent W group_id = locked W poisoned_runtime (\<lambda>runtime.
     case execution_group_quiescent runtime group_id of None \<Rightarrow> (NoFuel, runtime) | Some quiet \<Rightarrow> (Ok quiet, runtime))"

text \<open>One pass of \<open>execution_loop\<close> with the job it got from the queue.\<close>

definition run_job :: "Externals \<Rightarrow> Environment \<Rightarrow> ExecutionJob \<Rightarrow> unit sv" where
  "run_job E W job =
     and_then (catch_result (and_then (execute_execution E W (jb_execution_id job) (jb_group_id job))
         (\<lambda>_. enqueue_pending_group W (jb_group_id job)))) (\<lambda>result.
     and_then (catch_result (group_quiescent W (jb_group_id job))) (\<lambda>quiescent.
     let release_group = (case result of Inl _ \<Rightarrow> True | Inr _ \<Rightarrow> (case quiescent of Inl _ \<Rightarrow> True | Inr quiet \<Rightarrow> quiet)) in
     and_then (complete_job W job release_group) (\<lambda>released.
     and_then (if released
               then modify (\<lambda>sv. sv\<lparr>sv_phases := bt_remove (jb_group_id job) (sv_phases sv)\<rparr>)
               else return ()) (\<lambda>_.
     and_then (lift_result id result) (\<lambda>_.
     and_then (lift_result id quiescent) (\<lambda>_. return ()))))))"

section \<open>Starting the server\<close>

definition server_new :: "ConductorRuntime \<Rightarrow> Server" where
  "server_new runtime = \<lparr>sv_runtime = runtime, sv_poisoned = False, sv_catalogs = bt_empty,
     sv_scopes = bt_empty, sv_leases = lease_state_default, sv_phases = bt_empty, sv_store = None,
     sv_queue = queue_default, sv_output = [], sv_output_open = True, sv_time = 0\<rparr>"

text \<open>What \<open>JsonFileStore::load\<close> finds: no file, an error, or a journal that passes the structure
  check (\<open>loaded\<close> is the result of reading and deserialising the file).\<close>

datatype load_result = NoFile | Loaded RuntimeJournal | LoadFailed PersistenceError

definition store_load :: "load_result \<Rightarrow> load_result" where
  "store_load loaded =
     (case loaded of
        Loaded journal \<Rightarrow>
          (case validate_structure journal of
             Some error \<Rightarrow> LoadFailed (InvalidJournal (display_JournalError error))
           | None \<Rightarrow> Loaded journal)
      | _ \<Rightarrow> loaded)"

definition saved_of :: "load_result \<Rightarrow> RuntimeJournal option" where
  "saved_of loaded = (case loaded of Loaded journal \<Rightarrow> Some journal | _ \<Rightarrow> None)"

definition start_runtime :: "Externals \<Rightarrow> load_result \<Rightarrow> WorkspaceId \<Rightarrow> (ServerError, ConductorRuntime) outcome" where
  "start_runtime E loaded workspace_id =
     (let bound = (\<lambda>runtime. case bind_workspace workspace_id runtime of
            (Ok _, runtime') \<Rightarrow> Ok runtime'
          | (Err error, _) \<Rightarrow> Err (ServerRuntime error)
          | (Panic message, _) \<Rightarrow> Panic message
          | (NoFuel, _) \<Rightarrow> NoFuel) in
      case store_load loaded of
        Loaded journal \<Rightarrow>
          (case restore E journal of
             Ok runtime \<Rightarrow> bound runtime
           | Err error \<Rightarrow> Err (ServerPersistence error)
           | Panic message \<Rightarrow> Panic message
           | NoFuel \<Rightarrow> NoFuel)
      | NoFile \<Rightarrow> bound (runtime_new E)
      | LoadFailed error \<Rightarrow> Err (ServerPersistence error))"

definition load_or_new ::
  "Externals \<Rightarrow> Environment \<Rightarrow> load_result \<Rightarrow> WorkspaceId \<Rightarrow> (ServerError, Server) outcome" where
  "load_or_new E W loaded workspace_id =
     (case start_runtime E loaded workspace_id of
        Ok runtime \<Rightarrow>
          (let server = (server_new runtime)\<lparr>sv_store := Some \<lparr>so_saved = saved_of loaded\<rparr>\<rparr> in
           case and_then (under_lock poisoned_runtime (map_err ServerRuntime (interrupt_non_resumable_executions E)))
               (\<lambda>_. persist W) server of
             (Ok _, server') \<Rightarrow> Ok server'
           | (Err error, _) \<Rightarrow> Err error
           | (Panic message, _) \<Rightarrow> Panic message
           | (NoFuel, _) \<Rightarrow> NoFuel)
      | Err error \<Rightarrow> Err error
      | Panic message \<Rightarrow> Panic message
      | NoFuel \<Rightarrow> NoFuel)"

end
