(* ===== verification/Server_Facts.thy ===== *)
theory Server_Facts
  imports Worker "HOL-Library.Sublist"
begin

text \<open>
  The contract every operation of the server keeps, whatever its outcome: a relation between the
  server before and after that the other threads, one runtime operation under the lock and one
  save of the current journal keep. \<open>server_contract\<close> states it for the operations that send no
  response and \<open>sending_contract\<close> adds the responses; the lemmas derive it once for request
  handling and for the workers.
\<close>

named_theorems stepping \<open>runtime operations that are sequences of runtime steps\<close>
named_theorems served \<open>server operations that keep a contract\<close>

section \<open>Runtime operations as steps\<close>

abbreviation runtime_steps :: "Externals \<Rightarrow> ConductorRuntime \<Rightarrow> ConductorRuntime \<Rightarrow> bool" where
  "runtime_steps E \<equiv> (runtime_step E)\<^sup>*\<^sup>*"

abbreviation steps_op :: "Externals \<Rightarrow> (ConductorRuntime, 'e, 'a) op \<Rightarrow> bool" where
  "steps_op E m \<equiv> op_keeps (runtime_steps E) (\<lambda>_. True) m"

interpretation steps: trace_rel "runtime_steps E" "\<lambda>_. True" for E
  by unfold_locales auto

lemma steps_opI: "(\<And>s r s'. m s = (r, s') \<Longrightarrow> returned r \<Longrightarrow> runtime_step E s s') \<Longrightarrow> steps_op E m"
  by (rule op_keepsI) auto

lemma session_steps [stepping]:
  "steps_op E (create_session E parent name target)" "steps_op E (fork_session E session name)"
  "steps_op E (rename_session E session name')" "steps_op E (set_session_target E session target)"
  "steps_op E (close_session E session)" "steps_op E (submit E session body)"
  "steps_op E (start_session_callable E session callable objective)"
  by (rule steps_opI, rule runtime_step.intros, assumption+)+

lemma execution_steps [stepping]:
  "steps_op E (cancel_execution E x)" "steps_op E (set_state E x state)" "steps_op E (push_event E x kind)"
  "steps_op E (record_workspace_checkpoint E x workspace files)" "steps_op E (resolve_invocation E x)"
  "steps_op E (start_orchestration E x callable objective)" "steps_op E (load_skill x skill)"
  "steps_op E (decide_orchestration_failure E x request)" "steps_op E (interrupt_non_resumable_executions E)"
  "steps_op E (invoke_tool E x allowed invocation)"
  by (rule steps_opI, rule runtime_step.intros, assumption+)+

lemmas step_rules = steps.keeps_pure steps.keeps_options steps.keeps_and_then steps.keeps_map_err
  steps.keeps_catch_result steps.keeps_for_each steps.keeps_if steps.keeps_case_option
  steps.keeps_case_sum steps.keeps_case_prod

lemma fail_runtime_steps [stepping]: "steps_op E (fail_runtime_execution E x error)"
  unfolding fail_runtime_execution_def by (intro stepping step_rules)

lemma begin_steps [stepping]: "steps_op E (begin_under_lock E x)"
  unfolding begin_under_lock_def
  by (intro steps.keeps_and_then step_rules) (auto intro!: stepping step_rules split: option.split ExecutionState.split)

lemma finish_steps [stepping]: "steps_op E (finish_under_lock E x result)"
  unfolding finish_under_lock_def by (intro stepping step_rules)

lemma running_or_steps [stepping]: "steps_op E (running_or error x)"
  unfolding running_or_def by (intro stepping step_rules)

lemma resolve_for_worker_steps [stepping]: "steps_op E (resolve_for_worker E x)"
  unfolding resolve_for_worker_def by (intro stepping step_rules)

lemma decide_failure_steps [stepping]: "steps_op E (decide_failure_outcome E x decision)"
  unfolding decide_failure_outcome_def by (intro stepping step_rules)

lemma semantic_outcome_steps [stepping]: "steps_op E (semantic_outcome_of E P x invocation)"
  unfolding semantic_outcome_of_def Let_def by (intro stepping step_rules)

lemma invoke_semantic_steps [stepping]: "steps_op E (invoke_semantic E P x allowed invocation)"
  unfolding invoke_semantic_def Let_def by (intro stepping step_rules)

lemma reading_steps: "(\<And>s. snd (m s) = s) \<Longrightarrow> steps_op E m"
  by (simp add: op_keeps_def)

section \<open>The contract of the server\<close>

text \<open>Unlike \<open>op_keeps\<close> the relation holds however the operation ends: the server outlives a
  thread that panics.\<close>

definition always :: "('s \<Rightarrow> 's \<Rightarrow> bool) \<Rightarrow> ('s, 'e, 'a) op \<Rightarrow> bool" where
  "always R m \<longleftrightarrow> (\<forall>s. R s (snd (m s)))"

lemma alwaysD: "always R m \<Longrightarrow> m s = (r, s') \<Longrightarrow> R s s'"
  by (metis always_def snd_conv)

locale server_contract =
  fixes R :: "Server \<Rightarrow> Server \<Rightarrow> bool" and E :: Externals and W :: Environment
  assumes same: "R sv sv"
    and chain: "R sv sv1 \<Longrightarrow> R sv1 sv2 \<Longrightarrow> R sv sv2"
    and others: "R sv ((en_others W (sv_time sv) sv)\<lparr>sv_time := Suc (sv_time sv)\<rparr>)"
    and volatile: "sv_runtime sv' = sv_runtime sv \<Longrightarrow> sv_poisoned sv' = sv_poisoned sv \<Longrightarrow>
      sv_store sv' = sv_store sv \<Longrightarrow> sv_output sv' = sv_output sv \<Longrightarrow> R sv sv'"
    and step: "\<not> sv_poisoned sv \<Longrightarrow> runtime_steps E (sv_runtime sv) s \<Longrightarrow> R sv (sv\<lparr>sv_runtime := s\<rparr>)"
    and crash: "\<not> sv_poisoned sv \<Longrightarrow> R sv (sv\<lparr>sv_runtime := s, sv_poisoned := True\<rparr>)"
    and save: "\<not> sv_poisoned sv \<Longrightarrow> validate_structure (rt_journal (sv_runtime sv)) = None \<Longrightarrow>
      R sv (sv\<lparr>sv_store := map_option (\<lambda>store. store\<lparr>so_saved := Some (rt_journal (sv_runtime sv))\<rparr>) (sv_store sv)\<rparr>)"
begin

lemma always_pure [served]:
  "always R (return x)" "always R (throw e)" "always R (panic msg)" "always R (gets f)" "always R (ok_or y e)"
  "always R (lift_result conv r)"
  by (simp_all add: always_def op_simps lift_result_def same split: option.split sum.split)

lemma always_and_then [served]:
  assumes "always R m" and "\<And>x. always R (f x)"
  shows "always R (and_then m f)"
  unfolding always_def
proof
  fix s
  obtain r s1 where run: "m s = (r, s1)" by force
  with assms(1) have "R s s1" by (metis always_def snd_conv)
  with run assms(2) show "R s (snd (and_then m f s))"
    by (cases r) (auto simp: and_then_def always_def intro: chain)
qed

lemma always_map_err [served]: "always R m \<Longrightarrow> always R (map_err conv m)"
  by (auto simp: always_def map_err_def split: prod.split outcome.split) (metis snd_conv)+

lemma always_catch [served]: "always R m \<Longrightarrow> always R (catch_result m)"
  by (auto simp: always_def catch_result_def split: prod.split outcome.split) (metis snd_conv)+

lemma always_for_each [served]: "(\<And>x. always R (f x)) \<Longrightarrow> always R (for_each f xs)"
  by (induction xs) (auto intro: served)

lemma always_cases [served]:
  "always R m \<Longrightarrow> always R n \<Longrightarrow> always R (if c then m else n)"
  "always R m \<Longrightarrow> (\<And>x. always R (f x)) \<Longrightarrow> always R (case_option m f y)"
  "(\<And>e. always R (g e)) \<Longrightarrow> (\<And>x. always R (f x)) \<Longrightarrow> always R (case_sum g f z)"
  "(\<And>a b. always R (h a b)) \<Longrightarrow> always R (case_prod h p)"
  by (simp_all split: option.split sum.split prod.split)

lemma always_volatile [served]:
  "(\<And>sv :: Server. sv_runtime (f sv) = sv_runtime sv \<and> sv_poisoned (f sv) = sv_poisoned sv \<and>
     sv_store (f sv) = sv_store sv \<and> sv_output (f sv) = sv_output sv) \<Longrightarrow> always R (modify f)"
  by (simp add: always_def modify_def volatile)

lemma interference_served [served]: "always R (interference W)"
  by (simp add: always_def interference_def modify_def others)

lemma under_lock_served:
  assumes "steps_op E m"
  shows "always R (under_lock error m)"
  unfolding always_def
proof
  fix sv :: Server
  obtain r s where run: "m (sv_runtime sv) = (r, s)" by force
  show "R sv (snd (under_lock error m sv))"
  proof (cases "sv_poisoned sv")
    case True
    then show ?thesis by (simp add: under_lock_def same)
  next
    case False
    show ?thesis
    proof (cases "returned r")
      case True
      with op_keepsD [OF assms run] have "R sv (sv\<lparr>sv_runtime := s\<rparr>)" by (intro step False)
      moreover have unpoisoned: "sv\<lparr>sv_runtime := s, sv_poisoned := False\<rparr> = sv\<lparr>sv_runtime := s\<rparr>"
        using False by simp
      ultimately show ?thesis using False True run by (simp add: under_lock_def unpoisoned)
    next
      case crashed: False
      with crash [OF False] run show ?thesis using False by (simp add: under_lock_def)
    qed
  qed
qed

lemma locked_served [served]: "steps_op E m \<Longrightarrow> always R (locked W error m)"
  unfolding locked_def by (intro served under_lock_served)

lemma persist_shared_served [served]: "always R (persist_shared W)"
proof -
  have "R sv (snd (and_then (under_lock error (gets rt_journal)) (store_save W) sv))" for sv error
  proof (cases "sv_poisoned sv")
    case False
    moreover from this have "sv\<lparr>sv_runtime := sv_runtime sv, sv_poisoned := False\<rparr> = sv" by simp
    ultimately have "under_lock error (gets rt_journal) sv = (Ok (rt_journal (sv_runtime sv)), sv)"
      by (simp add: under_lock_def gets_def)
    then show ?thesis using False by (simp add: store_save_def same save split: option.split)
  qed (simp add: and_then_def under_lock_def same)
  then have saved: "always R (and_then (under_lock error (gets rt_journal)) (store_save W))" for error
    by (simp add: always_def)
  have "always R (and_then (interference W) (\<lambda>_. and_then (under_lock error (gets rt_journal)) (store_save W)))" for error
    by (rule always_and_then [OF interference_served saved])
  then show ?thesis
    unfolding persist_shared_def locked_def and_then_assoc
    by (rule always_and_then [OF always_pure(4) always_cases(2) [OF always_pure(1)]])
qed

lemma persist_served [served]: "always R (persist W)"
  unfolding persist_def by (intro served)

lemma enqueue_pending_served [served]: "always R (enqueue_pending_group W x)"
  unfolding enqueue_pending_group_def
  by (intro served reading_steps) (simp_all split: option.split)

lemma catalog_served [served]:
  "always R (refresh_backend W backend)" "always R (refresh_all_catalogs W)"
  "always R (authenticate W backend method input)"
proof -
  show refresh: "always R (refresh_backend W backend)" for backend
    unfolding refresh_backend_def by (intro served) simp
  then show "always R (refresh_all_catalogs W)" "always R (authenticate W backend method input)"
    unfolding refresh_all_catalogs_def authenticate_def by (intro served; simp)+
qed

lemma cancel_served [served]: "always R (server_cancel_execution E W x)"
  unfolding server_cancel_execution_def by (intro served stepping step_rules)

lemma close_served [served]: "always R (server_close_session E W session)"
  unfolding server_close_session_def by (intro served stepping step_rules)

lemma reply_served [served]: "steps_op E m \<Longrightarrow> always R (runtime_reply E W m reply)"
  unfolding runtime_reply_def by (intro served step_rules)

lemma query_served [served]: "always R (runtime_query W q)"
  unfolding runtime_query_def by (intro served step_rules)

lemma initialize_served [served]: "always R (initialize E W n)"
  unfolding initialize_def by (intro served step_rules)

lemma reply_of_served [served]: "always R (reply_of E W command)"
  by (cases command) (simp_all, (intro served stepping step_rules)+)

section \<open>The workers keep the contract\<close>

lemma finally_served [served]:
  assumes "always R m" and "\<And>sv. R sv (f sv)"
  shows "always R (finally_do m f)"
  using assms unfolding always_def finally_do_def by (metis (no_types, lifting) chain prod.collapse snd_conv split_conv)

lemma fail_shared_served [served]: "always R (fail_shared_execution E W x error)"
  unfolding fail_shared_execution_def by (intro served stepping step_rules)

lemma turn_served [served]:
  "always R (begin_execution E W x)" "always R (finish_model_execution E W x model_result)"
  "always R (finish_provider_execution E W x provider_result)"
  unfolding begin_execution_def finish_model_execution_def finish_provider_execution_def
  by (intro served stepping step_rules)+

lemma host_served [served]:
  "always R (shared_emit E W x event)" "always R (shared_invoke_tool E W x allowed invocation)"
  "always R (shared_provider_emit E W x provider_event)"
  unfolding shared_emit_def shared_invoke_tool_def shared_provider_emit_def host_persist_def provider_persist_def
  by (intro served stepping step_rules)+

lemma serve_backend_served [served]: "always R (serve_backend E W x allowed run)"
  by (induction run) (auto intro!: served)

lemma serve_provider_served [served]: "always R (serve_provider E W x run)"
  by (induction run) (auto intro!: served)

lemma with_scope_served [served]: "always R m \<Longrightarrow> always R (with_scope x scope m)"
  unfolding with_scope_def by (intro served) (simp_all add: volatile)

lemma with_lease_served [served]: "always R m \<Longrightarrow> always R (with_lease W request m)"
proof -
  have "always R (\<lambda>sv. case acquire_attempt request (sv_leases sv) of
         (Granted, leases) \<Rightarrow> (Ok (), sv\<lparr>sv_leases := leases\<rparr>)
       | (Waiting, leases) \<Rightarrow> (NoFuel, sv\<lparr>sv_leases := leases\<rparr>)
       | (AcquirePoisoned, leases) \<Rightarrow> (Err WorkspaceLeaseStatePoisoned, sv\<lparr>sv_leases := leases\<rparr>))"
    by (auto simp: always_def intro!: volatile split: prod.split acquire_result.split)
  then have acquired: "always R (acquire_lease W request)"
    unfolding acquire_lease_def by (intro always_and_then interference_served)
  assume "always R m"
  then show ?thesis
    unfolding with_lease_def
    by (intro always_and_then acquired finally_served) (simp_all add: volatile)
qed

lemma enter_phase_served [served]: "always R (enter_phase x mode)"
  by (auto simp: always_def enter_phase_def intro!: volatile split: prod.split)

lemma checkpoint_served [served]: "always R (checkpoint_write_phase E W x workspace)"
  unfolding checkpoint_write_phase_def by (intro served stepping step_rules)

lemma execute_model_served [served]: "always R (execute_model_execution E W x)"
  unfolding execute_model_execution_def Let_def by (intro served stepping step_rules)

lemma execute_provider_served [served]: "always R (execute_provider_execution E W x)"
  unfolding execute_provider_execution_def by (intro served stepping step_rules)

lemma execute_leased_served [served]: "always R (execute_leased E W x k request)"
  unfolding execute_leased_def by (intro served stepping step_rules)

lemma pending_lease_steps: "steps_op E (pending_lease_request x)"
proof (rule reading_steps)
  have "snd (workspace_lease_request x s) = s" for s
    by (simp add: workspace_lease_request_def expect_def and_then_def query_def gets_def return_def panic_def
        split: sum.split option.split)
  then have "workspace_lease_request x s = (r, s') \<Longrightarrow> s' = s" for s s' r
    by (metis snd_conv)
  then show "snd (pending_lease_request x s) = s" for s
    by (auto simp: pending_lease_request_def and_then_def catch_result_def return_def
        split: option.split prod.split outcome.split)
qed

lemma execute_execution_served [served]: "always R (execute_execution E W x k)"
  unfolding execute_execution_def by (intro served pending_lease_steps)

lemma complete_served [served]: "always R (complete_job W job release)"
proof -
  have "always R (\<lambda>sv. case complete job release (sv_queue sv) of
         (result :: (ServerError, bool) outcome, queue) \<Rightarrow> (result, sv\<lparr>sv_queue := queue\<rparr>))"
    by (auto simp: always_def intro!: volatile split: prod.split)
  then show ?thesis
    unfolding complete_job_def by (intro always_and_then interference_served)
qed

lemma quiescent_served [served]: "always R (group_quiescent W x)"
  unfolding group_quiescent_def by (intro served reading_steps) (simp split: option.split)

lemma run_job_served [served]: "always R (run_job E W job)"
  unfolding run_job_def Let_def by (intro served) simp

end

text \<open>The contract that also holds while responses are sent.\<close>

locale sending_contract = server_contract +
  assumes send: "R sv (sv\<lparr>sv_output := sv_output sv @ [Response request_id response]\<rparr>)"
begin

lemma respond_served [served]: "always R (respond request_id result)"
  by (simp add: always_def respond_def send same)

lemma handle_message_served [served]: "always R (handle_message E W message)"
proof -
  have "always R (dispatch E W request_id command)" for request_id command
    unfolding dispatch_def by (intro served)
  moreover have "always R (server_submit E W request_id session body)" for request_id session body
    unfolding server_submit_def by (intro served stepping step_rules)
  moreover have "always R (server_start_callable E W request_id session callable objective)"
    for request_id session callable objective
    unfolding server_start_callable_def by (intro served stepping step_rules)
  ultimately show ?thesis
    unfolding handle_message_def Let_def
    by (cases "cm_command message") (simp_all, (intro served)+)
qed

lemma read_requests_served [served]: "always R (read_requests E W parse lines)"
  unfolding read_requests_def read_request_def by (intro served)

end

end
