(* ===== verification/Lifecycle_Fuel.thy ===== *)
theory Lifecycle_Fuel
  imports Replay
begin

text \<open>
  The recursion of \<open>set_state\<close> never runs out of the fuel it is given. A nested call either ends an
  orchestration that was alive or cancels an execution below one that has just failed. So with
  \<open>n\<close> orchestrations alive a call on one of them nests at most \<open>2 * n\<close> deep, a call that does not
  fail its execution \<open>2 * n + 1\<close> and any other call \<open>2 * n + 2\<close>. Hence no operation of the
  runtime ends in \<open>NoFuel\<close>.
\<close>

section \<open>Orchestrations that are alive\<close>

definition live :: "ConductorRuntime \<Rightarrow> ExecutionId set" where
  "live s = {x. \<exists>r. bt_get (executions (rt_durable s)) x = Some r \<and>
     x_kind (xr_summary r) = OrchestrationKind \<and> \<not> is_terminal (x_state (xr_summary r))}"

lemma finite_live [simp]: "finite (live s)"
  by (rule finite_subset [OF _ finite_dom_bt_get [of "executions (rt_durable s)"]])
    (auto simp: live_def)

lemma card_live_le: "card (live s) \<le> bt_len (executions (rt_durable s))"
  unfolding bt_len_dom by (rule card_mono) (auto simp: live_def)

lemma live_execution:
  "execution_record s x = Inr r \<Longrightarrow> x_kind (xr_summary r) = OrchestrationKind \<Longrightarrow>
   \<not> is_terminal (x_state (xr_summary r)) \<Longrightarrow> x \<in> live s"
  by (auto simp: live_def execution_record_def get_or_def split: option.splits)

lemma apply_shape:
  assumes "apply_domain_event E ev st = (r, st')"
  shows "r \<noteq> NoFuel" and "\<not> returned r \<or> r = Ok () \<or> executions st' = executions st"
  using assms
  by (cases ev;
      auto simp: apply_domain_event_def outcome_defs apply_revision_activated_def
        apply_session_created_def apply_session_rebased_def apply_session_renamed_def
        apply_session_target_changed_def apply_session_closed_def apply_execution_created_def
        apply_state_changed_def apply_group_created_def apply_failure_recorded_def
        apply_retry_started_def apply_interface_started_def apply_decision_made_def
        apply_node_started_def apply_invocation_resolved_def apply_checkpoint_captured_def
        apply_file_observed_def apply_frontend_event_def backing_error_def
        split: if_splits option.splits sum.splits outcome.splits ExecutionEventKind.splits
          OrchestrationFailureDecision.splits)+

lemma record_event_runs:
  assumes "record_domain_event E ev s = (r, s')"
  shows "r \<noteq> NoFuel"
  using assms
  by (auto simp: record_domain_event_def commit_event_def and_then_def query_def Let_def
      dest: apply_shape split: prod.splits outcome.splits sum.splits)

lemma apply_live:
  assumes "agent_event s ev" and "apply_domain_event E ev (rt_durable s) = (Ok u, rt_durable s')"
  shows "live s' \<subseteq> live s"
proof (cases "is_ExecutionCreated ev \<or> is_ExecutionStateChanged ev")
  case True
  with assms show ?thesis
    by (cases ev)
      (auto simp: apply_domain_event_def live_def event_class_simps bt_get_modify
        elim!: execution_created_Ok state_changed_Ok split: if_splits)
next
  case False
  with apply_frame_executions [OF assms(2)] show ?thesis by (simp add: live_def)
qed

lemma record_live:
  assumes "agent_event s ev" and "record_domain_event E ev s = (r, s')" and "returned r"
  shows "live s' \<subseteq> live s"
proof (cases r)
  case (Ok u)
  with assms(2) obtain ev' where "authorize_event s ev = Inr ev'"
      and app: "apply_domain_event E ev' (rt_durable s) = (Ok (), rt_durable s')"
    by (auto elim: record_event_Ok)
  with assms(1) have "agent_event s ev'" by (blast intro: authorize_agent_event)
  then show ?thesis using app by (rule apply_live)
next
  case (Err e)
  have "executions (rt_durable s') = executions (rt_durable s)"
    using assms(2) Err
    by (auto simp: record_domain_event_def commit_event_def and_then_def query_def Let_def
        dest: apply_shape split: prod.splits outcome.splits sum.splits)
  then show ?thesis by (simp add: live_def)
qed (use assms in simp_all)

lemma record_terminal_not_live:
  assumes "record_domain_event E (ExecutionStateChanged x state) s = (Ok u, s')" and "is_terminal state"
  shows "x \<notin> live s'"
proof -
  from assms(1) obtain ev' where "authorize_event s (ExecutionStateChanged x state) = Inr ev'"
      and "apply_domain_event E ev' (rt_durable s) = (Ok (), rt_durable s')"
    by (rule record_event_Ok)
  then have "apply_state_changed x state (rt_durable s) = (Ok (), rt_durable s')"
    by (auto simp: authorize_event_def apply_domain_event_def)
  with assms(2) show ?thesis by (auto simp: live_def bt_get_modify elim!: state_changed_Ok)
qed

text \<open>The operations never add to the orchestrations alive; \<open>fuelled A\<close> says moreover that they do
  not run out of fuel while those alive are among \<open>A\<close>.\<close>

definition shrinks :: "ConductorRuntime \<Rightarrow> ConductorRuntime \<Rightarrow> bool" where
  "shrinks s t \<longleftrightarrow> live t \<subseteq> live s"

definition outside :: "ExecutionId set \<Rightarrow> ConductorRuntime \<Rightarrow> bool" where
  "outside A s \<longleftrightarrow> \<not> live s \<subseteq> A"

lemma record_shrinks: "agent_event s ev \<Longrightarrow> keeps_at shrinks N (record_domain_event E ev) s"
  by (rule keeps_atI) (auto simp: shrinks_def dest: record_event_runs record_live [THEN subsetD])

interpretation fuelled: agent_events shrinks "outside A" E for A E
proof unfold_locales
  show "shrinks s s" for s by (simp add: shrinks_def)
  show "shrinks s t \<Longrightarrow> shrinks t u \<Longrightarrow> shrinks s u" for s t u by (auto simp: shrinks_def)
  show "shrinks s t \<Longrightarrow> outside A t \<Longrightarrow> outside A s" for s t by (auto simp: shrinks_def outside_def)
  show "agent_event s ev \<Longrightarrow> keeps_at shrinks (outside A) (record_domain_event E ev) s" for s ev
    by (rule record_shrinks)
  show "rt_durable s' = rt_durable s \<Longrightarrow> rt_journal s' = rt_journal s \<Longrightarrow> shrinks s s'" for s s'
    by (simp add: shrinks_def live_def)
qed

interpretation shrinking: unlimited_events shrinks "\<lambda>_. True" E for E
proof unfold_locales
  show "shrinks s s" for s by (simp add: shrinks_def)
  show "shrinks s t \<Longrightarrow> shrinks t u \<Longrightarrow> shrinks s u" for s t u by (auto simp: shrinks_def)
  show "agent_event s ev \<Longrightarrow> keeps_at shrinks (\<lambda>_. True) (record_domain_event E ev) s" for s ev
    by (rule record_shrinks)
  show "rt_durable s' = rt_durable s \<Longrightarrow> rt_journal s' = rt_journal s \<Longrightarrow> shrinks s s'" for s s'
    by (simp add: shrinks_def live_def)
qed simp_all

section \<open>How deep a state change nests\<close>

lemma refresh_fuelled:
  assumes "\<And>state. p \<in> A \<Longrightarrow> op_keeps shrinks (outside A) (ss p state)"
    and "\<And>state. op_keeps shrinks (\<lambda>_. True) (ss p state)"
  shows "op_keeps shrinks (outside A) (refresh_orchestration_with E ss p)"
proof (cases "p \<in> A")
  case True
  then show ?thesis by (intro fuelled.refresh_keeps assms(1))
next
  case False
  have unlimited: "op_keeps shrinks (\<lambda>_. True) (refresh_orchestration_with E ss p)"
    by (intro shrinking.refresh_keeps assms(2))
  show ?thesis
  proof (rule op_keepsI)
    fix s r s'
    assume "refresh_orchestration_with E ss p s = (r, s')" "returned r"
    then show "shrinks s s'" using unlimited by (blast dest: op_keepsD)
  next
    fix s s'
    assume "refresh_orchestration_with E ss p s = (NoFuel, s')"
    then obtain r where "execution_record s p = Inr r" "x_kind (xr_summary r) = OrchestrationKind"
        "\<not> is_terminal (x_state (xr_summary r))"
      by (auto simp: refresh_orchestration_with_def Let_def return_def split: sum.splits if_splits)
    then have "p \<in> live s" by (rule live_execution)
    with False show "outside A s" by (auto simp: outside_def)
  qed
qed

text \<open>What \<open>set_state\<close> does once the new state is recorded.\<close>

definition after_state_change :: "Externals \<Rightarrow> state_setter \<Rightarrow> ExecutionId \<Rightarrow> ExecutionId option \<Rightarrow> ExecutionState \<Rightarrow> unit rt" where
  "after_state_change E ss x parent state =
     and_then (push_event E x (StateChanged state)) (\<lambda>_.
     and_then (if state = Failed then cancel_descendants_with E ss x else return ()) (\<lambda>_.
     if is_terminal state
     then
       and_then (modify (\<lambda>self. self\<lparr>rt_skill_activations := bt_remove x (rt_skill_activations self)\<rparr>)) (\<lambda>_.
       case parent of
         Some p \<Rightarrow>
           and_then (push_event E p (ChildExecutionFinished x state)) (\<lambda>_. refresh_orchestration_with E ss p)
       | None \<Rightarrow> return ())
     else return ()))"

lemma set_state_with_alt:
  "set_state_with E ss x state =
     and_then (query (\<lambda>self. execution_record self x)) (\<lambda>execution.
     if is_terminal (x_state (xr_summary execution)) then throw (InvalidLifecycle x)
     else and_then (record_domain_event E (ExecutionStateChanged x state)) (\<lambda>_.
       after_state_change E ss x (x_parent_execution (xr_summary execution)) state))"
  unfolding set_state_with_def after_state_change_def ..

lemma after_state_change_fuelled:
  assumes "\<And>y. state = Failed \<Longrightarrow> op_keeps shrinks (outside A) (ss y Cancelled)"
    and "\<And>p state'. is_terminal state \<Longrightarrow> p \<in> A \<Longrightarrow> op_keeps shrinks (outside A) (ss p state')"
    and "\<And>p state'. op_keeps shrinks (\<lambda>_. True) (ss p state')"
  shows "op_keeps shrinks (outside A) (after_state_change E ss x parent state)"
proof -
  have "op_keeps shrinks (outside A)
      (if state = Failed then cancel_descendants_with E ss x else return ())"
    using assms(1) by (auto intro!: fuelled.cancel_descendants_keeps fuelled.keeps_pure)
  then show ?thesis
    unfolding after_state_change_def
    by (auto intro!: fuelled.keeps_and_then fuelled.keeps_case_option fuelled.keeps_pure
        fuelled.push_event_keeps fuelled.drop_activations_keeps refresh_fuelled assms(2,3))
qed

lemma set_state_with_fuelled:
  assumes "\<And>y. state = Failed \<Longrightarrow> op_keeps shrinks (outside B) (ss y Cancelled)"
    and "\<And>p state'. is_terminal state \<Longrightarrow> p \<in> B \<Longrightarrow> op_keeps shrinks (outside B) (ss p state')"
    and "\<And>p state'. op_keeps shrinks (\<lambda>_. True) (ss p state')"
    and "B = (if is_terminal state then A - {x} else A)"
  shows "op_keeps shrinks (outside A) (set_state_with E ss x state)"
  unfolding set_state_with_alt
proof (rule fuelled.keeps_and_then [OF fuelled.keeps_options(4)],
    rule fuelled.keeps_if [OF fuelled.keeps_pure(2)])
  fix execution :: ExecutionRecord
  let ?ev = "ExecutionStateChanged x state"
  let ?rest = "after_state_change E ss x (x_parent_execution (xr_summary execution)) state"
  have rest: "op_keeps shrinks (outside B) ?rest"
    using assms(1-3) by (rule after_state_change_fuelled)
  show "op_keeps shrinks (outside A) (and_then (record_domain_event E ?ev) (\<lambda>_. ?rest))"
  proof (rule fuelled.keeps_and_then_from)
    show "op_keeps shrinks (outside A) (record_domain_event E ?ev)"
      by (rule fuelled.commit_agent) (simp add: event_class_simps)
  next
    fix s u s'
    assume run: "record_domain_event E ?ev s = (Ok u, s')"
    have "outside B s' \<Longrightarrow> outside A s'"
      using record_terminal_not_live [OF run] assms(4) by (auto simp: outside_def split: if_splits)
    with rest show "keeps_at shrinks (outside A) ?rest s'"
      by (auto simp: op_keeps_def keeps_at_def)
  qed
qed

lemma set_state_fuel_enough:
  assumes "finite A"
  shows "(x \<in> A \<and> 2 * card A \<le> fuel) \<or> (state \<noteq> Failed \<and> 2 * card A + 1 \<le> fuel) \<or> 2 * card A + 2 \<le> fuel \<Longrightarrow>
     op_keeps shrinks (outside A) (set_state_fuel E fuel x state)"
  using assms
proof (induction fuel arbitrary: A x state)
  case 0
  then show ?case by auto
next
  case (Suc fuel)
  define B where "B = (if is_terminal state then A - {x} else A)"
  have B: "finite B" "card B \<le> card A" "is_terminal state \<Longrightarrow> x \<in> A \<Longrightarrow> Suc (card B) \<le> card A"
    using Suc.prems(2) card_Diff1_less [of A x] card_Diff1_le [of A x] by (auto simp: B_def Suc_le_eq)
  show ?case
    unfolding set_state_fuel.simps
  proof (rule set_state_with_fuelled [OF _ _ _ B_def])
    show "op_keeps shrinks (outside B) (set_state_fuel E fuel y Cancelled)" if "state = Failed" for y
      using that B Suc.prems(1) by (intro Suc.IH) auto
    show "op_keeps shrinks (outside B) (set_state_fuel E fuel p state')"
      if "is_terminal state" and "p \<in> B" for p state'
      using that B Suc.prems(1) by (intro Suc.IH) auto
    show "op_keeps shrinks (\<lambda>_. True) (set_state_fuel E fuel p state')" for p state'
      by (rule shrinking.set_state_fuel_keeps)
  qed
qed

lemma set_state_runs: "set_state E x state s \<noteq> (NoFuel, s')"
proof
  assume "set_state E x state s = (NoFuel, s')"
  then have run: "set_state_fuel E (lifecycle_fuel s) x state s = (NoFuel, s')"
    by (simp add: set_state_def)
  have "2 * card (live s) + 2 \<le> lifecycle_fuel s"
    using card_live_le [of s] by (simp add: lifecycle_fuel_def)
  then have "op_keeps shrinks (outside (live s)) (set_state_fuel E (lifecycle_fuel s) x state)"
    by (intro set_state_fuel_enough) simp_all
  from op_keeps_fuel [OF this run] show False by (simp add: outside_def)
qed

interpretation running: journaled "\<lambda>_ _. True" "\<lambda>_. False" E for E
proof unfold_locales
  show "op_keeps (\<lambda>_ _. True) (\<lambda>_. False) (set_state E x state)" for x state
    by (rule op_keepsI) (auto simp: set_state_runs)
  show "keeps_at (\<lambda>_ _. True) (\<lambda>_. False) (record_domain_event E ev) s" for s ev
    by (rule keeps_atI) (auto dest: record_event_runs)
  show "keeps_at (\<lambda>_ _. True) (\<lambda>_. False) (record_domain_event E ev) s" for s ev
    by (rule keeps_atI) (auto dest: record_event_runs)
qed simp_all

lemma op_runs: "op_keeps (\<lambda>_ _. True) (\<lambda>_. False) m \<Longrightarrow> fst (m s) \<noteq> NoFuel"
  by (simp add: op_keeps_def)

text \<open>C26. Every mutually recursive operation of the lifecycle ends: the depth bound the model
  passes is never exhausted, from any state, so the code's recursion between \<open>set_state\<close>, the
  cancellation of descendants and the refresh of orchestrations always stops.\<close>

theorem lifecycle_terminates:
  "fst (set_state E x state s) \<noteq> NoFuel \<and> fst (cancel_execution E x s) \<noteq> NoFuel \<and>
   fst (refresh_orchestration E x s) \<noteq> NoFuel \<and> fst (start_orchestration E x c objective s) \<noteq> NoFuel \<and>
   fst (decide_orchestration_failure E x request s) \<noteq> NoFuel \<and>
   fst (start_session_callable E k c objective s) \<noteq> NoFuel \<and>
   fst (drive_execution E x backend s) \<noteq> NoFuel \<and> fst (drive_provider_execution E x s) \<noteq> NoFuel \<and>
   fst (interrupt_non_resumable_executions E s) \<noteq> NoFuel"
  by (intro conjI op_runs keeps)

end
