(* ===== verification/Guarantees.thy ===== *)
theory Guarantees
  imports Sample Lifecycle_Facts Lifecycle_Fuel
begin

text \<open>
  What holds of the conductor in every reachable runtime: well-formedness of the projection,
  recovery from the journal, monotonicity of every step, containment of authority, and the
  refinement of the runtime to an append-only log of accepted events.
\<close>

section \<open>The log a runtime refines\<close>

fun log_project :: "Externals \<Rightarrow> DomainEvent list \<Rightarrow> DurableProjection \<Rightarrow> DurableProjection option" where
  "log_project E [] st = Some st"
| "log_project E (ev # evs) st =
     (case apply_domain_event E ev st of (Ok _, st') \<Rightarrow> log_project E evs st' | _ \<Rightarrow> None)"

definition log_of :: "ConductorRuntime \<Rightarrow> DomainEvent list" where
  "log_of s = map je_event (rj_entries (rt_journal s))"

definition log_start :: "ConductorRuntime \<Rightarrow> DurableProjection" where
  "log_start s = empty_projection (rj_config_revision (rt_journal s)) (rj_config_fingerprint (rt_journal s)) None"

text \<open>The abstract machine: its state is a log, its only step appends an event that the
  projection of the log accepts.\<close>

inductive append_step :: "Externals \<Rightarrow> DurableProjection \<Rightarrow> DomainEvent list \<Rightarrow> DomainEvent list \<Rightarrow> bool"
  for E start where
  append: "log_project E log start = Some st \<Longrightarrow> apply_domain_event E ev st = (Ok u, st') \<Longrightarrow>
     append_step E start log (log @ [ev])"

lemma replay_log:
  "replay_entries E entries st = (Ok u, st') \<longleftrightarrow> log_project E (map je_event entries) st = Some st'"
  by (induction entries arbitrary: st) (auto simp: applied_def split: prod.split outcome.split)

lemma log_project_append:
  "log_project E (l @ m) st = Option.bind (log_project E l st) (log_project E m)"
  by (induction l arbitrary: st) (auto split: prod.split outcome.split)

lemma accepted_log_steps:
  assumes "log_project E (l @ added) start = Some st"
  shows "(append_step E start)\<^sup>*\<^sup>* l (l @ added)"
  using assms
proof (induction added arbitrary: st rule: rev_induct)
  case (snoc ev added)
  then obtain st1 where st1: "log_project E (l @ added) start = Some st1" "log_project E [ev] st1 = Some st"
    by (auto simp: log_project_append [of E "l @ added", simplified] split: Option.bind_splits)
  then have "append_step E start (l @ added) ((l @ added) @ [ev])"
    by (intro append) (auto split: prod.splits outcome.splits)
  with snoc.IH [OF st1(1)] show ?case by simp
qed simp

lemma reachable_log: "reachable E s \<Longrightarrow> log_project E (log_of s) (log_start s) = Some (erase (rt_durable s))"
  using reachable_inv [of E s]
  by (simp add: runtime_inv_def journal_ok_def log_of_def log_start_def replay_log)

lemma step_extends: "reachable E s \<Longrightarrow> runtime_step E s s' \<Longrightarrow> extends s s'"
  by (drule runtime_step_sound) (simp add: sound_def reachable_inv)

text \<open>C3. Every step of the runtime refines a sequence of appends of accepted events to the log,
  and the durable state after it, without the bound configurations, is the projection of the
  log.\<close>

theorem step_refines_log:
  assumes "reachable E s" and "runtime_step E s s'"
  shows "log_start s' = log_start s \<and> (append_step E (log_start s))\<^sup>*\<^sup>* (log_of s) (log_of s') \<and>
     log_project E (log_of s') (log_start s') = Some (erase (rt_durable s'))"
proof -
  have log: "log_project E (log_of s') (log_start s') = Some (erase (rt_durable s'))"
    by (rule reachable_log [OF reachable_step [OF assms]])
  obtain added where added: "rt_journal s' = (rt_journal s)\<lparr>rj_entries := rj_entries (rt_journal s) @ added\<rparr>"
    using step_extends [OF assms] by (auto simp: extends_def)
  then have "log_of s' = log_of s @ map je_event added" and start: "log_start s' = log_start s"
    by (simp_all add: log_of_def log_start_def)
  with log show ?thesis using accepted_log_steps [of E "log_of s"] by auto
qed

theorem step_refines_log_witness:
  "\<exists>s. reachable sample_externals s \<and>
     (append_step sample_externals (log_start s))\<^sup>*\<^sup>* (log_of s) (log_of sample_state)"
  using sample_step step_refines_log by blast

section \<open>Well-formedness and recovery\<close>

text \<open>C1. In every reachable runtime the durable projection is well formed: identifiers are the
  ones issued so far, references between the maps resolve, parents are older than their children
  and delegate to them, attempt groups, failure interfaces and decisions belong to failed agents of
  one orchestration, node assignments are unique and the events are numbered consecutively.\<close>

theorem reachable_wellformed: "reachable E s \<Longrightarrow> durable_inv (rt_durable s)"
  by (rule reachable_durable)

theorem reachable_wellformed_witness: "durable_inv (rt_durable sample_state)"
  by (rule reachable_wellformed [OF sample_state_reachable])

text \<open>C2. The journal of a reachable runtime is accepted on restart and rebuilds its durable state,
  with every configuration revision known but unbound; sessions, executions and the last event
  number seen by the frontend are the same.\<close>

theorem restore_roundtrip:
  assumes "reachable E s"
  shows "\<exists>s'. restore E (rt_journal s) = Ok s' \<and> rt_durable s' = erase (rt_durable s) \<and>
     rt_journal s' = rt_journal s \<and> snapshot s' = snapshot s"
proof -
  obtain s' where "restore E (rt_journal s) = Ok s'" "rt_durable s' = erase (rt_durable s)"
      "rt_journal s' = rt_journal s"
    using restore_inv [OF reachable_inv [OF assms]] by blast
  then show ?thesis by (simp add: snapshot_def)
qed

theorem restore_roundtrip_witness:
  "\<exists>s'. restore sample_externals (rt_journal sample_state) = Ok s' \<and> snapshot s' = snapshot sample_state"
  using restore_roundtrip [OF sample_state_reachable] by blast

lemma replay_preserves_inv:
  "durable_inv st \<Longrightarrow> replay_entries E entries st = (Ok u, st') \<Longrightarrow> durable_inv st'"
  by (induction entries arbitrary: st)
    (auto simp: applied_def intro: apply_preserves_inv split: prod.splits outcome.splits)

lemma replay_unbound:
  "erase st = st \<Longrightarrow> replay_entries E entries st = (Ok u, st') \<Longrightarrow> erase st' = st'"
proof (induction entries arbitrary: st)
  case (Cons entry entries)
  then obtain u st1 where st1: "apply_domain_event E (je_event entry) st = (Ok u, st1)"
      "replay_entries E entries st1 = (Ok (), st')"
    by (auto split: prod.splits outcome.splits)
  have "erase st1 = st1"
    using apply_erase [of E "je_event entry" st] Cons.prems(1) st1(1) by simp
  with Cons.IH st1(2) show ?case by simp
qed (simp add: applied_def)

text \<open>A journal that \<open>restore\<close> accepts, wherever it comes from, yields a well-formed projection
  when it starts at the initial configuration revision, keeps the journal as it was and binds no
  configuration.\<close>

theorem restore_wellformed:
  assumes "restore E journal = Ok s" and "rj_config_revision journal = initial_revision"
  shows "durable_inv (rt_durable s) \<and> erase (rt_durable s) = rt_durable s \<and> rt_journal s = journal \<and>
     rt_event_sink s = None"
proof -
  obtain u where "replay_entries E (rj_entries journal)
      (empty_projection initial_revision (rj_config_fingerprint journal) None) = (Ok u, rt_durable s)"
    and "rt_journal s = journal" and "rt_event_sink s = None"
    using assms
    by (auto simp: restore_def runtime_new_def Let_def split: option.splits prod.splits outcome.splits)
  then show ?thesis
    using replay_preserves_inv [OF empty_projection_inv] replay_unbound [OF erase_empty] by blast
qed

theorem restore_wellformed_witness:
  "\<exists>s. restore sample_externals (journal_new initial_revision ''00'') = Ok s \<and> durable_inv (rt_durable s)"
proof -
  obtain s where "restore sample_externals (journal_new initial_revision ''00'') = Ok s"
    by (simp add: restore_def journal_new_def validate_structure_def applied_def)
  with restore_wellformed [OF this] show ?thesis by (simp add: journal_new_def)
qed

section \<open>Monotonicity\<close>

text \<open>C24. A step never takes anything back: sessions, executions, attempt groups, decisions,
  failure interfaces, node assignments and routes stay, terminal states, authorities, revisions
  and closed sessions are final, a bound configuration stays bound, events and journal entries are
  only appended.\<close>

theorem step_monotone:
  assumes "reachable E s" and "runtime_step E s s'"
  shows "evolves (rt_durable s) (rt_durable s') \<and>
     (\<exists>added. rj_entries (rt_journal s') = rj_entries (rt_journal s) @ added)"
  using step_extends [OF assms] by (auto simp: extends_def)

theorem step_monotone_witness:
  "\<exists>s. reachable sample_externals s \<and> evolves (rt_durable s) (rt_durable sample_state)"
  using sample_step step_monotone by blast

text \<open>An event that the journal refuses leaves the whole runtime as it was.\<close>

theorem refused_event_changes_nothing:
  assumes "reachable E s" and "record_domain_event E ev s = (Err e, s')"
  shows "s' = s"
  using assms reachable_durable [OF assms(1)] by (auto simp: durable_inv_def intro: record_event_Err)

theorem refused_event_witness:
  "snd (record_domain_event sample_externals (SessionClosed (Ident ''nobody'')) (runtime_new sample_externals)) =
     runtime_new sample_externals"
proof (rule refused_event_changes_nothing [OF reachable_new])
  let ?run = "record_domain_event sample_externals (SessionClosed (Ident ''nobody''))
      (runtime_new sample_externals)"
  show "?run = (Err (JournalFailure (InvalidEvent (msg_close_unknown_session (Ident ''nobody'')))), snd ?run)"
    by (simp add: record_domain_event_def authorize_event_def commit_event_def apply_domain_event_def
        apply_session_closed_def invalid_def runtime_new_def empty_projection_def Let_def)
qed

section \<open>Authority\<close>

text \<open>C25. Every execution below another one has at most its authority, in every dimension, and runs
  in the same session under the same configuration revision, in every reachable runtime.\<close>

theorem descendant_authority:
  assumes "reachable E s" and "x \<in> descendants s root"
    and "bt_get (executions (rt_durable s)) root = Some q"
  shows "\<exists>r. bt_get (executions (rt_durable s)) x = Some r \<and> permits (xr_authority q) (xr_authority r) \<and>
     xr_config_revision r = xr_config_revision q \<and>
     x_session_id (xr_summary r) = x_session_id (xr_summary q)"
proof -
  have ok: "executions_ok (rt_durable s)" and inherited: "sessions_inherited (rt_durable s)"
    using reachable_inv [OF assms(1)] by (simp_all add: runtime_inv_def durable_inv_def)
  have "(root, x) \<in> (child_rel s)\<^sup>*" using assms(2) by (simp add: descendants_def)
  then show ?thesis
  proof (induction rule: rtrancl_induct)
    case base
    then show ?case using assms(3) by (simp add: permits_refl)
  next
    case (step p x)
    then obtain r where r: "bt_get (executions (rt_durable s)) x = Some r"
        "x_parent_execution (xr_summary r) = Some p"
      by (auto simp: child_rel_def child_in_def)
    with ok have "execution_ok (rt_durable s) x r" by (simp add: executions_ok_def)
    with r obtain a where "bt_get (executions (rt_durable s)) p = Some a" "child_of x r p a"
      by (auto simp: execution_ok_def)
    moreover from this r inherited have "x_session_id (xr_summary a) = x_session_id (xr_summary r)"
      by (simp only: sessions_inherited_def)
    ultimately show ?case using step.IH r by (auto simp: child_of_def intro: permits_trans)
  qed
qed

lemma sample_child: "Ident ''execution-2'' \<in> descendants sample_state (Ident ''execution-1'')"
  using sample_executions
  by (auto simp: descendants_def child_rel_def child_in_def state_is_def split: option.splits)

lemma sample_known:
  "bt_contains_key (executions (rt_durable sample_state)) (Ident ''execution-1'')"
  "bt_contains_key (executions (rt_durable sample_state)) (Ident ''execution-2'')"
  using sample_executions by (auto simp: bt_contains_key_def state_is_def)

theorem descendant_authority_witness:
  "\<exists>q r. bt_get (executions (rt_durable sample_state)) (Ident ''execution-1'') = Some q \<and>
     bt_get (executions (rt_durable sample_state)) (Ident ''execution-2'') = Some r \<and>
     permits (xr_authority q) (xr_authority r)"
  using descendant_authority [OF sample_state_reachable sample_child] sample_known(1)
  by (auto simp: bt_contains_key_def)

section \<open>Sessions, configurations and events\<close>

text \<open>C28. When a session is closed all its executions have ended.\<close>

theorem closed_session_settled:
  assumes "reachable E s" and "bt_get (sessions (rt_durable s)) k = Some session"
    and "s_state (sn_summary session) = Closed"
    and "bt_get (executions (rt_durable s)) x = Some r" and "x_session_id (xr_summary r) = k"
  shows "is_terminal (x_state (xr_summary r))"
proof -
  have "executions_ok (rt_durable s)"
    using reachable_durable [OF assms(1)] by (simp add: durable_inv_def)
  with assms(4) have "execution_ok (rt_durable s) x r" by (simp add: executions_ok_def)
  with assms(2,3,5) show ?thesis by (auto simp: execution_ok_def)
qed

theorem closed_session_settled_witness:
  "\<exists>r. bt_get (executions (rt_durable closed_state)) (Ident ''execution-1'') = Some r \<and>
     is_terminal (x_state (xr_summary r))"
  using closed_facts closed_session_settled [OF closed_state_reachable] by auto

text \<open>A configuration that is bound to a revision has the fingerprint the journal recorded for
  that revision, also after a restart and a new binding.\<close>

theorem bound_configuration_fingerprint:
  assumes "reachable E s" and "bt_get (config_revisions (rt_durable s)) revision = Some slot"
    and "slot_configuration slot = Some c"
  shows "slot_fingerprint slot = fingerprint E c"
  using reachable_inv [OF assms(1)] assms(2,3) by (simp add: runtime_inv_def bindings_ok_def)

theorem bound_configuration_witness:
  "fingerprint sample_externals configuration_default =
     slot_fingerprint (the (bt_get (config_revisions (rt_durable (runtime_new sample_externals))) initial_revision))"
  using bound_configuration_fingerprint [OF reachable_new [of sample_externals], of initial_revision]
  by (simp add: runtime_new_def empty_projection_def Let_def)

lemma numbered_filter:
  "map f xs = map Suc [k..<k + length xs] \<Longrightarrow> filter (\<lambda>x. n < f x) xs = drop (n - k) xs"
proof (induction xs arbitrary: k)
  case (Cons x xs)
  moreover have "[k..<k + length (x # xs)] = k # [Suc k..<Suc k + length xs]"
    by (subst upt_conv_Cons) simp_all
  ultimately have "map f (x # xs) = map Suc (k # [Suc k..<Suc k + length xs])"
    by (metis Cons.prems)
  then have "f x = Suc k" and "map f xs = map Suc [Suc k..<Suc k + length xs]"
    unfolding list.map by auto
  with Cons.IH [of "Suc k"] show ?case
    by (cases "n \<le> k") (simp_all add: Suc_diff_Suc not_le drop_Cons' less_Suc_eq_le)
qed simp

text \<open>A frontend that has seen the first \<open>n\<close> events is given exactly the events after them.\<close>

theorem events_since_suffix:
  "reachable E s \<Longrightarrow> events_since s n = drop n (events (rt_durable s))"
  using reachable_durable [of E s] numbered_filter [of ev_sequence "events (rt_durable s)" 0 n]
  by (simp add: events_since_def durable_inv_def events_ok_def)

theorem events_since_witness:
  "events_since sample_state 1 = drop 1 (events (rt_durable sample_state))"
  by (rule events_since_suffix [OF sample_state_reachable])

section \<open>Orchestrations\<close>

text \<open>C27. The loop that collects the executions to cancel returns the requested execution and all
  its descendants, and nothing else.\<close>

theorem subtree_is_descendants:
  "execution_subtree s root =
     (if bt_contains_key (executions (rt_durable s)) root then Inr (descendants s root)
      else Inl (UnknownExecution root))"
  by (rule execution_subtree_descendants)

text \<open>In a reachable runtime the effective state of a known execution is always defined:
  following retry and replacement decisions never meets a cycle or a missing execution.\<close>

theorem effective_state_defined:
  assumes "reachable E s" and "bt_contains_key (executions (rt_durable s)) x"
  shows "\<exists>state. effective_orchestration_execution_state s x = Inr state"
  using effective_state_settles [OF reachable_durable [OF assms(1)] assms(2)]
  by (simp add: effective_orchestration_execution_state_def)

theorem effective_state_defined_witness:
  "\<exists>state. effective_orchestration_execution_state sample_state (Ident ''execution-2'') = Inr state"
  by (rule effective_state_defined [OF sample_state_reachable sample_known(2)])

section \<open>Restarting with a running orchestration\<close>

lemma restart_evaluated:
  "case restore sample_externals (rt_journal sample_state) of
     Ok s \<Rightarrow> outcome_error (fst (interrupt_non_resumable_executions sample_externals s)) =
       Some (UnboundConfigRevision (Ident ''config-3''))
   | _ \<Rightarrow> False"
  by code_simp


end
