(* ===== verification/Server_Guarantees.thy ===== *)
theory Server_Guarantees
  imports Server_Facts Guarantees
begin

text \<open>
  What holds of the server while requests and workers interleave, and across crashes. \<open>later\<close>
  relates a server to itself at a later moment; \<open>admissible\<close> asks it of the other threads, and
  \<open>server_contract\<close> is interpreted on it, so that a worker is admissible for the others. A
  crash may happen at any moment: only the journal on disk survives it.
\<close>

section \<open>What is on disk\<close>

definition saved_journal :: "Server \<Rightarrow> RuntimeJournal option" where
  "saved_journal sv = Option.bind (sv_store sv) so_saved"

definition journal_extends :: "RuntimeJournal \<Rightarrow> RuntimeJournal \<Rightarrow> bool" where
  "journal_extends j j' \<longleftrightarrow> (\<exists>added. j' = j\<lparr>rj_entries := rj_entries j @ added\<rparr>)"

definition recoverable :: "Externals \<Rightarrow> RuntimeJournal \<Rightarrow> bool" where
  "recoverable E j \<longleftrightarrow> (\<exists>s. runtime_inv E s \<and> rt_journal s = j)"

definition server_inv :: "Externals \<Rightarrow> Server \<Rightarrow> bool" where
  "server_inv E sv \<longleftrightarrow>
     (\<forall>j. saved_journal sv = Some j \<longrightarrow> recoverable E j) \<and>
     (\<not> sv_poisoned sv \<longrightarrow> runtime_inv E (sv_runtime sv) \<and>
        (\<forall>j. saved_journal sv = Some j \<longrightarrow> journal_extends j (rt_journal (sv_runtime sv))))"

definition later :: "Externals \<Rightarrow> Server \<Rightarrow> Server \<Rightarrow> bool" where
  "later E sv sv' \<longleftrightarrow> (server_inv E sv \<longrightarrow>
     server_inv E sv' \<and> (sv_store sv' = None \<longleftrightarrow> sv_store sv = None) \<and>
     (\<not> sv_poisoned sv' \<longrightarrow> \<not> sv_poisoned sv \<and> extends (sv_runtime sv) (sv_runtime sv')) \<and>
     (\<forall>j. saved_journal sv = Some j \<longrightarrow> (\<exists>j'. saved_journal sv' = Some j' \<and> journal_extends j j')))"

definition responses :: "Server \<Rightarrow> ServerMessage list" where
  "responses sv = filter (\<lambda>message. case message of Response _ _ \<Rightarrow> True | EventMessage _ \<Rightarrow> False) (sv_output sv)"

text \<open>The other threads only move the server forward, and answer no request.\<close>

definition admissible :: "Externals \<Rightarrow> Environment \<Rightarrow> bool" where
  "admissible E W \<longleftrightarrow> (\<forall>n sv. later E sv (en_others W n sv) \<and> responses (en_others W n sv) = responses sv)"

lemma journal_extends_refl [simp]: "journal_extends j j"
  by (auto simp: journal_extends_def intro: exI [of _ "[]"])

lemma journal_extends_trans: "journal_extends j k \<Longrightarrow> journal_extends k l \<Longrightarrow> journal_extends j l"
  by (auto simp: journal_extends_def)

lemma extends_journal: "extends s s' \<Longrightarrow> journal_extends (rt_journal s) (rt_journal s')"
  by (auto simp: extends_def journal_extends_def)

lemma later_same:
  assumes "sv_runtime sv' = sv_runtime sv" "sv_poisoned sv' = sv_poisoned sv" "sv_store sv' = sv_store sv"
  shows "later E sv sv'"
  using assms by (auto simp: later_def server_inv_def saved_journal_def extends_refl)

lemma later_trans: "later E sv sv1 \<Longrightarrow> later E sv1 sv2 \<Longrightarrow> later E sv sv2"
  unfolding later_def by (meson extends_trans journal_extends_trans)

lemma steps_sound: "runtime_steps E s s' \<Longrightarrow> sound E s s'"
  by (induction rule: rtranclp_induct)
    (auto intro: unlimited.rel_refl unlimited.rel_trans dest: runtime_step_sound)

lemma later_step:
  assumes "\<not> sv_poisoned sv" and "runtime_steps E (sv_runtime sv) s"
  shows "later E sv (sv\<lparr>sv_runtime := s\<rparr>)"
  unfolding later_def
proof
  assume "server_inv E sv"
  with steps_sound [OF assms(2)] assms(1) have "runtime_inv E s" "extends (sv_runtime sv) s"
    by (simp_all add: server_inv_def sound_def)
  with \<open>server_inv E sv\<close> show "server_inv E (sv\<lparr>sv_runtime := s\<rparr>) \<and>
      (sv_store (sv\<lparr>sv_runtime := s\<rparr>) = None \<longleftrightarrow> sv_store sv = None) \<and>
      (\<not> sv_poisoned (sv\<lparr>sv_runtime := s\<rparr>) \<longrightarrow>
        \<not> sv_poisoned sv \<and> extends (sv_runtime sv) (sv_runtime (sv\<lparr>sv_runtime := s\<rparr>))) \<and>
      (\<forall>j. saved_journal sv = Some j \<longrightarrow> (\<exists>j'. saved_journal (sv\<lparr>sv_runtime := s\<rparr>) = Some j' \<and> journal_extends j j'))"
    by (auto simp: server_inv_def saved_journal_def intro: journal_extends_trans extends_journal)
qed

lemma later_crash: "\<not> sv_poisoned sv \<Longrightarrow> later E sv (sv\<lparr>sv_runtime := s, sv_poisoned := True\<rparr>)"
  by (auto simp: later_def server_inv_def saved_journal_def)

lemma saved_after:
  "saved_journal (sv\<lparr>sv_store := map_option (\<lambda>store. store\<lparr>so_saved := Some j\<rparr>) (sv_store sv)\<rparr>) =
     (case sv_store sv of None \<Rightarrow> None | Some _ \<Rightarrow> Some j)"
  by (simp add: saved_journal_def split: option.split)

lemma later_save:
  assumes "\<not> sv_poisoned sv"
  shows "later E sv (sv\<lparr>sv_store := map_option (\<lambda>store. store\<lparr>so_saved := Some (rt_journal (sv_runtime sv))\<rparr>) (sv_store sv)\<rparr>)"
  using assms
  by (auto simp: later_def server_inv_def saved_after recoverable_def extends_refl split: option.split)
    (auto simp: saved_journal_def)

interpretation forward: sending_contract "\<lambda>sv sv'. admissible E W \<longrightarrow> later E sv sv'" E W for E W
proof unfold_locales
  show "admissible E W \<longrightarrow> later E sv sv" for sv
    by (simp add: later_same)
  show "admissible E W \<longrightarrow> later E sv sv2"
    if "admissible E W \<longrightarrow> later E sv sv1" and "admissible E W \<longrightarrow> later E sv1 sv2" for sv sv1 sv2
    using that by (auto intro: later_trans)
  show "admissible E W \<longrightarrow> later E sv ((en_others W (sv_time sv) sv)\<lparr>sv_time := Suc (sv_time sv)\<rparr>)" for sv
  proof
    assume "admissible E W"
    then have "later E sv (en_others W (sv_time sv) sv)" by (simp add: admissible_def)
    then show "later E sv ((en_others W (sv_time sv) sv)\<lparr>sv_time := Suc (sv_time sv)\<rparr>)"
      by (rule later_trans) (simp add: later_same)
  qed
qed (simp_all add: later_same later_step later_crash later_save)

interpretation quiet: server_contract "\<lambda>sv sv'. admissible E W \<longrightarrow> responses sv' = responses sv" E W for E W
  by unfold_locales (auto simp: admissible_def responses_def)

section \<open>Workers as the other threads\<close>

lemma forwardD:
  assumes "always (\<lambda>sv sv'. admissible E W \<longrightarrow> later E sv sv') m" and "admissible E W" and "m sv = (r, sv')"
  shows "later E sv sv'"
  using alwaysD [OF assms(1,3)] assms(2) by simp

lemma quietD:
  assumes "always (\<lambda>sv sv'. admissible E W \<longrightarrow> responses sv' = responses sv) m" and "admissible E W"
    and "m sv = (r, sv')"
  shows "responses sv' = responses sv"
  using alwaysD [OF assms(1,3)] assms(2) by simp

text \<open>C7. What the theorems on the server assume of the other threads holds of the workers: a thread
  that runs a job while the others are admissible is admissible itself, whether the job succeeds,
  fails or panics.\<close>

theorem worker_admissible:
  assumes "admissible E W"
  shows "admissible E (W\<lparr>en_others := (\<lambda>n sv. snd (run_job E W job sv))\<rparr>)"
  using forwardD [OF forward.run_job_served assms prod.collapse [symmetric]]
    quietD [OF quiet.run_job_served assms prod.collapse [symmetric]]
  by (simp add: admissible_def [of E "W\<lparr>en_others := _\<rparr>"])

section \<open>Answering a request\<close>

definition is_answer :: "nat \<Rightarrow> ServerMessage \<Rightarrow> bool" where
  "is_answer n message \<longleftrightarrow> (case message of Response m _ \<Rightarrow> m = n | EventMessage _ \<Rightarrow> False)"

text \<open>No response yet, or the one response of request \<open>n\<close>.\<close>

definition answered :: "nat \<Rightarrow> bool \<Rightarrow> Server \<Rightarrow> Server \<Rightarrow> bool" where
  "answered n done sv sv' \<longleftrightarrow>
     (\<exists>answer. responses sv' = responses sv @ answer \<and> length answer \<le> 1 \<and>
        (done \<longrightarrow> answer \<noteq> []) \<and> list_all (is_answer n) answer)"

definition replying :: "Externals \<Rightarrow> Environment \<Rightarrow> nat \<Rightarrow> 'a sv \<Rightarrow> bool" where
  "replying E W n m \<longleftrightarrow> (admissible E W \<longrightarrow>
     (\<forall>sv. answered n (outcome_value (fst (m sv)) \<noteq> None) sv (snd (m sv))))"

abbreviation silent :: "Externals \<Rightarrow> Environment \<Rightarrow> ('a :: type) sv \<Rightarrow> bool" where
  "silent E W m \<equiv> always (\<lambda>sv sv'. admissible E W \<longrightarrow> responses sv' = responses sv) m"

lemma replying_respond: "replying E W n (respond n result)"
  by (simp add: replying_def answered_def respond_def responses_def is_answer_def)

lemma replying_after:
  assumes "silent E W m" and "\<And>x. replying E W n (f x)"
  shows "replying E W n (and_then m f)"
  unfolding replying_def
proof (intro impI allI)
  fix sv
  assume W: "admissible E W"
  obtain r sv1 where run: "m sv = (r, sv1)" by force
  have same: "responses sv1 = responses sv" by (rule quietD [OF assms(1) W run])
  show "answered n (outcome_value (fst (and_then m f sv)) \<noteq> None) sv (snd (and_then m f sv))"
  proof (cases r)
    case (Ok x)
    have "answered n (outcome_value (fst (f x sv1)) \<noteq> None) sv1 (snd (f x sv1))"
      using assms(2) [of x] W unfolding replying_def by blast
    with Ok run show ?thesis by (simp add: answered_def same)
  qed (use run same in \<open>simp_all add: and_then_def answered_def\<close>)
qed

lemma replying_before:
  assumes "replying E W n m" and "\<And>x. silent E W (f x)"
  shows "replying E W n (and_then m f)"
  unfolding replying_def
proof (intro impI allI)
  fix sv
  assume W: "admissible E W"
  obtain r sv1 where run: "m sv = (r, sv1)" by force
  then have first: "answered n (outcome_value r \<noteq> None) sv sv1"
    using assms(1) W unfolding replying_def by (metis fst_conv snd_conv)
  show "answered n (outcome_value (fst (and_then m f sv)) \<noteq> None) sv (snd (and_then m f sv))"
  proof (cases r)
    case (Ok x)
    obtain r2 sv2 where run2: "f x sv1 = (r2, sv2)" by force
    have "responses sv2 = responses sv1" by (rule quietD [OF assms(2) W run2])
    with Ok run run2 first show ?thesis by (auto simp: answered_def)
  qed (use run first in \<open>simp_all add: and_then_def\<close>)
qed

lemma replying_case_sum:
  "(\<And>e. replying E W n (f e)) \<Longrightarrow> (\<And>x. replying E W n (g x)) \<Longrightarrow> replying E W n (case_sum f g y)"
  by (cases y) simp_all

lemma replying_created:
  "replying E W n (and_then (persist W) (\<lambda>_. and_then (respond n result) (\<lambda>_. enqueue_pending_group W x)))"
  by (intro replying_after [OF quiet.persist_served] replying_before [OF replying_respond] quiet.enqueue_pending_served)

lemma replying_submit: "replying E W n (server_submit E W n session body)"
  unfolding server_submit_def
  by (intro replying_after replying_case_sum replying_respond replying_created quiet.locked_served
      stepping step_rules)

lemma replying_start: "replying E W n (server_start_callable E W n session callable objective)"
  unfolding server_start_callable_def
  by (intro replying_after replying_case_sum replying_respond replying_created quiet.locked_served
      stepping step_rules)

lemma replying_query: "replying E W n (and_then (runtime_query W q) (\<lambda>v. respond n (reply v)))"
  by (intro replying_after [OF quiet.query_served] replying_respond)

lemma replying_dispatch: "replying E W n (dispatch E W n command)"
  unfolding dispatch_def
  by (intro replying_after [OF quiet.reply_of_served] replying_after [OF quiet.always_cases(1)]
      quiet.persist_served quiet.always_pure replying_respond)

lemma replying_handle: "replying E W (cm_id message) (handle_message E W message)"
  unfolding handle_message_def Let_def
  by (cases "cm_command message"; simp only: Command.case)
    (rule replying_submit replying_start replying_query replying_dispatch)+

text \<open>C6. A request that is handled without an error has been answered exactly once, under its own
  number; when handling fails it was answered at most once. No other thread's message is taken for
  the answer.\<close>

theorem request_answered_once:
  assumes "admissible E W" and "handle_message E W message sv = (r, sv')"
  shows "answered (cm_id message) (r = Ok ()) sv sv'"
proof -
  have "answered (cm_id message) (outcome_value r \<noteq> None) sv sv'"
    using replying_handle assms unfolding replying_def by (metis fst_conv snd_conv)
  then show ?thesis by (simp add: outcome_value_iff)
qed

section \<open>Recovery from disk\<close>

lemma replay_evolves: "replay_entries E entries st = (Ok u, st') \<Longrightarrow> evolves st st'"
  by (induction entries arbitrary: st)
    (auto simp: applied_def evolves_refl intro: evolves_trans apply_evolves split: prod.splits outcome.splits)

lemma restore_Ok:
  "restore E j = Ok s \<Longrightarrow> validate_structure j = None \<and>
     replay_entries E (rj_entries j) (empty_projection (rj_config_revision j) (rj_config_fingerprint j) None) =
       (Ok (), rt_durable s)"
  by (auto simp: restore_def split: option.splits prod.splits outcome.splits)

lemma recoverable_restores: "recoverable E j \<Longrightarrow> \<exists>s. restore E j = Ok s \<and> runtime_inv E s \<and> rt_journal s = j"
  using restore_inv unfolding recoverable_def by blast

lemma restore_extended:
  assumes "restore E j = Ok s" and "restore E j' = Ok s'" and "journal_extends j j'"
  shows "evolves (rt_durable s) (rt_durable s')"
  using restore_Ok [OF assms(1)] restore_Ok [OF assms(2)] assms(3)
  by (auto simp: journal_extends_def replay_append dest: replay_evolves)

lemma evolves_known:
  "evolves st st' \<Longrightarrow> bt_contains_key (executions st) x \<Longrightarrow> bt_contains_key (executions st') x"
  by (fastforce simp: evolves_def persists_def bt_contains_key_def)

text \<open>The executions a restart would find.\<close>

definition on_disk :: "Externals \<Rightarrow> Server \<Rightarrow> ExecutionId set" where
  "on_disk E sv = {x. \<exists>j s. saved_journal sv = Some j \<and> restore E j = Ok s \<and>
     bt_contains_key (executions (rt_durable s)) x}"

text \<open>The executions the frontend has been told about.\<close>

definition announced :: "Server \<Rightarrow> ExecutionId set" where
  "announced sv = {x_id execution |execution n. Response n (ResponseOk (ExecutionReply execution)) \<in> set (sv_output sv)}"

definition disk_inv :: "Externals \<Rightarrow> Server \<Rightarrow> bool" where
  "disk_inv E sv \<longleftrightarrow> server_inv E sv \<and> saved_journal sv \<noteq> None \<and> announced sv \<subseteq> on_disk E sv"

lemma on_disk_later:
  assumes "later E sv sv'" and "server_inv E sv"
  shows "on_disk E sv \<subseteq> on_disk E sv'"
proof
  fix x
  assume "x \<in> on_disk E sv"
  then obtain j s where j: "saved_journal sv = Some j" "restore E j = Ok s"
      "bt_contains_key (executions (rt_durable s)) x"
    by (auto simp: on_disk_def)
  with assms obtain j' where j': "saved_journal sv' = Some j'" "journal_extends j j'" "server_inv E sv'"
    unfolding later_def by blast
  then obtain s' where "restore E j' = Ok s'"
    using recoverable_restores unfolding server_inv_def by blast
  with j j' show "x \<in> on_disk E sv'"
    using evolves_known [OF restore_extended [OF j(2) _ j'(2)]] by (auto simp: on_disk_def)
qed

lemma announced_responses: "responses sv' = responses sv \<Longrightarrow> announced sv' = announced sv"
proof -
  have "announced sv = {x_id execution |execution n. Response n (ResponseOk (ExecutionReply execution)) \<in> set (responses sv)}" for sv
    by (auto simp: announced_def responses_def)
  then show "responses sv' = responses sv \<Longrightarrow> announced sv' = announced sv" by simp
qed

lemma disk_inv_later:
  assumes "disk_inv E sv" and "later E sv sv'" and "responses sv' = responses sv"
  shows "disk_inv E sv'"
proof -
  have "server_inv E sv" using assms(1) by (simp add: disk_inv_def)
  with on_disk_later [OF assms(2) this] announced_responses [OF assms(3)] assms(1,2) show ?thesis
    by (auto simp: disk_inv_def later_def)
qed

subsection \<open>Triples\<close>

text \<open>From a server with \<open>disk_inv\<close> and \<open>P\<close> the operation keeps \<open>disk_inv\<close>, however it ends, and a
  result satisfies \<open>Q\<close>.\<close>

definition disk_triple ::
  "Externals \<Rightarrow> Environment \<Rightarrow> (Server \<Rightarrow> bool) \<Rightarrow> 'a sv \<Rightarrow> ('a \<Rightarrow> Server \<Rightarrow> bool) \<Rightarrow> bool" where
  "disk_triple E W P m Q \<longleftrightarrow> (\<forall>sv r sv'. admissible E W \<longrightarrow> disk_inv E sv \<longrightarrow> P sv \<longrightarrow> m sv = (r, sv') \<longrightarrow>
     disk_inv E sv' \<and> (\<forall>x. r = Ok x \<longrightarrow> Q x sv'))"

lemma triple_and_then:
  assumes "disk_triple E W P m Q" and "\<And>x. disk_triple E W (Q x) (f x) S"
  shows "disk_triple E W P (and_then m f) S"
  unfolding disk_triple_def
proof (intro allI impI)
  fix sv r sv'
  assume pre: "admissible E W" "disk_inv E sv" "P sv" and run: "and_then m f sv = (r, sv')"
  obtain r1 sv1 where m: "m sv = (r1, sv1)" by force
  with assms(1) pre have first: "disk_inv E sv1" "\<And>x. r1 = Ok x \<Longrightarrow> Q x sv1"
    unfolding disk_triple_def by blast+
  show "disk_inv E sv' \<and> (\<forall>x. r = Ok x \<longrightarrow> S x sv')"
  proof (cases r1)
    case (Ok x)
    with m run have "f x sv1 = (r, sv')" by simp
    with assms(2) [of x] pre(1) first Ok show ?thesis unfolding disk_triple_def by blast
  qed (use m run first in \<open>auto simp: and_then_def\<close>)
qed

lemma triple_served:
  assumes "always (\<lambda>sv sv'. admissible E W \<longrightarrow> later E sv sv') m" and "silent E W m"
  shows "disk_triple E W P m (\<lambda>_ _. True)"
  unfolding disk_triple_def
  using forwardD [OF assms(1)] quietD [OF assms(2)] by (blast intro: disk_inv_later)

lemma triple_case_sum:
  "(\<And>e. disk_triple E W P (f e) Q) \<Longrightarrow> (\<And>x. disk_triple E W P (g x) Q) \<Longrightarrow> disk_triple E W P (case_sum f g y) Q"
  by (cases y) simp_all

lemma triple_respond:
  "disk_triple E W (\<lambda>sv. \<forall>execution. result = Inr (ExecutionReply execution) \<longrightarrow> x_id execution \<in> on_disk E sv)
     (respond n result) (\<lambda>_ _. True)"
  unfolding disk_triple_def
proof (intro allI impI)
  fix sv r sv'
  assume inv: "disk_inv E sv" and run: "respond n result sv = (r, sv')"
    and known: "\<forall>execution. result = Inr (ExecutionReply execution) \<longrightarrow> x_id execution \<in> on_disk E sv"
  from run have same: "sv_runtime sv' = sv_runtime sv" "sv_poisoned sv' = sv_poisoned sv" "sv_store sv' = sv_store sv"
    by (auto simp: respond_def split: if_splits)
  then have "on_disk E sv' = on_disk E sv" "saved_journal sv' = saved_journal sv" "server_inv E sv' = server_inv E sv"
    by (simp_all add: on_disk_def saved_journal_def server_inv_def)
  moreover have "announced sv' \<subseteq> announced sv \<union> on_disk E sv"
    using run known by (fastforce simp: respond_def announced_def split: if_splits sum.splits)
  ultimately show "disk_inv E sv' \<and> (\<forall>x. r = Ok x \<longrightarrow> True)"
    using inv by (auto simp: disk_inv_def)
qed

lemma triple_weaken:
  "disk_triple E W P m Q \<Longrightarrow> (\<And>sv. P' sv \<Longrightarrow> P sv) \<Longrightarrow> (\<And>x sv. Q x sv \<Longrightarrow> Q' x sv) \<Longrightarrow> disk_triple E W P' m Q'"
  unfolding disk_triple_def by blast

lemma triple_refuse: "disk_triple E W P (respond n (Inl error)) (\<lambda>_ _. True)"
  by (rule triple_weaken [OF triple_respond]) simp_all

subsection \<open>Announcing an execution\<close>

definition live_execution :: "ExecutionId \<Rightarrow> Server \<Rightarrow> bool" where
  "live_execution x sv \<longleftrightarrow> \<not> sv_poisoned sv \<and> bt_contains_key (executions (rt_durable (sv_runtime sv))) x"

lemma later_inv: "later E sv sv' \<Longrightarrow> server_inv E sv \<Longrightarrow> server_inv E sv'"
  by (simp add: later_def)

lemma later_store: "later E sv sv' \<Longrightarrow> server_inv E sv \<Longrightarrow> sv_store sv' = None \<longleftrightarrow> sv_store sv = None"
  by (simp add: later_def)

lemma server_inv_runtime: "server_inv E sv \<Longrightarrow> \<not> sv_poisoned sv \<Longrightarrow> runtime_inv E (sv_runtime sv)"
  by (simp add: server_inv_def)

lemma live_later: "later E sv sv' \<Longrightarrow> server_inv E sv \<Longrightarrow> \<not> sv_poisoned sv' \<Longrightarrow> live_execution x sv \<Longrightarrow> live_execution x sv'"
  by (auto simp: later_def live_execution_def extends_def intro: evolves_known)

lemma persist_Ok:
  assumes "persist W sv = (Ok u, sv')" and "sv_store sv \<noteq> None"
  obtains sv1 where "interference W sv = (Ok () :: (PersistenceError, unit) outcome, sv1)" "\<not> sv_poisoned sv1"
    "sv' = sv1\<lparr>sv_store := map_option (\<lambda>store. store\<lparr>so_saved := Some (rt_journal (sv_runtime sv1))\<rparr>) (sv_store sv1)\<rparr>"
proof -
  define sv1 where "sv1 = snd (interference W sv :: (PersistenceError, unit) outcome \<times> Server)"
  have others: "interference W sv = (Ok () :: (PersistenceError, unit) outcome, sv1)"
    by (simp add: sv1_def interference_def modify_def)
  from assms have run: "and_then (under_lock (InvalidJournal ''runtime lock poisoned'') (gets rt_journal))
      (store_save W) sv1 = (Ok (), sv')"
    by (auto simp: persist_def persist_shared_def locked_def and_then_assoc map_err_def others
        split: prod.splits outcome.splits)
  then have "\<not> sv_poisoned sv1"
    by (auto simp: and_then_def under_lock_def)
  moreover from this have "sv1\<lparr>sv_runtime := sv_runtime sv1, sv_poisoned := False\<rparr> = sv1" by simp
  ultimately have "under_lock (InvalidJournal ''runtime lock poisoned'') (gets rt_journal) sv1 =
      (Ok (rt_journal (sv_runtime sv1)), sv1)"
    by (simp add: under_lock_def gets_def)
  with run have "store_save W (rt_journal (sv_runtime sv1)) sv1 = (Ok (), sv')" by simp
  with others \<open>\<not> sv_poisoned sv1\<close> that show thesis
    by (auto simp: store_save_def split: option.splits)
qed

lemma triple_persist: "disk_triple E W (live_execution x) (persist W) (\<lambda>_ sv. x \<in> on_disk E sv)"
proof -
  have "x \<in> on_disk E sv'" if W: "admissible E W" and inv: "disk_inv E sv" and live: "live_execution x sv"
    and run: "persist W sv = (Ok u, sv')" for sv sv' u
  proof -
    have store: "sv_store sv \<noteq> None" and "server_inv E sv"
      using inv by (auto simp: disk_inv_def saved_journal_def split: bind_splits)
    with run obtain sv1 where others: "interference W sv = (Ok () :: (PersistenceError, unit) outcome, sv1)"
        "\<not> sv_poisoned sv1"
        and sv': "sv' = sv1\<lparr>sv_store := map_option (\<lambda>store. store\<lparr>so_saved := Some (rt_journal (sv_runtime sv1))\<rparr>) (sv_store sv1)\<rparr>"
      by (elim persist_Ok)
    have later: "later E sv sv1" by (rule forwardD [OF forward.interference_served W others(1)])
    then have "sv_store sv1 = None \<longleftrightarrow> sv_store sv = None"
      using \<open>server_inv E sv\<close> by (rule later_store)
    with store have sv1: "sv_store sv1 \<noteq> None" by simp
    have "runtime_inv E (sv_runtime sv1)"
      by (rule server_inv_runtime [OF later_inv [OF later \<open>server_inv E sv\<close>] others(2)])
    then obtain s where s: "restore E (rt_journal (sv_runtime sv1)) = Ok s" "rt_durable s = erase (rt_durable (sv_runtime sv1))"
      using restore_inv by blast
    have "live_execution x sv1"
      by (rule live_later [OF later \<open>server_inv E sv\<close> others(2) live])
    with s sv1 show ?thesis
      by (auto simp: on_disk_def sv' saved_after live_execution_def split: option.split)
  qed
  moreover have "disk_triple E W (live_execution x) (persist W) (\<lambda>_ _. True)"
    by (rule triple_served [OF forward.persist_served quiet.persist_served])
  ultimately show ?thesis unfolding disk_triple_def by blast
qed

lemma triple_created:
  "disk_triple E W (live_execution (x_id execution))
     (and_then (persist W) (\<lambda>_. and_then (respond n (Inr (ExecutionReply execution))) (\<lambda>_. enqueue_pending_group W y)))
     (\<lambda>_ _. True)"
proof (rule triple_and_then [OF triple_persist], rule triple_and_then)
  show "disk_triple E W (\<lambda>sv. x_id execution \<in> on_disk E sv) (respond n (Inr (ExecutionReply execution))) (\<lambda>_ _. True)"
    by (rule triple_weaken [OF triple_respond]) simp_all
  show "disk_triple E W (\<lambda>_. True) (enqueue_pending_group W y) (\<lambda>_ _. True)"
    by (rule triple_served [OF forward.enqueue_pending_served quiet.enqueue_pending_served])
qed

text \<open>An operation of the runtime that creates an execution, under the lock.\<close>

definition creating :: "Externals \<Rightarrow> ExecutionSummary rt \<Rightarrow> bool" where
  "creating E m \<longleftrightarrow> steps_op E m \<and> (\<forall>s x s'. runtime_inv E s \<longrightarrow> m s = (Ok x, s') \<longrightarrow>
     bt_contains_key (executions (rt_durable s')) (x_id x))"

lemma triple_creating:
  assumes "creating E m"
  shows "disk_triple E W (\<lambda>_. True) (locked W poisoned_runtime (catch_result m))
     (\<lambda>result sv. \<forall>x. result = Inr x \<longrightarrow> live_execution (x_id x) sv)"
proof -
  have steps: "steps_op E (catch_result m)"
    using assms by (simp add: creating_def steps.keeps_catch_result)
  have "live_execution (x_id x) sv'"
    if W: "admissible E W" and inv: "disk_inv E sv" and run: "locked W poisoned_runtime (catch_result m) sv = (Ok (Inr x), sv')"
    for sv sv' x
  proof -
    from run obtain sv1 where others: "interference W sv = (Ok () :: (ServerError, unit) outcome, sv1)"
        and lock: "under_lock poisoned_runtime (catch_result m) sv1 = (Ok (Inr x), sv')"
      by (auto simp: locked_def elim: and_then_OkE)
    have "later E sv sv1" by (rule forwardD [OF forward.interference_served W others])
    moreover from lock have "\<not> sv_poisoned sv1" by (auto simp: under_lock_def poisoned_runtime_def)
    ultimately have "runtime_inv E (sv_runtime sv1)"
      using inv unfolding disk_inv_def by (blast intro: server_inv_runtime later_inv)
    moreover from lock \<open>\<not> sv_poisoned sv1\<close> obtain s where "m (sv_runtime sv1) = (Ok x, s)"
        "sv' = sv1\<lparr>sv_runtime := s, sv_poisoned := False\<rparr>"
      by (auto simp: under_lock_def catch_result_def split: prod.splits outcome.splits)
    ultimately show ?thesis using assms by (auto simp: creating_def live_execution_def)
  qed
  moreover have "disk_triple E W (\<lambda>_. True) (locked W poisoned_runtime (catch_result m)) (\<lambda>_ _. True)"
    by (rule triple_served [OF forward.locked_served [OF steps] quiet.locked_served [OF steps]])
  ultimately show ?thesis unfolding disk_triple_def by blast
qed

lemma triple_announce:
  assumes "creating E m"
  shows "disk_triple E W (\<lambda>_. True)
     (and_then (locked W poisoned_runtime (catch_result m)) (\<lambda>result.
        case result of
          Inl error \<Rightarrow> respond n (Inl (map_conductor_error E error))
        | Inr execution \<Rightarrow>
            and_then (persist W) (\<lambda>_.
            and_then (respond n (Inr (ExecutionReply execution))) (\<lambda>_. enqueue_pending_group W (x_id execution)))))
     (\<lambda>_ _. True)"
proof (rule triple_and_then [OF triple_creating [OF assms]])
  fix result :: "ConductorError + ExecutionSummary"
  show "disk_triple E W (\<lambda>sv. \<forall>x. result = Inr x \<longrightarrow> live_execution (x_id x) sv)
     (case result of
          Inl error \<Rightarrow> respond n (Inl (map_conductor_error E error))
        | Inr execution \<Rightarrow>
            and_then (persist W) (\<lambda>_.
            and_then (respond n (Inr (ExecutionReply execution))) (\<lambda>_. enqueue_pending_group W (x_id execution))))
     (\<lambda>_ _. True)"
    by (cases result) (auto intro: triple_refuse triple_weaken [OF triple_created])
qed

lemma and_then_expect:
  "and_then (expect x msg) f s = (case x of None \<Rightarrow> (Panic msg, s) | Some v \<Rightarrow> f v s)"
  by (simp add: and_then_def expect_def return_def panic_def split: option.split)

lemma push_event_known:
  assumes "push_event E x kind s = (Ok ev, s')"
  shows "bt_contains_key (executions (rt_durable s')) x"
proof -
  from assms obtain r event u where known: "execution_record s x = Inr r"
      and "record_domain_event E (FrontendEvent event) s = (Ok u, s')"
    by (auto simp: push_event_def return_def split: sum.splits elim: and_then_OkE)
  from this(2) obtain ev' where "apply_domain_event E ev' (rt_durable s) = (Ok (), rt_durable s')"
    by (rule record_event_Ok)
  then have "evolves (rt_durable s) (rt_durable s')" by (rule apply_evolves)
  moreover have "bt_contains_key (executions (rt_durable s)) x"
    using known by (auto simp: execution_record_def get_or_def bt_contains_key_def split: option.splits)
  ultimately show ?thesis by (rule evolves_known)
qed

text \<open>An execution is created, announced in the event stream and returned.\<close>

lemma announced_known:
  assumes "and_then m (\<lambda>_. and_then (push_event E (x_id x) first) (\<lambda>_. and_then (push_event E (x_id x) second) (\<lambda>_. return x))) s =
     (Ok y, s')"
  shows "bt_contains_key (executions (rt_durable s')) (x_id y)"
  using assms by (auto simp: return_def elim!: and_then_OkE intro: push_event_known)

lemma submit_creating: "creating E (submit E session body)"
  unfolding creating_def
proof (intro conjI allI impI)
  fix s x s'
  assume "submit E session body s = (Ok x, s')"
  then show "bt_contains_key (executions (rt_durable s')) (x_id x)"
    by (auto simp: submit_def Let_def throw_def and_then_expect
        split: if_splits sum.splits option.splits
        elim!: announced_known [where x = "\<lparr>x_id = _, x_session_id = _, x_parent_execution = _, x_kind = _,
          x_callable = _, x_target = _, x_state = _\<rparr>", simplified])
qed (rule stepping)

lemma session_callable_known:
  assumes "create_session_callable_execution E session x kind callable payload input s = (Ok y, s')"
  shows "bt_contains_key (executions (rt_durable s')) (x_id y)"
  using assms
  by (auto simp: create_session_callable_execution_def Let_def split: sum.splits
      elim!: announced_known [where x = "\<lparr>x_id = _, x_session_id = _, x_parent_execution = _, x_kind = _,
          x_callable = _, x_target = _, x_state = _\<rparr>", simplified])

lemma started_known:
  assumes "started_summary x message s = (Ok y, s')" and "runtime_inv E s'"
  shows "bt_contains_key (executions (rt_durable s')) (x_id y)"
proof -
  from assms(1) obtain r where "bt_get (executions (rt_durable s')) x = Some r" "y = xr_summary r"
    by (auto simp: started_summary_def and_then_expect return_def split: option.splits)
  moreover from this(1) assms(2) have "execution_ok (rt_durable s') x r"
    by (simp add: runtime_inv_def durable_inv_def executions_ok_def)
  ultimately show ?thesis by (simp add: execution_ok_def bt_contains_key_def)
qed

lemma start_callable_creating: "creating E (start_session_callable E session callable objective)"
  unfolding creating_def
proof (intro conjI allI impI)
  fix s x s'
  assume inv: "runtime_inv E s" and run: "start_session_callable E session callable objective s = (Ok x, s')"
  have "runtime_steps E s s'"
    using op_keepsD [OF session_steps(7) run] by simp
  from steps_sound [OF this] inv have "runtime_inv E s'" by (simp add: sound_def)
  with run show "bt_contains_key (executions (rt_durable s')) (x_id x)"
    by (auto simp: start_session_callable_def Let_def throw_def lift_result_def
        split: if_splits sum.splits CallableKind.splits elim!: and_then_OkE
        intro: session_callable_known started_known)
qed (rule stepping)

subsection \<open>The other replies\<close>

definition gives :: "('a \<Rightarrow> bool) \<Rightarrow> ('s, 'e, 'a) op \<Rightarrow> bool" where
  "gives P m \<longleftrightarrow> (\<forall>s x s'. m s = (Ok x, s') \<longrightarrow> P x)"

lemma gives_and_then:
  assumes "\<And>y. gives P (f y)"
  shows "gives P (and_then m f)"
  unfolding gives_def
proof (intro allI impI)
  fix s x s'
  assume "and_then m f s = (Ok x, s')"
  then obtain y s1 where "f y s1 = (Ok x, s')" by (rule and_then_OkE)
  with assms [of y] show "P x" unfolding gives_def by blast
qed

lemma gives_ends:
  "P x \<Longrightarrow> gives P (return x)" "gives P (throw e)" "gives P (panic msg)"
  "gives P m \<Longrightarrow> gives P n \<Longrightarrow> gives P (if c then m else n)"
  "(\<And>a b. gives P (g a b)) \<Longrightarrow> gives P (case_prod g p)"
  by (auto simp: gives_def op_simps split: prod.splits)

lemmas gives_rules = gives_and_then gives_ends

lemma gives_catch: "gives (\<lambda>x. P (Inr x)) m \<Longrightarrow> (\<And>e. P (Inl e)) \<Longrightarrow> gives P (catch_result m)"
  by (auto simp: gives_def catch_result_def split: prod.splits outcome.splits)

definition not_execution :: "ProtocolError + Reply \<Rightarrow> bool" where
  "not_execution result \<longleftrightarrow> (\<forall>execution. result \<noteq> Inr (ExecutionReply execution))"

lemma runtime_reply_gives: "(\<And>x execution. reply x \<noteq> ExecutionReply execution) \<Longrightarrow> gives not_execution (runtime_reply E W m reply)"
proof (unfold runtime_reply_def, intro gives_rules)
  fix result :: "ConductorError + 'a"
  assume "\<And>x execution. reply x \<noteq> ExecutionReply execution"
  then show "not_execution (map_error (map_conductor_error E) (map_sum id reply result))"
    by (cases result) (simp_all add: not_execution_def map_error_def)
qed

lemma reply_of_gives: "gives not_execution (reply_of E W command)"
proof -
  have "gives (\<lambda>x. not_execution (Inr x)) (initialize E W n)" for n
    unfolding initialize_def by (intro gives_rules) (simp add: not_execution_def)
  moreover have "gives (\<lambda>x. not_execution (Inr x)) (server_close_session E W session)" for session
    unfolding server_close_session_def by (intro gives_rules) (simp_all add: not_execution_def)
  moreover have "gives (\<lambda>x. not_execution (Inr x)) (server_cancel_execution E W x)" for x
    unfolding server_cancel_execution_def by (intro gives_rules) (simp add: not_execution_def)
  ultimately show ?thesis
    by (cases command; simp only: reply_of.simps)
      ((intro gives_catch runtime_reply_gives gives_rules; simp add: not_execution_def)+)
qed

lemma triple_result:
  assumes "disk_triple E W P m (\<lambda>_ _. True)" and "gives Q m"
  shows "disk_triple E W P m (\<lambda>x _. Q x)"
  using assms unfolding disk_triple_def gives_def by blast

lemma triple_dispatch: "disk_triple E W (\<lambda>_. True) (dispatch E W n command) (\<lambda>_ _. True)"
  unfolding dispatch_def
proof (rule triple_and_then)
  show "disk_triple E W (\<lambda>_. True) (reply_of E W command) (\<lambda>reply _. not_execution reply)"
    by (rule triple_result [OF triple_served [OF forward.reply_of_served quiet.reply_of_served] reply_of_gives])
next
  fix reply
  have "disk_triple E W (\<lambda>_. not_execution reply) (if persists_reply command then persist W else return ())
      (\<lambda>_ _. True)"
    by (intro triple_served forward.always_cases(1) quiet.always_cases(1) forward.persist_served quiet.persist_served
        forward.always_pure(1) quiet.always_pure(1))
  then have "disk_triple E W (\<lambda>_. not_execution reply) (if persists_reply command then persist W else return ())
      (\<lambda>_ _. not_execution reply)"
    unfolding disk_triple_def by blast
  then show "disk_triple E W (\<lambda>_. not_execution reply)
      (and_then (if persists_reply command then persist W else return ()) (\<lambda>_. respond n reply)) (\<lambda>_ _. True)"
    by (rule triple_and_then, intro triple_weaken [OF triple_respond]) (simp_all add: not_execution_def)
qed

lemma triple_query:
  assumes "\<And>v execution. reply v \<noteq> ExecutionReply execution"
  shows "disk_triple E W (\<lambda>_. True) (and_then (runtime_query W q) (\<lambda>v. respond n (Inr (reply v)))) (\<lambda>_ _. True)"
proof (rule triple_and_then)
  show "disk_triple E W (\<lambda>_. True) (runtime_query W q) (\<lambda>_ _. True)"
    by (intro triple_served forward.query_served quiet.query_served)
  show "disk_triple E W (\<lambda>_. True) (respond n (Inr (reply v))) (\<lambda>_ _. True)" for v
    by (rule triple_weaken [OF triple_respond]) (simp_all add: assms)
qed

lemma triple_handle: "disk_triple E W (\<lambda>_. True) (handle_message E W message) (\<lambda>_ _. True)"
  unfolding handle_message_def Let_def server_submit_def server_start_callable_def
  by (cases "cm_command message"; simp only: Command.case)
    ((rule triple_dispatch triple_announce [OF submit_creating] triple_announce [OF start_callable_creating]
      | rule triple_query, simp)+)

section \<open>Starting and restarting\<close>

lemma bind_workspace_inv:
  "bind_workspace workspace s = (Ok u, s') \<Longrightarrow> runtime_inv E s \<Longrightarrow> runtime_inv E s' \<and> rt_journal s' = rt_journal s"
  by (auto simp: bind_workspace_def runtime_inv_def journal_ok_def split: option.splits)

text \<open>What may be found at the state path: no file, or a journal a server left there.\<close>

definition left_behind :: "Externals \<Rightarrow> load_result \<Rightarrow> bool" where
  "left_behind E loaded \<longleftrightarrow> (case loaded of Loaded j \<Rightarrow> recoverable E j | _ \<Rightarrow> True)"

lemma start_runtime_inv:
  assumes "start_runtime E loaded workspace = Ok s" and "left_behind E loaded"
  shows "runtime_inv E s \<and> (\<forall>j. saved_of loaded = Some j \<longrightarrow> rt_journal s = j)"
proof -
  from assms(1) obtain s0 u where bound: "bind_workspace workspace s0 = (Ok u, s)"
    and source: "loaded = NoFile \<and> s0 = runtime_new E \<or> (\<exists>j. loaded = Loaded j \<and> restore E j = Ok s0)"
    by (auto simp: start_runtime_def store_load_def Let_def split: load_result.splits prod.splits outcome.splits option.splits)
  have "runtime_inv E s0 \<and> (\<forall>j. saved_of loaded = Some j \<longrightarrow> rt_journal s0 = j)"
  proof (cases loaded)
    case (Loaded j)
    with assms(2) source recoverable_restores [of E j] show ?thesis
      by (auto simp: left_behind_def saved_of_def)
  qed (use source runtime_new_inv in \<open>auto simp: saved_of_def\<close>)
  with bind_workspace_inv [OF bound, of E] show ?thesis by simp
qed

lemma booted_inv:
  assumes "load_or_new E W loaded workspace = Ok sv" and "admissible E W" and "left_behind E loaded"
  shows "disk_inv E sv"
proof -
  from assms(1) obtain s where start: "start_runtime E loaded workspace = Ok s"
    by (auto simp: load_or_new_def split: outcome.splits)
  define sv0 where "sv0 = (server_new s)\<lparr>sv_store := Some \<lparr>so_saved = saved_of loaded\<rparr>\<rparr>"
  define interrupt where "interrupt = under_lock poisoned_runtime (map_err ServerRuntime (interrupt_non_resumable_executions E))"
  from assms(1) start have "\<exists>u. and_then interrupt (\<lambda>_. persist W) sv0 = (Ok u, sv)"
    by (auto simp: load_or_new_def sv0_def interrupt_def Let_def split: prod.splits outcome.splits)
  then obtain u where run: "and_then interrupt (\<lambda>_. persist W) sv0 = (Ok u, sv)" ..
  then obtain y sv1 where interrupted: "interrupt sv0 = (Ok y, sv1)" and saved: "persist W sv1 = (Ok u, sv)"
    by (rule and_then_OkE)
  have inv0: "server_inv E sv0" and responses0: "responses sv0 = []"
    using start_runtime_inv [OF start assms(3)]
    by (auto simp: server_inv_def sv0_def server_new_def saved_journal_def recoverable_def responses_def)
  have steps: "steps_op E (map_err ServerRuntime (interrupt_non_resumable_executions E))"
    by (intro stepping step_rules)
  have later1: "later E sv0 sv1" and "responses sv1 = []"
    using forwardD [OF forward.under_lock_served [OF steps] assms(2) interrupted [unfolded interrupt_def]]
      quietD [OF quiet.under_lock_served [OF steps] assms(2) interrupted [unfolded interrupt_def]] responses0
    by simp_all
  have inv1: "server_inv E sv1" and "sv_store sv1 \<noteq> None"
    using later_inv [OF later1 inv0] later_store [OF later1 inv0] by (simp_all add: sv0_def)
  then have later2: "later E sv1 sv" and "responses sv = []" and "sv_store sv \<noteq> None"
    using forwardD [OF forward.persist_served assms(2) saved] quietD [OF quiet.persist_served assms(2) saved]
      \<open>responses sv1 = []\<close> later_store [of E sv1 sv] by simp_all
  from \<open>sv_store sv1 \<noteq> None\<close> saved obtain sv2 where "sv = sv2\<lparr>sv_store :=
      map_option (\<lambda>store. store\<lparr>so_saved := Some (rt_journal (sv_runtime sv2))\<rparr>) (sv_store sv2)\<rparr>"
    by (elim persist_Ok)
  with \<open>sv_store sv \<noteq> None\<close> have "saved_journal sv \<noteq> None"
    by (auto simp: saved_after split: option.splits)
  moreover have "announced sv = announced sv0"
    using \<open>responses sv = []\<close> responses0 by (intro announced_responses) simp
  ultimately show ?thesis
    using later_inv [OF later2 inv1] by (simp add: disk_inv_def announced_def sv0_def server_new_def)
qed

text \<open>
  A server over the life of its state file: it starts without one, handles requests, runs jobs,
  lets the other threads run, and after a crash at any of these points starts again from what is on
  disk. Requests and jobs may end in any way.
\<close>

inductive server_run :: "Externals \<Rightarrow> Server \<Rightarrow> bool" for E where
  first_start: "load_or_new E W NoFile workspace = Ok sv \<Longrightarrow> admissible E W \<Longrightarrow> server_run E sv"
| request: "server_run E sv \<Longrightarrow> admissible E W \<Longrightarrow> handle_message E W message sv = (r, sv') \<Longrightarrow> server_run E sv'"
| job: "server_run E sv \<Longrightarrow> admissible E W \<Longrightarrow> run_job E W job sv = (r, sv') \<Longrightarrow> server_run E sv'"
| others: "server_run E sv \<Longrightarrow> admissible E W \<Longrightarrow> server_run E (en_others W n sv)"
| restart: "server_run E sv \<Longrightarrow> admissible E W \<Longrightarrow> saved_journal sv = Some j \<Longrightarrow>
    load_or_new E W (Loaded j) workspace = Ok sv' \<Longrightarrow> server_run E sv'"

lemma server_run_inv: "server_run E sv \<Longrightarrow> disk_inv E sv"
proof (induction rule: server_run.induct)
  case (first_start W workspace sv)
  then show ?case by (intro booted_inv) (auto simp: left_behind_def)
next
  case (request sv W message r sv')
  then show ?case using triple_handle [of E W message] unfolding disk_triple_def by blast
next
  case (job sv W job r sv')
  then show ?case
    using triple_served [OF forward.run_job_served quiet.run_job_served, of E W "\<lambda>_. True" job]
    unfolding disk_triple_def by blast
next
  case (others sv W n)
  then show ?case by (auto simp: admissible_def intro: disk_inv_later)
next
  case (restart sv W j workspace sv')
  then have "left_behind E (Loaded j)" by (simp add: left_behind_def disk_inv_def server_inv_def)
  with restart show ?case by (auto intro: booted_inv)
qed



section \<open>A sample server\<close>

text \<open>No other threads, no backends, and a disk that never fails.\<close>

definition sample_environment :: Environment where
  "sample_environment = \<lparr>en_others = (\<lambda>_ sv. sv), en_save = (\<lambda>_. None), en_backends = bt_empty,
     en_parsers = \<lparr>parse_value = (\<lambda>_. Inl ''unsupported''), parse_start_input = (\<lambda>_. Inl ''unsupported''),
       parse_decision_input = (\<lambda>_. Inl ''unsupported''), parse_skill_load_input = (\<lambda>_. Inl ''unsupported''),
       parse_resource_input = (\<lambda>_. Inl ''unsupported'')\<rparr>,
     en_baseline = None, en_cancel_provider = (\<lambda>_ _. Inr ())\<rparr>"

lemma sample_admissible: "admissible E sample_environment"
  by (simp add: admissible_def sample_environment_def later_same)

theorem worker_admissible_witness:
  "admissible sample_externals (sample_environment\<lparr>en_others := (\<lambda>n sv.
     snd (run_job sample_externals sample_environment
       \<lparr>jb_execution_id = Ident ''execution-1'', jb_session_id = Ident ''session-1'',
        jb_group_id = Ident ''execution-1''\<rparr> sv))\<rparr>)"
  by (rule worker_admissible [OF sample_admissible])

definition sample_messages :: "ClientMessage list" where
  "sample_messages =
     [\<lparr>cm_id = 1, cm_command = CreateSession None None (Fixed (sample_target ''m''))\<rparr>,
      \<lparr>cm_id = 2, cm_command = Submit (Ident ''session-1'') ''hi''\<rparr>]"

definition sample_boot :: "(ServerError, Server) outcome" where
  "sample_boot = load_or_new sample_externals sample_environment NoFile (Ident ''workspace'')"

definition sample_served :: "(ServerError, unit) outcome \<times> Server" where
  "sample_served = (case sample_boot of
     Ok sv \<Rightarrow> for_each (handle_message sample_externals sample_environment) sample_messages sv
   | _ \<Rightarrow> (NoFuel, server_new (runtime_new sample_externals)))"

definition announces :: "ExecutionId \<Rightarrow> ServerMessage \<Rightarrow> bool" where
  "announces x message \<longleftrightarrow>
     (case message of Response _ (ResponseOk (ExecutionReply execution)) \<Rightarrow> x_id execution = x | _ \<Rightarrow> False)"

lemma sample_served_evaluated:
  "case sample_boot of Ok _ \<Rightarrow> list_ex (announces (Ident ''execution-1'')) (sv_output (snd sample_served)) | _ \<Rightarrow> False"
  by code_simp

lemma announcesE:
  assumes "announces x message"
  obtains n execution where "message = Response n (ResponseOk (ExecutionReply execution))" "x_id execution = x"
  using assms by (auto simp: announces_def split: ServerMessage.splits ResponsePayload.splits Reply.splits)

lemma announced_ex:
  assumes "list_ex (announces x) (sv_output sv)"
  shows "x \<in> announced sv"
proof -
  obtain message where "message \<in> set (sv_output sv)" "announces x message"
    using assms by (auto simp: list_ex_iff)
  then show ?thesis by (auto simp: announced_def elim!: announcesE)
qed

lemma requests_run:
  assumes "server_run E sv" and "admissible E W" and "for_each (handle_message E W) messages sv = (r, sv')"
  shows "server_run E sv'"
  using assms(1,3)
proof (induction messages arbitrary: sv)
  case (Cons message messages)
  obtain r1 sv1 where one: "handle_message E W message sv = (r1, sv1)" by force
  with Cons.prems(1) assms(2) have "server_run E sv1" by (blast intro: request)
  with one Cons show ?case by (cases r1) (auto simp: and_then_def)
qed (simp add: return_def)

lemma sample_server_run: "server_run sample_externals (snd sample_served)"
proof -
  obtain sv where sv: "sample_boot = Ok sv"
    using sample_served_evaluated by (auto split: outcome.splits)
  then have "server_run sample_externals sv"
    unfolding sample_boot_def by (rule first_start) (rule sample_admissible)
  then show ?thesis
    using requests_run [OF _ sample_admissible prod.collapse [symmetric], of sample_externals sv sample_messages]
    by (simp add: sample_served_def sv)
qed



lemma sample_snapshot_answered:
  "outcome_value (fst (handle_message sample_externals sample_environment \<lparr>cm_id = 7, cm_command = GetSnapshot\<rparr>
     (server_new (runtime_new sample_externals)))) = Some ()"
  by code_simp

theorem request_answered_once_witness:
  "answered 7 True (server_new (runtime_new sample_externals))
     (snd (handle_message sample_externals sample_environment \<lparr>cm_id = 7, cm_command = GetSnapshot\<rparr>
       (server_new (runtime_new sample_externals))))"
  using request_answered_once [OF sample_admissible prod.collapse [symmetric],
      of "\<lparr>cm_id = 7, cm_command = GetSnapshot\<rparr>" sample_externals "server_new (runtime_new sample_externals)"]
    sample_snapshot_answered
  by (simp add: outcome_value_iff)

end
