(* ===== verification/File_System.thy ===== *)
theory File_System
  imports Context
begin

text \<open>
  The part of \<open>std::fs\<close> and \<open>std::path\<close> that the workspace code uses, on a Unix file system. A file
  system is a map from locations (the names on the way from the root) to nodes. A path is resolved
  the way the kernel does it: component by component, following symbolic links, at most 40 of them.
  Errors that do not follow from the tree, such as missing permissions or a full disk, are given by
  \<open>fs_fault\<close> and \<open>fs_short_write\<close>. No other process changes the tree between two calls of one
  operation.
\<close>

section \<open>Nodes and errors\<close>

type_synonym location = "string list"

text \<open>A special file has a size, and reading it gives some bytes.\<close>

datatype file_node = FileNode string | DirectoryNode | SymlinkNode string | OtherNode nat string

datatype io_error =
    IoNotFound
  | IoNotADirectory
  | IoIsADirectory
  | IoAlreadyExists
  | IoInvalidInput
  | IoLoop
  | IoFault string

datatype io_call = Canonicalize | SymlinkMetadata | ReadFile | WriteFile | ReadDir | ReadLink | CreateDir

record FileSystem =
  fs_nodes :: "(location, file_node) btree_map"
  fs_cwd :: location
  fs_fault :: "io_call \<Rightarrow> PathBuf \<Rightarrow> string option"
  fs_short_write :: "PathBuf \<Rightarrow> (nat \<times> string) option"

type_synonym 'a io = "(FileSystem, io_error, 'a) op"

definition node_at :: "(location, file_node) btree_map \<Rightarrow> location \<Rightarrow> file_node option" where
  "node_at nodes loc = (if loc = [] then Some DirectoryNode else bt_get nodes loc)"

section \<open>Paths\<close>

text \<open>\<open>Path::parent\<close>, \<open>Path::starts_with\<close> and \<open>Path::join\<close> on components.\<close>

definition path_parent :: "PathBuf \<Rightarrow> PathBuf option" where
  "path_parent path = (if path = [] \<or> path = [RootDir] then None else Some (butlast path))"

definition path_starts_with :: "PathBuf \<Rightarrow> PathBuf \<Rightarrow> bool" where
  "path_starts_with path base \<longleftrightarrow> take (length base) path = base"

definition path_is_absolute :: "PathBuf \<Rightarrow> bool" where
  "path_is_absolute path \<longleftrightarrow> take 1 path = [RootDir]"

definition path_join :: "PathBuf \<Rightarrow> PathBuf \<Rightarrow> PathBuf" where
  "path_join base path = (if path_is_absolute path then path else base @ path)"

definition canonical_path :: "location \<Rightarrow> PathBuf" where
  "canonical_path loc = RootDir # map Normal loc"

section \<open>Resolving a path\<close>

text \<open>How the kernel reads the target of a link: a trailing slash asks for a directory, like \<open>/.\<close>.\<close>

definition link_segment :: "string \<Rightarrow> path_component option" where
  "link_segment seg =
     (if seg = [] then None else if seg = ''.'' then Some CurDir
      else if seg = ''..'' then Some ParentDir else Some (Normal seg))"

definition link_components :: "string \<Rightarrow> PathBuf" where
  "link_components target =
     (if take 1 target = ''/'' then [RootDir] else []) @ List.map_filter link_segment (split_slash target) @
     (if target \<noteq> [] \<and> last target = CHR ''/'' then [CurDir] else [])"

record walk_mode =
  follow_last :: bool
  may_create :: bool

definition to_follow :: walk_mode where
  "to_follow = \<lparr>follow_last = True, may_create = False\<rparr>"

definition no_follow :: walk_mode where
  "no_follow = \<lparr>follow_last = False, may_create = False\<rparr>"

definition to_open :: walk_mode where
  "to_open = \<lparr>follow_last = True, may_create = True\<rparr>"

definition to_make :: walk_mode where
  "to_make = \<lparr>follow_last = False, may_create = True\<rparr>"

function walk ::
  "(location, file_node) btree_map \<Rightarrow> walk_mode \<Rightarrow> nat \<Rightarrow> location \<Rightarrow> PathBuf \<Rightarrow> io_error + location" where
  "walk nodes mode links cur [] = Inr cur"
| "walk nodes mode links cur (RootDir # rest) = walk nodes mode links [] rest"
| "walk nodes mode links cur (CurDir # rest) = walk nodes mode links cur rest"
| "walk nodes mode links cur (ParentDir # rest) = walk nodes mode links (butlast cur) rest"
| "walk nodes mode links cur (Normal name # rest) =
     (case bt_get nodes (cur @ [name]) of
        None \<Rightarrow> if rest = [] \<and> may_create mode then Inr (cur @ [name]) else Inl IoNotFound
      | Some DirectoryNode \<Rightarrow> walk nodes mode links (cur @ [name]) rest
      | Some (SymlinkNode target) \<Rightarrow>
          if rest = [] \<and> \<not> follow_last mode then Inr (cur @ [name])
          else if links = 0 then Inl IoLoop
          else if target = [] then Inl IoNotFound
          else walk nodes mode (links - 1) cur (link_components target @ rest)
      | Some _ \<Rightarrow> if rest = [] then Inr (cur @ [name]) else Inl IoNotADirectory)"
  by pat_completeness auto
termination
  by (relation "measures [\<lambda>(_, _, links, _, _). links, \<lambda>(_, _, _, _, path). length path]") auto

definition MAX_LINKS :: nat where
  "MAX_LINKS = 40"

definition resolve_path :: "FileSystem \<Rightarrow> walk_mode \<Rightarrow> PathBuf \<Rightarrow> io_error + location" where
  "resolve_path fs mode path =
     (if path = [] then Inl IoNotFound else walk (fs_nodes fs) mode MAX_LINKS (fs_cwd fs) path)"

section \<open>System calls\<close>

definition check_fault :: "io_call \<Rightarrow> PathBuf \<Rightarrow> unit io" where
  "check_fault call path fs =
     (case fs_fault fs call path of Some error \<Rightarrow> (Err (IoFault error), fs) | None \<Rightarrow> (Ok (), fs))"

definition located :: "io_call \<Rightarrow> walk_mode \<Rightarrow> PathBuf \<Rightarrow> location io" where
  "located call mode path = and_then (check_fault call path) (\<lambda>_. query (\<lambda>fs. resolve_path fs mode path))"

definition io_canonicalize :: "PathBuf \<Rightarrow> PathBuf io" where
  "io_canonicalize path = and_then (located Canonicalize to_follow path) (\<lambda>loc. return (canonical_path loc))"

definition node_of :: "location \<Rightarrow> file_node io" where
  "node_of loc = and_then (gets (\<lambda>fs. node_at (fs_nodes fs) loc)) (\<lambda>node. ok_or node IoNotFound)"

definition io_symlink_metadata :: "PathBuf \<Rightarrow> file_node io" where
  "io_symlink_metadata path = and_then (located SymlinkMetadata no_follow path) node_of"

definition io_read :: "PathBuf \<Rightarrow> string io" where
  "io_read path =
     and_then (located ReadFile to_follow path) (\<lambda>loc.
     and_then (node_of loc) (\<lambda>node.
     case node of
       FileNode bytes \<Rightarrow> return bytes
     | OtherNode _ bytes \<Rightarrow> return bytes
     | _ \<Rightarrow> throw IoIsADirectory))"

definition io_read_link :: "PathBuf \<Rightarrow> string io" where
  "io_read_link path =
     and_then (located ReadLink no_follow path) (\<lambda>loc.
     and_then (node_of loc) (\<lambda>node.
     case node of SymlinkNode target \<Rightarrow> return target | _ \<Rightarrow> throw IoInvalidInput))"

text \<open>The entries of a directory, sorted by name as \<open>sorted_entries\<close> leaves them.\<close>

definition child_names :: "(location, file_node) btree_map \<Rightarrow> location \<Rightarrow> string list" where
  "child_names nodes loc = map last (filter (\<lambda>key. key \<noteq> [] \<and> butlast key = loc) (bt_keys nodes))"

definition io_read_dir :: "PathBuf \<Rightarrow> string list io" where
  "io_read_dir path =
     and_then (located ReadDir to_follow path) (\<lambda>loc.
     and_then (node_of loc) (\<lambda>node.
     if node = DirectoryNode then gets (\<lambda>fs. child_names (fs_nodes fs) loc) else throw IoNotADirectory))"

definition put_node :: "location \<Rightarrow> file_node \<Rightarrow> FileSystem \<Rightarrow> FileSystem" where
  "put_node loc node fs = fs\<lparr>fs_nodes := bt_insert loc node (fs_nodes fs)\<rparr>"

text \<open>\<open>fs::write\<close>: the file is created or truncated, then written. A write that fails in the middle
  leaves what was written before.\<close>

definition io_write :: "PathBuf \<Rightarrow> string \<Rightarrow> unit io" where
  "io_write path bytes =
     and_then (located WriteFile to_open path) (\<lambda>loc.
     and_then (gets (\<lambda>fs. (node_at (fs_nodes fs) loc, fs_short_write fs path))) (\<lambda>(node, short).
     case node of
       Some DirectoryNode \<Rightarrow> throw IoIsADirectory
     | Some (SymlinkNode _) \<Rightarrow> throw IoLoop
     | Some (OtherNode _ _) \<Rightarrow> (case short of Some (_, error) \<Rightarrow> throw (IoFault error) | None \<Rightarrow> return ())
     | _ \<Rightarrow>
         (case short of
            Some (n, error) \<Rightarrow> and_then (modify (put_node loc (FileNode (take n bytes)))) (\<lambda>_. throw (IoFault error))
          | None \<Rightarrow> modify (put_node loc (FileNode bytes)))))"

definition io_create_dir :: "PathBuf \<Rightarrow> unit io" where
  "io_create_dir path =
     and_then (located CreateDir to_make path) (\<lambda>loc.
     and_then (gets (\<lambda>fs. node_at (fs_nodes fs) loc)) (\<lambda>node.
     case node of Some _ \<Rightarrow> throw IoAlreadyExists | None \<Rightarrow> modify (put_node loc DirectoryNode)))"

definition is_directory_at :: "FileSystem \<Rightarrow> PathBuf \<Rightarrow> bool" where
  "is_directory_at fs path =
     (case resolve_path fs to_follow path of Inr loc \<Rightarrow> node_at (fs_nodes fs) loc = Some DirectoryNode | Inl _ \<Rightarrow> False)"

text \<open>\<open>DirBuilder::create_dir_all\<close> tries the directory first, then its parent, then it again. The
  first argument counts the components left.\<close>

definition create_or_exists :: "PathBuf \<Rightarrow> unit io" where
  "create_or_exists path =
     and_then (catch_result (io_create_dir path)) (\<lambda>result.
     case result of
       Inr _ \<Rightarrow> return ()
     | Inl error \<Rightarrow>
         and_then (gets (\<lambda>fs. is_directory_at fs path)) (\<lambda>exists. if exists then return () else throw error))"

fun create_dir_all :: "nat \<Rightarrow> PathBuf \<Rightarrow> unit io" where
  "create_dir_all n path =
     (if path = [] then return ()
      else
       and_then (catch_result (io_create_dir path)) (\<lambda>result.
       case result of
         Inr _ \<Rightarrow> return ()
       | Inl error \<Rightarrow>
           and_then (gets (\<lambda>fs. is_directory_at fs path)) (\<lambda>exists.
           if error \<noteq> IoNotFound then (if exists then return () else throw error)
           else
             (case (n, path_parent path) of
                (Suc m, Some parent) \<Rightarrow> and_then (create_dir_all m parent) (\<lambda>_. create_or_exists path)
              | _ \<Rightarrow> throw (IoFault ''failed to create whole tree'')))))"

declare create_dir_all.simps [simp del]

definition io_create_dir_all :: "PathBuf \<Rightarrow> unit io" where
  "io_create_dir_all path = create_dir_all (length path) path"

end
