(* ===== verification/Workspace_Consistency.thy ===== *)
theory Workspace_Consistency
  imports File_System
begin

text \<open>
  Versioned access to the files of a workspace (\<open>WorkspaceConsistency\<close> in
  \<open>phenix-conductor/src/workspace_consistency.rs\<close>): a read reports the version of what it returned,
  a write of a source file names the version it replaces, and the manifest of all source files is
  compared before the changes of a sandboxed command are applied.
\<close>

unbundle bit_operations_syntax

section \<open>UTF-8\<close>

text \<open>The first character of a byte string, as \<open>str::from_utf8\<close> and \<open>from_utf8_lossy\<close> read it: whether
  it is well formed, and how many bytes it (or the longest broken prefix of it) has.\<close>

definition continuation :: "nat \<Rightarrow> bool" where
  "continuation b \<longleftrightarrow> 128 \<le> b \<and> b \<le> 191"

definition second_byte :: "nat \<Rightarrow> nat \<Rightarrow> bool" where
  "second_byte a b \<longleftrightarrow>
     (if a = 224 then 160 \<le> b \<and> b \<le> 191 else if a = 237 then 128 \<le> b \<and> b \<le> 159
      else if a = 240 then 144 \<le> b \<and> b \<le> 191 else if a = 244 then 128 \<le> b \<and> b \<le> 143 else continuation b)"

fun tail_bytes :: "nat \<Rightarrow> nat list \<Rightarrow> nat" where
  "tail_bytes 0 bs = 0"
| "tail_bytes (Suc n) [] = 0"
| "tail_bytes (Suc n) (b # bs) = (if continuation b then Suc (tail_bytes n bs) else 0)"

definition char_tail :: "nat \<Rightarrow> nat option" where
  "char_tail a =
     (if a < 128 then Some 0 else if 194 \<le> a \<and> a \<le> 223 then Some 1
      else if 224 \<le> a \<and> a \<le> 239 then Some 2 else if 240 \<le> a \<and> a \<le> 244 then Some 3 else None)"

fun utf8_first :: "nat list \<Rightarrow> bool \<times> nat" where
  "utf8_first [] = (True, 1)"
| "utf8_first (a # bs) =
     (case char_tail a of
        None \<Rightarrow> (False, 1)
      | Some 0 \<Rightarrow> (True, 1)
      | Some (Suc n) \<Rightarrow>
          (case bs of
             b # rest \<Rightarrow>
               if second_byte a b
               then (let found = tail_bytes n rest in (found = n, 2 + found))
               else (False, 1)
           | [] \<Rightarrow> (False, 1)))"

lemma utf8_first_pos: "0 < snd (utf8_first bs)"
  by (cases bs) (auto simp: Let_def split: option.split list.split nat.split)

function utf8_chunks :: "string \<Rightarrow> (bool \<times> string) list" where
  "utf8_chunks s =
     (if s = [] then []
      else let (valid, n) = utf8_first (map of_char s) in (valid, take n s) # utf8_chunks (drop n s))"
  by pat_completeness auto
termination
proof (relation "measure length")
  fix s :: string and x valid n
  assume "s \<noteq> []" "x = utf8_first (map of_char s)" "(valid, n) = x"
  moreover from this utf8_first_pos [of "map of_char s"] have "0 < n" by (metis snd_conv)
  ultimately show "(drop n s, s) \<in> measure length" by simp
qed simp

declare utf8_chunks.simps [simp del]

definition is_utf8 :: "string \<Rightarrow> bool" where
  "is_utf8 bytes \<longleftrightarrow> list_all fst (utf8_chunks bytes)"

text \<open>U+FFFD stands for what is not well formed.\<close>

definition replacement_character :: string where
  "replacement_character = [CHR 0xEF, CHR 0xBF, CHR 0xBD]"

definition utf8_lossy :: "string \<Rightarrow> string" where
  "utf8_lossy bytes = concat (map (\<lambda>(valid, part). if valid then part else replacement_character) (utf8_chunks bytes))"

section \<open>Fingerprints\<close>

definition FNV_128_OFFSET :: "128 word" where
  "FNV_128_OFFSET = 0x6c62272e07bb014262b821756295c58d"

definition FNV_128_PRIME :: "128 word" where
  "FNV_128_PRIME = 0x0000000001000000000000000000013b"

definition hex_digit :: "int \<Rightarrow> char" where
  "hex_digit n = (if n < 10 then char_of (48 + n) else char_of (87 + n))"

text \<open>\<open>{:032x}\<close>.\<close>

fun hex_digits :: "nat \<Rightarrow> int \<Rightarrow> string" where
  "hex_digits 0 n = []"
| "hex_digits (Suc k) n = hex_digits k (n div 16) @ [hex_digit (n mod 16)]"

definition fnv1a :: "string \<Rightarrow> 128 word" where
  "fnv1a bytes = foldl (\<lambda>hash byte. (hash XOR of_nat (of_char byte)) * FNV_128_PRIME) FNV_128_OFFSET bytes"

definition content_fingerprint :: "string \<Rightarrow> string" where
  "content_fingerprint bytes = ''fnv1a128:'' @ hex_digits 32 (uint (fnv1a bytes))"

section \<open>The state and its errors\<close>

record WorkspaceConsistency =
  wk_root :: PathBuf
  wk_scratch_paths :: "PathBuf set"

record WorkspaceRead =
  wr_path :: PathBuf
  wr_content :: string
  wr_observation :: "FileObservation option"

datatype WorkspaceConsistencyError =
    InvalidPath PathBuf
  | EscapesWorkspace PathBuf
  | MissingExpectedVersion PathBuf
  | UnsupportedReadTarget PathBuf FileKind
  | UnsupportedWriteTarget PathBuf FileKind
  | UnsupportedScratchRoot PathBuf FileKind
  | NotUtf8 PathBuf
  | VersionConflict WorkspaceConflict
  | WorkspaceIo PathBuf io_error

fun debug_FileKind :: "FileKind \<Rightarrow> string" where
  "debug_FileKind Regular = ''Regular''"
| "debug_FileKind Directory = ''Directory''"
| "debug_FileKind Symlink = ''Symlink''"
| "debug_FileKind Other = ''Other''"

text \<open>\<open>io_text\<close> is what the operating system says of an error.\<close>

fun display_WorkspaceConsistencyError :: "(io_error \<Rightarrow> string) \<Rightarrow> WorkspaceConsistencyError \<Rightarrow> string" where
  "display_WorkspaceConsistencyError io_text (InvalidPath path) =
     ''workspace path must be a non-empty relative path without parent traversal: '' @ display_path path"
| "display_WorkspaceConsistencyError io_text (EscapesWorkspace path) =
     ''workspace path escapes the workspace root: '' @ display_path path"
| "display_WorkspaceConsistencyError io_text (MissingExpectedVersion path) =
     ''source write requires expected_version from a prior read, or state=absent for a new file: '' @ display_path path"
| "display_WorkspaceConsistencyError io_text (UnsupportedReadTarget path kind) =
     ''versioned source read requires a regular file, found '' @ debug_FileKind kind @ '': '' @ display_path path"
| "display_WorkspaceConsistencyError io_text (UnsupportedWriteTarget path kind) =
     ''versioned source write requires a regular file or absent path, found '' @ debug_FileKind kind @ '': '' @ display_path path"
| "display_WorkspaceConsistencyError io_text (UnsupportedScratchRoot path kind) =
     ''workspace scratch root must be a regular file or directory, found '' @ debug_FileKind kind @ '': '' @ display_path path"
| "display_WorkspaceConsistencyError io_text (NotUtf8 path) =
     ''workspace text file is not valid UTF-8: '' @ display_path path"
| "display_WorkspaceConsistencyError io_text (VersionConflict conflict) =
     ''workspace file changed since it was observed: '' @ display_path (wc_path conflict)"
| "display_WorkspaceConsistencyError io_text (WorkspaceIo path source) =
     ''workspace I/O failed for '' @ display_path path @ '': '' @ io_text source"

type_synonym 'a wk = "(FileSystem, WorkspaceConsistencyError, 'a) op"

definition at_path :: "PathBuf \<Rightarrow> 'a io \<Rightarrow> 'a wk" where
  "at_path path m = map_err (WorkspaceIo path) m"

section \<open>Paths inside the workspace\<close>

fun normal_components :: "PathBuf \<Rightarrow> PathBuf option" where
  "normal_components [] = Some []"
| "normal_components (CurDir # rest) = normal_components rest"
| "normal_components (Normal part # rest) = map_option (\<lambda>tail. Normal part # tail) (normal_components rest)"
| "normal_components (ParentDir # rest) = None"
| "normal_components (RootDir # rest) = None"

definition normalize_relative :: "PathBuf \<Rightarrow> WorkspaceConsistencyError + PathBuf" where
  "normalize_relative path =
     (case normal_components path of
        None \<Rightarrow> Inl (InvalidPath path)
      | Some relative \<Rightarrow> if relative = [] then Inl (InvalidPath path) else Inr relative)"

fun lexical_loop :: "PathBuf \<Rightarrow> PathBuf \<Rightarrow> PathBuf option" where
  "lexical_loop normalized [] = Some normalized"
| "lexical_loop normalized (RootDir # rest) = lexical_loop [RootDir] rest"
| "lexical_loop normalized (CurDir # rest) = lexical_loop normalized rest"
| "lexical_loop normalized (Normal part # rest) = lexical_loop (normalized @ [Normal part]) rest"
| "lexical_loop normalized (ParentDir # rest) =
     (case path_parent normalized of None \<Rightarrow> None | Some parent \<Rightarrow> lexical_loop parent rest)"

definition lexical_normalize :: "PathBuf \<Rightarrow> PathBuf option" where
  "lexical_normalize path = lexical_loop [] path"

definition is_repository_metadata :: "PathBuf \<Rightarrow> bool" where
  "is_repository_metadata path \<longleftrightarrow> list_ex (\<lambda>component. component = Normal ''.git'') path"

definition is_scratch :: "WorkspaceConsistency \<Rightarrow> PathBuf \<Rightarrow> bool" where
  "is_scratch self relative \<longleftrightarrow>
     (\<exists>scratch\<in>wk_scratch_paths self. relative = scratch \<or> path_starts_with relative scratch)"

definition ensure_canonical_inside :: "WorkspaceConsistency \<Rightarrow> PathBuf \<Rightarrow> unit wk" where
  "ensure_canonical_inside self path =
     ensure (path = wk_root self \<or> path_starts_with path (wk_root self)) (EscapesWorkspace path)"

function ancestor_loop :: "WorkspaceConsistency \<Rightarrow> PathBuf \<Rightarrow> PathBuf \<Rightarrow> unit wk" where
  "ancestor_loop self target candidate =
     and_then (catch_result (io_canonicalize candidate)) (\<lambda>result.
     case result of
       Inr canonical \<Rightarrow> ensure_canonical_inside self canonical
     | Inl error \<Rightarrow>
         if error = IoNotFound then
           (case path_parent candidate of
              None \<Rightarrow> throw (EscapesWorkspace target)
            | Some parent \<Rightarrow> ancestor_loop self target parent)
         else throw (WorkspaceIo candidate error))"
  by pat_completeness auto
termination
proof (relation "measure (\<lambda>(_, _, candidate). length candidate)")
  fix self :: WorkspaceConsistency and target candidate parent :: PathBuf
  assume "path_parent candidate = Some parent"
  then have "candidate \<noteq> []" "parent = butlast candidate" by (auto simp: path_parent_def split: if_splits)
  then show "((self, target, parent), (self, target, candidate)) \<in> measure (\<lambda>(_, _, candidate). length candidate)"
    by simp
qed simp

declare ancestor_loop.simps [simp del]

definition ensure_ancestor_inside :: "WorkspaceConsistency \<Rightarrow> PathBuf \<Rightarrow> unit wk" where
  "ensure_ancestor_inside self target =
     ancestor_loop self target (case path_parent target of None \<Rightarrow> wk_root self | Some parent \<Rightarrow> parent)"

definition create_parent_directories :: "WorkspaceConsistency \<Rightarrow> PathBuf \<Rightarrow> unit wk" where
  "create_parent_directories self target =
     and_then (ensure_ancestor_inside self target) (\<lambda>_.
     case path_parent target of
       None \<Rightarrow> return ()
     | Some parent \<Rightarrow>
         and_then (at_path parent (io_create_dir_all parent)) (\<lambda>_.
         and_then (at_path parent (io_canonicalize parent)) (\<lambda>canonical.
         ensure_canonical_inside self canonical)))"

definition ensure_snapshot_link_inside :: "WorkspaceConsistency \<Rightarrow> PathBuf \<Rightarrow> PathBuf \<Rightarrow> unit wk" where
  "ensure_snapshot_link_inside self relative link =
     (let candidate =
        (if path_is_absolute link then link
         else path_join (path_join (wk_root self) (case path_parent relative of None \<Rightarrow> [] | Some parent \<Rightarrow> parent)) link) in
      case lexical_normalize candidate of
        None \<Rightarrow> throw (EscapesWorkspace (path_join (wk_root self) relative))
      | Some normalized \<Rightarrow>
          ensure (normalized = wk_root self \<or> path_starts_with normalized (wk_root self)) (EscapesWorkspace normalized))"

section \<open>Versions\<close>

fun node_kind :: "file_node \<Rightarrow> FileKind" where
  "node_kind (FileNode _) = Regular"
| "node_kind DirectoryNode = Directory"
| "node_kind (SymlinkNode _) = Symlink"
| "node_kind (OtherNode _ _) = Other"

text \<open>The size of a special file; the sizes of the other kinds are not used.\<close>

fun node_len :: "file_node \<Rightarrow> nat" where
  "node_len (OtherNode n _) = n"
| "node_len (FileNode bytes) = length bytes"
| "node_len (SymlinkNode target) = length target"
| "node_len DirectoryNode = 0"

definition directory_version :: FileVersion where
  "directory_version = Present (content_fingerprint ''directory'') Directory"

definition regular_version :: "string \<Rightarrow> FileVersion" where
  "regular_version bytes = Present (content_fingerprint bytes) Regular"

definition hash_at :: "WorkspaceConsistency \<Rightarrow> PathBuf \<Rightarrow> file_node \<Rightarrow> string wk" where
  "hash_at self target metadata =
     (case node_kind metadata of
        Regular \<Rightarrow>
          and_then (at_path target (io_canonicalize target)) (\<lambda>canonical.
          and_then (ensure_canonical_inside self canonical) (\<lambda>_.
          and_then (at_path canonical (io_read canonical)) (\<lambda>bytes.
          return (content_fingerprint bytes))))
      | Directory \<Rightarrow> return (content_fingerprint ''directory'')
      | Symlink \<Rightarrow>
          and_then (at_path target (io_read_link target)) (\<lambda>link.
          and_then (at_path target (io_canonicalize target)) (\<lambda>canonical.
          and_then (ensure_canonical_inside self canonical) (\<lambda>_.
          return (content_fingerprint (utf8_lossy link)))))
      | Other \<Rightarrow> return (content_fingerprint (show_nat (node_len metadata))))"

definition version_at :: "WorkspaceConsistency \<Rightarrow> PathBuf \<Rightarrow> FileVersion wk" where
  "version_at self relative =
     (let target = path_join (wk_root self) relative in
      and_then (ensure_ancestor_inside self target) (\<lambda>_.
      and_then (catch_result (io_symlink_metadata target)) (\<lambda>result.
      case result of
        Inl error \<Rightarrow> if error = IoNotFound then return Absent else throw (WorkspaceIo target error)
      | Inr metadata \<Rightarrow>
          and_then (hash_at self target metadata) (\<lambda>hash. return (Present hash (node_kind metadata))))))"

section \<open>Reading and writing\<close>

definition consistency_new :: "WorkspaceDescriptor \<Rightarrow> WorkspaceConsistency wk" where
  "consistency_new descriptor =
     and_then (at_path (wd_root descriptor) (io_canonicalize (wd_root descriptor))) (\<lambda>root.
     return \<lparr>wk_root = root, wk_scratch_paths = wd_scratch_paths descriptor\<rparr>)"

definition check_read_target :: "WorkspaceConsistency \<Rightarrow> PathBuf \<Rightarrow> PathBuf \<Rightarrow> file_node \<Rightarrow> unit wk" where
  "check_read_target self relative target metadata =
     (if node_kind metadata = Symlink then
        and_then (at_path target (io_canonicalize target)) (\<lambda>canonical.
        and_then (ensure_canonical_inside self canonical) (\<lambda>_.
        ensure (is_scratch self relative) (UnsupportedReadTarget relative Symlink)))
      else ensure (node_kind metadata = Regular) (UnsupportedReadTarget relative (node_kind metadata)))"

definition read_utf8 :: "WorkspaceConsistency \<Rightarrow> PathBuf \<Rightarrow> WorkspaceRead wk" where
  "read_utf8 self path =
     and_then (lift_result id (normalize_relative path)) (\<lambda>relative.
     let target = path_join (wk_root self) relative in
     and_then (ensure_ancestor_inside self target) (\<lambda>_.
     and_then (at_path target (io_symlink_metadata target)) (\<lambda>metadata.
     and_then (check_read_target self relative target metadata) (\<lambda>_.
     and_then (at_path target (io_read target)) (\<lambda>bytes.
     and_then (ensure (is_utf8 bytes) (NotUtf8 relative)) (\<lambda>_.
     return \<lparr>wr_path = relative, wr_content = bytes,
       wr_observation = (if is_scratch self relative then None
         else Some \<lparr>fo_path = relative, fo_version = regular_version bytes\<rparr>)\<rparr>))))))"

definition write_scratch :: "WorkspaceConsistency \<Rightarrow> PathBuf \<Rightarrow> string \<Rightarrow> FileObservation option wk" where
  "write_scratch self target content =
     and_then (create_parent_directories self target) (\<lambda>_.
     and_then (at_path target (io_write target content)) (\<lambda>_. return None))"

definition write_source ::
  "WorkspaceConsistency \<Rightarrow> PathBuf \<Rightarrow> PathBuf \<Rightarrow> FileVersion option \<Rightarrow> string \<Rightarrow> FileObservation option wk" where
  "write_source self relative target expected content =
     and_then (ok_or expected (MissingExpectedVersion relative)) (\<lambda>expected.
     and_then (version_at self relative) (\<lambda>actual.
     if actual \<noteq> expected
     then throw (VersionConflict \<lparr>wc_path = relative, wc_expected = expected, wc_actual = actual\<rparr>)
     else
       and_then (case actual of
           Present _ kind \<Rightarrow> ensure (kind = Regular) (UnsupportedWriteTarget relative kind)
         | Absent \<Rightarrow> return ()) (\<lambda>_.
       and_then (create_parent_directories self target) (\<lambda>_.
       and_then (at_path target (io_write target content)) (\<lambda>_.
       return (Some \<lparr>fo_path = relative, fo_version = regular_version content\<rparr>))))))"

definition write_utf8 ::
  "WorkspaceConsistency \<Rightarrow> PathBuf \<Rightarrow> FileVersion option \<Rightarrow> string \<Rightarrow> FileObservation option wk" where
  "write_utf8 self path expected content =
     and_then (lift_result id (normalize_relative path)) (\<lambda>relative.
     let target = path_join (wk_root self) relative in
     and_then (ensure_ancestor_inside self target) (\<lambda>_.
     if is_scratch self relative then write_scratch self target content
     else write_source self relative target expected content))"

section \<open>Manifests\<close>

type_synonym manifest = "(PathBuf, FileVersion) btree_map"

primrec fold_each :: "('a \<Rightarrow> 'b \<Rightarrow> ('s, 'e, 'b) op) \<Rightarrow> 'a list \<Rightarrow> 'b \<Rightarrow> ('s, 'e, 'b) op" where
  "fold_each f [] acc = return acc"
| "fold_each f (x # xs) acc = and_then (f x acc) (fold_each f xs)"

text \<open>One entry of a directory; \<open>collect\<close> is the recursive call.\<close>

definition real_entry ::
  "(PathBuf \<Rightarrow> PathBuf \<Rightarrow> manifest \<Rightarrow> manifest wk) \<Rightarrow> WorkspaceConsistency \<Rightarrow> PathBuf \<Rightarrow> PathBuf \<Rightarrow> manifest \<Rightarrow> manifest wk" where
  "real_entry collect self path relative files =
     (if is_repository_metadata relative \<or> is_scratch self relative then return files
      else
        and_then (at_path path (io_symlink_metadata path)) (\<lambda>metadata.
        if metadata = DirectoryNode then
          and_then (at_path path (io_canonicalize path)) (\<lambda>canonical.
          and_then (ensure_canonical_inside self canonical) (\<lambda>_.
          collect canonical relative (bt_insert relative directory_version files)))
        else
          and_then (version_at self relative) (\<lambda>version.
          return (bt_insert relative version files))))"

text \<open>The recursion goes one directory down each time; its depth is bounded by the depth of the tree.\<close>

primrec collect_real_versions ::
  "nat \<Rightarrow> WorkspaceConsistency \<Rightarrow> PathBuf \<Rightarrow> PathBuf \<Rightarrow> manifest \<Rightarrow> manifest wk" where
  "collect_real_versions 0 self directory relative_directory files = no_fuel"
| "collect_real_versions (Suc n) self directory relative_directory files =
     and_then (at_path directory (io_read_dir directory)) (\<lambda>entries.
     fold_each (\<lambda>name. real_entry (collect_real_versions n self) self
       (directory @ [Normal name]) (relative_directory @ [Normal name])) entries files)"

definition snapshot_version :: "WorkspaceConsistency \<Rightarrow> PathBuf \<Rightarrow> PathBuf \<Rightarrow> file_node \<Rightarrow> FileVersion wk" where
  "snapshot_version self relative path metadata =
     (case node_kind metadata of
        Regular \<Rightarrow> and_then (at_path path (io_read path)) (\<lambda>bytes. return (regular_version bytes))
      | Directory \<Rightarrow> return directory_version
      | Symlink \<Rightarrow>
          and_then (at_path path (io_read_link path)) (\<lambda>target.
          and_then (ensure_snapshot_link_inside self relative (path_components target)) (\<lambda>_.
          return (Present (content_fingerprint (utf8_lossy target)) Symlink)))
      | Other \<Rightarrow> return (Present (content_fingerprint (show_nat (node_len metadata))) Other))"

definition snapshot_entry ::
  "(PathBuf \<Rightarrow> PathBuf \<Rightarrow> manifest \<Rightarrow> manifest wk) \<Rightarrow> WorkspaceConsistency \<Rightarrow> PathBuf \<Rightarrow> PathBuf \<Rightarrow> manifest \<Rightarrow> manifest wk" where
  "snapshot_entry collect self path relative files =
     (if is_repository_metadata relative \<or> is_scratch self relative then return files
      else
        and_then (at_path path (io_symlink_metadata path)) (\<lambda>metadata.
        and_then (snapshot_version self relative path metadata) (\<lambda>version.
        let files = bt_insert relative version files in
        if metadata = DirectoryNode then collect path relative files else return files)))"

primrec collect_snapshot_versions ::
  "nat \<Rightarrow> WorkspaceConsistency \<Rightarrow> PathBuf \<Rightarrow> PathBuf \<Rightarrow> manifest \<Rightarrow> manifest wk" where
  "collect_snapshot_versions 0 self snapshot_directory relative_directory files = no_fuel"
| "collect_snapshot_versions (Suc n) self snapshot_directory relative_directory files =
     and_then (at_path snapshot_directory (io_read_dir snapshot_directory)) (\<lambda>entries.
     fold_each (\<lambda>name. snapshot_entry (collect_snapshot_versions n self) self
       (snapshot_directory @ [Normal name]) (relative_directory @ [Normal name])) entries files)"

definition tree_depth :: "FileSystem \<Rightarrow> nat" where
  "tree_depth fs = foldl max 0 (map length (bt_keys (fs_nodes fs)))"

definition checkpoint_baseline :: "WorkspaceConsistency \<Rightarrow> manifest wk" where
  "checkpoint_baseline self =
     and_then (gets tree_depth) (\<lambda>depth. collect_real_versions (Suc depth) self (wk_root self) [] bt_empty)"

definition snapshot_manifest :: "WorkspaceConsistency \<Rightarrow> PathBuf \<Rightarrow> manifest wk" where
  "snapshot_manifest self snapshot_root =
     and_then (at_path snapshot_root (io_canonicalize snapshot_root)) (\<lambda>snapshot_root.
     and_then (gets tree_depth) (\<lambda>depth. collect_snapshot_versions (Suc depth) self snapshot_root [] bt_empty))"

definition version_in :: "manifest \<Rightarrow> PathBuf \<Rightarrow> FileVersion" where
  "version_in files path = (case bt_get files path of None \<Rightarrow> Absent | Some version \<Rightarrow> version)"

definition compare_manifests :: "manifest \<Rightarrow> manifest \<Rightarrow> WorkspaceConsistencyError + unit" where
  "compare_manifests expected actual =
     (case find (\<lambda>path. version_in expected path \<noteq> version_in actual path)
         (sorted_list_of_set (set (bt_keys expected) \<union> set (bt_keys actual))) of
        None \<Rightarrow> Inr ()
      | Some path \<Rightarrow> Inl (VersionConflict \<lparr>wc_path = path, wc_expected = version_in expected path,
          wc_actual = version_in actual path\<rparr>))"

definition validate_checkpoint_baseline :: "WorkspaceConsistency \<Rightarrow> manifest \<Rightarrow> unit wk" where
  "validate_checkpoint_baseline self expected =
     and_then (checkpoint_baseline self) (\<lambda>actual. lift_result id (compare_manifests expected actual))"

section \<open>Scratch directories\<close>

definition prepare_scratch_target :: "WorkspaceConsistency \<Rightarrow> PathBuf \<Rightarrow> PathBuf \<Rightarrow> unit wk" where
  "prepare_scratch_target self relative target =
     and_then (catch_result (io_symlink_metadata target)) (\<lambda>result.
     case result of
       Inr metadata \<Rightarrow>
         if node_kind metadata = Symlink \<or> node_kind metadata = Other
         then throw (UnsupportedScratchRoot relative (node_kind metadata))
         else if metadata = DirectoryNode then
           and_then (at_path target (io_canonicalize target)) (ensure_canonical_inside self)
         else return ()
     | Inl error \<Rightarrow>
         if error = IoNotFound then
           and_then (at_path target (io_create_dir_all target)) (\<lambda>_.
           and_then (at_path target (io_canonicalize target)) (ensure_canonical_inside self))
         else throw (WorkspaceIo target error))"

definition prepare_scratch_mount ::
  "WorkspaceConsistency \<Rightarrow> PathBuf \<Rightarrow> (PathBuf \<times> PathBuf) list \<Rightarrow> (PathBuf \<times> PathBuf) list wk" where
  "prepare_scratch_mount self scratch mounts =
     and_then (lift_result id (normalize_relative scratch)) (\<lambda>relative.
     if list_ex (\<lambda>(parent, _). path_starts_with relative parent) mounts then return mounts
     else
       let target = path_join (wk_root self) relative in
       and_then (ensure_ancestor_inside self target) (\<lambda>_.
       and_then (prepare_scratch_target self relative target) (\<lambda>_.
       return (mounts @ [(relative, target)]))))"

definition prepare_scratch_mounts :: "WorkspaceConsistency \<Rightarrow> (PathBuf \<times> PathBuf) list wk" where
  "prepare_scratch_mounts self =
     fold_each (prepare_scratch_mount self) (sorted_list_of_set (wk_scratch_paths self)) []"

end
