(* ===== verification/Transaction.thy ===== *)
theory Transaction
  imports Workspace_Consistency Config "HOL-Library.Sublist"
begin

text \<open>
  Sandboxed commands that may change a workspace (\<open>WorkspaceTransaction\<close> in
  \<open>phenix-conductor/src/transaction.rs\<close>). The command runs on an overlay of the
  workspace; its result is applied only when the files of the workspace are still those the
  transaction began with. The programs the code starts (\<open>bwrap\<close>, \<open>bash\<close>, \<open>rsync\<close>) are a parameter:
  running one gives an output, or the reason why it cannot start, and any change of the files, its
  own and those other processes make meanwhile.
\<close>

section \<open>The machine\<close>

record ProcessCommand =
  cmd_program :: string
  cmd_args :: "string list"
  cmd_dir :: "PathBuf option"

text \<open>\<open>std::process::Output\<close>; a process ended by a signal has no code.\<close>

record Output =
  out_code :: "int option"
  out_stdout :: string
  out_stderr :: string

text \<open>The environment, the process id, the clock when the transaction with a number gets its name,
  the text of an I/O error, programs, and the files that are left when a directory cannot be
  removed completely.\<close>

record Machine =
  mc_env :: "string \<Rightarrow> string option"
  mc_pid :: nat
  mc_nanos :: "64 word \<Rightarrow> nat"
  mc_io_text :: "io_error \<Rightarrow> string"
  mc_run :: "ProcessCommand \<Rightarrow> FileSystem \<Rightarrow> (io_error + Output) \<times> FileSystem"
  mc_kept :: "PathBuf \<Rightarrow> location \<Rightarrow> bool"

record Host =
  host_fs :: FileSystem
  host_next_transaction :: "64 word"

type_synonym ('e, 'a) on_host = "(Host, 'e, 'a) op"

definition with_fs :: "(FileSystem, 'e, 'a) op \<Rightarrow> ('e, 'a) on_host" where
  "with_fs m h = (case m (host_fs h) of (result, fs) \<Rightarrow> (result, h\<lparr>host_fs := fs\<rparr>))"

definition var_or :: "Machine \<Rightarrow> string \<Rightarrow> string \<Rightarrow> string" where
  "var_or M name fallback = (case mc_env M name of None \<Rightarrow> fallback | Some value \<Rightarrow> value)"

definition run_command :: "Machine \<Rightarrow> ProcessCommand \<Rightarrow> (io_error, Output) on_host" where
  "run_command M command h =
     (case mc_run M command (host_fs h) of
        (Inl error, fs) \<Rightarrow> (Err error, h\<lparr>host_fs := fs\<rparr>)
      | (Inr output, fs) \<Rightarrow> (Ok output, h\<lparr>host_fs := fs\<rparr>))"

definition exit_code_or :: "Output \<Rightarrow> int" where
  "exit_code_or output = (case out_code output of None \<Rightarrow> - 1 | Some code \<Rightarrow> code)"

definition status_success :: "Output \<Rightarrow> bool" where
  "status_success output \<longleftrightarrow> out_code output = Some 0"

text \<open>\<open>fs::read_to_string\<close>.\<close>

definition io_read_to_string :: "PathBuf \<Rightarrow> string io" where
  "io_read_to_string path =
     and_then (io_read path) (\<lambda>bytes.
     if is_utf8 bytes then return bytes else throw (IoFault ''stream did not contain valid UTF-8''))"

text \<open>\<open>fs::remove_dir_all\<close>, whose errors are ignored. Links are removed, not followed. What cannot
  be removed stays, with the directories it is in.\<close>

definition remove_below :: "(location \<Rightarrow> bool) \<Rightarrow> location \<Rightarrow> FileSystem \<Rightarrow> FileSystem" where
  "remove_below kept loc fs =
     fs\<lparr>fs_nodes := fold bt_remove
       (filter (\<lambda>key. prefix loc key \<and> \<not> list_ex (\<lambda>other. prefix key other \<and> kept other) (bt_keys (fs_nodes fs)))
         (bt_keys (fs_nodes fs))) (fs_nodes fs)\<rparr>"

definition remove_dir_all :: "(location \<Rightarrow> bool) \<Rightarrow> PathBuf \<Rightarrow> FileSystem \<Rightarrow> FileSystem" where
  "remove_dir_all kept path fs =
     (case resolve_path fs no_follow path of
        Inl _ \<Rightarrow> fs
      | Inr loc \<Rightarrow>
          (case node_at (fs_nodes fs) loc of
             Some DirectoryNode \<Rightarrow> remove_below kept loc fs
           | Some (SymlinkNode _) \<Rightarrow> remove_below kept loc fs
           | _ \<Rightarrow> fs))"

section \<open>Scripts\<close>

definition lines_of :: "string list \<Rightarrow> string" where
  "lines_of ls = concat (map (\<lambda>line. line @ [CHR 0x0A]) ls)"

definition BACKSLASH :: string where
  "BACKSLASH = [CHR 0x5C]"

text \<open>The loop both scripts share: every other process of the sandbox is killed until none is left.\<close>

definition KILL_LOOP :: "string list" where
  \<open>KILL_LOOP =
    [''while :; do'',
     ''  descendants=0'',
     ''  for process in /proc/[0-9]*; do'',
     ''    pid=${process##*/}'',
     ''    case "$pid" in'',
     ''      1|"$$") continue ;;'',
     ''    esac'',
     ''    descendants=1'',
     ''    kill -KILL "$pid" 2>/dev/null || true'',
     ''  done'',
     ''  [ "$descendants" -eq 0 ] && break'',
     ''done'']\<close>

definition COMMAND_SCRIPT :: string where
  \<open>COMMAND_SCRIPT = lines_of (
    [[], ''bash_path=$1'',
     ''rsync_path=$2'',
     ''rm_path=$3'',
     ''mkdir_path=$4'',
     ''workspace=$5'',
     ''exclude_rules=$6'',
     ''user_command=$7'',
     [],
     ''command_status=0'',
     ''"$bash_path" -c "$user_command" </dev/null || command_status=$?'',
     []] @ KILL_LOOP @
    [[],
     ''git_dir="$workspace/.git"'',
     ''snapshot="$workspace/.git/phenix-transaction/snapshot"'',
     ''excludes="$workspace/.git/phenix-transaction/excludes"'',
     ''result_status="$workspace/.git/phenix-transaction/result-status"'',
     [],
     ''"$rm_path" -rf -- "$git_dir" || exit $?'',
     ''"$mkdir_path" -p -- "$snapshot" || exit $?'',
     ''printf '%s' "$exclude_rules" > "$excludes" || exit $?'',
     [],
     ''"$rsync_path" '' @ BACKSLASH,
     ''  -rlpt '' @ BACKSLASH,
     ''  --delete '' @ BACKSLASH,
     ''  --delete-delay '' @ BACKSLASH,
     ''  --delay-updates '' @ BACKSLASH,
     ''  --quiet '' @ BACKSLASH,
     ''  --exclude-from "$excludes" '' @ BACKSLASH,
     ''  "$workspace/." '' @ BACKSLASH,
     ''  "$snapshot/." || { snapshot_status=$?; exit "$snapshot_status"; }'',
     [],
     ''printf '%s'' @ BACKSLASH @ ''n' "$command_status" > "$result_status"''])\<close>

definition SANDBOX_SNAPSHOT_RELATIVE :: string where
  "SANDBOX_SNAPSHOT_RELATIVE = ''.git/phenix-transaction/snapshot''"

definition SANDBOX_RESULT_STATUS_RELATIVE :: string where
  "SANDBOX_RESULT_STATUS_RELATIVE = ''.git/phenix-transaction/result-status''"

section \<open>State and errors\<close>

record TransactionOutput =
  to_exit_code :: int
  to_stdout :: string
  to_stderr :: string

record TransactionPaths =
  tp_root :: PathBuf
  tp_upper :: PathBuf
  tp_command_work :: PathBuf
  tp_excludes :: PathBuf

record WorkspaceTransaction =
  tx_consistency :: WorkspaceConsistency
  tx_baseline :: manifest
  tx_scratch_mounts :: "(PathBuf \<times> PathBuf) list"
  tx_paths :: TransactionPaths
  tx_rsync :: string

datatype TransactionError =
    TransactionWorkspace WorkspaceConsistencyError
  | TempInsideWorkspace PathBuf
  | CreateTempExhausted PathBuf
  | InvalidSandboxStatus PathBuf string
  | TransactionSpawn string io_error
  | SandboxFailed int string
  | ApplyFailed int string
  | TransactionIo PathBuf io_error

definition show_int :: "int \<Rightarrow> string" where
  "show_int n = (if n < 0 then CHR ''-'' # show_nat (nat (- n)) else show_nat (nat n))"

fun display_TransactionError :: "Externals \<Rightarrow> Machine \<Rightarrow> TransactionError \<Rightarrow> string" where
  "display_TransactionError E M (TransactionWorkspace error) = display_WorkspaceConsistencyError (mc_io_text M) error"
| "display_TransactionError E M (TempInsideWorkspace path) =
     ''workspace transaction temporary directory must be outside the workspace: '' @ display_path path"
| "display_TransactionError E M (CreateTempExhausted path) =
     ''failed to allocate a workspace transaction directory below '' @ display_path path"
| "display_TransactionError E M (InvalidSandboxStatus path value) =
     ''invalid Bubblewrap sandbox status in '' @ display_path path @ '': '' @ debug_str E value"
| "display_TransactionError E M (TransactionSpawn program source) =
     ''failed to execute '' @ utf8_lossy program @ '': '' @ mc_io_text M source"
| "display_TransactionError E M (SandboxFailed exit_code stderr) =
     ''workspace sandbox failed with exit code '' @ show_int exit_code @ '': '' @ trim stderr"
| "display_TransactionError E M (ApplyFailed exit_code stderr) =
     ''workspace transaction apply failed with exit code '' @ show_int exit_code @ '': '' @ trim stderr"
| "display_TransactionError E M (TransactionIo path source) =
     ''workspace transaction I/O failed for '' @ display_path path @ '': '' @ mc_io_text M source"

definition in_workspace :: "'a wk \<Rightarrow> (TransactionError, 'a) on_host" where
  "in_workspace m = map_err TransactionWorkspace (with_fs m)"

definition io_at :: "PathBuf \<Rightarrow> 'a io \<Rightarrow> (TransactionError, 'a) on_host" where
  "io_at path m = map_err (TransactionIo path) (with_fs m)"

section \<open>The directories of a transaction\<close>

definition temp_dir :: "Machine \<Rightarrow> PathBuf" where
  "temp_dir M = path_components (var_or M ''TMPDIR'' ''/tmp'')"

text \<open>\<open>fetch_add\<close> wraps around.\<close>

definition next_transaction_id :: "('e, 64 word) on_host" where
  "next_transaction_id h =
     (Ok (host_next_transaction h), h\<lparr>host_next_transaction := host_next_transaction h + 1\<rparr>)"

definition transaction_root :: "Machine \<Rightarrow> PathBuf \<Rightarrow> 64 word \<Rightarrow> PathBuf" where
  "transaction_root M canonical_parent sequence =
     path_join canonical_parent (path_components
       (''phenix-workspace-transaction-'' @ show_nat (mc_pid M) @ ''-'' @ show_nat (mc_nanos M sequence) @ ''-'' @
        show_nat (unat sequence)))"

definition paths_at :: "PathBuf \<Rightarrow> TransactionPaths" where
  "paths_at root =
     \<lparr>tp_root = root, tp_upper = path_join root [Normal ''upper''],
      tp_command_work = path_join root [Normal ''command-work''], tp_excludes = path_join root [Normal ''excludes'']\<rparr>"

primrec create_attempts :: "nat \<Rightarrow> Machine \<Rightarrow> PathBuf \<Rightarrow> (TransactionError, TransactionPaths) on_host" where
  "create_attempts 0 M canonical_parent = throw (CreateTempExhausted canonical_parent)"
| "create_attempts (Suc n) M canonical_parent =
     and_then next_transaction_id (\<lambda>sequence.
     let root = transaction_root M canonical_parent sequence; paths = paths_at root in
     and_then (catch_result (with_fs (io_create_dir root))) (\<lambda>result.
     case result of
       Inr _ \<Rightarrow>
         and_then (for_each (\<lambda>path. io_at path (io_create_dir path)) [tp_upper paths, tp_command_work paths])
           (\<lambda>_. return paths)
     | Inl source \<Rightarrow>
         if source = IoAlreadyExists then create_attempts n M canonical_parent
         else throw (TransactionIo root source)))"

definition paths_create :: "Machine \<Rightarrow> PathBuf \<Rightarrow> (TransactionError, TransactionPaths) on_host" where
  "paths_create M workspace =
     and_then (io_at (temp_dir M) (io_canonicalize (temp_dir M))) (\<lambda>canonical_parent.
     if canonical_parent = workspace \<or> path_starts_with canonical_parent workspace
     then throw (TempInsideWorkspace canonical_parent)
     else create_attempts 32 M canonical_parent)"

definition snapshot_path :: "TransactionPaths \<Rightarrow> PathBuf" where
  "snapshot_path self = path_join (tp_upper self) (path_components SANDBOX_SNAPSHOT_RELATIVE)"

definition result_status_path :: "TransactionPaths \<Rightarrow> PathBuf" where
  "result_status_path self = path_join (tp_upper self) (path_components SANDBOX_RESULT_STATUS_RELATIVE)"

definition exclude_rules :: "(PathBuf \<times> PathBuf) list \<Rightarrow> string" where
  "exclude_rules scratch_mounts = lines_of (''.git'' # concat (map (\<lambda>(relative, _).
     let pattern = utf8_lossy (display_path relative) in [''/'' @ pattern, ''/'' @ pattern @ ''/***'']) scratch_mounts))"

definition write_excludes :: "TransactionPaths \<Rightarrow> (PathBuf \<times> PathBuf) list \<Rightarrow> (TransactionError, unit) on_host" where
  "write_excludes self scratch_mounts = io_at (tp_excludes self) (io_write (tp_excludes self) (exclude_rules scratch_mounts))"

text \<open>Dropping the paths removes their directory.\<close>

definition drop_paths :: "Machine \<Rightarrow> TransactionPaths \<Rightarrow> Host \<Rightarrow> Host" where
  "drop_paths M self h = h\<lparr>host_fs := remove_dir_all (mc_kept M (tp_root self)) (tp_root self) (host_fs h)\<rparr>"

section \<open>Begin, execute, commit\<close>

text \<open>When the rules cannot be written the paths are dropped.\<close>

definition transaction_begin :: "Machine \<Rightarrow> WorkspaceConsistency \<Rightarrow> (TransactionError, WorkspaceTransaction) on_host" where
  "transaction_begin M consistency =
     and_then (in_workspace (prepare_scratch_mounts consistency)) (\<lambda>scratch_mounts.
     and_then (in_workspace (checkpoint_baseline consistency)) (\<lambda>baseline.
     and_then (paths_create M (wk_root consistency)) (\<lambda>paths.
     and_then (catch_result (write_excludes paths scratch_mounts)) (\<lambda>result.
     case result of
       Inl error \<Rightarrow> and_then (modify (drop_paths M paths)) (\<lambda>_. throw error)
     | Inr _ \<Rightarrow>
         return \<lparr>tx_consistency = consistency, tx_baseline = baseline, tx_scratch_mounts = scratch_mounts,
           tx_paths = paths, tx_rsync = var_or M ''PHENIX_RSYNC'' ''rsync''\<rparr>))))"

definition bind_args :: "(PathBuf \<times> PathBuf) list \<Rightarrow> string list" where
  "bind_args scratch_mounts = concat (map (\<lambda>(_, absolute). [''--bind'', display_path absolute, display_path absolute]) scratch_mounts)"

definition sandbox_args :: "WorkspaceTransaction \<Rightarrow> PathBuf \<Rightarrow> string list" where
  "sandbox_args self work =
     (let root = display_path (wk_root (tx_consistency self)) in
      [''--die-with-parent'', ''--unshare-pid'', ''--ro-bind'', ''/'', ''/'', ''--dev-bind'', ''/dev'', ''/dev'',
       ''--proc'', ''/proc'', ''--tmpfs'', ''/tmp'', ''--overlay-src'', root,
       ''--overlay'', display_path (tp_upper (tx_paths self)), display_path work, root] @
      bind_args (tx_scratch_mounts self) @ [''--chdir'', root, ''--setenv'', ''TMPDIR'', ''/tmp''])"

text \<open>\<open>str::parse::<i32>\<close>.\<close>

definition all_digits :: "string \<Rightarrow> bool" where
  "all_digits s \<longleftrightarrow> s \<noteq> [] \<and> list_all (\<lambda>c. c \<in> set ''0123456789'') s"

definition parse_i32 :: "string \<Rightarrow> int option" where
  "parse_i32 s =
     (let (negative, digits) = (case s of
            c # rest \<Rightarrow> if c = CHR ''-'' then (True, rest) else if c = CHR ''+'' then (False, rest) else (False, s)
          | [] \<Rightarrow> (False, []));
          value = (if negative then - int (read_nat digits) else int (read_nat digits)) in
      if all_digits digits \<and> - 2147483648 \<le> value \<and> value \<le> 2147483647 then Some value else None)"

definition parse_status :: "PathBuf \<Rightarrow> string \<Rightarrow> TransactionError + int" where
  "parse_status result_status status =
     (case parse_i32 (trim status) of
        Some code \<Rightarrow> if 0 \<le> code \<and> code \<le> 255 then Inr code else Inl (InvalidSandboxStatus result_status status)
      | None \<Rightarrow> Inl (InvalidSandboxStatus result_status status))"

definition transaction_execute ::
  "Machine \<Rightarrow> WorkspaceTransaction \<Rightarrow> string \<Rightarrow> string \<Rightarrow> (TransactionError, TransactionOutput) on_host" where
  "transaction_execute M self bash command =
     (let bwrap = var_or M ''PHENIX_BWRAP'' ''bwrap''; rm = var_or M ''PHENIX_RM'' ''rm'';
          mkdir = var_or M ''PHENIX_MKDIR'' ''mkdir''; excludes = tp_excludes (tx_paths self);
          result_status = result_status_path (tx_paths self) in
      and_then (io_at excludes (io_read_to_string excludes)) (\<lambda>exclude_rules.
      and_then (map_err (TransactionSpawn bwrap) (run_command M
        \<lparr>cmd_program = bwrap,
         cmd_args = sandbox_args self (tp_command_work (tx_paths self)) @
           [''--'', bash, ''-c'', COMMAND_SCRIPT, ''phenix-transaction'', bash, tx_rsync self, rm, mkdir,
            display_path (wk_root (tx_consistency self)), exclude_rules, command],
         cmd_dir = None\<rparr>)) (\<lambda>output.
      if \<not> status_success output
      then throw (SandboxFailed (exit_code_or output) (utf8_lossy (out_stderr output)))
      else
        and_then (io_at result_status (io_read_to_string result_status)) (\<lambda>status.
        and_then (lift_result id (parse_status result_status status)) (\<lambda>exit_code.
        return \<lparr>to_exit_code = exit_code, to_stdout = out_stdout output, to_stderr = out_stderr output\<rparr>)))))"

definition apply_command :: "WorkspaceTransaction \<Rightarrow> ProcessCommand" where
  "apply_command self =
     \<lparr>cmd_program = tx_rsync self,
      cmd_args = [''-rlpt'', ''--checksum'', ''--delete'', ''--delete-delay'', ''--delay-updates'', ''--quiet'',
        ''--exclude-from'', display_path (tp_excludes (tx_paths self)),
        display_path (path_join (snapshot_path (tx_paths self)) [CurDir]),
        display_path (wk_root (tx_consistency self))],
      cmd_dir = None\<rparr>"

definition transaction_commit :: "Machine \<Rightarrow> WorkspaceTransaction \<Rightarrow> (TransactionError, unit) on_host" where
  "transaction_commit M self =
     and_then (in_workspace (snapshot_manifest (tx_consistency self) (snapshot_path (tx_paths self)))) (\<lambda>files.
     and_then (in_workspace (validate_checkpoint_baseline (tx_consistency self) (tx_baseline self))) (\<lambda>_.
     and_then (map_err (TransactionSpawn (tx_rsync self)) (run_command M (apply_command self))) (\<lambda>output.
     if \<not> status_success output
     then throw (ApplyFailed (exit_code_or output) (utf8_lossy (out_stderr output)))
     else in_workspace (validate_checkpoint_baseline (tx_consistency self) files))))"

end
