(* ===== verification/Text_Functions.thy ===== *)
theory Text_Functions
  imports Prelude
begin

text \<open>
  The methods of \<open>str\<close> that the workspace tools, the built-in backend and the readers of skills and of
  \<open>.gitignore\<close> call, on the bytes of a text: lines, matches of a pattern, replacement, splitting and
  trimming.
\<close>

section \<open>Lines and matches\<close>

definition newline :: char where
  "newline = CHR 0x0A"

definition carriage_return :: char where
  "carriage_return = CHR 0x0D"

text \<open>\<open>str::lines\<close>: pieces that end with a newline, without it and without a carriage return before it.\<close>

fun split_inclusive :: "string \<Rightarrow> string list" where
  "split_inclusive [] = []"
| "split_inclusive (c # cs) =
     (if c = newline then [c] # split_inclusive cs
      else (case split_inclusive cs of [] \<Rightarrow> [[c]] | piece # pieces \<Rightarrow> (c # piece) # pieces))"

definition strip_last :: "char \<Rightarrow> string \<Rightarrow> string option" where
  "strip_last c s = (if s \<noteq> [] \<and> last s = c then Some (butlast s) else None)"

definition line_text :: "string \<Rightarrow> string" where
  "line_text piece =
     (case strip_last newline piece of
        None \<Rightarrow> piece
      | Some line \<Rightarrow> (case strip_last carriage_return line of None \<Rightarrow> line | Some stripped \<Rightarrow> stripped))"

definition text_lines :: "string \<Rightarrow> string list" where
  "text_lines s = map line_text (split_inclusive s)"

fun join_with :: "string \<Rightarrow> string list \<Rightarrow> string" where
  "join_with sep [] = []"
| "join_with sep [s] = s"
| "join_with sep (s # ss) = s @ sep @ join_with sep ss"

text \<open>The first match of a text: what is before and what is after it.\<close>

fun first_match :: "string \<Rightarrow> string \<Rightarrow> (string \<times> string) option" where
  "first_match pat [] = (if pat = [] then Some ([], []) else None)"
| "first_match pat (c # cs) =
     (if take (length pat) (c # cs) = pat then Some ([], drop (length pat) (c # cs))
      else map_option (\<lambda>(before, after). (c # before, after)) (first_match pat cs))"

lemma first_match_split: "first_match pat s = Some (before, after) \<Longrightarrow> s = before @ pat @ after"
proof (induction s arbitrary: before)
  case (Cons c cs)
  show ?case
  proof (cases "take (length pat) (c # cs) = pat")
    case True
    with Cons.prems have "before = []" "after = drop (length pat) (c # cs)" by auto
    with True show ?thesis by (metis append_Nil append_take_drop_id)
  qed (use Cons in \<open>auto split: if_splits\<close>)
qed (auto split: if_splits)

text \<open>\<open>match_indices\<close> and \<open>replace\<close> look for the next match behind the last one. The pattern is not
  empty where they are called.\<close>

function split_matches :: "string \<Rightarrow> string \<Rightarrow> string list" where
  "split_matches pat s =
     (if pat = [] then [s]
      else case first_match pat s of None \<Rightarrow> [s] | Some (before, after) \<Rightarrow> before # split_matches pat after)"
  by pat_completeness auto
termination
proof (relation "measure (\<lambda>(_, s). length s)")
  fix pat s :: string and x before after
  assume "pat \<noteq> []" "first_match pat s = Some x" "(before, after) = x"
  then have "s = before @ pat @ after" using first_match_split by metis
  with \<open>pat \<noteq> []\<close> show "((pat, after), pat, s) \<in> measure (\<lambda>(_, s). length s)" by simp
qed simp

declare split_matches.simps [simp del]

definition match_count :: "string \<Rightarrow> string \<Rightarrow> nat" where
  "match_count pat s = length (split_matches pat s) - 1"

definition replace_text :: "string \<Rightarrow> string \<Rightarrow> string \<Rightarrow> string" where
  "replace_text pat new s = join_with new (split_matches pat s)"

text \<open>\<open>replacen\<close> with the count 1.\<close>

definition replace_first :: "string \<Rightarrow> string \<Rightarrow> string \<Rightarrow> string" where
  "replace_first pat new s =
     (case first_match pat s of None \<Rightarrow> s | Some (before, after) \<Rightarrow> before @ new @ after)"

section \<open>Splitting\<close>

fun split_once :: "char \<Rightarrow> string \<Rightarrow> (string \<times> string) option" where
  "split_once sep [] = None"
| "split_once sep (c # cs) =
     (if c = sep then Some ([], cs) else map_option (\<lambda>(before, after). (c # before, after)) (split_once sep cs))"

definition split_any :: "char set \<Rightarrow> string \<Rightarrow> string list" where
  "split_any seps s = foldr (\<lambda>c parts. if c \<in> seps then [] # parts else (c # hd parts) # tl parts) s [[]]"

lemma split_once_join: "split_once sep s = Some (before, after) \<Longrightarrow> s = before @ sep # after"
  by (induction s arbitrary: before) (auto split: if_splits)

text \<open>\<open>split(',')\<close> and \<open>split(':')\<close> are \<open>split_any\<close> of one character. \<open>split_whitespace\<close> drops the empty
  pieces between white-space characters.\<close>

lemma split_space_shorter: "split_space s = (before, Some rest) \<Longrightarrow> length rest < length s"
proof (induction s arbitrary: before rest rule: split_space.induct)
  case (2 c cs)
  then show ?case
    by (cases "space_len (c # cs)") (auto split: prod.splits if_splits intro: less_SucI)
qed simp

function space_pieces :: "string \<Rightarrow> string list" where
  "space_pieces s =
     (case split_space s of
        (before, None) \<Rightarrow> [before]
      | (before, Some rest) \<Rightarrow> before # space_pieces rest)"
  by pat_completeness auto
termination
  by (relation "measure length") (auto dest: split_space_shorter [OF sym])

declare space_pieces.simps [simp del]

definition split_whitespace :: "string \<Rightarrow> string list" where
  "split_whitespace s = filter (\<lambda>piece. piece \<noteq> []) (space_pieces s)"

section \<open>Ends of a text\<close>

definition starts_with_char :: "char \<Rightarrow> string \<Rightarrow> bool" where
  "starts_with_char c s \<longleftrightarrow> take 1 s = [c]"

definition ends_with_char :: "char \<Rightarrow> string \<Rightarrow> bool" where
  "ends_with_char c s \<longleftrightarrow> s \<noteq> [] \<and> last s = c"

text \<open>\<open>trim_start_matches(c)\<close> and \<open>trim_end_matches(c)\<close>.\<close>

definition trim_start_char :: "char \<Rightarrow> string \<Rightarrow> string" where
  "trim_start_char c s = dropWhile (\<lambda>x. x = c) s"

definition trim_end_char :: "char \<Rightarrow> string \<Rightarrow> string" where
  "trim_end_char c s = rev (dropWhile (\<lambda>x. x = c) (rev s))"

text \<open>\<open>&value[1..value.len() - 1]\<close>.\<close>

definition inner_text :: "string \<Rightarrow> string" where
  "inner_text s = butlast (drop 1 s)"

definition ascii_lower :: "string \<Rightarrow> string" where
  "ascii_lower s =
     map (\<lambda>c. let b = of_char c :: nat in if 65 \<le> b \<and> b \<le> 90 then char_of (b + 32) else c) s"

end
