(* ===== verification/Workspace_Tools.thy ===== *)
theory Workspace_Tools
  imports Transaction Semantic_Tools Text_Functions
begin

text \<open>
  The tools every workspace offers (\<open>phenix-conductor/src/workspace_tools.rs\<close>): \<open>bash\<close>, \<open>read\<close>,
  \<open>write\<close>, \<open>edit\<close> and \<open>grep\<close>, their descriptors and their registration. The deserialisers serde
  derives for the arguments are parameters (\<open>InputParsers\<close>), the programs that are started are those
  of \<open>Machine\<close>. A registered handler is a closure over the workspace; registering takes the five
  closures as a parameter, and what they do is \<open>execute_bash\<close> to \<open>execute_grep\<close>.
\<close>

section \<open>Arguments\<close>

record BashInput =
  bi_command :: string

record ReadInput =
  ri_path :: string
  ri_offset :: "nat option"
  ri_limit :: "nat option"

record WriteInput =
  wi_path :: string
  wi_content :: string
  wi_expected_version :: "FileVersion option"

record EditInput =
  ei_path :: string
  ei_old_text :: string
  ei_new_text :: string
  ei_replace_all :: "bool option"
  ei_expected_version :: "FileVersion option"

record GrepInput =
  gi_pattern :: string
  gi_path :: "string option"
  gi_case_sensitive :: "bool option"

record InputParsers =
  parse_bash_input :: "string \<Rightarrow> string + BashInput"
  parse_read_input :: "string \<Rightarrow> string + ReadInput"
  parse_write_input :: "string \<Rightarrow> string + WriteInput"
  parse_edit_input :: "string \<Rightarrow> string + EditInput"
  parse_grep_input :: "string \<Rightarrow> string + GrepInput"

definition or_default :: "'a option \<Rightarrow> 'a \<Rightarrow> 'a" where
  "or_default value fallback = (case value of None \<Rightarrow> fallback | Some x \<Rightarrow> x)"

section \<open>Constants\<close>

definition MAX_CAPTURE_BYTES :: int where
  "MAX_CAPTURE_BYTES = 1024 * 1024"

definition DEFAULT_READ_LINES :: nat where
  "DEFAULT_READ_LINES = 400"

definition MAX_READ_LINES :: nat where
  "MAX_READ_LINES = 2000"

definition READ_ONLY_BASH_SCRIPT :: string where
  \<open>READ_ONLY_BASH_SCRIPT = lines_of (
    [[], ''bash_path=$1'',
     ''user_command=$2'',
     [],
     ''command_status=0'',
     ''"$bash_path" -c "$user_command" </dev/null || command_status=$?'',
     []] @ KILL_LOOP @
    [[],
     ''exit "$command_status"''])\<close>

section \<open>Outputs\<close>

fun json_FileKind :: "FileKind \<Rightarrow> Json" where
  "json_FileKind Regular = JString ''regular''"
| "json_FileKind Directory = JString ''directory''"
| "json_FileKind Symlink = JString ''symlink''"
| "json_FileKind Other = JString ''other''"

fun json_FileVersion :: "FileVersion \<Rightarrow> Json" where
  "json_FileVersion Absent = JObject [(''state'', JString ''absent'')]"
| "json_FileVersion (Present hash kind) = JObject
     [(''state'', JString ''present''), (''content_hash'', JString hash), (''kind'', json_FileKind kind)]"

definition json_nat :: "nat \<Rightarrow> Json" where
  "json_nat n = JNumber (show_nat n)"

definition capture :: "string \<Rightarrow> string" where
  "capture bytes =
     (if int (length bytes) \<le> MAX_CAPTURE_BYTES then utf8_lossy bytes
      else utf8_lossy (take (nat MAX_CAPTURE_BYTES) bytes) @
        [newline] @ ''[Phenix truncated command output after 1048576 bytes]'')"

section \<open>Bash\<close>

definition execute_read_only_bash ::
  "Machine \<Rightarrow> WorkspaceConsistency \<Rightarrow> string \<Rightarrow> string \<Rightarrow> (string, TransactionOutput) on_host" where
  "execute_read_only_bash M consistency bash command =
     (let bwrap = var_or M ''PHENIX_BWRAP'' ''bwrap'' in
      and_then (map_err (display_WorkspaceConsistencyError (mc_io_text M)) (with_fs (prepare_scratch_mounts consistency)))
        (\<lambda>scratch_mounts.
      and_then (map_err (\<lambda>error. ''failed to execute '' @ utf8_lossy bwrap @ '': '' @ mc_io_text M error) (run_command M
        \<lparr>cmd_program = bwrap,
         cmd_args =
           [''--die-with-parent'', ''--unshare-pid'', ''--ro-bind'', ''/'', ''/'', ''--dev-bind'', ''/dev'', ''/dev'',
            ''--proc'', ''/proc'', ''--tmpfs'', ''/tmp''] @ bind_args scratch_mounts @
           [''--chdir'', display_path (wk_root consistency), ''--setenv'', ''TMPDIR'', ''/tmp'', ''--'', bash, ''-c'',
            READ_ONLY_BASH_SCRIPT, ''phenix-read-only-bash'', bash, command],
         cmd_dir = None\<rparr>)) (\<lambda>output.
      return \<lparr>to_exit_code = exit_code_or output, to_stdout = out_stdout output, to_stderr = out_stderr output\<rparr>)))"

text \<open>The transaction is dropped after the commit, or when one of its steps fails.\<close>

definition run_transaction ::
  "Externals \<Rightarrow> Machine \<Rightarrow> WorkspaceConsistency \<Rightarrow> string \<Rightarrow> string \<Rightarrow> (string, TransactionOutput) on_host" where
  "run_transaction E M consistency bash command = map_err (display_TransactionError E M)
     (and_then (transaction_begin M consistency) (\<lambda>transaction.
      finally_do
        (and_then (transaction_execute M transaction bash command) (\<lambda>output.
         and_then (transaction_commit M transaction) (\<lambda>_. return output)))
        (drop_paths M (tx_paths transaction))))"

definition execute_bash ::
  "Externals \<Rightarrow> InputParsers \<Rightarrow> Machine \<Rightarrow> WorkspaceConsistency \<Rightarrow> FilesystemAuthority \<Rightarrow> string \<Rightarrow> (string, string) on_host" where
  "execute_bash E P M consistency filesystem arguments =
     and_then (lift_result (\<lambda>error. ''invalid bash arguments: '' @ error) (parse_bash_input P arguments)) (\<lambda>input.
     and_then (ensure (\<not> is_blank (bi_command input)) ''bash command must not be empty'') (\<lambda>_.
     let bash = var_or M ''PHENIX_BASH'' ''bash'' in
     and_then (case filesystem of
         FsReadOnly \<Rightarrow> execute_read_only_bash M consistency bash (bi_command input)
       | FsWrite \<Rightarrow> run_transaction E M consistency bash (bi_command input)) (\<lambda>output.
     return (to_json E (JObject
       [(''exit_code'', JNumber (show_int (to_exit_code output))), (''stdout'', JString (capture (to_stdout output))),
        (''stderr'', JString (capture (to_stderr output)))])))))"

section \<open>Read, write and edit\<close>

type_synonym 'a tool = "(FileSystem, string, 'a) op"

definition saturating_add :: "nat \<Rightarrow> nat \<Rightarrow> nat" where
  "saturating_add m n = (if int m + int n \<le> 18446744073709551615 then m + n else nat 18446744073709551615)"

text \<open>The lines of a read: the text and the half-open range of line indices.\<close>

definition read_window :: "string \<Rightarrow> nat \<Rightarrow> nat \<Rightarrow> string \<times> nat \<times> nat" where
  "read_window content offset limit =
     (let all = text_lines content; total_lines = length all;
          start_index = min (offset - 1) total_lines;
          end_index = min (saturating_add start_index limit) total_lines;
          selected = join_with [newline] (take (end_index - start_index) (drop start_index all)) in
      (if start_index < end_index \<and> (end_index < total_lines \<or> content \<noteq> [] \<and> last content = newline)
       then selected @ [newline] else selected, start_index, end_index))"

definition read_output :: "Externals \<Rightarrow> WorkspaceRead \<Rightarrow> nat \<Rightarrow> nat \<Rightarrow> string" where
  "read_output E read offset limit =
     (let (selected, start_index, end_index) = read_window (wr_content read) offset limit;
          total_lines = length (text_lines (wr_content read)); returned_lines = end_index - start_index in
      to_json E (JObject
        [(''path'', JString (utf8_lossy (display_path (wr_path read)))), (''content'', JString selected),
         (''start_line'', if returned_lines > 0 then json_nat (start_index + 1) else JNull),
         (''end_line'', if returned_lines > 0 then json_nat end_index else JNull),
         (''total_lines'', json_nat total_lines), (''truncated'', JBool (end_index < total_lines)),
         (''version'', json_opt (\<lambda>observation. json_FileVersion (fo_version observation)) (wr_observation read))]))"

definition execute_read ::
  "Externals \<Rightarrow> InputParsers \<Rightarrow> (io_error \<Rightarrow> string) \<Rightarrow> WorkspaceConsistency \<Rightarrow> string \<Rightarrow> ToolOutcome tool" where
  "execute_read E P io_text consistency arguments =
     and_then (lift_result (\<lambda>error. ''invalid read arguments: '' @ error) (parse_read_input P arguments)) (\<lambda>input.
     let offset = or_default (ri_offset input) 1; limit = or_default (ri_limit input) DEFAULT_READ_LINES in
     and_then (ensure (offset \<noteq> 0) ''read offset must be at least 1'') (\<lambda>_.
     and_then (ensure (limit \<noteq> 0 \<and> limit \<le> MAX_READ_LINES)
       (''read limit must be between 1 and '' @ show_nat MAX_READ_LINES)) (\<lambda>_.
     and_then (map_err (display_WorkspaceConsistencyError io_text) (read_utf8 consistency (path_components (ri_path input))))
       (\<lambda>read.
     let outcome = tool_success (read_output E read offset limit) in
     return (case wr_observation read of
         None \<Rightarrow> outcome
       | Some observation \<Rightarrow>
           outcome\<lparr>to_file_observations := to_file_observations outcome @ [observation]\<rparr>)))))"

definition relative_workspace_path :: "string \<Rightarrow> string + PathBuf" where
  "relative_workspace_path raw =
     (if is_blank raw then Inl ''workspace path must not be empty''
      else if path_is_absolute (path_components raw) then Inl (''workspace path must be relative: '' @ raw)
      else case normal_components (path_components raw) of
        None \<Rightarrow> Inl (''workspace path escapes the workspace: '' @ raw)
      | Some relative \<Rightarrow> if relative = [] then Inl ''workspace path must name a file'' else Inr relative)"

definition json_observed :: "FileObservation option \<Rightarrow> Json" where
  "json_observed observation = json_opt (\<lambda>observation. json_FileVersion (fo_version observation)) observation"

definition execute_write ::
  "Externals \<Rightarrow> InputParsers \<Rightarrow> (io_error \<Rightarrow> string) \<Rightarrow> WorkspaceConsistency \<Rightarrow> string \<Rightarrow> string tool" where
  "execute_write E P io_text consistency arguments =
     and_then (lift_result (\<lambda>error. ''invalid write arguments: '' @ error) (parse_write_input P arguments)) (\<lambda>input.
     and_then (lift_result id (relative_workspace_path (wi_path input))) (\<lambda>relative.
     and_then (map_err (display_WorkspaceConsistencyError io_text)
       (write_utf8 consistency relative (wi_expected_version input) (wi_content input))) (\<lambda>observation.
     return (to_json E (JObject
       [(''path'', JString (utf8_lossy (display_path relative))), (''bytes_written'', json_nat (length (wi_content input))),
        (''version'', json_observed observation)])))))"

definition check_matches :: "EditInput \<Rightarrow> string \<Rightarrow> string + unit" where
  "check_matches input content =
     (let matches = match_count (ei_old_text input) content in
      if matches = 0 then Inl (''edit old_text did not match '' @ ei_path input)
      else if \<not> or_default (ei_replace_all input) False \<and> matches \<noteq> 1
      then Inl (''edit old_text matched '' @ show_nat matches @ '' occurrences in '' @ ei_path input @
        ''; provide more context or set replace_all=true'')
      else Inr ())"

definition updated_text :: "EditInput \<Rightarrow> string \<Rightarrow> string" where
  "updated_text input content =
     (if or_default (ei_replace_all input) False then replace_text (ei_old_text input) (ei_new_text input) content
      else replace_first (ei_old_text input) (ei_new_text input) content)"

definition execute_edit ::
  "Externals \<Rightarrow> InputParsers \<Rightarrow> (io_error \<Rightarrow> string) \<Rightarrow> WorkspaceConsistency \<Rightarrow> string \<Rightarrow> string tool" where
  "execute_edit E P io_text consistency arguments =
     and_then (lift_result (\<lambda>error. ''invalid edit arguments: '' @ error) (parse_edit_input P arguments)) (\<lambda>input.
     and_then (ensure (ei_old_text input \<noteq> []) ''edit old_text must not be empty'') (\<lambda>_.
     and_then (map_err (\<lambda>error. ''failed to read '' @ ei_path input @ '' for edit: '' @
         display_WorkspaceConsistencyError io_text error)
       (read_utf8 consistency (path_components (ei_path input)))) (\<lambda>read.
     and_then (lift_result id (check_matches input (wr_content read))) (\<lambda>_.
     let replacements = (if or_default (ei_replace_all input) False
           then match_count (ei_old_text input) (wr_content read) else 1);
         updated = updated_text input (wr_content read) in
     and_then (map_err (display_WorkspaceConsistencyError io_text)
       (write_utf8 consistency (wr_path read) (ei_expected_version input) updated)) (\<lambda>observation.
     return (to_json E (JObject
       [(''path'', JString (utf8_lossy (display_path (wr_path read)))), (''replacements'', json_nat replacements),
        (''bytes_written'', json_nat (length updated)), (''version'', json_observed observation)])))))))"

section \<open>Grep\<close>

definition requested_path :: "string \<Rightarrow> PathBuf option \<Rightarrow> string + PathBuf" where
  "requested_path raw home =
     (if raw = ''~'' then get_or ''cannot expand ~ because HOME is not set'' home
      else case strip_prefix ''~/'' raw of
        Some rest \<Rightarrow> bind_result (get_or ''cannot expand ~/ because HOME is not set'' home)
          (\<lambda>home. Inr (path_join home (path_components rest)))
      | None \<Rightarrow> Inr (path_components raw))"

definition normalize_search_path ::
  "(io_error \<Rightarrow> string) \<Rightarrow> PathBuf \<Rightarrow> string \<Rightarrow> PathBuf option \<Rightarrow> PathBuf tool" where
  "normalize_search_path io_text workspace raw home =
     and_then (ensure (\<not> is_blank raw) ''workspace path must not be empty'') (\<lambda>_.
     and_then (map_err (\<lambda>error. ''failed to resolve workspace '' @ display_path workspace @ '': '' @ io_text error)
       (io_canonicalize workspace)) (\<lambda>workspace.
     and_then (lift_result id (requested_path raw home)) (\<lambda>requested.
     let candidate = (if path_is_absolute requested then requested else path_join workspace requested) in
     and_then (map_err (\<lambda>error. ''failed to resolve grep path '' @ raw @ '': '' @ io_text error)
       (io_canonicalize candidate)) (\<lambda>candidate.
     and_then (ensure (path_starts_with candidate workspace) (''grep path escapes workspace: '' @ raw)) (\<lambda>_.
     let relative = drop (length workspace) candidate in
     return (if relative = [] then [CurDir] else relative))))))"

definition search_workspace_path :: "Machine \<Rightarrow> PathBuf \<Rightarrow> string \<Rightarrow> PathBuf tool" where
  "search_workspace_path M workspace raw =
     normalize_search_path (mc_io_text M) workspace raw (map_option path_components (mc_env M ''HOME''))"

definition grep_args :: "GrepInput \<Rightarrow> PathBuf \<Rightarrow> string list" where
  "grep_args input relative =
     [''--hidden'', ''--no-ignore'', ''--line-number'', ''--with-filename'', ''--no-heading'', ''--color'', ''never'',
      ''--glob'', ''!.git/**'', ''--glob'', ''!**/.git/**''] @
     (if gi_case_sensitive input = Some False then [''--ignore-case''] else []) @
     [''--'', gi_pattern input, display_path relative]"

definition execute_grep ::
  "Externals \<Rightarrow> InputParsers \<Rightarrow> Machine \<Rightarrow> PathBuf \<Rightarrow> string \<Rightarrow> (string, string) on_host" where
  "execute_grep E P M workspace arguments =
     and_then (lift_result (\<lambda>error. ''invalid grep arguments: '' @ error) (parse_grep_input P arguments)) (\<lambda>input.
     and_then (ensure (gi_pattern input \<noteq> []) ''grep pattern must not be empty'') (\<lambda>_.
     and_then (with_fs (search_workspace_path M workspace (or_default (gi_path input) ''.''))) (\<lambda>relative.
     and_then (map_err (\<lambda>error. ''failed to execute ripgrep: '' @ mc_io_text M error) (run_command M
       \<lparr>cmd_program = var_or M ''PHENIX_RG'' ''rg'', cmd_args = grep_args input relative, cmd_dir = Some workspace\<rparr>)) (\<lambda>output.
     let exit_code = exit_code_or output in
     and_then (ensure (exit_code = 0 \<or> exit_code = 1)
       (''ripgrep failed with exit code '' @ show_int exit_code @ '': '' @ capture (out_stderr output))) (\<lambda>_.
     return (to_json E (JObject
       [(''pattern'', JString (gi_pattern input)), (''path'', JString (utf8_lossy (display_path relative))),
        (''matches'', JString (capture (out_stdout output))), (''stderr'', JString (capture (out_stderr output)))])))))))"

section \<open>Descriptors\<close>

definition file_version_schema :: Json where
  "file_version_schema = JObject [(''oneOf'', JArray
     [json_closed_object [''state''] [(''state'', json_const ''absent'')],
      json_closed_object [''state'', ''content_hash'', ''kind'']
        [(''state'', json_const ''present''), (''content_hash'', json_nonempty_string),
         (''kind'', JObject [(''type'', JString ''string''),
            (''enum'', json_strings [''regular'', ''directory'', ''symlink'', ''other''])])]])]"

definition nullable_file_version_schema :: Json where
  "nullable_file_version_schema =
     JObject [(''anyOf'', JArray [file_version_schema, JObject [(''type'', JString ''null'')]])]"

definition CAPABILITY_FILESYSTEM_READ :: string where
  "CAPABILITY_FILESYSTEM_READ = ''filesystem.read''"

definition tool_descriptor :: "string \<Rightarrow> string \<Rightarrow> Json \<Rightarrow> Json \<Rightarrow> FilesystemAuthority \<Rightarrow> CallableDescriptor" where
  "tool_descriptor name description input_schema output_schema filesystem =
     \<lparr>cd_id = Ident name, cd_kind = Tool, cd_description = description,
      cd_input_schema = input_schema, cd_output_schema = output_schema,
      cd_capabilities = {case filesystem of FsReadOnly \<Rightarrow> CAPABILITY_FILESYSTEM_READ | FsWrite \<Rightarrow> CAPABILITY_FILESYSTEM_WRITE},
      cd_policy = \<lparr>requires_permission = False\<rparr>\<rparr>"

definition json_typed :: "string \<Rightarrow> Json" where
  "json_typed name = JObject [(''type'', JString name)]"

definition json_open_object :: "(string \<times> Json) list \<Rightarrow> Json" where
  "json_open_object properties = JObject
     [(''type'', JString ''object''), (''required'', json_strings (map fst properties)), (''properties'', JObject properties)]"

definition json_describe :: "string \<Rightarrow> string \<Rightarrow> Json" where
  "json_describe type_name description = JObject [(''type'', JString type_name), (''description'', JString description)]"

definition bash_descriptor :: "string \<Rightarrow> CallableDescriptor" where
  "bash_descriptor root = tool_descriptor ''bash''
     (''Execute a Bash command in the current Phenix workspace ('' @ root @ ''). Read-only executions see protected workspace paths read-only while configured scratch roots stay writable. Write-authority executions use a disposable overlay and apply protected changes only if the complete pre-command protected manifest is unchanged. Git metadata remains disposable for write-authority executions.'')
     (json_closed_object [''command''] [(''command'', json_described_string ''Bash program to execute in the current Phenix workspace'')])
     (json_open_object [(''exit_code'', json_typed ''integer''), (''stdout'', json_typed ''string''), (''stderr'', json_typed ''string'')])
     FsReadOnly"

definition read_descriptor :: "string \<Rightarrow> CallableDescriptor" where
  "read_descriptor root = tool_descriptor ''read''
     (''Read a UTF-8 text file from the current Phenix workspace ('' @ root @ ''). Source reads return a version token. Pass that exact token to write or edit. Scratch reads return version=null.'')
     (json_closed_object [''path'']
       [(''path'', json_described_string ''Workspace-relative file path''),
        (''offset'', JObject [(''type'', JString ''integer''), (''minimum'', JNumber ''1''),
           (''description'', JString ''1-based first line to return; defaults to 1'')]),
        (''limit'', JObject [(''type'', JString ''integer''), (''minimum'', JNumber ''1''),
           (''maximum'', json_nat MAX_READ_LINES), (''description'', JString ''Maximum number of lines to return; defaults to 400'')])])
     (json_open_object
       [(''path'', json_typed ''string''), (''content'', json_typed ''string''),
        (''start_line'', JObject [(''type'', json_strings [''integer'', ''null''])]),
        (''end_line'', JObject [(''type'', json_strings [''integer'', ''null''])]),
        (''total_lines'', json_typed ''integer''), (''truncated'', json_typed ''boolean''),
        (''version'', nullable_file_version_schema)])
     FsReadOnly"

definition write_descriptor :: "string \<Rightarrow> CallableDescriptor" where
  "write_descriptor root = tool_descriptor ''write''
     (''Create or replace a UTF-8 text file in the current Phenix workspace ('' @ root @ ''). Source writes require expected_version from read. For a new source file use state=absent. Scratch writes omit expected_version.'')
     (json_closed_object [''path'', ''content'']
       [(''path'', json_described_string ''Workspace-relative file path''),
        (''content'', json_describe ''string'' ''Complete UTF-8 file contents''),
        (''expected_version'', file_version_schema)])
     (json_open_object
       [(''path'', json_typed ''string''), (''bytes_written'', json_typed ''integer''), (''version'', nullable_file_version_schema)])
     FsWrite"

definition edit_descriptor :: "string \<Rightarrow> CallableDescriptor" where
  "edit_descriptor root = tool_descriptor ''edit''
     (''Edit a UTF-8 text file in the current Phenix workspace ('' @ root @ ''). Source edits require expected_version from read. The old_text match must be unique unless replace_all is true. Scratch edits omit expected_version.'')
     (json_closed_object [''path'', ''old_text'', ''new_text'']
       [(''path'', json_described_string ''Workspace-relative file path''),
        (''old_text'', json_described_string ''Exact text to replace''),
        (''new_text'', json_describe ''string'' ''Replacement text''),
        (''replace_all'', json_describe ''boolean'' ''Replace every exact match; defaults to false and requires a unique match''),
        (''expected_version'', file_version_schema)])
     (json_open_object
       [(''path'', json_typed ''string''), (''replacements'', json_typed ''integer''),
        (''bytes_written'', json_typed ''integer''), (''version'', nullable_file_version_schema)])
     FsWrite"

definition grep_descriptor :: "string \<Rightarrow> CallableDescriptor" where
  "grep_descriptor root = tool_descriptor ''grep''
     (''Search text recursively in the current Phenix workspace ('' @ root @ ''). The pattern uses ripgrep regular-expression syntax. .git is excluded. Grep results are not yet recorded as exact file observations.'')
     (json_closed_object [''pattern'']
       [(''pattern'', json_described_string ''Regular expression to search for''),
        (''path'', json_described_string ''Workspace-relative, home-relative, or absolute file/directory path that resolves inside the workspace; defaults to .''),
        (''case_sensitive'', json_describe ''boolean'' ''Whether matching is case-sensitive; defaults to true'')])
     (json_open_object
       [(''pattern'', json_typed ''string''), (''path'', json_typed ''string''), (''matches'', json_typed ''string''),
        (''stderr'', json_typed ''string'')])
     FsReadOnly"

section \<open>Registration\<close>

record WorkspaceHandlers =
  wh_bash :: ToolHandler
  wh_read :: ToolHandler
  wh_write :: ToolHandler
  wh_edit :: ToolHandler
  wh_grep :: ToolHandler

definition then_register :: "(ConductorError, CompiledConfiguration) outcome \<Rightarrow> CallableDescriptor \<Rightarrow> ToolHandler \<Rightarrow>
    (ConductorError, CompiledConfiguration) outcome" where
  "then_register result descriptor handler =
     (case result of Ok configuration \<Rightarrow> config_register_tool descriptor handler configuration | _ \<Rightarrow> result)"

definition register_into :: "WorkspaceHandlers \<Rightarrow> WorkspaceConsistency \<Rightarrow> config_update" where
  "register_into handlers consistency configuration =
     (let root = display_path (wk_root consistency) in
      then_register (then_register (then_register (then_register (then_register (Ok configuration)
        (bash_descriptor root) (wh_bash handlers)) (read_descriptor root) (wh_read handlers))
        (write_descriptor root) (wh_write handlers)) (edit_descriptor root) (wh_edit handlers))
        (grep_descriptor root) (wh_grep handlers))"

definition register_workspace_tools :: "Externals \<Rightarrow> WorkspaceHandlers \<Rightarrow> WorkspaceConsistency \<Rightarrow> unit rt" where
  "register_workspace_tools E handlers consistency =
     and_then (query current_configuration) (\<lambda>configuration.
     and_then (\<lambda>self. (register_into handlers consistency configuration, self)) (\<lambda>configuration.
     and_then (reload_configuration E configuration) (\<lambda>_. return ())))"

end
