(* ===== verification/Workspace_Facts.thy ===== *)
theory Workspace_Facts
  imports Workspace_Consistency "HOL-Library.Sublist"
begin

text \<open>
  Versioned writes stay inside the workspace. Resolving a path goes through its parent, so what a
  call does to \<open>parent/name\<close> is determined by the directory the parent resolves to; directories that
  are created below a directory inside the workspace are inside it. A write of a source file is
  thereby confined, replaces only the version its caller expected, and is what the next read
  returns. A write of a scratch file is not confined: it follows a link at the last component.
\<close>

section \<open>Resolving through the parent\<close>

definition is_dir :: "(location, file_node) btree_map \<Rightarrow> location \<Rightarrow> bool" where
  "is_dir nodes loc \<longleftrightarrow> node_at nodes loc = Some DirectoryNode"

text \<open>A tree: every node is in a directory.\<close>

definition tree_ok :: "(location, file_node) btree_map \<Rightarrow> bool" where
  "tree_ok nodes \<longleftrightarrow> (\<forall>loc node. bt_get nodes loc = Some node \<longrightarrow> loc \<noteq> [] \<and> is_dir nodes (butlast loc))"

lemma node_at_snoc [simp]: "node_at nodes (d @ [name]) = bt_get nodes (d @ [name])"
  by (simp add: node_at_def)

lemma is_dir_root [simp]: "is_dir nodes []"
  by (simp add: is_dir_def node_at_def)

lemma modes [simp]:
  "follow_last to_follow" "\<not> may_create to_follow" "\<not> follow_last no_follow" "\<not> may_create no_follow"
  "follow_last to_open" "may_create to_open" "\<not> follow_last to_make" "may_create to_make"
  by (simp_all add: to_follow_def no_follow_def to_open_def to_make_def)

lemma walk_append:
  assumes "walk nodes to_follow n cur p = Inr d" and "is_dir nodes d" and "rest \<noteq> []"
  shows "\<exists>k. walk nodes mode n cur (p @ rest) = walk nodes mode k d rest"
  using assms(1,2)
proof (induction nodes to_follow n cur p rule: walk.induct)
  case (5 nodes links cur name path)
  then show ?case
    using assms(3)
    by (cases "bt_get nodes (cur @ [name])")
      (auto simp: is_dir_def split: file_node.splits if_splits)
qed auto

lemma walk_fails_append:
  assumes "walk nodes to_follow n cur p = Inl e" and "rest \<noteq> []"
  shows "walk nodes mode n cur (p @ rest) = Inl e"
  using assms(1)
proof (induction nodes to_follow n cur p rule: walk.induct)
  case (5 nodes links cur name path)
  then show ?case
    using assms(2)
    by (cases "bt_get nodes (cur @ [name])") (auto split: file_node.splits if_splits)
qed auto

text \<open>A resolution that ends in a directory depends only on directories and links.\<close>

lemma walk_stable:
  assumes "walk nodes to_follow n cur p = Inr d" and "is_dir nodes d"
    and "\<And>loc node. bt_get nodes loc = Some node \<Longrightarrow> node_kind node = Directory \<or> node_kind node = Symlink \<Longrightarrow>
      bt_get nodes' loc = Some node"
  shows "walk nodes' to_follow n cur p = Inr d"
  using assms
proof (induction nodes to_follow n cur p rule: walk.induct)
  case (5 nodes links cur name path)
  show ?case
  proof (cases "bt_get nodes (cur @ [name])")
    case (Some node)
    with "5.prems"(3) [OF Some] show ?thesis
      using "5.prems"(1,2) "5.hyps" "5.prems"(3)
      by (cases node) (auto simp: is_dir_def split: if_splits)
  qed (use "5.prems" in simp)
qed auto

section \<open>Paths of names\<close>

definition fs_ok :: "FileSystem \<Rightarrow> bool" where
  "fs_ok fs \<longleftrightarrow> tree_ok (fs_nodes fs)"

lemma canonical_snoc: "canonical_path (names @ [name]) = canonical_path names @ [Normal name]"
  by (simp add: canonical_path_def)

lemma canonical_not_Nil [simp]: "canonical_path names \<noteq> []"
  by (simp add: canonical_path_def)

lemma canonical_parent: "path_parent (canonical_path names) = (if names = [] then None else Some (canonical_path (butlast names)))"
  by (auto simp: path_parent_def canonical_path_def map_butlast)

lemma walk_last:
  "walk nodes no_follow k d [Normal name] =
     (if bt_get nodes (d @ [name]) = None then Inl IoNotFound else Inr (d @ [name]))"
  "walk nodes to_make k d [Normal name] = Inr (d @ [name])"
  "(\<forall>target. bt_get nodes (d @ [name]) \<noteq> Some (SymlinkNode target)) \<Longrightarrow>
     walk nodes to_open k d [Normal name] = Inr (d @ [name])"
  "(\<forall>target. bt_get nodes (d @ [name]) \<noteq> Some (SymlinkNode target)) \<Longrightarrow>
     walk nodes to_follow k d [Normal name] =
       (if bt_get nodes (d @ [name]) = None then Inl IoNotFound else Inr (d @ [name]))"
  by (auto split: option.split file_node.split)

lemma resolve_last:
  assumes "resolve_path fs to_follow (canonical_path names) = Inr d" and "is_dir (fs_nodes fs) d"
  shows "\<exists>k. resolve_path fs mode (canonical_path (names @ [name])) = walk (fs_nodes fs) mode k d [Normal name]"
  using walk_append [of "fs_nodes fs" MAX_LINKS "fs_cwd fs" "canonical_path names" d "[Normal name]" mode] assms
  by (simp add: resolve_path_def canonical_snoc)

lemma resolve_fails_last:
  assumes "resolve_path fs to_follow (canonical_path names) = Inl e"
  shows "resolve_path fs mode (canonical_path (names @ [name])) = Inl e"
  using walk_fails_append [of "fs_nodes fs" MAX_LINKS "fs_cwd fs" "canonical_path names" e "[Normal name]" mode] assms
  by (simp add: resolve_path_def canonical_snoc)

lemma walk_through_file:
  assumes "walk nodes to_follow n cur p = Inr d" and "\<not> is_dir nodes d" and "is_dir nodes cur" and "tree_ok nodes"
  shows "walk nodes mode n cur (p @ [Normal name]) = Inl IoNotADirectory"
  using assms
proof (induction nodes to_follow n cur p rule: walk.induct)
  case (4 nodes links cur rest)
  moreover have "is_dir nodes (butlast cur)"
  proof (cases cur)
    case (Cons x xs)
    with "4.prems"(3) have "bt_get nodes cur = Some DirectoryNode" by (simp add: is_dir_def node_at_def)
    with "4.prems"(4) show ?thesis by (auto simp: tree_ok_def)
  qed simp
  ultimately show ?case by simp
next
  case (5 nodes links cur name' path)
  then show ?case
    by (cases "bt_get nodes (cur @ [name'])") (auto simp: is_dir_def split: file_node.splits if_splits)
qed auto

lemma resolve_through_file:
  assumes "resolve_path fs to_follow (canonical_path names) = Inr d" and "\<not> is_dir (fs_nodes fs) d" and "fs_ok fs"
  shows "resolve_path fs mode (canonical_path (names @ [name])) = Inl IoNotADirectory"
  using walk_through_file [of "fs_nodes fs" MAX_LINKS "[]" "map Normal names" d mode name] assms
  by (simp add: resolve_path_def canonical_path_def fs_ok_def)

section \<open>System calls\<close>

lemma located_eq:
  "located call mode path fs =
     (case fs_fault fs call path of
        Some error \<Rightarrow> (Err (IoFault error), fs)
      | None \<Rightarrow> (case resolve_path fs mode path of Inl e \<Rightarrow> (Err e, fs) | Inr loc \<Rightarrow> (Ok loc, fs)))"
  by (simp add: located_def and_then_def check_fault_def query_def split: option.split sum.split)

lemma canonicalize_Ok:
  "io_canonicalize path fs = (Ok c, fs') \<longleftrightarrow>
     fs' = fs \<and> fs_fault fs Canonicalize path = None \<and> (\<exists>loc. resolve_path fs to_follow path = Inr loc \<and> c = canonical_path loc)"
  by (auto simp: io_canonicalize_def and_then_def located_eq return_def split: option.split sum.split)

lemma canonicalize_Err:
  "io_canonicalize path fs = (Err e, fs') \<Longrightarrow> fs' = fs \<and> (e = IoNotFound \<longrightarrow> resolve_path fs to_follow path = Inl IoNotFound)"
  by (auto simp: io_canonicalize_def and_then_def located_eq return_def split: option.splits sum.splits)

lemma metadata_Ok:
  "io_symlink_metadata path fs = (Ok node, fs') \<longleftrightarrow>
     fs' = fs \<and> fs_fault fs SymlinkMetadata path = None \<and>
     (\<exists>loc. resolve_path fs no_follow path = Inr loc \<and> node_at (fs_nodes fs) loc = Some node)"
  by (auto simp: io_symlink_metadata_def node_of_def and_then_def located_eq gets_def ok_or_def return_def throw_def
      split: option.splits sum.splits)

text \<open>Creating a directory.\<close>

lemma create_dir_last:
  assumes "resolve_path fs to_follow (canonical_path names) = Inr d" and "is_dir (fs_nodes fs) d"
    and "fs_fault fs CreateDir (canonical_path (names @ [name])) = None"
  shows "io_create_dir (canonical_path (names @ [name])) fs =
     (if bt_get (fs_nodes fs) (d @ [name]) = None then (Ok (), put_node (d @ [name]) DirectoryNode fs)
      else (Err IoAlreadyExists, fs))"
proof -
  obtain k where "resolve_path fs to_make (canonical_path (names @ [name])) = walk (fs_nodes fs) to_make k d [Normal name]"
    using resolve_last [OF assms(1,2)] by blast
  then have "resolve_path fs to_make (canonical_path (names @ [name])) = Inr (d @ [name])"
    by (simp only: walk_last)
  with assms(3) show ?thesis
    by (auto simp: io_create_dir_def and_then_def located_eq gets_def modify_def throw_def split: option.split)
qed

text \<open>A directory is made in the directory its parent resolves to, or nothing happens.\<close>

lemma create_dir_cases:
  assumes "fs_ok fs" and "io_create_dir (canonical_path (names @ [name])) fs = (res, fs')"
  obtains (made) d where "res = Ok ()" "resolve_path fs to_follow (canonical_path names) = Inr d"
      "is_dir (fs_nodes fs) d" "bt_get (fs_nodes fs) (d @ [name]) = None" "fs' = put_node (d @ [name]) DirectoryNode fs"
  | (missing) "res = Err IoNotFound" "fs' = fs" "resolve_path fs to_follow (canonical_path names) = Inl IoNotFound"
      "fs_fault fs CreateDir (canonical_path (names @ [name])) = None"
  | (refused) e where "res = Err e" "e \<noteq> IoNotFound" "fs' = fs"
proof (cases "fs_fault fs CreateDir (canonical_path (names @ [name]))")
  case (Some error)
  with assms(2) have "res = Err (IoFault error)" "fs' = fs"
    by (auto simp: io_create_dir_def and_then_def located_eq)
  then show thesis by (intro refused) auto
next
  case None
  show thesis
  proof (cases "resolve_path fs to_follow (canonical_path names)")
    case (Inl e)
    with None assms(2) resolve_fails_last [OF Inl, of to_make name] have "res = Err e" "fs' = fs"
      by (auto simp: io_create_dir_def and_then_def located_eq)
    with Inl None show thesis by (cases "e = IoNotFound") (auto intro: missing refused)
  next
    case (Inr d)
    show thesis
    proof (cases "is_dir (fs_nodes fs) d")
      case True
      from create_dir_last [OF Inr True None] assms(2) show thesis
        by (auto intro: made [OF _ Inr True] refused split: if_splits)
    next
      case False
      with None assms resolve_through_file [OF Inr False assms(1), of to_make name]
      have "res = Err IoNotADirectory" "fs' = fs"
        by (auto simp: io_create_dir_def and_then_def located_eq)
      then show thesis by (intro refused) auto
    qed
  qed
qed

lemma create_root: "io_create_dir (canonical_path []) fs = (res, fs') \<Longrightarrow> fs' = fs \<and> (\<exists>e. res = Err e \<and> e \<noteq> IoNotFound)"
  by (auto simp: io_create_dir_def and_then_def located_eq resolve_path_def canonical_path_def gets_def node_at_def
      throw_def split: option.splits)

section \<open>Directories below the workspace\<close>

inductive anchored :: "FileSystem \<Rightarrow> location \<Rightarrow> PathBuf \<Rightarrow> bool" for fs root where
  anchored_here: "resolve_path fs to_follow p = Inr loc \<Longrightarrow> prefix root loc \<Longrightarrow> anchored fs root p"
| anchored_up: "resolve_path fs to_follow p = Inl IoNotFound \<Longrightarrow> path_parent p = Some q \<Longrightarrow> anchored fs root q \<Longrightarrow>
    anchored fs root p"

inductive_simps anchored_iff: "anchored fs root p"

text \<open>What changes is inside the root; apart from that only directories are added.\<close>

definition grown :: "location \<Rightarrow> FileSystem \<Rightarrow> FileSystem \<Rightarrow> bool" where
  "grown root fs fs' \<longleftrightarrow> fs' = fs\<lparr>fs_nodes := fs_nodes fs'\<rparr> \<and>
     (\<forall>loc. bt_get (fs_nodes fs') loc = bt_get (fs_nodes fs) loc \<or>
        bt_get (fs_nodes fs) loc = None \<and> bt_get (fs_nodes fs') loc = Some DirectoryNode \<and> prefix root loc)"

definition empty_dir :: "FileSystem \<Rightarrow> location \<Rightarrow> bool" where
  "empty_dir fs loc \<longleftrightarrow> is_dir (fs_nodes fs) loc \<and> (\<forall>name. bt_get (fs_nodes fs) (loc @ [name]) = None)"

lemma grown_refl [simp]: "grown root fs fs"
  by (simp add: grown_def)

lemma grown_fault: "grown root fs fs' \<Longrightarrow> fs_fault fs' = fs_fault fs"
  by (metis FileSystem.select_convs(3) FileSystem.surjective FileSystem.update_convs(1) grown_def)

lemma grown_trans:
  assumes "grown root fs fs1" and "grown root fs1 fs2"
  shows "grown root fs fs2"
proof -
  have "fs2 = fs\<lparr>fs_nodes := fs_nodes fs2\<rparr>"
    using assms by (metis (no_types, lifting) FileSystem.surjective FileSystem.update_convs(1) grown_def)
  with assms show ?thesis unfolding grown_def by metis
qed

lemma put_node_simps [simp]:
  "fs_nodes (put_node loc node fs) = bt_insert loc node (fs_nodes fs)" "fs_fault (put_node loc node fs) = fs_fault fs"
  "fs_cwd (put_node loc node fs) = fs_cwd fs" "fs_short_write (put_node loc node fs) = fs_short_write fs"
  by (simp_all add: put_node_def)

lemma node_at_insert: "node_at (bt_insert loc node nodes) loc' =
    (if loc' = [] then Some DirectoryNode else if loc' = loc then Some node else bt_get nodes loc')"
  by (simp add: node_at_def)

text \<open>Putting a node where there was none, or a file, redirects no directory.\<close>

lemma resolve_stable:
  assumes "resolve_path fs to_follow p = Inr d" and "is_dir (fs_nodes fs) d"
    and "\<And>old. bt_get (fs_nodes fs) loc = Some old \<Longrightarrow> node_kind old = Regular"
  shows "resolve_path (put_node loc node fs) to_follow p = Inr d"
proof (cases "p = []")
  case False
  have "walk (bt_insert loc node (fs_nodes fs)) to_follow MAX_LINKS (fs_cwd fs) p = Inr d"
  proof (rule walk_stable)
    show "walk (fs_nodes fs) to_follow MAX_LINKS (fs_cwd fs) p = Inr d"
      using assms(1) False by (simp add: resolve_path_def)
  qed (use assms(2,3) in auto)
  with False show ?thesis by (simp add: resolve_path_def)
qed (use assms(1) in \<open>simp add: resolve_path_def\<close>)

lemma made_dir:
  assumes "fs_ok fs" and "resolve_path fs to_follow (canonical_path names) = Inr d" and "is_dir (fs_nodes fs) d"
    and "bt_get (fs_nodes fs) (d @ [name]) = None" and "prefix root d"
  defines "fs' \<equiv> put_node (d @ [name]) DirectoryNode fs"
  shows "grown root fs fs'" and "fs_ok fs'" and "empty_dir fs' (d @ [name])"
    and "resolve_path fs' to_follow (canonical_path (names @ [name])) = Inr (d @ [name])"
proof -
  show "grown root fs fs'"
    using assms(4,5) by (auto simp: grown_def fs'_def put_node_def)
  have keeps: "is_dir (fs_nodes fs) loc \<Longrightarrow> is_dir (fs_nodes fs') loc" for loc
    by (auto simp: is_dir_def fs'_def node_at_insert node_at_def split: if_splits)
  show "fs_ok fs'"
    using assms(1,3) keeps unfolding fs_ok_def tree_ok_def by (auto simp: fs'_def)
  have "bt_get (fs_nodes fs) ((d @ [name]) @ [x]) = None" for x
  proof (rule ccontr)
    assume "bt_get (fs_nodes fs) ((d @ [name]) @ [x]) \<noteq> None"
    with assms(1) have "is_dir (fs_nodes fs) (d @ [name])"
      unfolding fs_ok_def tree_ok_def by (metis butlast_snoc not_None_eq)
    with assms(4) show False by (simp add: is_dir_def)
  qed
  then show "empty_dir fs' (d @ [name])"
    by (simp add: empty_dir_def is_dir_def fs'_def)
  have "resolve_path fs' to_follow (canonical_path names) = Inr d"
    unfolding fs'_def by (rule resolve_stable [OF assms(2,3)]) (simp add: assms(4))
  from resolve_last [OF this keeps [OF assms(3)], of to_follow name]
  show "resolve_path fs' to_follow (canonical_path (names @ [name])) = Inr (d @ [name])"
    by (auto simp: fs'_def)
qed

lemma is_directory_resolved:
  "is_directory_at fs p \<Longrightarrow> \<exists>d. resolve_path fs to_follow p = Inr d \<and> is_dir (fs_nodes fs) d"
  by (auto simp: is_directory_at_def is_dir_def split: sum.splits)

lemma create_dir_all_steps:
  "io_create_dir (canonical_path names) fs = (Ok (), fs1) \<Longrightarrow> create_dir_all n (canonical_path names) fs = (Ok (), fs1)"
  "io_create_dir (canonical_path names) fs = (Err e, fs) \<Longrightarrow> e \<noteq> IoNotFound \<Longrightarrow>
     create_dir_all n (canonical_path names) fs =
       (if is_directory_at fs (canonical_path names) then (Ok (), fs) else (Err e, fs))"
  "io_create_dir (canonical_path (ns @ [name])) fs = (Err IoNotFound, fs) \<Longrightarrow>
     create_dir_all (Suc m) (canonical_path (ns @ [name])) fs =
       and_then (create_dir_all m (canonical_path ns)) (\<lambda>_. create_or_exists (canonical_path (ns @ [name]))) fs"
  "io_create_dir (canonical_path (ns @ [name])) fs = (Err IoNotFound, fs) \<Longrightarrow>
     create_dir_all 0 (canonical_path (ns @ [name])) fs = (Err (IoFault ''failed to create whole tree''), fs)"
  by (simp_all add: create_dir_all.simps [of _ "canonical_path _"] and_then_def catch_result_def gets_def return_def throw_def
      canonical_parent)

lemma create_dir_inside:
  assumes "fs_ok fs" and "resolve_path fs to_follow (canonical_path ns) = Inr d" and "is_dir (fs_nodes fs) d"
    and "bt_get (fs_nodes fs) (d @ [name]) = None" and "anchored fs root (canonical_path (ns @ [name]))"
  shows "prefix root d"
proof -
  obtain k where "resolve_path fs to_follow (canonical_path (ns @ [name])) = walk (fs_nodes fs) to_follow k d [Normal name]"
    using resolve_last [OF assms(2,3)] by blast
  with assms(4) have "resolve_path fs to_follow (canonical_path (ns @ [name])) = Inl IoNotFound" by simp
  with assms(5) have "anchored fs root (canonical_path ns)"
    unfolding anchored_iff [of fs root "canonical_path (ns @ [name])"] by (auto simp: canonical_parent)
  with assms(2) show ?thesis unfolding anchored_iff [of fs root "canonical_path ns"] by auto
qed

text \<open>The directories that are created are inside the root, and the one asked for is there at the end:
  it existed, or it is new and empty.\<close>

definition directory_ready :: "location \<Rightarrow> FileSystem \<Rightarrow> FileSystem \<Rightarrow> PathBuf \<Rightarrow> bool" where
  "directory_ready root fs fs' path \<longleftrightarrow>
     fs' = fs \<and> is_directory_at fs path \<or>
     (\<exists>loc. resolve_path fs' to_follow path = Inr loc \<and> prefix root loc \<and> empty_dir fs' loc)"

lemma create_known_parent:
  assumes "fs_ok fs" and "anchored fs root (canonical_path names)"
    and "create_dir_all n (canonical_path names) fs = (res, fs')"
    and "\<And>ns name. names = ns @ [name] \<Longrightarrow> io_create_dir (canonical_path (ns @ [name])) fs \<noteq> (Err IoNotFound, fs)"
  shows "grown root fs fs' \<and> fs_ok fs' \<and> (res = Ok () \<longrightarrow> directory_ready root fs fs' (canonical_path names))"
proof (cases names rule: rev_cases)
  case Nil
  obtain e where "io_create_dir (canonical_path []) fs = (Err e, fs)" "e \<noteq> IoNotFound"
    using create_root [of fs] by (metis prod.exhaust)
  with assms(1,3) Nil show ?thesis
    by (auto simp: create_dir_all_steps(2) directory_ready_def split: if_splits)
next
  case (snoc ns name)
  obtain r fs1 where run: "io_create_dir (canonical_path (ns @ [name])) fs = (r, fs1)" by force
  with assms(1) show ?thesis
  proof (cases rule: create_dir_cases)
    case (made d)
    with create_dir_inside [OF assms(1) made(2-4)] assms(2) snoc have "prefix root d" by simp
    with made_dir [OF assms(1) made(2-4)] assms(3) run made show ?thesis
      by (auto simp: snoc create_dir_all_steps(1) directory_ready_def)
  next
    case missing
    with assms(4) [OF snoc] run show ?thesis by simp
  qed (use assms(1,3) run snoc in \<open>auto simp: create_dir_all_steps(2) directory_ready_def split: if_splits\<close>)
qed

lemma create_below_new:
  assumes "fs_ok fs" and "resolve_path fs to_follow (canonical_path ns) = Inr loc" and "prefix root loc"
    and "empty_dir fs loc" and "fs_fault fs CreateDir (canonical_path (ns @ [name])) = None"
    and "create_or_exists (canonical_path (ns @ [name])) fs = (res, fs')"
  shows "grown root fs fs' \<and> fs_ok fs' \<and> (\<exists>loc. resolve_path fs' to_follow (canonical_path (ns @ [name])) = Inr loc \<and>
     prefix root loc \<and> empty_dir fs' loc)"
proof -
  have dir: "is_dir (fs_nodes fs) loc" and new: "bt_get (fs_nodes fs) (loc @ [name]) = None"
    using assms(4) by (simp_all add: empty_dir_def)
  with create_dir_last [OF assms(2) dir assms(5)] assms(6) have "fs' = put_node (loc @ [name]) DirectoryNode fs"
    by (simp add: create_or_exists_def and_then_def catch_result_def return_def)
  with made_dir [OF assms(1,2) dir new assms(3)] assms(3) show ?thesis by auto
qed

lemma create_dir_all_inside:
  assumes "fs_ok fs" and "anchored fs root (canonical_path names)"
    and "create_dir_all n (canonical_path names) fs = (res, fs')"
  shows "grown root fs fs' \<and> fs_ok fs' \<and> (res = Ok () \<longrightarrow> directory_ready root fs fs' (canonical_path names))"
  using assms(2,3)
proof (induction n arbitrary: names res fs')
  case (0 names res fs')
  show ?case
  proof (cases "\<exists>ns name. names = ns @ [name] \<and> io_create_dir (canonical_path (ns @ [name])) fs = (Err IoNotFound, fs)")
    case True
    with "0.prems"(2) assms(1) show ?thesis by (auto simp: create_dir_all_steps(4))
  qed (rule create_known_parent [OF assms(1) "0.prems"], blast)
next
  case (Suc n names res fs')
  show ?case
  proof (cases "\<exists>ns name. names = ns @ [name] \<and> io_create_dir (canonical_path (ns @ [name])) fs = (Err IoNotFound, fs)")
    case True
    then obtain ns name where names: "names = ns @ [name]"
      and missing: "io_create_dir (canonical_path (ns @ [name])) fs = (Err IoNotFound, fs)" by blast
    from assms(1) missing have parent: "resolve_path fs to_follow (canonical_path ns) = Inl IoNotFound"
      and fault: "fs_fault fs CreateDir (canonical_path (ns @ [name])) = None"
      by (auto elim: create_dir_cases)
    with resolve_fails_last [OF parent, of to_follow name] Suc.prems(1) have "anchored fs root (canonical_path ns)"
      unfolding names anchored_iff [of fs root "canonical_path (ns @ [name])"] by (auto simp: canonical_parent)
    moreover obtain r1 fs1 where first: "create_dir_all n (canonical_path ns) fs = (r1, fs1)" by force
    ultimately have IH: "grown root fs fs1" "fs_ok fs1" "r1 = Ok () \<Longrightarrow> directory_ready root fs fs1 (canonical_path ns)"
      using Suc.IH by blast+
    from Suc.prems(2) have run: "and_then (create_dir_all n (canonical_path ns)) (\<lambda>_. create_or_exists (canonical_path (ns @ [name]))) fs = (res, fs')"
      using create_dir_all_steps(3) [OF missing] names by simp
    show ?thesis
    proof (cases r1)
      case (Ok u)
      from parent have "\<not> is_directory_at fs (canonical_path ns)" by (simp add: is_directory_at_def)
      with IH(3) Ok obtain loc where loc: "resolve_path fs1 to_follow (canonical_path ns) = Inr loc" "prefix root loc" "empty_dir fs1 loc"
        by (auto simp: directory_ready_def)
      have "fs_fault fs1 = fs_fault fs" by (rule grown_fault [OF IH(1)])
      with fault have "fs_fault fs1 CreateDir (canonical_path (ns @ [name])) = None" by simp
      moreover from run first Ok have "create_or_exists (canonical_path (ns @ [name])) fs1 = (res, fs')" by simp
      ultimately show ?thesis
        using create_below_new [OF IH(2) loc] IH(1) names by (auto simp: directory_ready_def intro: grown_trans)
    qed (use run first IH in \<open>auto simp: and_then_def\<close>)
  qed (rule create_known_parent [OF assms(1) Suc.prems], blast)
qed

section \<open>Operations that only look\<close>

named_theorems looking \<open>operations that change nothing and return a value or an error\<close>

definition looks :: "('s, 'e, 'a) op \<Rightarrow> bool" where
  "looks m \<longleftrightarrow> (\<forall>s. snd (m s) = s \<and> returned (fst (m s)))"

lemma looks_same: "looks m \<Longrightarrow> m s = (r, s') \<Longrightarrow> s' = s"
  by (metis looks_def snd_conv)

lemma looks_returned: "looks m \<Longrightarrow> m s = (r, s') \<Longrightarrow> returned r"
  by (metis looks_def fst_conv)

lemma looks_pure [looking]:
  "looks (return x)" "looks (throw e)" "looks (gets f)" "looks (ensure c e)" "looks (ok_or v e)" "looks (query q)"
  "looks (lift_result conv res)"
  by (simp_all add: looks_def op_simps query_def lift_result_def split: option.split sum.split)

lemma looks_and_then [looking]:
  assumes "looks m" and "\<And>x. looks (f x)"
  shows "looks (and_then m f)"
  unfolding looks_def
proof
  fix s
  obtain r s1 where run: "m s = (r, s1)" by force
  with assms show "snd (and_then m f s) = s \<and> returned (fst (and_then m f s))"
    by (cases r) (auto simp: and_then_def looks_def dest: spec [of _ s])
qed

lemma looks_results [looking]: "looks m \<Longrightarrow> looks (map_err conv m)" "looks m' \<Longrightarrow> looks (catch_result m')"
  by (auto simp: looks_def map_err_def catch_result_def split: prod.split outcome.split)
    (metis fst_conv snd_conv returned.simps)+

lemma looks_cases [looking]:
  "looks m \<Longrightarrow> looks n \<Longrightarrow> looks (if c then m else n)"
  "looks m \<Longrightarrow> (\<And>x. looks (f x)) \<Longrightarrow> looks (case_option m f y)"
  "(\<And>x. looks (g x)) \<Longrightarrow> (\<And>x. looks (h x)) \<Longrightarrow> looks (case_sum g h z)"
  by (simp_all split: option.split sum.split)

lemma calls_look [looking]:
  "looks (located call mode path)" "looks (io_canonicalize path)" "looks (io_symlink_metadata path)"
  "looks (io_read path)" "looks (io_read_link path)" "looks (io_read_dir path)"
proof -
  show located: "looks (located call mode path)" for call mode
    by (simp add: looks_def located_eq split: option.split sum.split)
  show "looks (io_canonicalize path)" "looks (io_symlink_metadata path)" "looks (io_read_dir path)"
    unfolding io_canonicalize_def io_symlink_metadata_def io_read_dir_def node_of_def by (intro looking located)+
  have node: "looks (node_of loc)" for loc
    unfolding node_of_def by (intro looking)
  show "looks (io_read path)" "looks (io_read_link path)"
    unfolding io_read_def io_read_link_def
    by (intro looks_and_then located node; simp add: looks_pure split: file_node.split)+
qed

lemma at_path_looks [looking]: "looks m \<Longrightarrow> looks (at_path path m)"
  unfolding at_path_def by (rule looks_results)

lemma inside_looks [looking]: "looks (ensure_canonical_inside self path)"
  unfolding ensure_canonical_inside_def by (rule looking)

lemma ancestor_loop_looks [looking]: "looks (ancestor_loop self target candidate)"
proof (induction self target candidate rule: ancestor_loop.induct)
  case (1 self target candidate)
  then show ?case
    by (subst ancestor_loop.simps) (auto intro!: looking split: option.split)
qed

lemma version_at_looks [looking]: "looks (version_at self relative)"
proof -
  have "looks (hash_at self target metadata)" for target metadata
    unfolding hash_at_def by (cases "node_kind metadata"; simp only: FileKind.case; intro looking)
  then show ?thesis
    unfolding version_at_def ensure_ancestor_inside_def Let_def by (intro looking | assumption)+
qed

section \<open>Checks\<close>

lemma starts_with_canonical: "path_starts_with (canonical_path loc) (canonical_path root) \<longleftrightarrow> prefix root loc"
proof -
  have "take (length root) loc = root \<longleftrightarrow> prefix root loc"
    by (metis append_eq_conv_conj prefix_def take_is_prefix)
  moreover have "take (length root) (map Normal loc) = map Normal root \<longleftrightarrow> take (length root) loc = root"
    by (simp add: take_map inj_map_eq_map inj_def)
  ultimately show ?thesis by (simp add: path_starts_with_def canonical_path_def)
qed

lemma canonical_inject [simp]: "canonical_path a = canonical_path b \<longleftrightarrow> a = b"
  by (simp add: canonical_path_def inj_map_eq_map inj_def)

lemma inside_Ok:
  assumes "wk_root self = canonical_path root"
  shows "ensure_canonical_inside self (canonical_path loc) fs =
     (if prefix root loc then (Ok (), fs) else (Err (EscapesWorkspace (canonical_path loc)), fs))"
  using assms by (auto simp: ensure_canonical_inside_def starts_with_canonical ensure_def return_def throw_def)

lemma ancestor_loop_Ok:
  assumes "wk_root self = canonical_path root" and "ancestor_loop self target candidate fs = (Ok u, fs')"
  shows "anchored fs root candidate"
  using assms
proof (induction self target candidate rule: ancestor_loop.induct)
  case (1 self target candidate)
  obtain r fs1 where run: "io_canonicalize candidate fs = (r, fs1)" by force
  show ?case
  proof (cases r)
    case (Ok canonical)
    with run obtain loc where loc: "fs1 = fs" "resolve_path fs to_follow candidate = Inr loc" "canonical = canonical_path loc"
      by (auto simp: canonicalize_Ok)
    with "1.prems" run Ok have "prefix root loc"
      by (auto simp: ancestor_loop.simps [of self] and_then_def catch_result_def inside_Ok split: if_splits)
    with loc show ?thesis by (blast intro: anchored_here)
  next
    case (Err e)
    with run canonicalize_Err [of candidate fs e fs1] have same: "fs1 = fs"
      and found: "e = IoNotFound \<Longrightarrow> resolve_path fs to_follow candidate = Inl IoNotFound" by auto
    with "1.prems"(2) run Err have "e = IoNotFound"
      by (auto simp: ancestor_loop.simps [of self] and_then_def catch_result_def throw_def split: if_splits)
    with "1.prems"(2) run Err same obtain parent where parent: "path_parent candidate = Some parent"
        "ancestor_loop self target parent fs = (Ok u, fs')"
      by (auto simp: ancestor_loop.simps [of self target candidate] and_then_def catch_result_def throw_def
          split: option.splits)
    with "1.IH" [of e parent] \<open>e = IoNotFound\<close> "1.prems"(1) have "anchored fs root parent" by simp
    with found \<open>e = IoNotFound\<close> parent(1) show ?thesis by (blast intro: anchored_up)
  qed (use "1.prems"(2) run in \<open>simp_all add: ancestor_loop.simps [of self] and_then_def catch_result_def\<close>)
qed

lemma normal_components_names: "normal_components p = Some q \<Longrightarrow> \<exists>names. q = map Normal names"
proof (induction p arbitrary: q rule: normal_components.induct)
  case (3 part rest)
  then obtain tail names where "q = Normal part # tail" "tail = map Normal names" by auto
  then show ?case by (auto intro: exI [of _ "part # names"])
qed auto

lemma normalized_names:
  assumes "normalize_relative path = Inr relative"
  obtains names name where "relative = map Normal (names @ [name])"
proof -
  from assms have "normal_components path = Some relative" "relative \<noteq> []"
    by (auto simp: normalize_relative_def split: option.splits if_splits)
  with normal_components_names obtain all where "relative = map Normal all" "all \<noteq> []" by blast
  then show thesis using that by (metis append_butlast_last_id)
qed

lemma join_names: "path_join (canonical_path root) (map Normal names) = canonical_path (root @ names)"
  by (cases names) (simp_all add: path_join_def path_is_absolute_def canonical_path_def)

section \<open>Writing\<close>

lemma parents_created:
  assumes "fs_ok fs" and "wk_root self = canonical_path root"
    and "create_parent_directories self (canonical_path (names @ [name])) fs = (res, fs')"
  shows "grown root fs fs' \<and> fs_ok fs' \<and> (res = Ok () \<longrightarrow>
     (\<exists>d. resolve_path fs' to_follow (canonical_path names) = Inr d \<and> is_dir (fs_nodes fs') d \<and> prefix root d \<and>
        (fs' = fs \<or> empty_dir fs' d)))"
proof -
  let ?parent = "canonical_path names"
  obtain r0 fs0 where check: "ensure_ancestor_inside self (canonical_path (names @ [name])) fs = (r0, fs0)" by force
  then have same: "fs0 = fs"
    unfolding ensure_ancestor_inside_def by (rule looks_same [OF ancestor_loop_looks])
  show ?thesis
  proof (cases r0)
    case (Ok u)
    with check assms(2) have "anchored fs root ?parent"
      by (auto simp: ensure_ancestor_inside_def canonical_parent intro: ancestor_loop_Ok)
    moreover obtain r1 fs1 where made: "create_dir_all (length ?parent) ?parent fs = (r1, fs1)" by force
    ultimately have all: "grown root fs fs1" "fs_ok fs1" "r1 = Ok () \<Longrightarrow> directory_ready root fs fs1 ?parent"
      using create_dir_all_inside [OF assms(1)] by blast+
    have run: "and_then (at_path ?parent (io_create_dir_all ?parent)) (\<lambda>_.
        and_then (at_path ?parent (io_canonicalize ?parent)) (ensure_canonical_inside self)) fs = (res, fs')"
      using assms(3) check Ok same by (simp add: create_parent_directories_def canonical_parent)
    show ?thesis
    proof (cases r1)
      case (Ok u1)
      with made have "at_path ?parent (io_create_dir_all ?parent) fs = (Ok (), fs1)"
        by (simp add: at_path_def map_err_def io_create_dir_all_def)
      with run have last: "and_then (at_path ?parent (io_canonicalize ?parent)) (ensure_canonical_inside self) fs1 = (res, fs')"
        by simp
      then have "fs' = fs1" by (rule looks_same [rotated]) (intro looking)
      moreover have "\<exists>d. resolve_path fs1 to_follow ?parent = Inr d \<and> is_dir (fs_nodes fs1) d \<and> prefix root d \<and>
          (fs1 = fs \<or> empty_dir fs1 d)" if "res = Ok ()"
      proof -
        from last that obtain c fs2 where "at_path ?parent (io_canonicalize ?parent) fs1 = (Ok c, fs2)"
            "ensure_canonical_inside self c fs2 = (Ok (), fs')"
          by (auto elim: and_then_OkE)
        then obtain d where "resolve_path fs1 to_follow ?parent = Inr d" "prefix root d"
          using assms(2)
          by (auto simp: at_path_def map_err_def canonicalize_Ok inside_Ok split: prod.splits outcome.splits if_splits)
        moreover from all(3) Ok have "directory_ready root fs fs1 ?parent" by simp
        ultimately show ?thesis
          by (auto simp: directory_ready_def empty_dir_def dest!: is_directory_resolved)
      qed
      ultimately show ?thesis using all by blast
    qed (use run made all in \<open>auto simp: and_then_def at_path_def map_err_def io_create_dir_all_def\<close>)
  qed (use assms(1,3) check same in \<open>auto simp: create_parent_directories_def and_then_def\<close>)
qed

text \<open>A version that may be overwritten is that of a regular file or of none.\<close>

definition writable_version :: "FileVersion \<Rightarrow> bool" where
  "writable_version version \<longleftrightarrow> (case version of Absent \<Rightarrow> True | Present _ kind \<Rightarrow> kind = Regular)"

lemma metadata_last:
  assumes "resolve_path fs to_follow (canonical_path names) = Inr d" and "is_dir (fs_nodes fs) d"
    and "io_symlink_metadata (canonical_path (names @ [name])) fs = (r, fs')"
  shows "r = Ok node \<Longrightarrow> bt_get (fs_nodes fs) (d @ [name]) = Some node"
    and "r = Err IoNotFound \<Longrightarrow> bt_get (fs_nodes fs) (d @ [name]) = None"
proof -
  obtain k where "resolve_path fs no_follow (canonical_path (names @ [name])) = walk (fs_nodes fs) no_follow k d [Normal name]"
    using resolve_last [OF assms(1,2)] by blast
  then have last: "resolve_path fs no_follow (canonical_path (names @ [name])) =
      (if bt_get (fs_nodes fs) (d @ [name]) = None then Inl IoNotFound else Inr (d @ [name]))"
    by (simp only: walk_last)
  with assms(3) show "r = Ok node \<Longrightarrow> bt_get (fs_nodes fs) (d @ [name]) = Some node"
    by (auto simp: metadata_Ok split: if_splits)
  from assms(3) last show "r = Err IoNotFound \<Longrightarrow> bt_get (fs_nodes fs) (d @ [name]) = None"
    by (auto simp: io_symlink_metadata_def node_of_def and_then_def located_eq gets_def ok_or_def return_def throw_def
        split: option.splits if_splits)
qed

lemma version_at_file:
  assumes "version_at self relative fs = (Ok version, fs')" and "writable_version version"
    and "path_join (wk_root self) relative = canonical_path (names @ [name])"
    and "resolve_path fs to_follow (canonical_path names) = Inr d" and "is_dir (fs_nodes fs) d"
    and "bt_get (fs_nodes fs) (d @ [name]) = Some node"
  shows "node_kind node = Regular"
proof -
  let ?target = "canonical_path (names @ [name])"
  note run = assms(1) [unfolded version_at_def Let_def assms(3)]
  from run obtain u fs1 where check: "ensure_ancestor_inside self ?target fs = (Ok u, fs1)"
    and next_step: "and_then (catch_result (io_symlink_metadata ?target)) (\<lambda>result. case result of
        Inl error \<Rightarrow> if error = IoNotFound then return Absent else throw (WorkspaceIo ?target error)
      | Inr metadata \<Rightarrow>
          and_then (hash_at self ?target metadata) (\<lambda>hash. return (Present hash (node_kind metadata)))) fs1 = (Ok version, fs')"
    by (rule and_then_OkE)
  from next_step obtain result fs2 where
      found: "catch_result (io_symlink_metadata ?target) fs1 = (Ok result :: (WorkspaceConsistencyError, _) outcome, fs2)"
      and rest: "(case result of
        Inl error \<Rightarrow> if error = IoNotFound then return Absent else throw (WorkspaceIo ?target error)
      | Inr metadata \<Rightarrow>
          and_then (hash_at self ?target metadata) (\<lambda>hash. return (Present hash (node_kind metadata)))) fs2 = (Ok version, fs')"
    by (rule and_then_OkE)
  have "fs1 = fs"
    using check unfolding ensure_ancestor_inside_def by (rule looks_same [OF ancestor_loop_looks])
  with found obtain r where run: "io_symlink_metadata ?target fs = (r, fs2)"
      and r: "r = Ok (projr result) \<and> isl result = False \<or> r = Err (projl result) \<and> isl result"
    by (auto simp: catch_result_def split: prod.splits outcome.splits)
  note last = metadata_last [OF assms(4,5) run]
  show ?thesis
  proof (cases result)
    case (Inr metadata)
    with r last(1) assms(6) have "metadata = node" by auto
    with Inr rest assms(2) show ?thesis
      by (auto simp: writable_version_def return_def elim!: and_then_OkE)
  next
    case (Inl e)
    with rest r last(2) assms(6) show ?thesis by (auto simp: throw_def split: if_splits)
  qed
qed

lemma write_last:
  assumes "resolve_path fs to_follow (canonical_path names) = Inr d" and "is_dir (fs_nodes fs) d"
    and "\<And>node. bt_get (fs_nodes fs) (d @ [name]) = Some node \<Longrightarrow> node_kind node = Regular"
    and "io_write (canonical_path (names @ [name])) content fs = (res, fs')"
  shows "fs' = fs \<and> res \<noteq> Ok () \<or> (\<exists>written. fs' = put_node (d @ [name]) (FileNode written) fs \<and>
     (res = Ok () \<longrightarrow> written = content))"
proof -
  obtain k where "resolve_path fs to_open (canonical_path (names @ [name])) = walk (fs_nodes fs) to_open k d [Normal name]"
    using resolve_last [OF assms(1,2)] by blast
  moreover have regular: "bt_get (fs_nodes fs) (d @ [name]) = None \<or> (\<exists>bytes. bt_get (fs_nodes fs) (d @ [name]) = Some (FileNode bytes))"
    using assms(3) by (cases "bt_get (fs_nodes fs) (d @ [name])") (auto elim: node_kind.elims)
  then have "walk (fs_nodes fs) to_open k d [Normal name] = Inr (d @ [name])"
    by (intro walk_last(3)) auto
  ultimately have "resolve_path fs to_open (canonical_path (names @ [name])) = Inr (d @ [name])"
    by (simp only:)
  with assms(4) regular show ?thesis
    by (auto simp: io_write_def and_then_def located_eq gets_def modify_def throw_def split: option.splits prod.splits)
qed

definition confined :: "location \<Rightarrow> FileSystem \<Rightarrow> FileSystem \<Rightarrow> bool" where
  "confined root fs fs' \<longleftrightarrow> fs_fault fs' = fs_fault fs \<and>
     (\<forall>loc. bt_get (fs_nodes fs') loc \<noteq> bt_get (fs_nodes fs) loc \<longrightarrow> prefix root loc)"

lemma grown_confined: "grown root fs fs' \<Longrightarrow> confined root fs fs'"
  using grown_fault [of root fs fs'] unfolding grown_def confined_def by metis

lemma confined_refl [simp]: "confined root fs fs"
  by (simp add: confined_def)

lemma confined_put: "confined root fs fs' \<Longrightarrow> prefix root d \<Longrightarrow> confined root fs (put_node (d @ [name]) node fs')"
  by (auto simp: confined_def)

text \<open>The file is in place: its directory is inside the workspace, and it holds the text.\<close>

definition file_in_place :: "location \<Rightarrow> FileSystem \<Rightarrow> string list \<Rightarrow> string \<Rightarrow> string \<Rightarrow> bool" where
  "file_in_place root fs names name content \<longleftrightarrow>
     (\<exists>d. resolve_path fs to_follow (canonical_path names) = Inr d \<and> is_dir (fs_nodes fs) d \<and> prefix root d \<and>
        bt_get (fs_nodes fs) (d @ [name]) = Some (FileNode content))"

lemma placed:
  assumes "resolve_path fs to_follow (canonical_path names) = Inr d" and "is_dir (fs_nodes fs) d" and "prefix root d"
    and "\<And>node. bt_get (fs_nodes fs) (d @ [name]) = Some node \<Longrightarrow> node_kind node = Regular"
    and "io_write (canonical_path (names @ [name])) content fs = (res, fs')" and "confined root fs0 fs"
  shows "confined root fs0 fs' \<and> (res = Ok () \<longrightarrow> file_in_place root fs' names name content)"
proof -
  from write_last [OF assms(1,2,4,5)] consider "fs' = fs" "res \<noteq> Ok ()"
    | written where "fs' = put_node (d @ [name]) (FileNode written) fs" "res = Ok () \<longrightarrow> written = content" by blast
  then show ?thesis
  proof cases
    case 2
    then have "resolve_path fs' to_follow (canonical_path names) = Inr d"
      using resolve_stable [OF assms(1,2)] assms(4) by blast
    moreover from 2 assms(2,4) have "is_dir (fs_nodes fs') d"
      by (auto simp: is_dir_def node_at_insert node_at_def split: if_splits)
    ultimately show ?thesis
      using 2 assms(3,6) by (auto simp: file_in_place_def intro: confined_put)
  qed (use assms(6) in simp)
qed

lemma write_after_check:
  assumes "fs_ok fs" and "wk_root self = canonical_path root"
    and "path_join (wk_root self) relative = canonical_path (names @ [name])"
    and "version_at self relative fs = (Ok version, fs)" and "writable_version version"
    and "and_then (create_parent_directories self (canonical_path (names @ [name]))) (\<lambda>_.
       and_then (at_path path (io_write (canonical_path (names @ [name])) content)) (\<lambda>_. return obs)) fs = (res, fs')"
  shows "confined root fs fs' \<and> (\<forall>x. res = Ok x \<longrightarrow> x = obs \<and> file_in_place root fs' names name content)"
proof -
  obtain r1 fs1 where run: "create_parent_directories self (canonical_path (names @ [name])) fs = (r1, fs1)" by force
  note made = parents_created [OF assms(1,2) run]
  show ?thesis
  proof (cases r1)
    case (Ok u)
    with made obtain d where d: "resolve_path fs1 to_follow (canonical_path names) = Inr d" "is_dir (fs_nodes fs1) d"
        "prefix root d" and "fs1 = fs \<or> empty_dir fs1 d" by auto
    then have regular: "node_kind node = Regular" if "bt_get (fs_nodes fs1) (d @ [name]) = Some node" for node
      using version_at_file [OF assms(4,5,3), of d node] that by (auto simp: empty_dir_def)
    obtain r2 fs2 where "io_write (canonical_path (names @ [name])) content fs1 = (r2, fs2)" by force
    with placed [OF d regular this] made Ok run assms(6) show ?thesis
      by (cases r2) (auto simp: and_then_def at_path_def map_err_def return_def intro: grown_confined)
  qed (use made run assms(6) in \<open>auto simp: and_then_def intro: grown_confined\<close>)
qed

lemma source_written:
  assumes "fs_ok fs" and "wk_root self = canonical_path root"
    and "path_join (wk_root self) relative = canonical_path (names @ [name])"
    and "write_source self relative (canonical_path (names @ [name])) expected content fs = (res, fs')"
  shows "confined root fs fs' \<and> (\<forall>obs. res = Ok obs \<longrightarrow>
     obs = Some \<lparr>fo_path = relative, fo_version = regular_version content\<rparr> \<and>
     file_in_place root fs' names name content \<and>
     (\<exists>version. expected = Some version \<and> version_at self relative fs = (Ok version, fs)))"
proof (cases expected)
  case (Some version)
  obtain r fs1 where run: "version_at self relative fs = (r, fs1)" by force
  then have same: "fs1 = fs" by (rule looks_same [OF version_at_looks])
  show ?thesis
  proof (cases "r = Ok version")
    case ok: True
    show ?thesis
    proof (cases "writable_version version")
      case True
      then have "and_then (create_parent_directories self (canonical_path (names @ [name]))) (\<lambda>_.
          and_then (at_path (canonical_path (names @ [name])) (io_write (canonical_path (names @ [name])) content)) (\<lambda>_.
          return (Some \<lparr>fo_path = relative, fo_version = regular_version content\<rparr>))) fs = (res, fs')"
        using assms(4) run same Some ok
        by (simp add: write_source_def writable_version_def split: FileVersion.splits)
      from write_after_check [OF assms(1-3) _ True this] run same ok Some show ?thesis by auto
    next
      case False
      with assms(4) run same Some ok show ?thesis
        by (auto simp: write_source_def writable_version_def and_then_def ensure_def ok_or_def return_def throw_def
            split: FileVersion.splits)
    qed
  next
    case False
    with assms(4) run same Some show ?thesis
      by (cases r) (auto simp: write_source_def and_then_def ok_or_def return_def throw_def)
  qed
qed (use assms(4) in \<open>auto simp: write_source_def\<close>)

lemma source_write_inside:
  assumes "fs_ok fs" and "wk_root self = canonical_path root" and "normalize_relative path = Inr relative"
    and "\<not> is_scratch self relative" and "write_utf8 self path expected content fs = (res, fs')"
  shows "confined root fs fs' \<and> (\<forall>obs. res = Ok obs \<longrightarrow>
     obs = Some \<lparr>fo_path = relative, fo_version = regular_version content\<rparr> \<and>
     (\<exists>names name. canonical_path (names @ [name]) = path_join (wk_root self) relative \<and>
        file_in_place root fs' names name content) \<and>
     (\<exists>version. expected = Some version \<and> version_at self relative fs = (Ok version, fs)))"
proof -
  obtain names name where relative: "relative = map Normal (names @ [name])"
    using normalized_names [OF assms(3)] .
  with assms(2) have target: "path_join (wk_root self) relative = canonical_path ((root @ names) @ [name])"
    using join_names [of root "names @ [name]"] by simp
  obtain r fs1 where run: "ensure_ancestor_inside self (canonical_path ((root @ names) @ [name])) fs = (r, fs1)" by force
  then have "fs1 = fs" unfolding ensure_ancestor_inside_def by (rule looks_same [OF ancestor_loop_looks])
  with run assms(3-5) target show ?thesis
    using source_written [OF assms(1,2) target, of expected content res fs']
    by (cases r) (auto simp: write_utf8_def lift_result_def and_then_def Let_def return_def)
qed

section \<open>Reading back\<close>

lemma read_in_place:
  assumes "file_in_place root fs names name content" and "wk_root self = canonical_path root"
    and "fs_fault fs = (\<lambda>_ _. None)" and "normalize_relative path = Inr relative"
    and "path_join (wk_root self) relative = canonical_path (names @ [name])" and "is_utf8 content"
  shows "read_utf8 self path fs = (Ok \<lparr>wr_path = relative, wr_content = content,
     wr_observation = (if is_scratch self relative then None
       else Some \<lparr>fo_path = relative, fo_version = regular_version content\<rparr>)\<rparr>, fs)"
proof -
  let ?target = "canonical_path (names @ [name])"
  obtain d where d: "resolve_path fs to_follow (canonical_path names) = Inr d" "is_dir (fs_nodes fs) d" "prefix root d"
      "bt_get (fs_nodes fs) (d @ [name]) = Some (FileNode content)"
    using assms(1) by (auto simp: file_in_place_def)
  have "ensure_ancestor_inside self ?target fs = (Ok (), fs)"
    using d(1,3) assms(2,3)
    by (simp add: ensure_ancestor_inside_def canonical_parent ancestor_loop.simps [of self] and_then_def catch_result_def
        io_canonicalize_def located_eq return_def inside_Ok)
  moreover obtain j k where "resolve_path fs no_follow ?target = walk (fs_nodes fs) no_follow j d [Normal name]"
      "resolve_path fs to_follow ?target = walk (fs_nodes fs) to_follow k d [Normal name]"
    using resolve_last [OF d(1,2)] by blast
  then have "resolve_path fs no_follow ?target = Inr (d @ [name])" "resolve_path fs to_follow ?target = Inr (d @ [name])"
    using d(4) by simp_all
  then have "io_symlink_metadata ?target fs = (Ok (FileNode content), fs)" "io_read ?target fs = (Ok content, fs)"
    using d(4) assms(3)
    by (simp_all add: io_symlink_metadata_def io_read_def node_of_def and_then_def located_eq gets_def ok_or_def return_def)
  ultimately show ?thesis
    using assms(4-6)
    by (simp add: read_utf8_def lift_result_def Let_def at_path_def map_err_def check_read_target_def and_then_def
        ensure_def return_def)
qed

text \<open>C9. A write of a source file, however it ends, changes nothing outside the workspace, also when
  the tree contains symbolic links. When it succeeds the file had exactly the version the caller
  expected, now holds the text, and the version that is reported is the version of that text.\<close>

theorem source_write_confined:
  assumes "fs_ok fs" and "wk_root self = canonical_path root" and "normalize_relative path = Inr relative"
    and "\<not> is_scratch self relative" and "write_utf8 self path expected content fs = (res, fs')"
  shows "confined root fs fs' \<and> (\<forall>obs. res = Ok obs \<longrightarrow>
     obs = Some \<lparr>fo_path = relative, fo_version = regular_version content\<rparr> \<and>
     (\<exists>names name. canonical_path (names @ [name]) = path_join (wk_root self) relative \<and>
        file_in_place root fs' names name content) \<and>
     (\<exists>version. expected = Some version \<and> version_at self relative fs = (Ok version, fs)))"
  using assms by (rule source_write_inside)

text \<open>C10. A source file that was written is read back: the next read returns the text that was written
  with the version the write reported, so the reader may write it again.\<close>

theorem written_source_reads_back:
  assumes "fs_ok fs" and "wk_root self = canonical_path root" and "normalize_relative path = Inr relative"
    and "\<not> is_scratch self relative" and "write_utf8 self path expected content fs = (Ok obs, fs')"
    and "fs_fault fs = (\<lambda>_ _. None)" and "is_utf8 content"
  shows "read_utf8 self path fs' = (Ok \<lparr>wr_path = relative, wr_content = content, wr_observation = obs\<rparr>, fs')"
proof -
  obtain names name where names: "canonical_path (names @ [name]) = path_join (wk_root self) relative"
      "file_in_place root fs' names name content"
    and obs: "obs = Some \<lparr>fo_path = relative, fo_version = regular_version content\<rparr>"
    and "fs_fault fs' = fs_fault fs"
    using source_write_inside [OF assms(1-5)] by (auto simp: confined_def)
  with assms(6) have fault: "fs_fault fs' = (\<lambda>_ _. None)" by simp
  from read_in_place [OF names(2) assms(2) fault assms(3) names(1) [symmetric] assms(7)] assms(4) obs show ?thesis by simp
qed

text \<open>A write of a source file that names another version than the one on disk is refused with
  both versions, and changes nothing.\<close>

lemma stale_write_refused:
  assumes "normalize_relative path = Inr relative" and "\<not> is_scratch self relative"
    and "version_at self relative fs = (Ok actual, fs1)" and "actual \<noteq> expected"
  shows "write_utf8 self path (Some expected) content fs =
     (Err (VersionConflict \<lparr>wc_path = relative, wc_expected = expected, wc_actual = actual\<rparr>), fs)"
proof -
  let ?target = "path_join (wk_root self) relative"
  from assms(3) [unfolded version_at_def Let_def] obtain u fs2 where
    check: "ensure_ancestor_inside self ?target fs = (Ok u, fs2)"
    by (rule and_then_OkE)
  then have "fs2 = fs" unfolding ensure_ancestor_inside_def by (rule looks_same [OF ancestor_loop_looks])
  moreover have "fs1 = fs" by (rule looks_same [OF version_at_looks assms(3)])
  ultimately show ?thesis
    using assms check
    by (simp add: write_utf8_def lift_result_def Let_def write_source_def throw_def)
qed

section \<open>A workspace with a link to the outside\<close>

definition sample_tree :: FileSystem where
  "sample_tree = \<lparr>fs_nodes = bt_of_list
       [([''ws''], DirectoryNode), ([''ws'', ''target''], DirectoryNode),
        ([''ws'', ''target'', ''out''], SymlinkNode ''/etc/passwd''),
        ([''etc''], DirectoryNode), ([''etc'', ''passwd''], FileNode ''root'')],
     fs_cwd = [], fs_fault = (\<lambda>_ _. None), fs_short_write = (\<lambda>_. None)\<rparr>"

definition sample_workspace :: WorkspaceConsistency where
  "sample_workspace = \<lparr>wk_root = [RootDir, Normal ''ws''], wk_scratch_paths = {[Normal ''target'']}\<rparr>"

lemma sample_root: "wk_root sample_workspace = canonical_path [''ws'']"
  by (simp add: sample_workspace_def canonical_path_def)

definition tree_check :: "(location, file_node) btree_map \<Rightarrow> bool" where
  "tree_check nodes \<longleftrightarrow> list_all (\<lambda>(loc, _). loc \<noteq> [] \<and> node_at nodes (butlast loc) = Some DirectoryNode) (bt_entries nodes)"

lemma tree_check_ok: "tree_check nodes \<Longrightarrow> tree_ok nodes"
  by (auto simp: tree_check_def tree_ok_def is_dir_def list_all_iff simp flip: in_bt_entries)

lemma sample_tree_ok: "fs_ok sample_tree"
proof -
  have "tree_check (fs_nodes sample_tree)" by code_simp
  then show ?thesis unfolding fs_ok_def by (rule tree_check_ok)
qed

lemma sample_new_file:
  "case write_utf8 sample_workspace [Normal ''src'', Normal ''lib''] (Some Absent) ''x'' sample_tree of
     (Ok _, fs) \<Rightarrow> bt_get (fs_nodes fs) [''ws'', ''src'', ''lib''] = Some (FileNode ''x'') | _ \<Rightarrow> False"
  by code_simp

lemma sample_paths:
  "normalize_relative [Normal ''src'', Normal ''lib''] = Inr [Normal ''src'', Normal ''lib'']"
  "\<not> is_scratch sample_workspace [Normal ''src'', Normal ''lib'']" "is_utf8 ''x''"
  by code_simp+

theorem source_write_confined_witness:
  "confined [''ws''] sample_tree
     (snd (write_utf8 sample_workspace [Normal ''src'', Normal ''lib''] (Some Absent) ''x'' sample_tree))"
  using source_write_confined [OF sample_tree_ok sample_root sample_paths(1,2) prod.collapse [symmetric]] by blast

theorem written_source_reads_back_witness:
  "\<exists>obs fs'. write_utf8 sample_workspace [Normal ''src'', Normal ''lib''] (Some Absent) ''x'' sample_tree = (Ok obs, fs') \<and>
     read_utf8 sample_workspace [Normal ''src'', Normal ''lib''] fs' =
       (Ok \<lparr>wr_path = [Normal ''src'', Normal ''lib''], wr_content = ''x'', wr_observation = obs\<rparr>, fs')"
proof -
  obtain obs fs' where run: "write_utf8 sample_workspace [Normal ''src'', Normal ''lib''] (Some Absent) ''x'' sample_tree = (Ok obs, fs')"
    using sample_new_file by (auto split: prod.splits outcome.splits)
  have "fs_fault sample_tree = (\<lambda>_ _. None)" by (simp add: sample_tree_def)
  with written_source_reads_back [OF sample_tree_ok sample_root sample_paths(1,2) run] run sample_paths(3) show ?thesis by blast
qed


end
