(* ===== verification/Manifest.thy ===== *)
theory Manifest
  imports Workspace_Facts
begin

text \<open>
  What the manifest of a workspace records: exactly the files that are neither scratch nor repository
  metadata, each with the version of its content. Two equal manifests mean that none of these files
  was added, removed or changed, up to collisions of the fingerprint.
\<close>

section \<open>The versions a tree has\<close>

fun version_of :: "file_node \<Rightarrow> FileVersion" where
  "version_of (FileNode bytes) = regular_version bytes"
| "version_of DirectoryNode = directory_version"
| "version_of (SymlinkNode target) = Present (content_fingerprint (utf8_lossy target)) Symlink"
| "version_of (OtherNode n _) = Present (content_fingerprint (show_nat n)) Other"

definition visible :: "WorkspaceConsistency \<Rightarrow> string list \<Rightarrow> bool" where
  "visible self names \<longleftrightarrow> \<not> is_repository_metadata (map Normal names) \<and> \<not> is_scratch self (map Normal names)"

definition source_version :: "WorkspaceConsistency \<Rightarrow> FileSystem \<Rightarrow> location \<Rightarrow> string list \<Rightarrow> FileVersion option" where
  "source_version self fs root names =
     (if names \<noteq> [] \<and> visible self names then map_option version_of (bt_get (fs_nodes fs) (root @ names)) else None)"

lemma starts_with_prefix: "path_starts_with path base \<longleftrightarrow> prefix base path"
  unfolding path_starts_with_def by (metis append_eq_conv_conj prefix_def take_is_prefix)

lemma visible_prefix: "visible self (names @ deeper) \<Longrightarrow> visible self names"
  by (auto simp: visible_def is_repository_metadata_def is_scratch_def starts_with_prefix dest: prefix_prefix)

section \<open>Canonical paths resolve to themselves\<close>

lemma parents_are_dirs:
  assumes "tree_ok nodes" and "bt_get nodes (loc @ deeper) = Some node" and "deeper \<noteq> []"
  shows "is_dir nodes loc"
  using assms(2,3)
proof (induction deeper arbitrary: node rule: rev_induct)
  case (snoc name deeper)
  then have dir: "is_dir nodes (loc @ deeper)"
    using assms(1) unfolding tree_ok_def by (metis append_assoc butlast_snoc)
  show ?case
  proof (cases "deeper = []")
    case False
    with dir have "bt_get nodes (loc @ deeper) = Some DirectoryNode" by (simp add: is_dir_def node_at_def)
    with snoc.IH False show ?thesis by blast
  qed (use dir in simp)
qed simp

lemma resolve_dir:
  assumes "fs_ok fs" and "is_dir (fs_nodes fs) loc"
  shows "resolve_path fs to_follow (canonical_path loc) = Inr loc"
  using assms(2)
proof (induction loc rule: rev_induct)
  case Nil
  then show ?case by (simp add: resolve_path_def canonical_path_def)
next
  case (snoc name loc)
  then have node: "bt_get (fs_nodes fs) (loc @ [name]) = Some DirectoryNode" by (simp add: is_dir_def)
  then have "is_dir (fs_nodes fs) loc"
    using parents_are_dirs [of "fs_nodes fs" loc "[name]"] assms(1) by (simp add: fs_ok_def)
  with resolve_last [OF snoc.IH this, of to_follow name] node show ?case by auto
qed

lemma in_child_names: "name \<in> set (child_names nodes loc) \<longleftrightarrow> bt_get nodes (loc @ [name]) \<noteq> None"
proof
  assume "bt_get nodes (loc @ [name]) \<noteq> None"
  then have "loc @ [name] \<in> {key \<in> set (bt_keys nodes). key \<noteq> [] \<and> butlast key = loc}"
    by (simp add: bt_contains_key_def)
  then show "name \<in> set (child_names nodes loc)"
    unfolding child_names_def set_map set_filter by (metis (no_types, lifting) image_eqI last_snoc)
qed (auto simp: child_names_def bt_contains_key_def)

section \<open>One entry\<close>

lemma hash_of_child:
  assumes "resolve_path fs to_follow (canonical_path names) = Inr d" and "is_dir (fs_nodes fs) d"
    and "bt_get (fs_nodes fs) (d @ [name]) = Some node" and "fs_ok fs"
    and "hash_at self (canonical_path (names @ [name])) node fs = (Ok hash, fs')"
  shows "Present hash (node_kind node) = version_of node"
proof -
  let ?target = "canonical_path (names @ [name])"
  obtain j k where last: "resolve_path fs no_follow ?target = walk (fs_nodes fs) no_follow j d [Normal name]"
      "resolve_path fs to_follow ?target = walk (fs_nodes fs) to_follow k d [Normal name]"
    using resolve_last [OF assms(1,2)] by blast
  show ?thesis
  proof (cases node)
    case (FileNode bytes)
    with last(2) assms(3) have "resolve_path fs to_follow ?target = Inr (d @ [name])" by simp
    moreover obtain i where "resolve_path fs to_follow (canonical_path (d @ [name])) = walk (fs_nodes fs) to_follow i d [Normal name]"
      using resolve_last [OF resolve_dir [OF assms(4,2)] assms(2)] by blast
    then have "resolve_path fs to_follow (canonical_path (d @ [name])) = Inr (d @ [name])"
      using FileNode assms(3) by simp
    ultimately show ?thesis
      using assms(3,5) FileNode
      by (auto simp: hash_at_def at_path_def map_err_def io_canonicalize_def io_read_def node_of_def and_then_def located_eq
          return_def throw_def gets_def ok_or_def ensure_canonical_inside_def ensure_def regular_version_def
          split: option.splits if_splits)
  next
    case (SymlinkNode target)
    with last(1) assms(3) have "resolve_path fs no_follow ?target = Inr (d @ [name])" by simp
    with assms(3,5) SymlinkNode show ?thesis
      by (auto simp: hash_at_def at_path_def map_err_def io_canonicalize_def io_read_link_def node_of_def and_then_def located_eq
          return_def throw_def gets_def ok_or_def ensure_canonical_inside_def ensure_def
          split: option.splits sum.splits if_splits)
  qed (use assms(5) in \<open>simp_all add: hash_at_def return_def directory_version_def\<close>)
qed

lemma version_of_child:
  assumes "fs_ok fs" and "wk_root self = canonical_path root" and "is_dir (fs_nodes fs) (root @ names)"
    and "bt_get (fs_nodes fs) ((root @ names) @ [name]) = Some node"
    and "version_at self (map Normal (names @ [name])) fs = (Ok version, fs')"
  shows "version = version_of node"
proof -
  let ?target = "canonical_path ((root @ names) @ [name])"
  have target: "path_join (wk_root self) (map Normal (names @ [name])) = ?target"
    using join_names [of root "names @ [name]"] assms(2) by simp
  note parent = resolve_dir [OF assms(1,3)]
  obtain r fs1 where metadata: "io_symlink_metadata ?target fs = (r, fs1)" by force
  then have "fs1 = fs" by (rule looks_same [rotated]) (rule looking)
  note run = assms(5) [unfolded version_at_def Let_def target]
  from run obtain u fs2 where check: "ensure_ancestor_inside self ?target fs = (Ok u, fs2)"
    and looked: "and_then (catch_result (io_symlink_metadata ?target)) (\<lambda>result. case result of
        Inl error \<Rightarrow> if error = IoNotFound then return Absent else throw (WorkspaceIo ?target error)
      | Inr metadata \<Rightarrow>
          and_then (hash_at self ?target metadata) (\<lambda>hash. return (Present hash (node_kind metadata)))) fs2 = (Ok version, fs')"
    by (rule and_then_OkE)
  from check have "fs2 = fs" unfolding ensure_ancestor_inside_def by (rule looks_same [OF ancestor_loop_looks])
  with looked metadata \<open>fs1 = fs\<close> metadata_last(2) [OF parent assms(3) metadata] assms(4)
  obtain found where "r = Ok found" "and_then (hash_at self ?target found) (\<lambda>hash. return (Present hash (node_kind found))) fs = (Ok version, fs')"
    by (cases r) (auto simp: catch_result_def and_then_def throw_def split: if_splits)
  moreover from this metadata_last(1) [OF parent assms(3) metadata] assms(4) have "found = node" by simp
  ultimately obtain hash where "hash_at self ?target node fs = (Ok hash, fs')" "version = Present hash (node_kind node)"
    by (auto simp: return_def elim!: and_then_OkE)
  with hash_of_child [OF parent assms(3,4,1)] show ?thesis by simp
qed

section \<open>Collecting the manifest\<close>

text \<open>The entries below a place are recorded and the others kept.\<close>

definition records ::
  "(string list \<Rightarrow> bool) \<Rightarrow> WorkspaceConsistency \<Rightarrow> FileSystem \<Rightarrow> location \<Rightarrow> manifest \<Rightarrow> manifest \<Rightarrow> bool" where
  "records below self fs root files files' \<longleftrightarrow>
     (\<forall>ks. bt_get files' (map Normal ks) =
        (case source_version self fs root ks of
           Some version \<Rightarrow> if below ks then Some version else bt_get files (map Normal ks)
         | None \<Rightarrow> bt_get files (map Normal ks)))"

fun chain :: "('a \<Rightarrow> 'b \<Rightarrow> 'b \<Rightarrow> bool) \<Rightarrow> 'a list \<Rightarrow> 'b \<Rightarrow> 'b \<Rightarrow> bool" where
  "chain P [] a b \<longleftrightarrow> b = a"
| "chain P (x # xs) a b \<longleftrightarrow> (\<exists>c. P x a c \<and> chain P xs c b)"

definition behaves :: "'s \<Rightarrow> ('a \<Rightarrow> bool) \<Rightarrow> ('e, 'a) outcome \<times> 's \<Rightarrow> bool" where
  "behaves s P run \<longleftrightarrow> snd run = s \<and> returned (fst run) \<and> (\<forall>x. fst run = Ok x \<longrightarrow> P x)"

lemma behaves_looks: "looks m \<Longrightarrow> (\<And>x s'. m s = (Ok x, s') \<Longrightarrow> P x) \<Longrightarrow> behaves s P (m s)"
  unfolding behaves_def looks_def by (metis prod.collapse)

lemma behaves_and_then:
  assumes "behaves s P (m s)" and "\<And>x. P x \<Longrightarrow> behaves s Q (f x s)"
  shows "behaves s Q (and_then m f s)"
proof -
  obtain r s1 where run: "m s = (r, s1)" by force
  with assms show ?thesis by (cases r) (auto simp: behaves_def and_then_def)
qed

lemma fold_each_chain:
  assumes "\<And>x acc. x \<in> set xs \<Longrightarrow> behaves s (P x acc) (f x acc s)"
  shows "behaves s (chain P xs acc) (fold_each f xs acc s)"
  using assms
proof (induction xs arbitrary: acc)
  case (Cons x xs)
  have "behaves s (chain P (x # xs) acc) (and_then (f x acc) (fold_each f xs) s)"
  proof (rule behaves_and_then)
    show "behaves s (P x acc) (f x acc s)" using Cons.prems by simp
    show "behaves s (chain P (x # xs) acc) (fold_each f xs c s)" if "P x acc c" for c
    proof -
      have "behaves s (chain P xs c) (fold_each f xs c s)" using Cons by simp
      with that show ?thesis by (auto simp: behaves_def)
    qed
  qed
  then show ?case by (simp only: fold_each.simps)
qed (simp add: behaves_def return_def)

lemma chain_records:
  "chain (\<lambda>c. records (prefix (names @ [c])) self fs root) cs files files' \<Longrightarrow>
     records (\<lambda>ks. \<exists>c\<in>set cs. prefix (names @ [c]) ks) self fs root files files'"
proof (induction cs arbitrary: files)
  case (Cons c cs)
  then obtain files1 where "records (prefix (names @ [c])) self fs root files files1"
      "records (\<lambda>ks. \<exists>c\<in>set cs. prefix (names @ [c]) ks) self fs root files1 files'" by auto
  then show ?case unfolding records_def by (auto split: option.splits)
qed (auto simp: records_def split: option.split)

lemma listed_below:
  assumes "fs_ok fs" and "source_version self fs root ks = Some version" and "strict_prefix names ks"
  shows "\<exists>c. bt_get (fs_nodes fs) ((root @ names) @ [c]) \<noteq> None \<and> prefix (names @ [c]) ks"
proof -
  obtain c rest where ks: "ks = names @ c # rest"
    using assms(3) by (auto elim: strict_prefixE')
  with assms(2) obtain node where node: "bt_get (fs_nodes fs) ((root @ names @ [c]) @ rest) = Some node"
    by (auto simp: source_version_def split: if_splits)
  have "bt_get (fs_nodes fs) (root @ names @ [c]) \<noteq> None"
  proof (cases "rest = []")
    case False
    with parents_are_dirs [OF _ node] assms(1) have "is_dir (fs_nodes fs) (root @ names @ [c])" by (simp add: fs_ok_def)
    then show ?thesis by (simp add: is_dir_def node_at_def)
  qed (use node in simp)
  then show ?thesis by (auto simp: ks)
qed

lemma records_children:
  assumes "fs_ok fs" and "records (\<lambda>ks. \<exists>c\<in>set (child_names (fs_nodes fs) (root @ names)). prefix (names @ [c]) ks) self fs root files files'"
  shows "records (strict_prefix names) self fs root files files'"
proof -
  have "(\<exists>c\<in>set (child_names (fs_nodes fs) (root @ names)). prefix (names @ [c]) ks) \<longleftrightarrow> strict_prefix names ks"
    if listed: "source_version self fs root ks = Some version" for ks version
  proof
    assume "\<exists>c\<in>set (child_names (fs_nodes fs) (root @ names)). prefix (names @ [c]) ks"
    then show "strict_prefix names ks"
      by (auto simp: strict_prefix_def prefix_def)
  next
    assume "strict_prefix names ks"
    then obtain c where "bt_get (fs_nodes fs) ((root @ names) @ [c]) \<noteq> None" "prefix (names @ [c]) ks"
      using listed_below [OF assms(1) listed] by blast
    then show "\<exists>c\<in>set (child_names (fs_nodes fs) (root @ names)). prefix (names @ [c]) ks"
      unfolding in_child_names [symmetric] by blast
  qed
  with assms(2) show ?thesis unfolding records_def by (auto split: option.splits)
qed

lemma depth_bound: "is_dir (fs_nodes fs) loc \<Longrightarrow> length loc \<le> tree_depth fs"
proof -
  have fold: "foldl max m ns \<ge> m \<and> (\<forall>n\<in>set ns. n \<le> foldl max m ns)" for m :: nat and ns
  proof (induction ns arbitrary: m)
    case (Cons n ns)
    from Cons.IH [of "max m n"] show ?case by auto
  qed simp
  assume "is_dir (fs_nodes fs) loc"
  then have "loc = [] \<or> bt_contains_key (fs_nodes fs) loc"
    by (auto simp: is_dir_def node_at_def bt_contains_key_def split: if_splits)
  then show ?thesis using fold [where m = 0 and ns = "map length (bt_keys (fs_nodes fs))"]
    by (auto simp: tree_depth_def)
qed

lemma read_dir_children:
  assumes "fs_ok fs" and "is_dir (fs_nodes fs) loc" and "at_path path (io_read_dir (canonical_path loc)) fs = (Ok entries, fs')"
  shows "entries = child_names (fs_nodes fs) loc"
  using assms(3) resolve_dir [OF assms(1,2)] assms(2)
  by (auto simp: at_path_def map_err_def io_read_dir_def node_of_def and_then_def located_eq gets_def ok_or_def return_def
      throw_def is_dir_def split: option.splits prod.splits outcome.splits if_splits)

lemma records_hidden:
  assumes "\<not> visible self (names @ [c])"
  shows "records (prefix (names @ [c])) self fs root files files"
proof -
  have "\<not> prefix (names @ [c]) ks" if "source_version self fs root ks = Some version" for ks version
    using that assms visible_prefix by (auto simp: source_version_def prefix_def split: if_splits)
  then show ?thesis by (auto simp: records_def split: option.split)
qed

lemma normal_snoc: "map Normal ks = map Normal names @ [Normal c] \<longleftrightarrow> ks = names @ [c]"
proof -
  have "map Normal ks = map Normal (names @ [c]) \<longleftrightarrow> ks = names @ [c]"
    by (rule inj_map_eq_map) (simp add: inj_def)
  then show ?thesis by simp
qed

lemma records_leaf:
  assumes "fs_ok fs" and "visible self (names @ [c])" and "bt_get (fs_nodes fs) ((root @ names) @ [c]) = Some node"
    and "node \<noteq> DirectoryNode"
  shows "records (prefix (names @ [c])) self fs root files (bt_insert (map Normal (names @ [c])) (version_of node) files)"
proof -
  have "ks = names @ [c]" if "source_version self fs root ks = Some version" and "prefix (names @ [c]) ks" for ks version
  proof -
    from that obtain rest node' where ks: "ks = (names @ [c]) @ rest"
        and node': "bt_get (fs_nodes fs) ((root @ names @ [c]) @ rest) = Some node'"
      by (auto simp: source_version_def prefix_def split: if_splits)
    have "rest = []"
    proof (rule ccontr)
      assume "rest \<noteq> []"
      with parents_are_dirs [OF _ node'] assms(1) have "is_dir (fs_nodes fs) (root @ names @ [c])" by (simp add: fs_ok_def)
      with assms(3,4) show False by (simp add: is_dir_def node_at_def)
    qed
    with ks show ?thesis by simp
  qed
  moreover have "source_version self fs root (names @ [c]) = Some (version_of node)"
    using assms(2,3) by (simp add: source_version_def)
  ultimately show ?thesis
    by (auto simp: records_def normal_snoc split: option.split)
qed

lemma records_directory:
  assumes "visible self (names @ [c])" and "bt_get (fs_nodes fs) ((root @ names) @ [c]) = Some DirectoryNode"
    and "records (strict_prefix (names @ [c])) self fs root (bt_insert (map Normal (names @ [c])) directory_version files) files'"
  shows "records (prefix (names @ [c])) self fs root files files'"
proof -
  have "source_version self fs root (names @ [c]) = Some directory_version"
    using assms(1,2) by (simp add: source_version_def)
  with assms(3) show ?thesis
    by (auto simp: records_def strict_prefix_def normal_snoc split: option.splits if_splits)
qed

lemma metadata_behaves:
  assumes "fs_ok fs" and "is_dir (fs_nodes fs) loc"
  shows "behaves fs (\<lambda>node. bt_get (fs_nodes fs) (loc @ [c]) = Some node)
     (at_path path (io_symlink_metadata (canonical_path (loc @ [c]))) fs)"
proof (rule behaves_looks)
  show "looks (at_path path (io_symlink_metadata (canonical_path (loc @ [c]))))" by (intro looking)
  fix node fs'
  assume "at_path path (io_symlink_metadata (canonical_path (loc @ [c]))) fs = (Ok node, fs')"
  then have "io_symlink_metadata (canonical_path (loc @ [c])) fs = (Ok node, fs')"
    by (auto simp: at_path_def map_err_def split: prod.splits outcome.splits)
  with metadata_last(1) [OF resolve_dir [OF assms] assms(2) this] show "bt_get (fs_nodes fs) (loc @ [c]) = Some node" by simp
qed

lemma entry_behaves:
  assumes "fs_ok fs" and "wk_root self = canonical_path root" and "is_dir (fs_nodes fs) (root @ names)"
    and below: "\<And>files. is_dir (fs_nodes fs) (root @ names @ [c]) \<Longrightarrow>
      behaves fs (records (strict_prefix (names @ [c])) self fs root files)
        (collect (canonical_path (root @ names @ [c])) (map Normal (names @ [c])) files fs)"
  shows "behaves fs (records (prefix (names @ [c])) self fs root files)
     (real_entry collect self (canonical_path ((root @ names) @ [c])) (map Normal (names @ [c])) files fs)"
proof (cases "visible self (names @ [c])")
  case False
  then show ?thesis
    using records_hidden [OF False] by (auto simp: real_entry_def visible_def behaves_def return_def)
next
  case True
  let ?path = "canonical_path ((root @ names) @ [c])" and ?relative = "map Normal (names @ [c])"
  have leaf: "behaves fs (records (prefix (names @ [c])) self fs root files)
      (and_then (version_at self ?relative) (\<lambda>version. return (bt_insert ?relative version files)) fs)"
    if node: "bt_get (fs_nodes fs) ((root @ names) @ [c]) = Some node" and "node \<noteq> DirectoryNode" for node
  proof (rule behaves_and_then)
    show "behaves fs (\<lambda>version. version = version_of node) (version_at self ?relative fs)"
      using version_of_child [OF assms(1-3) node] by (intro behaves_looks looking) blast
    show "behaves fs (records (prefix (names @ [c])) self fs root files) (return (bt_insert ?relative version files) fs)"
      if "version = version_of node" for version
      using records_leaf [OF assms(1) True node \<open>node \<noteq> DirectoryNode\<close>] that by (simp add: behaves_def return_def)
  qed
  have directory: "behaves fs (records (prefix (names @ [c])) self fs root files)
      (and_then (at_path ?path (io_canonicalize ?path)) (\<lambda>canonical.
       and_then (ensure_canonical_inside self canonical) (\<lambda>_.
       collect canonical ?relative (bt_insert ?relative directory_version files))) fs)"
    if node: "bt_get (fs_nodes fs) ((root @ names) @ [c]) = Some DirectoryNode"
  proof (rule behaves_and_then)
    have dir: "is_dir (fs_nodes fs) (root @ names @ [c])" using node by (simp add: is_dir_def node_at_def)
    show "behaves fs (\<lambda>canonical. canonical = ?path) (at_path ?path (io_canonicalize ?path) fs)"
      using resolve_dir [OF assms(1) dir]
      by (intro behaves_looks looking) (auto simp: at_path_def map_err_def canonicalize_Ok split: prod.splits outcome.splits)
    fix canonical
    assume canonical: "canonical = ?path"
    show "behaves fs (records (prefix (names @ [c])) self fs root files)
        (and_then (ensure_canonical_inside self canonical) (\<lambda>_.
         collect canonical ?relative (bt_insert ?relative directory_version files)) fs)"
    proof (rule behaves_and_then)
      show "behaves fs (\<lambda>_. True) (ensure_canonical_inside self canonical fs)" by (intro behaves_looks looking) simp
      show "behaves fs (records (prefix (names @ [c])) self fs root files)
          (collect canonical ?relative (bt_insert ?relative directory_version files) fs)"
        using below [OF dir, of "bt_insert ?relative directory_version files"] records_directory [OF True node]
        unfolding canonical behaves_def by (auto simp del: map_append)
    qed
  qed
  have found: "behaves fs (records (prefix (names @ [c])) self fs root files)
      (and_then (at_path ?path (io_symlink_metadata ?path)) (\<lambda>metadata.
        if metadata = DirectoryNode then
          and_then (at_path ?path (io_canonicalize ?path)) (\<lambda>canonical.
          and_then (ensure_canonical_inside self canonical) (\<lambda>_.
          collect canonical ?relative (bt_insert ?relative directory_version files)))
        else
          and_then (version_at self ?relative) (\<lambda>version. return (bt_insert ?relative version files))) fs)"
    by (rule behaves_and_then, rule metadata_behaves [OF assms(1,3)]) (use leaf directory in \<open>auto simp del: map_append\<close>)
  from True have shown: "\<not> (is_repository_metadata ?relative \<or> is_scratch self ?relative)" by (simp add: visible_def)
  show ?thesis unfolding real_entry_def if_not_P [OF shown] by (rule found)
qed

text \<open>Both walks read a directory, treat its entries one after the other and descend; they differ in
  what they do with an entry.\<close>

locale manifest_walk =
  fixes suits :: "WorkspaceConsistency \<Rightarrow> location \<Rightarrow> bool"
    and entry :: "(PathBuf \<Rightarrow> PathBuf \<Rightarrow> manifest \<Rightarrow> manifest wk) \<Rightarrow> WorkspaceConsistency \<Rightarrow> PathBuf \<Rightarrow> PathBuf \<Rightarrow> manifest \<Rightarrow> manifest wk"
    and collect :: "nat \<Rightarrow> WorkspaceConsistency \<Rightarrow> PathBuf \<Rightarrow> PathBuf \<Rightarrow> manifest \<Rightarrow> manifest wk"
  assumes collect_Suc: "collect (Suc n) self directory relative files =
      and_then (at_path directory (io_read_dir directory)) (\<lambda>entries.
      fold_each (\<lambda>name. entry (collect n self) self (directory @ [Normal name]) (relative @ [Normal name])) entries files)"
    and entry_records: "fs_ok fs \<Longrightarrow> suits self root \<Longrightarrow> is_dir (fs_nodes fs) (root @ names) \<Longrightarrow>
      (\<And>files. is_dir (fs_nodes fs) (root @ names @ [c]) \<Longrightarrow>
        behaves fs (records (strict_prefix (names @ [c])) self fs root files)
          (below (canonical_path (root @ names @ [c])) (map Normal (names @ [c])) files fs)) \<Longrightarrow>
      behaves fs (records (prefix (names @ [c])) self fs root files)
        (entry below self (canonical_path ((root @ names) @ [c])) (map Normal (names @ [c])) files fs)"
begin

lemma collect_behaves:
  assumes "fs_ok fs" and "suits self root"
  shows "is_dir (fs_nodes fs) (root @ names) \<Longrightarrow> tree_depth fs < length (root @ names) + n \<Longrightarrow>
     behaves fs (records (strict_prefix names) self fs root files)
       (collect n self (canonical_path (root @ names)) (map Normal names) files fs)"
proof (induction n arbitrary: names files)
  case 0
  with depth_bound [of fs "root @ names"] show ?case by simp
next
  case (Suc n)
  let ?dir = "canonical_path (root @ names)"
  let ?P = "\<lambda>c. records (prefix (names @ [c])) self fs root"
  have step: "behaves fs (?P c files)
      (entry (collect n self) self (?dir @ [Normal c]) (map Normal names @ [Normal c]) files fs)" for c files
    using entry_records [OF assms Suc.prems(1), of c "collect n self" files] Suc.IH [of "names @ [c]"] Suc.prems(2)
    by (simp add: canonical_snoc [of "root @ names" c, simplified])
  show ?case
    unfolding collect_Suc
  proof (rule behaves_and_then)
    show "behaves fs (\<lambda>entries. entries = child_names (fs_nodes fs) (root @ names)) (at_path ?dir (io_read_dir ?dir) fs)"
      using read_dir_children [OF assms(1) Suc.prems(1)] by (intro behaves_looks looking) blast
    fix entries
    assume entries: "entries = child_names (fs_nodes fs) (root @ names)"
    have "behaves fs (chain ?P entries files) (fold_each (\<lambda>name. entry (collect n self) self
       (?dir @ [Normal name]) (map Normal names @ [Normal name])) entries files fs)"
      by (rule fold_each_chain) (rule step)
    then show "behaves fs (records (strict_prefix names) self fs root files) (fold_each (\<lambda>name. entry (collect n self) self
       (?dir @ [Normal name]) (map Normal names @ [Normal name])) entries files fs)"
      using records_children [OF assms(1)] chain_records unfolding behaves_def entries by blast
  qed
qed

lemma collect_exact:
  assumes "fs_ok fs" and "suits self root" and "is_dir (fs_nodes fs) root"
  shows "behaves fs (\<lambda>files. \<forall>names. bt_get files (map Normal names) = source_version self fs root names)
     (collect (Suc (tree_depth fs)) self (canonical_path root) [] bt_empty fs)"
proof -
  have "behaves fs (records (strict_prefix []) self fs root bt_empty)
      (collect (Suc (tree_depth fs)) self (canonical_path (root @ [])) (map Normal []) bt_empty fs)"
    by (rule collect_behaves [OF assms(1,2)]) (use assms(3) in simp_all)
  moreover have "bt_get files (map Normal names) = source_version self fs root names"
    if "records (strict_prefix []) self fs root bt_empty files" for files names
  proof (cases "source_version self fs root names")
    case (Some version)
    then have "strict_prefix [] names" by (auto simp: source_version_def strict_prefix_def split: if_splits)
    with that Some show ?thesis by (auto simp: records_def dest: spec [of _ names])
  qed (use that in \<open>auto simp: records_def dest: spec [of _ names]\<close>)
  ultimately show ?thesis by (simp add: behaves_def)
qed

end

interpretation real: manifest_walk "\<lambda>self root. wk_root self = canonical_path root" real_entry collect_real_versions
  by unfold_locales (simp, rule entry_behaves)

lemma baseline_behaves:
  assumes "fs_ok fs" and "wk_root self = canonical_path root" and "is_dir (fs_nodes fs) root"
  shows "behaves fs (\<lambda>files. \<forall>names. bt_get files (map Normal names) = source_version self fs root names)
     (checkpoint_baseline self fs)"
  using real.collect_exact [OF assms] assms(2) by (simp add: checkpoint_baseline_def del: collect_real_versions.simps)

text \<open>C11. The manifest of a workspace is exact: taking it always ends, changes nothing, and when it
  succeeds it holds for every name below the root the version of the file there, or nothing when
  there is no file or the file is scratch or repository metadata.\<close>

theorem checkpoint_baseline_exact:
  assumes "fs_ok fs" and "wk_root self = canonical_path root" and "is_dir (fs_nodes fs) root"
    and "checkpoint_baseline self fs = (res, fs')"
  shows "fs' = fs \<and> returned res \<and>
     (\<forall>files names. res = Ok files \<longrightarrow> bt_get files (map Normal names) = source_version self fs root names)"
  using baseline_behaves [OF assms(1-3)] assms(4) by (simp add: behaves_def)

theorem checkpoint_baseline_exact_witness:
  "\<exists>res. checkpoint_baseline sample_workspace sample_tree = (res, sample_tree) \<and> returned res \<and>
     (\<forall>files. res = Ok files \<longrightarrow> bt_get files [Normal ''target'', Normal ''out''] = None)"
proof -
  have dir: "is_dir (fs_nodes sample_tree) [''ws'']" unfolding is_dir_def by code_simp
  have hidden: "source_version sample_workspace sample_tree [''ws''] [''target'', ''out''] = None"
    unfolding source_version_def visible_def by code_simp
  obtain res fs where run: "checkpoint_baseline sample_workspace sample_tree = (res, fs)" by force
  from checkpoint_baseline_exact [OF sample_tree_ok sample_root dir run] hidden
  have "fs = sample_tree" "returned res" "\<forall>files. res = Ok files \<longrightarrow> bt_get files (map Normal [''target'', ''out'']) = None"
    by metis+
  with run show ?thesis by simp
qed

section \<open>Comparing manifests\<close>

lemma compare_manifests_iff:
  "compare_manifests expected actual = Inr () \<longleftrightarrow> (\<forall>path. version_in expected path = version_in actual path)"
proof -
  have "version_in expected path = version_in actual path"
    if "path \<notin> set (bt_keys expected) \<union> set (bt_keys actual)" for path
    using that by (auto simp: version_in_def bt_contains_key_def)
  then show ?thesis
    by (auto simp: compare_manifests_def find_None_iff find_Some_iff split: option.split)
qed

lemma source_version_Present: "source_version self fs root names \<noteq> Some Absent"
proof -
  have "version_of node \<noteq> Absent" for node
    by (cases node) (simp_all add: regular_version_def directory_version_def)
  then show ?thesis by (auto simp: source_version_def)
qed

text \<open>A baseline that is still valid: no source file was added, removed or changed since.\<close>

lemma valid_baseline_unchanged:
  assumes "fs_ok fs0" and "wk_root self = canonical_path root" and "is_dir (fs_nodes fs0) root"
    and "checkpoint_baseline self fs0 = (Ok baseline, fs0')"
    and "fs_ok fs" and "is_dir (fs_nodes fs) root" and "validate_checkpoint_baseline self baseline fs = (Ok u, fs')"
  shows "source_version self fs root names = source_version self fs0 root names"
proof -
  from assms(7) obtain actual fs1 where now: "checkpoint_baseline self fs = (Ok actual, fs1)"
      and "compare_manifests baseline actual = Inr ()"
    by (auto simp: validate_checkpoint_baseline_def lift_result_def throw_def return_def elim!: and_then_OkE split: sum.splits)
  then have "version_in baseline (map Normal names) = version_in actual (map Normal names)"
    by (simp add: compare_manifests_iff)
  moreover have "bt_get baseline (map Normal names) = source_version self fs0 root names"
    "bt_get actual (map Normal names) = source_version self fs root names"
    using baseline_behaves [OF assms(1-3)] baseline_behaves [OF assms(5,2,6)] assms(4) now by (simp_all add: behaves_def)
  ultimately show ?thesis
    using source_version_Present [of self fs root names] source_version_Present [of self fs0 root names]
    by (auto simp: version_in_def split: option.splits)
qed

end
