(* ===== verification/Transaction_Facts.thy ===== *)
theory Transaction_Facts
  imports Transaction Manifest
begin

text \<open>
  What a transaction guarantees: its result is applied only to the files it began with, and a commit
  that succeeds leaves exactly the files of the snapshot.
\<close>

section \<open>The manifest of a snapshot\<close>

lemma snapshot_version_looks [looking]: "looks (snapshot_version self relative path metadata)"
  unfolding snapshot_version_def ensure_snapshot_link_inside_def Let_def
  by (cases "node_kind metadata"; simp; intro looking; auto intro!: looking split: option.split)

lemma snapshot_version_of:
  assumes "fs_ok fs" and "is_dir (fs_nodes fs) d" and "bt_get (fs_nodes fs) (d @ [name]) = Some node"
    and "snapshot_version self relative (canonical_path (d @ [name])) node fs = (Ok version, fs')"
  shows "version = version_of node"
proof -
  let ?path = "canonical_path (d @ [name])"
  obtain j k where last: "resolve_path fs no_follow ?path = walk (fs_nodes fs) no_follow j d [Normal name]"
      "resolve_path fs to_follow ?path = walk (fs_nodes fs) to_follow k d [Normal name]"
    using resolve_last [OF resolve_dir [OF assms(1,2)] assms(2)] by blast
  show ?thesis
  proof (cases node)
    case (FileNode bytes)
    with last(2) assms(3) have "resolve_path fs to_follow ?path = Inr (d @ [name])" by simp
    with assms(3,4) FileNode show ?thesis
      by (auto simp: snapshot_version_def at_path_def map_err_def io_read_def node_of_def and_then_def located_eq
          return_def gets_def ok_or_def split: option.splits)
  next
    case (SymlinkNode target)
    with last(1) assms(3) have "resolve_path fs no_follow ?path = Inr (d @ [name])" by simp
    with assms(3,4) SymlinkNode show ?thesis
      by (auto simp: snapshot_version_def at_path_def map_err_def io_read_link_def node_of_def and_then_def located_eq
          return_def gets_def ok_or_def split: option.splits outcome.splits prod.splits)
  qed (use assms(4) in \<open>simp_all add: snapshot_version_def return_def\<close>)
qed

lemma snapshot_entry_records:
  assumes "fs_ok fs" and "is_dir (fs_nodes fs) (root @ names)"
    and below: "\<And>files. is_dir (fs_nodes fs) (root @ names @ [c]) \<Longrightarrow>
      behaves fs (records (strict_prefix (names @ [c])) self fs root files)
        (collect (canonical_path (root @ names @ [c])) (map Normal (names @ [c])) files fs)"
  shows "behaves fs (records (prefix (names @ [c])) self fs root files)
     (snapshot_entry collect self (canonical_path ((root @ names) @ [c])) (map Normal (names @ [c])) files fs)"
proof (cases "visible self (names @ [c])")
  case False
  then show ?thesis
    using records_hidden [OF False] by (auto simp: snapshot_entry_def visible_def behaves_def return_def)
next
  case True
  let ?path = "canonical_path ((root @ names) @ [c])" and ?relative = "map Normal (names @ [c])"
  have recorded: "behaves fs (records (prefix (names @ [c])) self fs root files)
      ((let files' = bt_insert ?relative version files in
        if node = DirectoryNode then collect ?path ?relative files' else return files') fs)"
    if node: "bt_get (fs_nodes fs) ((root @ names) @ [c]) = Some node" and version: "version = version_of node" for node version
  proof (cases "node = DirectoryNode")
    case directory: True
    with node have "is_dir (fs_nodes fs) (root @ names @ [c])" by (simp add: is_dir_def node_at_def)
    from below [OF this, of "bt_insert ?relative directory_version files"] records_directory [OF True] node directory
    show ?thesis unfolding version behaves_def Let_def by (auto simp del: map_append)
  next
    case False
    with records_leaf [OF assms(1) True node] show ?thesis by (simp add: version behaves_def return_def Let_def)
  qed
  have found: "behaves fs (records (prefix (names @ [c])) self fs root files)
      (and_then (at_path ?path (io_symlink_metadata ?path)) (\<lambda>metadata.
       and_then (snapshot_version self ?relative ?path metadata) (\<lambda>version.
       let files' = bt_insert ?relative version files in
       if metadata = DirectoryNode then collect ?path ?relative files' else return files')) fs)"
  proof (rule behaves_and_then, rule metadata_behaves [OF assms(1,2)], rule behaves_and_then)
    fix node
    assume node: "bt_get (fs_nodes fs) ((root @ names) @ [c]) = Some node"
    show "behaves fs (\<lambda>version. version = version_of node) (snapshot_version self ?relative ?path node fs)"
      using snapshot_version_of [OF assms(1,2) node] by (intro behaves_looks looking) blast
  qed (rule recorded)
  from True have shown: "\<not> (is_repository_metadata ?relative \<or> is_scratch self ?relative)" by (simp add: visible_def)
  show ?thesis unfolding snapshot_entry_def if_not_P [OF shown] by (rule found)
qed

interpretation snapshot: manifest_walk "\<lambda>_ _. True" snapshot_entry collect_snapshot_versions
  by unfold_locales (simp, rule snapshot_entry_records)

text \<open>Resolving a path through its last link gives a place that resolves to itself.\<close>

lemma walk_final:
  "walk nodes mode links cur path = Inr loc \<Longrightarrow> mode = to_follow \<Longrightarrow> tree_ok nodes \<Longrightarrow> is_dir nodes cur \<Longrightarrow>
     is_dir nodes loc \<or> (\<exists>d name node. loc = d @ [name] \<and> is_dir nodes d \<and> bt_get nodes loc = Some node \<and>
       (\<forall>target. node \<noteq> SymlinkNode target))"
proof (induction nodes mode links cur path rule: walk.induct)
  case (4 nodes mode links cur rest)
  have "is_dir nodes (butlast cur)"
  proof (cases cur rule: rev_cases)
    case (snoc d name)
    with "4.prems" parents_are_dirs [of nodes d "[name]" DirectoryNode] show ?thesis by (simp add: is_dir_def)
  qed simp
  with 4 show ?case by simp
next
  case (5 nodes mode links cur name rest)
  then show ?case
    by (auto simp: is_dir_def split: option.splits file_node.splits if_splits)
qed auto

lemma resolved_again:
  assumes "fs_ok fs" and "resolve_path fs to_follow path = Inr loc" and "path_is_absolute path"
  shows "resolve_path fs to_follow (canonical_path loc) = Inr loc"
proof -
  from assms(3) obtain rest where "path = RootDir # rest" by (cases path) (auto simp: path_is_absolute_def)
  with assms(2) have "walk (fs_nodes fs) to_follow MAX_LINKS [] rest = Inr loc"
    by (simp add: resolve_path_def split: if_splits)
  from walk_final [OF this refl] assms(1) consider "is_dir (fs_nodes fs) loc"
    | d name node where "loc = d @ [name]" "is_dir (fs_nodes fs) d" "bt_get (fs_nodes fs) loc = Some node"
      "\<forall>target. node \<noteq> SymlinkNode target"
    by (auto simp: fs_ok_def)
  then show ?thesis
  proof cases
    case 2
    then obtain k where "resolve_path fs to_follow (canonical_path loc) = walk (fs_nodes fs) to_follow k d [Normal name]"
      using resolve_last [OF resolve_dir [OF assms(1)], of d to_follow name] by auto
    with 2 show ?thesis by (auto split: option.split file_node.split)
  qed (rule resolve_dir [OF assms(1)])
qed

lemma snapshot_behaves:
  assumes "fs_ok fs" and "path_is_absolute path"
  shows "behaves fs (\<lambda>files. \<exists>snap. resolve_path fs to_follow path = Inr snap \<and>
      (\<forall>names. bt_get files (map Normal names) = source_version self fs snap names)) (snapshot_manifest self path fs)"
  unfolding snapshot_manifest_def
proof (rule behaves_and_then)
  show "behaves fs (\<lambda>canonical. \<exists>snap. canonical = canonical_path snap \<and> resolve_path fs to_follow path = Inr snap)
      (at_path path (io_canonicalize path) fs)"
    by (intro behaves_looks looking) (auto simp: at_path_def map_err_def canonicalize_Ok split: prod.splits outcome.splits)
  fix canonical
  assume "\<exists>snap. canonical = canonical_path snap \<and> resolve_path fs to_follow path = Inr snap"
  then obtain snap where snap: "canonical = canonical_path snap" "resolve_path fs to_follow path = Inr snap" by blast
  show "behaves fs (\<lambda>files. \<exists>snap. resolve_path fs to_follow path = Inr snap \<and>
      (\<forall>names. bt_get files (map Normal names) = source_version self fs snap names))
      (and_then (gets tree_depth) (\<lambda>depth. collect_snapshot_versions (Suc depth) self canonical [] bt_empty) fs)"
  proof (cases "is_dir (fs_nodes fs) snap")
    case True
    then show ?thesis using snapshot.collect_exact [OF assms(1) TrueI True, of self] snap
      by (auto simp: behaves_def gets_def and_then_def simp del: collect_snapshot_versions.simps)
  next
    case False
    have refused: "behaves fs (\<lambda>_. False) (at_path (canonical_path snap) (io_read_dir (canonical_path snap)) fs)"
      using resolved_again [OF assms(1) snap(2) assms(2)] False by (intro behaves_looks looking) (auto simp: at_path_def
        map_err_def io_read_dir_def node_of_def and_then_def located_eq gets_def ok_or_def return_def throw_def is_dir_def
        split: option.splits prod.splits outcome.splits if_splits)
    have "behaves fs Q (collect_snapshot_versions (Suc (tree_depth fs)) self canonical [] bt_empty fs)" for Q
      unfolding collect_snapshot_versions.simps snap(1) by (rule behaves_and_then [where P = "\<lambda>_. False"]) (use refused in simp_all)
    then show ?thesis by (simp add: and_then_def gets_def del: collect_snapshot_versions.simps)
  qed
qed

section \<open>Commit\<close>

lemma with_fs_behaves:
  "behaves (host_fs h) P (m (host_fs h)) \<Longrightarrow> behaves h P (in_workspace m h)"
  by (cases "m (host_fs h)"; cases "fst (m (host_fs h))") (auto simp: behaves_def in_workspace_def with_fs_def map_err_def)

lemma validate_behaves:
  assumes "fs_ok fs" and "wk_root self = canonical_path root" and "is_dir (fs_nodes fs) root"
  shows "behaves fs (\<lambda>_. \<forall>names. version_in expected (map Normal names) =
      (case source_version self fs root names of None \<Rightarrow> Absent | Some version \<Rightarrow> version))
     (validate_checkpoint_baseline self expected fs)"
  unfolding validate_checkpoint_baseline_def
proof (rule behaves_and_then, rule baseline_behaves [OF assms])
  fix actual
  assume "\<forall>names. bt_get actual (map Normal names) = source_version self fs root names"
  then have "version_in actual (map Normal names) =
      (case source_version self fs root names of None \<Rightarrow> Absent | Some version \<Rightarrow> version)" for names
    by (simp add: version_in_def)
  then show "behaves fs (\<lambda>_. \<forall>names. version_in expected (map Normal names) =
      (case source_version self fs root names of None \<Rightarrow> Absent | Some version \<Rightarrow> version))
     (lift_result id (compare_manifests expected actual) fs)"
    using compare_manifests_iff [of expected actual]
    by (cases "compare_manifests expected actual") (auto simp: behaves_def lift_result_def throw_def return_def)
qed

definition same_sources ::
  "WorkspaceConsistency \<Rightarrow> FileSystem \<Rightarrow> location \<Rightarrow> FileSystem \<Rightarrow> location \<Rightarrow> bool" where
  "same_sources self fs root fs' root' \<longleftrightarrow> (\<forall>names. source_version self fs root names = source_version self fs' root' names)"

lemma same_sources_versions:
  assumes "\<And>names. bt_get files (map Normal names) = source_version self fs root names"
    and "\<And>names. version_in files (map Normal names) =
      (case source_version self fs' root' names of None \<Rightarrow> Absent | Some version \<Rightarrow> version)"
  shows "same_sources self fs root fs' root'"
  unfolding same_sources_def
proof
  fix names
  show "source_version self fs root names = source_version self fs' root' names"
    using assms(1) [of names] assms(2) [of names] source_version_Present [of self fs root names]
      source_version_Present [of self fs' root' names]
    by (auto simp: version_in_def split: option.splits)
qed

lemma path_join_absolute: "path_is_absolute base \<Longrightarrow> path_is_absolute (path_join base path)"
  by (cases base) (auto simp: path_is_absolute_def path_join_def)

lemma created_absolute:
  "create_attempts n M parent h = (Ok paths, h') \<Longrightarrow> path_is_absolute parent \<Longrightarrow> path_is_absolute (tp_upper paths)"
proof (induction n arbitrary: h)
  case (Suc n)
  then show ?case
    by (auto simp: Let_def return_def throw_def paths_at_def transaction_root_def intro!: path_join_absolute
        elim!: and_then_OkE split: sum.splits if_splits)
qed (simp add: throw_def)

lemma in_workspace_Ok: "in_workspace m h = (Ok x, h') \<longleftrightarrow> (\<exists>fs. m (host_fs h) = (Ok x, fs) \<and> h' = h\<lparr>host_fs := fs\<rparr>)"
  by (auto simp: in_workspace_def with_fs_def map_err_def split: prod.split outcome.split)

lemma paths_create_absolute:
  assumes "paths_create M workspace h = (Ok paths, h')"
  shows "path_is_absolute (tp_upper paths)"
proof -
  from assms [unfolded paths_create_def] obtain parent h1 where
    found: "io_at (temp_dir M) (io_canonicalize (temp_dir M)) h = (Ok parent, h1)"
    and rest: "(if parent = workspace \<or> path_starts_with parent workspace then throw (TempInsideWorkspace parent)
      else create_attempts 32 M parent) h1 = (Ok paths, h')"
    by (rule and_then_OkE)
  from found have "path_is_absolute parent"
    by (auto simp: io_at_def with_fs_def map_err_def canonicalize_Ok path_is_absolute_def canonical_path_def
        split: prod.splits outcome.splits)
  with rest created_absolute show ?thesis by (auto simp: throw_def split: if_splits)
qed

lemma begin_Ok:
  assumes "transaction_begin M self h0 = (Ok tx, h1)" and "prepare_scratch_mounts self (host_fs h0) = (Ok mounts, fs0)"
  shows "tx_consistency tx = self" and "path_is_absolute (snapshot_path (tx_paths tx))"
    and "\<exists>fs1. checkpoint_baseline self fs0 = (Ok (tx_baseline tx), fs1)"
proof -
  have "in_workspace (prepare_scratch_mounts self) h0 = (Ok mounts, h0\<lparr>host_fs := fs0\<rparr>)"
    using assms(2) by (simp add: in_workspace_Ok)
  with assms(1) have "and_then (in_workspace (checkpoint_baseline self)) (\<lambda>baseline.
     and_then (paths_create M (wk_root self)) (\<lambda>paths.
     and_then (catch_result (write_excludes paths mounts)) (\<lambda>result.
     case result of
       Inl error \<Rightarrow> and_then (modify (drop_paths M paths)) (\<lambda>_. throw error)
     | Inr _ \<Rightarrow>
         return \<lparr>tx_consistency = self, tx_baseline = baseline, tx_scratch_mounts = mounts,
           tx_paths = paths, tx_rsync = var_or M ''PHENIX_RSYNC'' ''rsync''\<rparr>))) (h0\<lparr>host_fs := fs0\<rparr>) = (Ok tx, h1)"
    by (simp add: transaction_begin_def and_then_def)
  then obtain baseline ha paths hb result hc where "in_workspace (checkpoint_baseline self) (h0\<lparr>host_fs := fs0\<rparr>) = (Ok baseline, ha)"
    and created: "paths_create M (wk_root self) ha = (Ok paths, hb)"
    and written: "(case result :: TransactionError + unit of
       Inl error \<Rightarrow> and_then (modify (drop_paths M paths)) (\<lambda>_. throw error)
     | Inr _ \<Rightarrow>
         return \<lparr>tx_consistency = self, tx_baseline = baseline, tx_scratch_mounts = mounts,
           tx_paths = paths, tx_rsync = var_or M ''PHENIX_RSYNC'' ''rsync''\<rparr>) hc = (Ok tx, h1)"
    by (elim and_then_OkE)
  moreover from written have "tx = \<lparr>tx_consistency = self, tx_baseline = baseline, tx_scratch_mounts = mounts,
           tx_paths = paths, tx_rsync = var_or M ''PHENIX_RSYNC'' ''rsync''\<rparr>"
    by (auto simp: throw_def return_def modify_def and_then_def split: sum.splits)
  ultimately show "tx_consistency tx = self" "path_is_absolute (snapshot_path (tx_paths tx))"
    "\<exists>fs1. checkpoint_baseline self fs0 = (Ok (tx_baseline tx), fs1)"
    using path_join_absolute [OF paths_create_absolute [OF created]] by (auto simp: in_workspace_Ok snapshot_path_def)
qed

text \<open>The part of a commit after the baseline was found unchanged.\<close>

definition apply_snapshot :: "Machine \<Rightarrow> WorkspaceTransaction \<Rightarrow> manifest \<Rightarrow> (TransactionError, unit) on_host" where
  "apply_snapshot M self files =
     and_then (map_err (TransactionSpawn (tx_rsync self)) (run_command M (apply_command self))) (\<lambda>output.
     if \<not> status_success output
     then throw (ApplyFailed (exit_code_or output) (utf8_lossy (out_stderr output)))
     else in_workspace (validate_checkpoint_baseline (tx_consistency self) files))"

lemma commit_eq:
  "transaction_commit M self =
     and_then (in_workspace (snapshot_manifest (tx_consistency self) (snapshot_path (tx_paths self)))) (\<lambda>files.
     and_then (in_workspace (validate_checkpoint_baseline (tx_consistency self) (tx_baseline self))) (\<lambda>_.
     apply_snapshot M self files))"
  by (simp add: transaction_commit_def apply_snapshot_def)

lemma apply_snapshot_validated:
  assumes "wk_root (tx_consistency tx) = canonical_path root"
    and "fs_ok (snd (mc_run M (apply_command tx) (host_fs h)))" "is_dir (fs_nodes (snd (mc_run M (apply_command tx) (host_fs h)))) root"
    and "apply_snapshot M tx files h = (res, h')"
  shows "returned res \<and> (res = Ok () \<longrightarrow> (\<forall>names. version_in files (map Normal names) =
      (case source_version (tx_consistency tx) (host_fs h') root names of None \<Rightarrow> Absent | Some version \<Rightarrow> version)))"
proof -
  obtain r fs where run: "mc_run M (apply_command tx) (host_fs h) = (r, fs)" by force
  with assms(2,3) have ok: "fs_ok fs" "is_dir (fs_nodes fs) root" by simp_all
  let ?h = "h\<lparr>host_fs := fs\<rparr>"
  show ?thesis
  proof (cases r)
    case (Inr out)
    show ?thesis
    proof (cases "status_success out")
      case True
      have "behaves ?h (\<lambda>_. \<forall>names. version_in files (map Normal names) =
          (case source_version (tx_consistency tx) fs root names of None \<Rightarrow> Absent | Some version \<Rightarrow> version))
          (in_workspace (validate_checkpoint_baseline (tx_consistency tx) files) ?h)"
        by (rule with_fs_behaves) (use validate_behaves [OF ok(1) assms(1) ok(2)] in simp)
      moreover have "in_workspace (validate_checkpoint_baseline (tx_consistency tx) files) ?h = (res, h')"
        using assms(4) run Inr True by (simp add: apply_snapshot_def and_then_def map_err_def run_command_def)
      ultimately show ?thesis by (auto simp: behaves_def)
    qed (use assms(4) run Inr in \<open>auto simp: apply_snapshot_def and_then_def map_err_def run_command_def throw_def\<close>)
  qed (use assms(4) run in \<open>auto simp: apply_snapshot_def and_then_def map_err_def run_command_def\<close>)
qed

text \<open>The steps of a commit, on a transaction with a known baseline.\<close>

lemma commit_steps:
  assumes ok: "fs_ok (host_fs h)" "wk_root (tx_consistency tx) = canonical_path root" "is_dir (fs_nodes (host_fs h)) root"
    and path: "path_is_absolute (snapshot_path (tx_paths tx))"
    and baseline: "\<And>names. bt_get (tx_baseline tx) (map Normal names) = source_version (tx_consistency tx) fs0 root names"
    and run: "fs_ok (snd (mc_run M (apply_command tx) (host_fs h)))" "is_dir (fs_nodes (snd (mc_run M (apply_command tx) (host_fs h)))) root"
    and commit: "transaction_commit M tx h = (res, h')"
  shows "returned res \<and> (\<not> same_sources (tx_consistency tx) fs0 root (host_fs h) root \<longrightarrow> (\<exists>e. res = Err e) \<and> h' = h) \<and>
     (res = Ok () \<longrightarrow> (\<exists>snap. resolve_path (host_fs h) to_follow (snapshot_path (tx_paths tx)) = Inr snap \<and>
        same_sources (tx_consistency tx) (host_fs h) snap (host_fs h') root))"
proof -
  let ?self = "tx_consistency tx"
  obtain ra ha where a: "in_workspace (snapshot_manifest ?self (snapshot_path (tx_paths tx))) h = (ra, ha)" by force
  from with_fs_behaves [where m = "snapshot_manifest ?self (snapshot_path (tx_paths tx))",
      OF snapshot_behaves [OF ok(1) path], unfolded a behaves_def fst_conv snd_conv] have files: "ha = h" "returned ra"
    "\<And>files. ra = Ok files \<Longrightarrow> \<exists>snap. resolve_path (host_fs h) to_follow (snapshot_path (tx_paths tx)) = Inr snap \<and>
      (\<forall>names. bt_get files (map Normal names) = source_version ?self (host_fs h) snap names)"
    by blast+
  obtain rb hb where b: "in_workspace (validate_checkpoint_baseline ?self (tx_baseline tx)) h = (rb, hb)" by force
  with with_fs_behaves [where m = "validate_checkpoint_baseline ?self (tx_baseline tx)",
      OF validate_behaves [OF ok]] have valid: "hb = h" "returned rb"
    "rb = Ok () \<Longrightarrow> same_sources ?self fs0 root (host_fs h) root"
    by (auto simp: behaves_def intro!: same_sources_versions [OF baseline])
  show ?thesis
  proof (cases ra)
    case (Ok files)
    show ?thesis
    proof (cases rb)
      case (Ok u)
      with \<open>ra = Ok files\<close> commit a b files(1) valid(1) have applied: "apply_snapshot M tx files h = (res, h')"
        by (simp add: commit_eq and_then_def)
      note validated = apply_snapshot_validated [OF ok(2) run this]
      moreover obtain snap where snap: "resolve_path (host_fs h) to_follow (snapshot_path (tx_paths tx)) = Inr snap"
          "\<And>names. bt_get files (map Normal names) = source_version ?self (host_fs h) snap names"
        using files(3) [OF \<open>ra = Ok files\<close>] by blast
      moreover have "same_sources ?self (host_fs h) snap (host_fs h') root" if "res = Ok ()"
        using validated that by (intro same_sources_versions [OF snap(2)]) blast+
      ultimately show ?thesis using valid(3) Ok by auto
    qed (use \<open>ra = Ok files\<close> commit a b files(1) valid(1,2) in \<open>auto simp: commit_eq and_then_def\<close>)
  qed (use commit a files(1,2) in \<open>auto simp: commit_eq and_then_def\<close>)
qed


section \<open>A transaction\<close>

definition small_tree :: FileSystem where
  "small_tree = \<lparr>fs_nodes = bt_of_list
       [([''tmp''], DirectoryNode), ([''ws''], DirectoryNode), ([''ws'', ''a''], FileNode [])],
     fs_cwd = [], fs_fault = (\<lambda>_ _. None), fs_short_write = (\<lambda>_. None)\<rparr>"

definition small_workspace :: WorkspaceConsistency where
  "small_workspace = \<lparr>wk_root = [RootDir, Normal ''ws''], wk_scratch_paths = {}\<rparr>"

text \<open>A machine whose programs do nothing.\<close>

definition small_machine :: Machine where
  "small_machine = \<lparr>mc_env = (\<lambda>_. None), mc_pid = 7, mc_nanos = (\<lambda>_. 9), mc_io_text = (\<lambda>_. []),
     mc_run = (\<lambda>_ fs. (Inr \<lparr>out_code = Some 0, out_stdout = [], out_stderr = []\<rparr>, fs)),
     mc_kept = (\<lambda>_ _. False)\<rparr>"

definition small_host :: Host where
  "small_host = \<lparr>host_fs = small_tree, host_next_transaction = 0\<rparr>"

text \<open>While the command runs somebody adds a file.\<close>

definition edited :: "Host \<Rightarrow> Host" where
  "edited h = h\<lparr>host_fs := put_node [''ws'', ''b''] (FileNode []) (host_fs h)\<rparr>"

lemma small_transaction:
  "case transaction_begin small_machine small_workspace small_host of
     (Ok _, h) \<Rightarrow> tree_check (fs_nodes (host_fs (edited h))) \<and> bt_get (fs_nodes (host_fs (edited h))) [''ws''] = Some DirectoryNode
   | _ \<Rightarrow> False"
  by code_simp

lemma small_prepared:
  "prepare_scratch_mounts small_workspace (host_fs small_host) = (Ok [], small_tree)"
  by (simp add: prepare_scratch_mounts_def small_workspace_def small_host_def return_def)

lemma small_ok: "fs_ok small_tree" "is_dir (fs_nodes small_tree) [''ws'']"
proof -
  have "tree_check (fs_nodes small_tree)" "bt_get (fs_nodes small_tree) [''ws''] = Some DirectoryNode" by code_simp+
  then show "fs_ok small_tree" "is_dir (fs_nodes small_tree) [''ws'']"
    by (simp_all add: fs_ok_def tree_check_ok is_dir_def node_at_def)
qed

lemma small_edited: "\<not> same_sources small_workspace small_tree [''ws''] (host_fs (edited h)) [''ws'']"
proof -
  have "bt_get (fs_nodes small_tree) [''ws'', ''b''] = None" "visible small_workspace [''b'']"
    by (code_simp, simp add: visible_def is_repository_metadata_def is_scratch_def small_workspace_def)
  then have "source_version small_workspace small_tree [''ws''] [''b''] \<noteq> source_version small_workspace (host_fs (edited h)) [''ws''] [''b'']"
    by (simp add: source_version_def edited_def put_node_def)
  then show ?thesis unfolding same_sources_def by blast
qed


end
