(* ===== verification/Tool_Facts.thy ===== *)
theory Tool_Facts
  imports Workspace_Tools Transaction_Facts Sample
begin

text \<open>
  What the workspace tools do with text and paths: an edit replaces the matches of the old text and
  nothing else, the pages of a read put together are the file, and a search stays in the workspace.
\<close>

section \<open>Matches\<close>

lemma first_match_None: "first_match pat s = None \<longleftrightarrow> \<not> sublist pat s"
proof (induction s)
  case (Cons c cs)
  have "prefix pat (c # cs) \<longleftrightarrow> take (length pat) (c # cs) = pat"
    by (metis append_eq_conv_conj prefix_def take_is_prefix)
  with Cons show ?case by (auto simp: sublist_Cons_right)
qed simp

lemma first_match_before: "first_match pat s = Some (before, after) \<Longrightarrow> pat \<noteq> [] \<Longrightarrow> \<not> sublist pat before"
proof (induction s arbitrary: before)
  case (Cons c cs)
  show ?case
  proof (cases "take (length pat) (c # cs) = pat")
    case True
    with Cons.prems show ?thesis by auto
  next
    case False
    with Cons.prems(1) obtain rest where rest: "first_match pat cs = Some (rest, after)" "before = c # rest" by auto
    have "\<not> prefix pat (c # rest)"
    proof
      assume "prefix pat (c # rest)"
      then have "prefix pat (c # cs)" using first_match_split [OF rest(1)] by (metis append_Cons prefix_def append_assoc)
      with False show False by (metis append_eq_conv_conj prefix_def)
    qed
    with Cons.IH [OF rest(1) Cons.prems(2)] rest(2) show ?thesis by (simp add: sublist_Cons_right)
  qed
qed (auto split: if_splits)

lemma join_with_Cons: "ss \<noteq> [] \<Longrightarrow> join_with sep (s # ss) = s @ sep @ join_with sep ss"
  by (cases ss) simp_all

lemma split_matches_not_Nil [simp]: "split_matches pat s \<noteq> []"
  by (subst split_matches.simps) (auto split: option.split)

lemma join_split_matches: "join_with pat (split_matches pat s) = s"
proof (induction pat s rule: split_matches.induct)
  case (1 pat s)
  show ?case
  proof (cases "first_match pat s")
    case (Some m)
    obtain before after where m: "m = (before, after)" by force
    with Some first_match_split have "s = before @ pat @ after" by metis
    with 1 Some m show ?thesis by (subst split_matches.simps) (auto simp: join_with_Cons)
  qed (subst split_matches.simps, simp)
qed

lemma split_matches_eq:
  assumes "pat \<noteq> []"
  shows "first_match pat s = None \<Longrightarrow> split_matches pat s = [s]"
    and "first_match pat s = Some (before, after) \<Longrightarrow> split_matches pat s = before # split_matches pat after"
  using assms by (simp_all add: split_matches.simps [of pat s])

lemma split_matches_free: "pat \<noteq> [] \<Longrightarrow> part \<in> set (split_matches pat s) \<Longrightarrow> \<not> sublist pat part"
proof (induction pat s rule: split_matches.induct)
  case (1 pat s)
  show ?case
  proof (cases "first_match pat s")
    case None
    with 1 split_matches_eq(1) [OF "1.prems"(1) None] show ?thesis by (simp add: first_match_None)
  next
    case (Some m)
    obtain before after where m: "m = (before, after)" by force
    have "part = before \<or> part \<in> set (split_matches pat after)"
      using "1.prems" split_matches_eq(2) [OF "1.prems"(1)] Some m by auto
    then show ?thesis
      using first_match_before [of pat s before after] Some m "1.prems"(1) "1.IH" [OF "1.prems"(1) Some m [symmetric]] by blast
  qed
qed

lemma updated_text_parts:
  assumes "ei_old_text input \<noteq> []" and "check_matches input content = Inr ()"
  shows "2 \<le> length (split_matches (ei_old_text input) content)"
    and "or_default (ei_replace_all input) False \<or> length (split_matches (ei_old_text input) content) = 2"
    and "updated_text input content = join_with (ei_new_text input) (split_matches (ei_old_text input) content)"
proof -
  let ?parts = "split_matches (ei_old_text input) content"
  show many: "2 \<le> length ?parts" and once: "or_default (ei_replace_all input) False \<or> length ?parts = 2"
    using assms(2) by (auto simp: check_matches_def match_count_def Let_def split: if_splits)
  show "updated_text input content = join_with (ei_new_text input) ?parts"
  proof (cases "or_default (ei_replace_all input) False")
    case False
    then have "length ?parts = 2" using once by simp
    moreover obtain before after where first: "first_match (ei_old_text input) content = Some (before, after)"
      using many split_matches_eq(1) [OF assms(1), of content] by (cases "first_match (ei_old_text input) content") auto
    ultimately obtain last where parts: "?parts = [before, last]" "split_matches (ei_old_text input) after = [last]"
      using split_matches_eq(2) [OF assms(1) first] by (auto simp: length_Suc_conv numeral_2_eq_2)
    with join_split_matches [of "ei_old_text input" after] have "last = after" by simp
    with False first parts show ?thesis by (simp add: updated_text_def replace_first_def)
  qed (simp add: updated_text_def replace_text_def)
qed

section \<open>Edit\<close>

lemma normalize_again: "normalize_relative path = Inr relative \<Longrightarrow> normalize_relative relative = Inr relative"
proof -
  have names: "normal_components (map Normal names) = Some (map Normal names)" for names
    by (induction names) simp_all
  assume "normalize_relative path = Inr relative"
  moreover from this obtain names where "relative = map Normal names"
    by (auto simp: normalize_relative_def dest: normal_components_names split: option.splits if_splits)
  ultimately show ?thesis using names [of names] by (auto simp: normalize_relative_def split: option.splits if_splits)
qed

lemma read_looks [looking]: "looks (read_utf8 self path)"
  unfolding read_utf8_def Let_def ensure_ancestor_inside_def check_read_target_def by (intro looking)

lemma read_path: "read_utf8 self path fs = (Ok read, fs') \<Longrightarrow> normalize_relative path = Inr (wr_path read)"
  by (auto simp: read_utf8_def lift_result_def Let_def return_def throw_def elim!: and_then_OkE split: sum.splits)

text \<open>The read of an edit, and its write when the text matches.\<close>

lemma edit_steps:
  assumes "parse_edit_input P arguments = Inr input" and "execute_edit E P io_text self arguments fs = (res, fs')"
  shows "fs' = fs \<and> (\<forall>out. res \<noteq> Ok out) \<or>
     (\<exists>read written. ei_old_text input \<noteq> [] \<and> read_utf8 self (path_components (ei_path input)) fs = (Ok read, fs) \<and>
        check_matches input (wr_content read) = Inr () \<and>
        write_utf8 self (wr_path read) (ei_expected_version input) (updated_text input (wr_content read)) fs = (written, fs') \<and>
        (\<forall>out. res = Ok out \<longrightarrow> (\<exists>observation. written = Ok observation)))"
proof (cases "ei_old_text input = []")
  case True
  with assms show ?thesis by (auto simp: execute_edit_def lift_result_def ensure_def throw_def return_def and_then_def)
next
  case False
  obtain r fs1 where read: "read_utf8 self (path_components (ei_path input)) fs = (r, fs1)" by force
  then have same: "fs1 = fs" by (rule looks_same [OF read_looks])
  show ?thesis
  proof (cases r)
    case (Ok found)
    show ?thesis
    proof (cases "check_matches input (wr_content found)")
      case (Inl message)
      with assms False read same Ok show ?thesis
        by (auto simp: execute_edit_def lift_result_def ensure_def map_err_def and_then_def throw_def return_def)
    next
      case (Inr u)
      obtain written fs2 where wrote: "write_utf8 self (wr_path found) (ei_expected_version input) (updated_text input (wr_content found)) fs = (written, fs2)"
        by force
      with assms False read same Ok Inr show ?thesis
        by (cases written) (auto simp: execute_edit_def lift_result_def ensure_def map_err_def and_then_def Let_def return_def)
    qed
  qed (use assms False read same in \<open>auto simp: execute_edit_def lift_result_def ensure_def map_err_def and_then_def return_def\<close>)
qed


section \<open>Read\<close>

definition full_line :: "string \<Rightarrow> bool" where
  "full_line piece \<longleftrightarrow> piece \<noteq> [] \<and> last piece = newline"

lemma concat_split_inclusive [simp]: "concat (split_inclusive s) = s"
  by (induction s) (auto split: list.split)

lemma split_inclusive_Nil [simp]: "split_inclusive s = [] \<longleftrightarrow> s = []"
  by (cases s) (auto split: list.split)

lemma split_inclusive_pieces: "piece \<in> set (split_inclusive s) \<Longrightarrow> piece \<noteq> [] \<and> set piece \<subseteq> set s"
proof (induction s arbitrary: piece)
  case (Cons c cs)
  then show ?case by (cases "split_inclusive cs") (fastforce split: if_splits)+
qed simp

lemma inner_lines_full: "piece \<in> set (butlast (split_inclusive s)) \<Longrightarrow> full_line piece"
proof (induction s arbitrary: piece)
  case (Cons c cs)
  then show ?case
    by (cases "split_inclusive cs") (auto simp: full_line_def split: if_splits)
qed simp

lemma last_line_full: "s \<noteq> [] \<Longrightarrow> full_line (last (split_inclusive s)) \<longleftrightarrow> last s = newline"
proof (induction s)
  case (Cons c cs)
  show ?case
  proof (cases "split_inclusive cs")
    case Nil
    then show ?thesis by (auto simp: full_line_def)
  next
    case (Cons piece pieces)
    then have "cs \<noteq> []" "piece \<noteq> []" using split_inclusive_pieces [of piece cs] by auto
    with Cons.IH Cons show ?thesis by (auto simp: full_line_def)
  qed
qed simp

lemma line_text_full:
  assumes "carriage_return \<notin> set piece"
  shows "line_text piece @ (if full_line piece then [newline] else []) = piece"
proof (cases "full_line piece")
  case True
  then obtain line where piece: "piece = line @ [newline]" unfolding full_line_def by (metis append_butlast_last_id)
  with assms have "line = [] \<or> last line \<noteq> carriage_return" using last_in_set [of line] by fastforce
  with piece show ?thesis by (auto simp: line_text_def strip_last_def full_line_def)
next
  case False
  then show ?thesis by (auto simp: line_text_def strip_last_def full_line_def)
qed

lemma join_lines:
  "pieces \<noteq> [] \<Longrightarrow> \<forall>piece\<in>set pieces. carriage_return \<notin> set piece \<Longrightarrow> \<forall>piece\<in>set (butlast pieces). full_line piece \<Longrightarrow>
     join_with [newline] (map line_text pieces) @ (if full_line (last pieces) then [newline] else []) = concat pieces"
proof (induction pieces)
  case (Cons piece pieces)
  show ?case
  proof (cases "pieces = []")
    case True
    with Cons.prems line_text_full [of piece] show ?thesis by simp
  next
    case False
    with Cons.prems have "line_text piece @ [newline] = piece" using line_text_full [of piece] by auto
    with False Cons show ?thesis by (auto simp: join_with_Cons)
  qed
qed simp

lemma nth_in_butlast: "Suc i < length xs \<Longrightarrow> xs ! i \<in> set (butlast xs)"
  by (metis One_nat_def Suc_eq_plus1 length_butlast less_diff_conv nth_butlast nth_mem)

lemma butlast_page: "set (butlast (take n (drop m xs))) \<subseteq> set (butlast xs)"
proof
  fix x
  assume "x \<in> set (butlast (take n (drop m xs)))"
  then obtain i where "i < length (butlast (take n (drop m xs)))" "x = butlast (take n (drop m xs)) ! i"
    by (metis in_set_conv_nth)
  then have "x = xs ! (m + i)" "Suc (m + i) < length xs" by (auto simp: nth_butlast)
  then show "x \<in> set (butlast xs)" using nth_in_butlast by blast
qed

text \<open>A page is a range of the lines with their newlines.\<close>

lemma window_pieces:
  assumes "carriage_return \<notin> set content" and "int (length content) < 9223372036854775808" and "limit \<le> MAX_READ_LINES"
  shows "fst (read_window content (Suc start) limit) = concat (take limit (drop start (split_inclusive content)))"
proof -
  let ?pieces = "split_inclusive content"
  define from_line where "from_line = min start (length ?pieces)"
  define to_line where "to_line = min (from_line + limit) (length ?pieces)"
  define page where "page = take (to_line - from_line) (drop from_line ?pieces)"
  have "length pieces \<le> length (concat pieces)" if "\<forall>piece\<in>set pieces. piece \<noteq> []" for pieces :: "string list"
    using that
  proof (induction pieces)
    case (Cons piece pieces)
    then show ?case by (cases piece) auto
  qed simp
  then have "length ?pieces \<le> length content"
    using split_inclusive_pieces [of _ content] concat_split_inclusive [of content] by metis
  moreover have "from_line \<le> length ?pieces" by (simp add: from_line_def)
  ultimately have "int from_line + int limit \<le> 18446744073709551615"
    using assms(2,3) unfolding MAX_READ_LINES_def by linarith
  then have "saturating_add from_line limit = from_line + limit"
    by (simp add: saturating_add_def)
  then have window: "fst (read_window content (Suc start) limit) =
      join_with [newline] (map line_text page) @
      (if from_line < to_line \<and> (to_line < length ?pieces \<or> content \<noteq> [] \<and> last content = newline) then [newline] else [])"
    by (simp add: read_window_def text_lines_def Let_def page_def from_line_def to_line_def take_map drop_map)
  have page: "page = take limit (drop start ?pieces)"
    by (cases "start \<le> length ?pieces") (auto simp: page_def from_line_def to_line_def min_def)
  show ?thesis
  proof (cases "from_line < to_line")
    case True
    moreover have "to_line \<le> length ?pieces" by (simp add: to_line_def)
    ultimately have shape: "page \<noteq> []" "length page = to_line - from_line" by (auto simp: page_def)
    then have "last page = page ! (to_line - from_line - 1)" by (simp add: last_conv_nth)
    then have last: "last page = ?pieces ! (to_line - 1)"
      using True \<open>to_line \<le> length ?pieces\<close> by (simp add: page_def)
    have "full_line (last page) \<longleftrightarrow> to_line < length ?pieces \<or> content \<noteq> [] \<and> last content = newline"
    proof (cases "to_line < length ?pieces")
      case inner: True
      then have "?pieces ! (to_line - 1) \<in> set (butlast ?pieces)"
        using nth_in_butlast [of "to_line - 1" ?pieces] True by simp
      with inner last inner_lines_full show ?thesis by auto
    next
      case False
      then have "to_line = length ?pieces" by (simp add: to_line_def)
      moreover from this True have "content \<noteq> []" by auto
      ultimately have "last page = last ?pieces" using last by (simp add: last_conv_nth)
      note \<open>content \<noteq> []\<close> this
      then show ?thesis using False last_line_full [of content] by auto
    qed
    moreover have "\<forall>piece\<in>set page. carriage_return \<notin> set piece"
      using assms(1) split_inclusive_pieces [of _ content] unfolding page by (meson in_set_dropD in_set_takeD subsetD)
    moreover have "\<forall>piece\<in>set (butlast page). full_line piece"
      using butlast_page [of limit start ?pieces] inner_lines_full unfolding page by blast
    ultimately show ?thesis using join_lines [OF shape(1)] True unfolding window page [symmetric] by simp
  next
    case False
    then have "page = []" by (simp add: page_def)
    with False show ?thesis unfolding window page [symmetric] by simp
  qed
qed

lemma concat_pages: "concat (map (\<lambda>k. concat (take limit (drop (k * limit) xs))) [0..<n]) = concat (take (n * limit) xs)"
proof (induction n)
  case (Suc n)
  have "take (Suc n * limit) xs = take (n * limit) xs @ take limit (drop (n * limit) xs)"
    using take_add [of "n * limit" limit xs] by (simp add: add.commute)
  with Suc show ?case by simp
qed simp

text \<open>C13. Reading a file page by page gives the file: for every page size the tool accepts, the texts of
  consecutive pages put together are the content, provided that no line ends with a carriage return
  (the tool returns lines without it).\<close>

theorem read_pages_roundtrip:
  assumes "carriage_return \<notin> set content" and "int (length content) < 9223372036854775808"
    and "limit \<le> MAX_READ_LINES" and "length (text_lines content) \<le> n * limit"
  shows "concat (map (\<lambda>k. fst (read_window content (Suc (k * limit)) limit)) [0..<n]) = content"
proof -
  from assms(4) have "take (n * limit) (split_inclusive content) = split_inclusive content"
    by (simp add: text_lines_def)
  then show ?thesis by (simp add: window_pieces [OF assms(1-3)] concat_pages)
qed

theorem read_pages_witness:
  "concat (map (\<lambda>k. fst (read_window [CHR ''a'', newline, newline, CHR ''b''] (Suc (k * 2)) 2)) [0..<2]) =
     [CHR ''a'', newline, newline, CHR ''b'']"
  by (rule read_pages_roundtrip)
    (simp_all add: carriage_return_def newline_def MAX_READ_LINES_def text_lines_def)

text \<open>The text of a file with carriage returns is not found in the file: an edit with text copied from a
  read that spans a line end is refused.\<close>

lemma carriage_returns_lost:
  "let content = ''a'' @ [carriage_return, newline] @ ''b'' in
     fst (read_window content 1 DEFAULT_READ_LINES) = ''a'' @ [newline] @ ''b'' \<and> match_count (''a'' @ [newline] @ ''b'') content = 0"
  by code_simp

text \<open>Matches are counted without overlaps: a text with two overlapping occurrences passes as unique.\<close>

lemma overlapping_match_unique:
  "sublist ''aa'' (drop 1 ''aaa'') \<and> match_count ''aa'' ''aaa'' = 1 \<and> replace_first ''aa'' ''b'' ''aaa'' = ''ba''"
  by code_simp

section \<open>Search\<close>

lemma search_steps:
  assumes "normalize_search_path io_text workspace raw home fs = (Ok relative, fs')" and "resolve_path fs to_follow workspace = Inr root"
  shows "\<exists>candidate loc. path_is_absolute candidate \<and> resolve_path fs to_follow candidate = Inr loc \<and> prefix root loc \<and>
     relative = (if loc = root then [CurDir] else map Normal (drop (length root) loc))"
proof -
  from assms(1) [unfolded normalize_search_path_def Let_def] obtain u s1 canonical s2 requested s3 found s4 v s5 where
    steps: "map_err (\<lambda>error. ''failed to resolve workspace '' @ display_path workspace @ '': '' @ io_text error)
        (io_canonicalize workspace) s1 = (Ok canonical, s2)"
      "map_err (\<lambda>error. ''failed to resolve grep path '' @ raw @ '': '' @ io_text error)
        (io_canonicalize (if path_is_absolute requested then requested else path_join canonical requested)) s3 = (Ok found, s4)"
    and pure: "ensure (\<not> is_blank raw) ''workspace path must not be empty'' fs = (Ok u, s1)"
      "lift_result id (requested_path raw home) s2 = (Ok requested, s3)"
      "ensure (path_starts_with found canonical) (''grep path escapes workspace: '' @ raw) s4 = (Ok v, s5)"
      "return (if drop (length canonical) found = [] then [CurDir] else drop (length canonical) found) s5 = (Ok relative :: (string, PathBuf) outcome, fs')"
    by (elim and_then_OkE) blast
  define candidate where "candidate = (if path_is_absolute requested then requested else path_join (canonical_path root) requested)"
  from pure have same: "s1 = fs" "s3 = s2" "s5 = s4" "path_starts_with found canonical"
      "relative = (if drop (length canonical) found = [] then [CurDir] else drop (length canonical) found)"
    by (auto simp: ensure_def lift_result_def return_def throw_def split: if_splits sum.splits)
  from steps(1) same(1) assms(2) have root: "canonical = canonical_path root" "s2 = fs"
    by (auto simp: map_err_def canonicalize_Ok split: prod.splits outcome.splits)
  with steps(2) same(2) obtain loc where "resolve_path fs to_follow candidate = Inr loc" "found = canonical_path loc"
    by (auto simp: map_err_def canonicalize_Ok candidate_def split: prod.splits outcome.splits)
  with same(4,5) root(1) have loc: "resolve_path fs to_follow candidate = Inr loc" "path_starts_with (canonical_path loc) (canonical_path root)"
      "relative = (if drop (length (canonical_path root)) (canonical_path loc) = [] then [CurDir]
        else drop (length (canonical_path root)) (canonical_path loc))" by simp_all
  have "path_is_absolute candidate"
    using path_join_absolute [of "canonical_path root" requested] by (simp add: candidate_def path_is_absolute_def canonical_path_def)
  moreover have "prefix root loc" using loc(2) by (simp add: starts_with_canonical)
  moreover from this have "relative = (if loc = root then [CurDir] else map Normal (drop (length root) loc))"
    using loc(3) by (auto simp: canonical_path_def drop_map prefix_def)
  ultimately show ?thesis using loc(1) by blast
qed

text \<open>C14. A search stays in the workspace: whatever path is asked for, relative, absolute, below the home
  directory or through symbolic links, the path handed to \<open>rg\<close> in the workspace leads to a file or
  directory inside the workspace.\<close>

theorem search_path_confined:
  assumes "fs_ok fs" and "resolve_path fs to_follow workspace = Inr root" and "is_dir (fs_nodes fs) root"
    and "normalize_search_path io_text workspace raw home fs = (res, fs')"
  shows "fs' = fs \<and> (\<forall>relative. res = Ok relative \<longrightarrow>
     (\<exists>loc. prefix root loc \<and> resolve_path fs to_follow (path_join (canonical_path root) relative) = Inr loc))"
proof -
  have "looks (normalize_search_path io_text workspace raw home)"
    unfolding normalize_search_path_def Let_def by (intro looking)
  then have "fs' = fs" using assms(4) by (rule looks_same)
  moreover have "\<exists>loc. prefix root loc \<and> resolve_path fs to_follow (path_join (canonical_path root) relative) = Inr loc"
    if "res = Ok relative" for relative
  proof -
    from search_steps [of io_text workspace raw home fs relative fs' root] assms(2,4) that
    obtain candidate loc where found: "path_is_absolute candidate" "resolve_path fs to_follow candidate = Inr loc" "prefix root loc"
      and relative: "relative = (if loc = root then [CurDir] else map Normal (drop (length root) loc))" by auto
    have "resolve_path fs to_follow (path_join (canonical_path root) relative) = Inr loc"
    proof (cases "loc = root")
      case True
      have "\<exists>k. walk (fs_nodes fs) to_follow MAX_LINKS (fs_cwd fs) (canonical_path root @ [CurDir]) = walk (fs_nodes fs) to_follow k root [CurDir]"
        using walk_append [of "fs_nodes fs" MAX_LINKS "fs_cwd fs" "canonical_path root" root "[CurDir]" to_follow]
          resolve_dir [OF assms(1,3)] assms(3) by (simp add: resolve_path_def)
      with True relative show ?thesis by (auto simp: path_join_def path_is_absolute_def resolve_path_def)
    next
      case False
      with relative found(3) have "path_join (canonical_path root) relative = canonical_path loc"
        using join_names [of root "drop (length root) loc"] by (auto simp: prefix_def)
      with resolved_again [OF assms(1) found(2,1)] show ?thesis by simp
    qed
    with found(3) show ?thesis by blast
  qed
  ultimately show ?thesis by simp
qed

section \<open>An edit and a search\<close>

definition edit_tree :: FileSystem where
  "edit_tree = \<lparr>fs_nodes = bt_of_list [([''ws''], DirectoryNode), ([''ws'', ''a''], FileNode ''x'')],
     fs_cwd = [], fs_fault = (\<lambda>_ _. None), fs_short_write = (\<lambda>_. None)\<rparr>"

definition edit_input :: EditInput where
  "edit_input = \<lparr>ei_path = ''a'', ei_old_text = ''x'', ei_new_text = ''y'', ei_replace_all = None,
     ei_expected_version = Some (regular_version ''x'')\<rparr>"

definition edit_parsers :: InputParsers where
  "edit_parsers = \<lparr>parse_bash_input = Inl, parse_read_input = Inl, parse_write_input = Inl,
     parse_edit_input = (\<lambda>_. Inr edit_input), parse_grep_input = Inl\<rparr>"

lemma edit_ok: "fs_ok edit_tree" "resolve_path edit_tree to_follow [RootDir, Normal ''ws''] = Inr [''ws'']"
  "is_dir (fs_nodes edit_tree) [''ws'']"
proof -
  have "tree_check (fs_nodes edit_tree)" by code_simp
  then show "fs_ok edit_tree" unfolding fs_ok_def by (rule tree_check_ok)
  show "resolve_path edit_tree to_follow [RootDir, Normal ''ws''] = Inr [''ws'']" by code_simp
  show "is_dir (fs_nodes edit_tree) [''ws'']" unfolding is_dir_def by code_simp
qed

lemma edit_done:
  "case execute_edit sample_externals edit_parsers (\<lambda>_. []) small_workspace [] edit_tree of
     (Ok _, fs) \<Rightarrow> bt_get (fs_nodes fs) [''ws'', ''a''] = Some (FileNode ''y'') | _ \<Rightarrow> False"
  by code_simp


theorem search_path_confined_witness:
  "\<exists>res. normalize_search_path (\<lambda>_. []) [RootDir, Normal ''ws''] ''a'' None edit_tree = (res, edit_tree) \<and>
     (\<forall>relative. res = Ok relative \<longrightarrow>
       (\<exists>loc. prefix [''ws''] loc \<and> resolve_path edit_tree to_follow (path_join (canonical_path [''ws'']) relative) = Inr loc))"
  using search_path_confined [OF edit_ok prod.collapse [symmetric]] by (metis prod.collapse)

end
