(* ===== verification/Skill_Discovery.thy ===== *)
theory Skill_Discovery
  imports Transaction Text_Functions
begin

text \<open>
  How the project context and the skills are found on the file system (the first half of
  \<open>phenix-conductor/src/context.rs\<close>; \<open>Context\<close> holds what is done with them): the root of the project,
  the instruction documents from it down to the working directory, the skill directories in the order
  of their precedence, the front matter of a skill and its resource files. \<open>env\<close> is the environment of
  the process and \<open>io_text\<close> the text of an I/O error.
\<close>

section \<open>Looking at paths\<close>

text \<open>\<open>Path::is_dir\<close>, \<open>is_file\<close> and \<open>exists\<close> follow links and take an error for no.\<close>

definition stat_node :: "FileSystem \<Rightarrow> PathBuf \<Rightarrow> file_node option" where
  "stat_node fs path =
     (if fs_fault fs SymlinkMetadata path \<noteq> None then None
      else case resolve_path fs to_follow path of
        Inl _ \<Rightarrow> None
      | Inr loc \<Rightarrow> node_at (fs_nodes fs) loc)"

definition path_exists :: "FileSystem \<Rightarrow> PathBuf \<Rightarrow> bool" where
  "path_exists fs path \<longleftrightarrow> stat_node fs path \<noteq> None"

definition path_is_dir :: "FileSystem \<Rightarrow> PathBuf \<Rightarrow> bool" where
  "path_is_dir fs path \<longleftrightarrow> stat_node fs path = Some DirectoryNode"

definition path_is_file :: "FileSystem \<Rightarrow> PathBuf \<Rightarrow> bool" where
  "path_is_file fs path \<longleftrightarrow>
     (case stat_node fs path of Some (FileNode _) \<Rightarrow> True | _ \<Rightarrow> False)"

function path_ancestors :: "PathBuf \<Rightarrow> PathBuf list" where
  "path_ancestors path =
     path # (case path_parent path of None \<Rightarrow> [] | Some parent \<Rightarrow> path_ancestors parent)"
  by pat_completeness auto
termination
  by (relation "measure length") (auto simp: path_parent_def split: if_splits)

declare path_ancestors.simps [simp del]

section \<open>Errors\<close>

type_synonym 'a ck = "(FileSystem, ContextError, 'a) op"

definition context_io :: "(io_error \<Rightarrow> string) \<Rightarrow> PathBuf \<Rightarrow> 'a io \<Rightarrow> 'a ck" where
  "context_io io_text path m = map_err (\<lambda>error. ContextIo (display_path path) (io_text error)) m"

definition invalid_skill :: "PathBuf \<Rightarrow> string \<Rightarrow> ContextError" where
  "invalid_skill path message = InvalidSkill (display_path path) message"

text \<open>\<open>Result::map\<close>.\<close>

definition map_result :: "('a \<Rightarrow> 'b) \<Rightarrow> 'e + 'a \<Rightarrow> 'e + 'b" where
  "map_result f r = bind_result r (\<lambda>v. Inr (f v))"

section \<open>Documents\<close>

definition project_root :: "PathBuf \<Rightarrow> FileSystem \<Rightarrow> PathBuf" where
  "project_root cwd fs =
     (case find (\<lambda>candidate. path_exists fs (path_join candidate [Normal ''.git''])) (path_ancestors cwd) of
        None \<Rightarrow> cwd
      | Some candidate \<Rightarrow> candidate)"

definition read_context_document ::
  "(io_error \<Rightarrow> string) \<Rightarrow> PathBuf \<Rightarrow> PathBuf \<Rightarrow> ContextDocumentKind \<Rightarrow> ContextDocument ck" where
  "read_context_document io_text path scope_root kind =
     and_then (context_io io_text path (io_read_to_string path)) (\<lambda>content.
     return \<lparr>dc_kind = kind, dc_path = display_path path, dc_scope_root = display_path scope_root, dc_content = content\<rparr>)"

definition load_agent_document ::
  "(io_error \<Rightarrow> string) \<Rightarrow> PathBuf \<Rightarrow> ContextDocument list \<Rightarrow> ContextDocument list ck" where
  "load_agent_document io_text scope documents =
     (let override_path = path_join scope [Normal ''AGENTS.override.md''];
          normal_path = path_join scope [Normal ''AGENTS.md''] in
      and_then (gets (\<lambda>fs.
        if path_is_file fs override_path then Some override_path
        else if path_is_file fs normal_path then Some normal_path else None)) (\<lambda>path.
      case path of
        None \<Rightarrow> return documents
      | Some path \<Rightarrow>
          and_then (read_context_document io_text path scope AgentInstructions) (\<lambda>document.
          return (documents @ [document]))))"

definition load_project_document ::
  "(io_error \<Rightarrow> string) \<Rightarrow> PathBuf \<Rightarrow> string \<Rightarrow> ContextDocument list \<Rightarrow> ContextDocument list ck" where
  "load_project_document io_text root name documents =
     (let path = path_join root [Normal name] in
      and_then (gets (\<lambda>fs. path_is_file fs path)) (\<lambda>found.
      if found then
        and_then (read_context_document io_text path root ProjectInstructions) (\<lambda>document.
        return (documents @ [document]))
      else return documents))"

primrec load_scopes ::
  "(io_error \<Rightarrow> string) \<Rightarrow> PathBuf \<Rightarrow> PathBuf \<Rightarrow> PathBuf \<Rightarrow> ContextDocument list \<Rightarrow> ContextDocument list ck" where
  "load_scopes io_text root scope [] documents = return documents"
| "load_scopes io_text root scope (component # rest) documents =
     (let scope = path_join scope [component] in
      and_then (if scope \<noteq> root then load_agent_document io_text scope documents else return documents)
        (load_scopes io_text root scope rest))"

definition discover_base_documents :: "(io_error \<Rightarrow> string) \<Rightarrow> PathBuf \<Rightarrow> PathBuf \<Rightarrow> ContextDocument list ck" where
  "discover_base_documents io_text root cwd =
     and_then (load_agent_document io_text root []) (\<lambda>documents.
     and_then (fold_each (load_project_document io_text root) [''CONTRIBUTING.md'', ''DEVELOPMENT.md''] documents)
       (\<lambda>documents.
     if path_starts_with cwd root
     then load_scopes io_text root root (drop (length root) cwd) documents
     else return documents))"

definition context_discover :: "(io_error \<Rightarrow> string) \<Rightarrow> PathBuf \<Rightarrow> ContextRegistry ck" where
  "context_discover io_text cwd =
     and_then (gets (project_root cwd)) (\<lambda>root.
     and_then (discover_base_documents io_text root cwd) (\<lambda>documents.
     return \<lparr>cx_base_documents = documents\<rparr>))"

section \<open>Front matter\<close>

record SkillFrontmatter =
  sf_name :: "string option"
  sf_description :: "string option"
  sf_disable_model_invocation :: bool
  sf_allowed_tools :: "string list"

definition no_frontmatter :: SkillFrontmatter where
  "no_frontmatter = \<lparr>sf_name = None, sf_description = None, sf_disable_model_invocation = False, sf_allowed_tools = []\<rparr>"

text \<open>The two kinds of quotes.\<close>

definition quotation :: char where
  "quotation = CHR 0x22"

definition apostrophe :: char where
  "apostrophe = CHR 0x27"

definition parse_scalar :: "PathBuf \<Rightarrow> string \<Rightarrow> string \<Rightarrow> ContextError + string" where
  "parse_scalar path key raw =
     (let text = trim raw in
      if text = [] then Inl (invalid_skill path (''frontmatter '' @ key @ '' must be a scalar value''))
      else if text = ''|'' \<or> text = ''>''
      then Inl (invalid_skill path (''frontmatter '' @ key @ '' does not support block scalar syntax''))
      else if hd text = quotation \<or> hd text = apostrophe then
        (if length text < 2 \<or> \<not> ends_with_char (hd text) text
         then Inl (invalid_skill path (''frontmatter '' @ key @ '' has an unterminated quoted scalar''))
         else Inr (inner_text text))
      else if ends_with_char quotation text \<or> ends_with_char apostrophe text
      then Inl (invalid_skill path (''frontmatter '' @ key @ '' has a mismatched quote''))
      else Inr text)"

definition unquote :: "string \<Rightarrow> string" where
  "unquote text =
     (if 2 \<le> length text \<and>
         (starts_with_char quotation text \<and> ends_with_char quotation text \<or>
          starts_with_char apostrophe text \<and> ends_with_char apostrophe text)
      then inner_text text else text)"

definition parse_allowed_tools :: "PathBuf \<Rightarrow> string \<Rightarrow> ContextError + string list" where
  "parse_allowed_tools path raw =
     (let text = trim raw;
          opened = starts_with_char (CHR ''['') text;
          closed = ends_with_char (CHR '']'') text in
      if text = [] then Inl (invalid_skill path ''frontmatter allowed-tools must be a scalar or inline list'')
      else if (opened \<or> closed) \<and> \<not> (opened \<and> closed)
      then Inl (invalid_skill path ''frontmatter allowed-tools has mismatched list brackets'')
      else
        let text = (if opened \<or> closed then inner_text text else text) in
        if is_blank text then Inr []
        else
          let parts = (if CHR '','' \<in> set text then split_any {CHR '',''} text else split_whitespace text);
              tools = filter (\<lambda>part. part \<noteq> []) (map (\<lambda>part. unquote (trim part)) parts) in
          if tools = []
          then Inl (invalid_skill path ''frontmatter allowed-tools must contain at least one tool or []'')
          else Inr tools)"

definition reject_duplicate :: "PathBuf \<Rightarrow> string set \<Rightarrow> string \<Rightarrow> ContextError + string set" where
  "reject_duplicate path recognized key =
     (if key \<in> recognized then Inl (invalid_skill path (''frontmatter contains duplicate '' @ key))
      else Inr (insert key recognized))"

text \<open>The variables of the loop over the lines.\<close>

record FrontmatterState =
  fm_parsed :: SkillFrontmatter
  fm_recognized :: "string set"
  fm_extension_block :: bool

definition parse_flag :: "PathBuf \<Rightarrow> string \<Rightarrow> ContextError + bool" where
  "parse_flag path text =
     (if ascii_lower text = ''true'' then Inr True
      else if ascii_lower text = ''false'' then Inr False
      else Inl (invalid_skill path ''disable-model-invocation must be true or false''))"

definition parse_entry :: "PathBuf \<Rightarrow> string \<Rightarrow> string \<Rightarrow> FrontmatterState \<Rightarrow> ContextError + FrontmatterState" where
  "parse_entry path key text st =
     (if key \<in> {''name'', ''description'', ''disable-model-invocation'', ''allowed-tools''} then
        bind_result (reject_duplicate path (fm_recognized st) key) (\<lambda>recognized.
        map_result (\<lambda>parsed. st\<lparr>fm_parsed := parsed, fm_recognized := recognized\<rparr>)
          (if key = ''name'' then
             map_result (\<lambda>name. (fm_parsed st)\<lparr>sf_name := Some name\<rparr>) (parse_scalar path key text)
           else if key = ''description'' then
             map_result (\<lambda>description. (fm_parsed st)\<lparr>sf_description := Some description\<rparr>) (parse_scalar path key text)
           else if key = ''disable-model-invocation'' then
             map_result (\<lambda>flag. (fm_parsed st)\<lparr>sf_disable_model_invocation := flag\<rparr>)
               (bind_result (parse_scalar path key text) (parse_flag path))
           else
             map_result (\<lambda>tools. (fm_parsed st)\<lparr>sf_allowed_tools := tools\<rparr>) (parse_allowed_tools path text)))
      else Inr (st\<lparr>fm_extension_block := text = []\<rparr>))"

definition is_indented :: "string \<Rightarrow> bool" where
  "is_indented line \<longleftrightarrow> starts_with_char (CHR '' '') line \<or> starts_with_char (CHR 0x09) line"

definition parse_frontmatter_line ::
  "PathBuf \<Rightarrow> nat \<Rightarrow> string \<Rightarrow> FrontmatterState \<Rightarrow> ContextError + FrontmatterState" where
  "parse_frontmatter_line path line_number raw_line st =
     (let line = trim raw_line in
      if line = [] \<or> starts_with_char (CHR ''#'') line then Inr st
      else if is_indented raw_line then
        (if fm_extension_block st then Inr st
         else Inl (invalid_skill path (''unsupported nested frontmatter at line '' @ show_nat line_number @
           ''; nested values are only allowed under extension keys'')))
      else
        let st = st\<lparr>fm_extension_block := False\<rparr> in
        if starts_with_char (CHR ''-'') line
        then Inl (invalid_skill path (''unsupported top-level frontmatter sequence at line '' @ show_nat line_number))
        else case split_once (CHR '':'') line of
          None \<Rightarrow> Inl (invalid_skill path (''frontmatter line '' @ show_nat line_number @ '' must be key: value''))
        | Some (raw_key, raw_value) \<Rightarrow>
            if trim raw_key = []
            then Inl (invalid_skill path (''frontmatter line '' @ show_nat line_number @ '' has an empty key''))
            else parse_entry path (trim raw_key) (trim raw_value) st)"

primrec parse_frontmatter_lines ::
  "PathBuf \<Rightarrow> nat \<Rightarrow> string list \<Rightarrow> FrontmatterState \<Rightarrow> ContextError + FrontmatterState" where
  "parse_frontmatter_lines path index [] st = Inr st"
| "parse_frontmatter_lines path index (raw_line # rest) st =
     bind_result (parse_frontmatter_line path (index + 1) raw_line st) (parse_frontmatter_lines path (index + 1) rest)"

definition parse_skill_frontmatter :: "PathBuf \<Rightarrow> string \<Rightarrow> ContextError + SkillFrontmatter" where
  "parse_skill_frontmatter path source =
     map_result fm_parsed (parse_frontmatter_lines path 0 (text_lines source)
       \<lparr>fm_parsed = no_frontmatter, fm_recognized = {}, fm_extension_block = False\<rparr>)"

section \<open>Resources\<close>

definition MAX_TEXT_RESOURCE_BYTES :: int where
  "MAX_TEXT_RESOURCE_BYTES = 1024 * 1024"

type_synonym resources = "(PathBuf, SkillResourceContent) btree_map"

definition resource_content :: "string \<Rightarrow> SkillResourceContent" where
  "resource_content bytes = (if is_utf8 bytes then ResourceText bytes else ResourceUnavailable)"

definition read_resource :: "(io_error \<Rightarrow> string) \<Rightarrow> PathBuf \<Rightarrow> file_node \<Rightarrow> SkillResourceContent ck" where
  "read_resource io_text path metadata =
     (if MAX_TEXT_RESOURCE_BYTES < int (node_len metadata) then return ResourceUnavailable
      else and_then (context_io io_text path (io_read path)) (\<lambda>bytes. return (resource_content bytes)))"

definition strip_root :: "PathBuf \<Rightarrow> PathBuf \<Rightarrow> PathBuf" where
  "strip_root root path = (if path_starts_with path root then drop (length root) path else path)"

definition resource_entry ::
  "(PathBuf \<Rightarrow> resources \<Rightarrow> resources ck) \<Rightarrow> (io_error \<Rightarrow> string) \<Rightarrow> PathBuf \<Rightarrow> PathBuf \<Rightarrow> resources \<Rightarrow> resources ck" where
  "resource_entry collect io_text root path files =
     and_then (context_io io_text path (io_symlink_metadata path)) (\<lambda>metadata.
     case node_kind metadata of
       Symlink \<Rightarrow> return files
     | Directory \<Rightarrow> collect path files
     | Regular \<Rightarrow>
         and_then (read_resource io_text path metadata) (\<lambda>content.
         return (bt_insert (strip_root root path) content files))
     | Other \<Rightarrow> return files)"

text \<open>The recursion goes one directory down each time and does not follow links.\<close>

primrec collect_files ::
  "nat \<Rightarrow> (io_error \<Rightarrow> string) \<Rightarrow> PathBuf \<Rightarrow> PathBuf \<Rightarrow> resources \<Rightarrow> resources ck" where
  "collect_files 0 io_text root directory files = no_fuel"
| "collect_files (Suc n) io_text root directory files =
     and_then (context_io io_text directory (io_read_dir directory)) (\<lambda>entries.
     fold_each (\<lambda>name. resource_entry (collect_files n io_text root) io_text root (path_join directory [Normal name]))
       entries files)"

definition collect_resources :: "(io_error \<Rightarrow> string) \<Rightarrow> PathBuf \<Rightarrow> resources ck" where
  "collect_resources io_text root =
     fold_each (\<lambda>directory files.
       let path = path_join root [Normal directory] in
       and_then (gets (\<lambda>fs. (path_is_dir fs path, tree_depth fs))) (\<lambda>(found, depth).
       if found then collect_files (Suc depth) io_text root path files else return files))
     [''scripts'', ''references'', ''assets''] bt_empty"

section \<open>Skills\<close>

definition frontmatter_open :: string where
  "frontmatter_open = ''---'' @ [newline]"

definition frontmatter_close :: string where
  "frontmatter_close = [newline] @ ''---'' @ [newline]"

text \<open>The front matter and the instructions of the text of a skill.\<close>

definition split_skill :: "PathBuf \<Rightarrow> string \<Rightarrow> ContextError + string \<times> string" where
  "split_skill path source =
     bind_result (get_or (invalid_skill path ''SKILL.md must start with frontmatter delimited by ---'')
       (strip_prefix frontmatter_open (replace_text [carriage_return, newline] [newline] source))) (\<lambda>rest.
     get_or (invalid_skill path ''SKILL.md frontmatter must end with ---'') (first_match frontmatter_close rest))"

definition filled :: "string option \<Rightarrow> string option" where
  "filled text = (case text of None \<Rightarrow> None | Some s \<Rightarrow> if is_blank s then None else Some s)"

definition file_name :: "PathBuf \<Rightarrow> string" where
  "file_name path =
     (if path = [] then []
      else case last path of Normal name \<Rightarrow> if is_utf8 name then name else [] | _ \<Rightarrow> [])"

record SkillText =
  st_name :: string
  st_description :: string
  st_instructions :: string
  st_frontmatter :: SkillFrontmatter

text \<open>The checks of \<open>parse_skill\<close> before the resources are read.\<close>

definition parse_skill_text :: "Externals \<Rightarrow> PathBuf \<Rightarrow> PathBuf \<Rightarrow> string \<Rightarrow> ContextError + SkillId \<times> SkillText" where
  "parse_skill_text E path root source =
     bind_result (split_skill path source) (\<lambda>(before, after).
     bind_result (parse_skill_frontmatter path before) (\<lambda>frontmatter.
     bind_result (get_or (invalid_skill path ''frontmatter requires non-empty name'') (filled (sf_name frontmatter))) (\<lambda>name.
     bind_result (get_or (invalid_skill path ''frontmatter requires non-empty description'')
       (filled (sf_description frontmatter))) (\<lambda>description.
     if file_name root \<noteq> name
     then Inl (invalid_skill path (''skill name '' @ debug_str E name @ '' must match directory '' @ debug_str E (file_name root)))
     else
       bind_result (map_error (\<lambda>_. invalid_skill path ''skill name must not be empty'') (parse_id name)) (\<lambda>skill_id.
       Inr (skill_id, \<lparr>st_name = name, st_description = description, st_instructions = trim after,
         st_frontmatter = frontmatter\<rparr>))))))"

definition skill_definition :: "PathBuf \<Rightarrow> SkillId \<times> SkillText \<Rightarrow> resources \<Rightarrow> SkillDefinition" where
  "skill_definition root parsed resources =
     (case parsed of (skill_id, skill) \<Rightarrow>
       \<lparr>sd_descriptor = \<lparr>sk_id = skill_id, sk_name = st_name skill, sk_description = st_description skill,
           sk_invocation = (if sf_disable_model_invocation (st_frontmatter skill) then ManualOnly else ModelEligible)\<rparr>,
         sd_instructions = st_instructions skill, sd_root = display_path root, sd_resources = resources,
         sd_allowed_tools = sf_allowed_tools (st_frontmatter skill)\<rparr>)"

definition parse_skill :: "Externals \<Rightarrow> (io_error \<Rightarrow> string) \<Rightarrow> PathBuf \<Rightarrow> PathBuf \<Rightarrow> SkillDefinition ck" where
  "parse_skill E io_text path root =
     and_then (context_io io_text path (io_read_to_string path)) (\<lambda>source.
     and_then (lift_result (\<lambda>error. error) (parse_skill_text E path root source)) (\<lambda>parsed.
     and_then (collect_resources io_text root) (\<lambda>resources.
     return (skill_definition root parsed resources))))"

section \<open>Skill directories\<close>

definition discover_skill_entry ::
  "Externals \<Rightarrow> (io_error \<Rightarrow> string) \<Rightarrow> PathBuf \<Rightarrow> string \<Rightarrow> SkillRegistry \<Rightarrow> SkillRegistry ck" where
  "discover_skill_entry E io_text root name registry =
     (let path = path_join root [Normal name]; skill_file = path_join path [Normal ''SKILL.md''] in
      and_then (gets (\<lambda>fs. path_is_dir fs path \<and> path_is_file fs skill_file)) (\<lambda>found.
      if \<not> found then return registry
      else
        and_then (parse_skill E io_text skill_file path) (\<lambda>skill.
        return (registry\<lparr>sr_skills := bt_insert (sk_id (sd_descriptor skill)) skill (sr_skills registry)\<rparr>))))"

definition discover_skill_root ::
  "Externals \<Rightarrow> (io_error \<Rightarrow> string) \<Rightarrow> PathBuf \<Rightarrow> SkillRegistry \<Rightarrow> SkillRegistry ck" where
  "discover_skill_root E io_text root registry =
     and_then (gets (\<lambda>fs. path_is_dir fs root)) (\<lambda>found.
     if \<not> found then return registry
     else
       and_then (context_io io_text root (io_read_dir root)) (\<lambda>entries.
       fold_each (discover_skill_entry E io_text root) entries registry))"

definition home_skill_roots :: "PathBuf \<Rightarrow> PathBuf list" where
  "home_skill_roots home =
     map (\<lambda>names. path_join home (map Normal names))
       [[''.cursor'', ''skills''], [''.claude'', ''skills''], [''.codex'', ''skills''], [''.agents'', ''skills''],
        [''.config'', ''phenix'', ''skills'']]"

definition project_skill_roots :: "PathBuf \<Rightarrow> PathBuf list" where
  "project_skill_roots root =
     map (\<lambda>names. path_join root (map Normal names))
       [[''.cursor'', ''skills''], [''.claude'', ''skills''], [''.codex'', ''skills''], [''.agents'', ''skills''],
        [''.phenix'', ''skills'']]"

text \<open>From the lowest to the highest precedence.\<close>

definition skill_roots :: "(string \<Rightarrow> string option) \<Rightarrow> PathBuf \<Rightarrow> PathBuf list" where
  "skill_roots env root =
     (case env ''HOME'' of None \<Rightarrow> [] | Some home \<Rightarrow> home_skill_roots (path_components home)) @
     project_skill_roots root @
     (case env ''PHENIX_SKILL_PATH'' of
        None \<Rightarrow> [] | Some extra \<Rightarrow> map path_components (split_any {CHR '':''} extra))"

definition skill_discover ::
  "Externals \<Rightarrow> (io_error \<Rightarrow> string) \<Rightarrow> (string \<Rightarrow> string option) \<Rightarrow> PathBuf \<Rightarrow> SkillRegistry ck" where
  "skill_discover E io_text env cwd =
     and_then (gets (project_root cwd)) (\<lambda>root.
     fold_each (discover_skill_root E io_text) (skill_roots env root) \<lparr>sr_skills = bt_empty\<rparr>)"

end
