(* ===== verification/Workspace_Identity.thy ===== *)
theory Workspace_Identity
  imports Transaction Text_Functions
begin

text \<open>
  The workspace a conductor is started in (\<open>phenix-conductor/src/workspace.rs\<close>): its canonical root,
  its identifier and the scratch paths that \<open>.gitignore\<close> declares, a pattern after each line
  \<open># phenix:scratch\<close>. Only literal paths below the root are scratch roots.
\<close>

definition SCRATCH_DIRECTIVE :: string where
  "SCRATCH_DIRECTIVE = ''# phenix:scratch''"

datatype WorkspaceError =
    WorkspaceUnresolved PathBuf io_error
  | ReadGitignore PathBuf io_error
  | InvalidScratchPattern PathBuf nat string string
  | DanglingScratchDirective PathBuf nat

fun display_WorkspaceError :: "Externals \<Rightarrow> (io_error \<Rightarrow> string) \<Rightarrow> WorkspaceError \<Rightarrow> string" where
  "display_WorkspaceError E io_text (WorkspaceUnresolved path source) =
     ''failed to resolve workspace '' @ display_path path @ '': '' @ io_text source"
| "display_WorkspaceError E io_text (ReadGitignore path source) =
     ''failed to read '' @ display_path path @ '': '' @ io_text source"
| "display_WorkspaceError E io_text (InvalidScratchPattern path line pattern reason) =
     ''invalid Phenix scratch pattern '' @ debug_str E pattern @ '' at '' @ display_path path @ '':'' @ show_nat line @
     '': '' @ reason"
| "display_WorkspaceError E io_text (DanglingScratchDirective path line) =
     ''Phenix scratch directive at '' @ display_path path @ '':'' @ show_nat line @ '' has no following ignore pattern''"

section \<open>Scratch patterns\<close>

fun pattern_components :: "PathBuf \<Rightarrow> PathBuf option" where
  "pattern_components [] = Some []"
| "pattern_components (CurDir # rest) = pattern_components rest"
| "pattern_components (Normal part # rest) = map_option (\<lambda>relative. Normal part # relative) (pattern_components rest)"
| "pattern_components (ParentDir # rest) = None"
| "pattern_components (RootDir # rest) = None"

definition normalize_scratch_pattern :: "PathBuf \<Rightarrow> nat \<Rightarrow> string \<Rightarrow> WorkspaceError + PathBuf" where
  "normalize_scratch_pattern gitignore line raw =
     (let invalid = (\<lambda>reason. Inl (InvalidScratchPattern gitignore line raw reason)) in
      if starts_with_char (CHR ''!'') raw then invalid ''negated patterns are not scratch roots''
      else if list_ex (\<lambda>c. c \<in> {CHR ''*'', CHR ''?'', CHR ''['', CHR '']''}) raw
      then invalid ''scratch roots must be literal paths; glob patterns are not supported''
      else
        let normalized = trim_end_char (CHR ''/'') (trim_start_char (CHR ''/'') raw) in
        case pattern_components (path_components normalized) of
          None \<Rightarrow> invalid ''scratch path must stay inside the workspace''
        | Some relative \<Rightarrow> Inr relative)"

text \<open>One line after another; \<open>index\<close> lines were read, \<open>directive\<close> is \<open>directive_line\<close>.\<close>

fun scratch_loop ::
  "PathBuf \<Rightarrow> nat \<Rightarrow> nat option \<Rightarrow> PathBuf set \<Rightarrow> string list \<Rightarrow> WorkspaceError + PathBuf set" where
  "scratch_loop path index directive scratch [] =
     (case directive of Some line \<Rightarrow> Inl (DanglingScratchDirective path line) | None \<Rightarrow> Inr scratch)"
| "scratch_loop path index directive scratch (raw # rest) =
     (let line_number = index + 1; line = trim raw in
      if line = SCRATCH_DIRECTIVE then scratch_loop path line_number (Some line_number) scratch rest
      else if line = [] \<or> starts_with_char (CHR ''#'') line then scratch_loop path line_number directive scratch rest
      else if directive = None then scratch_loop path line_number None scratch rest
      else
        bind_result (normalize_scratch_pattern path line_number line) (\<lambda>relative.
        if relative = []
        then Inl (InvalidScratchPattern path line_number line ''scratch must name a path below the workspace root'')
        else scratch_loop path line_number None (insert relative scratch) rest))"

definition parse_scratch_paths :: "PathBuf \<Rightarrow> string \<Rightarrow> WorkspaceError + PathBuf set" where
  "parse_scratch_paths path source = scratch_loop path 0 None {} (text_lines source)"

section \<open>The workspace\<close>

type_synonym 'a ws = "(FileSystem, WorkspaceError, 'a) op"

definition discover_scratch_paths :: "PathBuf \<Rightarrow> PathBuf set ws" where
  "discover_scratch_paths root =
     (let path = path_join root [Normal ''.gitignore''] in
      and_then (catch_result (io_read_to_string path)) (\<lambda>source.
      case source of
        Inr source \<Rightarrow> lift_result (\<lambda>error. error) (parse_scratch_paths path source)
      | Inl error \<Rightarrow> if error = IoNotFound then return {} else throw (ReadGitignore path error)))"

definition workspace_discover :: "PathBuf \<Rightarrow> WorkspaceDescriptor ws" where
  "workspace_discover path =
     and_then (map_err (WorkspaceUnresolved path) (io_canonicalize path)) (\<lambda>root.
     and_then (expect (case parse_id (''workspace:'' @ display_path root) of Inl _ \<Rightarrow> None | Inr workspace_id \<Rightarrow> Some workspace_id)
       ''canonical workspace path is non-empty'') (\<lambda>workspace_id.
     and_then (discover_scratch_paths root) (\<lambda>scratch_paths.
     return \<lparr>wd_id = workspace_id, wd_root = root, wd_scratch_paths = scratch_paths\<rparr>)))"

end
