(* ===== verification/Discovery_Facts.thy ===== *)
theory Discovery_Facts
  imports Skill_Discovery Workspace_Identity Manifest Sample
begin

text \<open>
  What is found on the file system: the resources of a skill are exactly the regular files of its three
  resource directories, the last skill directory that has a skill wins, a front matter is read back as
  it was written, and the scratch paths of a workspace are those its \<open>.gitignore\<close> declares, all below
  the root.
\<close>

section \<open>Looking changes nothing\<close>

lemma read_to_string_looks [looking]: "looks (io_read_to_string path)"
  unfolding io_read_to_string_def by (intro looking)

lemma context_io_looks [looking]: "looks m \<Longrightarrow> looks (context_io io_text path m)"
  unfolding context_io_def by (rule looking)

lemma fold_each_looks [looking]: "(\<And>x acc. looks (f x acc)) \<Longrightarrow> looks (fold_each f xs acc)"
  by (induction xs arbitrary: acc) (auto intro: looking)

lemma context_io_Ok: "context_io io_text path m s = (Ok x, s') \<longleftrightarrow> m s = (Ok x, s')"
  by (auto simp: context_io_def map_err_def split: prod.split outcome.split)

section \<open>A step below a directory\<close>

lemma resolve_child:
  assumes "resolve_path fs to_follow path = Inr d" and "is_dir (fs_nodes fs) d"
  shows "\<exists>k. resolve_path fs mode (path @ [Normal name]) = walk (fs_nodes fs) mode k d [Normal name]"
  using walk_append [of "fs_nodes fs" MAX_LINKS "fs_cwd fs" path d "[Normal name]" mode] assms
  by (auto simp: resolve_path_def split: if_splits)

lemma resolve_child_node:
  assumes "resolve_path fs to_follow path = Inr d" and "is_dir (fs_nodes fs) d"
    and "bt_get (fs_nodes fs) (d @ [name]) = Some node" and "\<forall>target. node \<noteq> SymlinkNode target"
  shows "resolve_path fs to_follow (path @ [Normal name]) = Inr (d @ [name])"
proof -
  obtain k where "resolve_path fs to_follow (path @ [Normal name]) = walk (fs_nodes fs) to_follow k d [Normal name]"
    using resolve_child [OF assms(1,2)] by blast
  also have "\<dots> = Inr (d @ [name])" using walk_last(4) [of "fs_nodes fs" d name k] assms(3,4) by simp
  finally show ?thesis .
qed

lemma child_metadata:
  assumes "resolve_path fs to_follow path = Inr d" and "is_dir (fs_nodes fs) d"
    and "io_symlink_metadata (path @ [Normal name]) fs = (Ok node, fs')"
  shows "bt_get (fs_nodes fs) (d @ [name]) = Some node"
proof -
  obtain k where "resolve_path fs no_follow (path @ [Normal name]) = walk (fs_nodes fs) no_follow k d [Normal name]"
    using resolve_child [OF assms(1,2)] by blast
  with assms(3) walk_last(1) [of "fs_nodes fs" k d name] show ?thesis by (auto simp: metadata_Ok split: if_splits)
qed

lemma dir_listing:
  assumes "resolve_path fs to_follow path = Inr d" and "io_read_dir path fs = (Ok entries, fs')"
  shows "entries = child_names (fs_nodes fs) d"
  using assms by (auto simp: io_read_dir_def node_of_def and_then_def located_eq gets_def ok_or_def return_def throw_def
      split: option.splits if_splits)

lemma file_bytes:
  assumes "resolve_path fs to_follow path = Inr loc" and "node_at (fs_nodes fs) loc = Some (FileNode bytes)"
    and "io_read path fs = (Ok found, fs')"
  shows "found = bytes"
  using assms by (auto simp: io_read_def node_of_def and_then_def located_eq gets_def ok_or_def return_def throw_def
      split: option.splits)

section \<open>Resources\<close>

text \<open>What is recorded of the file \<open>ks\<close> below the directory \<open>place\<close>.\<close>

definition file_resource :: "string \<Rightarrow> SkillResourceContent" where
  "file_resource bytes =
     (if MAX_TEXT_RESOURCE_BYTES < int (length bytes) then ResourceUnavailable else resource_content bytes)"

definition resource_at :: "FileSystem \<Rightarrow> location \<Rightarrow> string list \<Rightarrow> SkillResourceContent option" where
  "resource_at fs place ks =
     (case bt_get (fs_nodes fs) (place @ ks) of Some (FileNode bytes) \<Rightarrow> Some (file_resource bytes) | _ \<Rightarrow> None)"

text \<open>The files that satisfy \<open>below\<close> are recorded under \<open>base\<close> and the other entries kept.\<close>

definition collected ::
  "(string list \<Rightarrow> bool) \<Rightarrow> FileSystem \<Rightarrow> location \<Rightarrow> PathBuf \<Rightarrow> resources \<Rightarrow> resources \<Rightarrow> bool" where
  "collected below fs place base files files' \<longleftrightarrow>
     (\<forall>ks. bt_get files' (base @ map Normal ks) =
        (case resource_at fs place ks of
           Some content \<Rightarrow> if below ks then Some content else bt_get files (base @ map Normal ks)
         | None \<Rightarrow> bt_get files (base @ map Normal ks))) \<and>
     (\<forall>p. (\<forall>ks. p \<noteq> base @ map Normal ks) \<longrightarrow> bt_get files' p = bt_get files p)"

lemma collected_cong:
  assumes "collected below fs place base files files'"
    and "\<And>ks content. resource_at fs place ks = Some content \<Longrightarrow> below ks \<longleftrightarrow> below' ks"
  shows "collected below' fs place base files files'"
  using assms unfolding collected_def by (auto split: option.split)

lemma collected_none: "(\<And>ks. below ks \<Longrightarrow> resource_at fs place ks = None) \<Longrightarrow> collected below fs place base files files"
  by (auto simp: collected_def split: option.split)

lemma chain_collected:
  "chain (\<lambda>c. collected (prefix (names @ [c])) fs place base) cs files files' \<Longrightarrow>
     collected (\<lambda>ks. \<exists>c\<in>set cs. prefix (names @ [c]) ks) fs place base files files'"
proof (induction cs arbitrary: files)
  case (Cons c cs)
  then obtain files1 where "collected (prefix (names @ [c])) fs place base files files1"
      "collected (\<lambda>ks. \<exists>c\<in>set cs. prefix (names @ [c]) ks) fs place base files1 files'" by auto
  then show ?case unfolding collected_def by (auto split: option.splits)
qed (auto simp: collected_def split: option.split)

lemma resource_node:
  "resource_at fs place ks = Some content \<longleftrightarrow>
     (\<exists>bytes. bt_get (fs_nodes fs) (place @ ks) = Some (FileNode bytes) \<and> content = file_resource bytes)"
  by (auto simp: resource_at_def split: option.split file_node.split)

text \<open>A file below \<open>names\<close> is, or is below, an entry of that directory.\<close>

lemma resource_below:
  assumes "fs_ok fs" and "resource_at fs place ks = Some content" and "strict_prefix names ks"
  shows "\<exists>c\<in>set (child_names (fs_nodes fs) (place @ names)). prefix (names @ [c]) ks"
proof -
  obtain c rest where ks: "ks = names @ c # rest" using assms(3) by (auto elim: strict_prefixE')
  with assms(2) obtain bytes where node: "bt_get (fs_nodes fs) ((place @ names @ [c]) @ rest) = Some (FileNode bytes)"
    by (auto simp: resource_node)
  have "bt_get (fs_nodes fs) ((place @ names) @ [c]) \<noteq> None"
  proof (cases "rest = []")
    case False
    with parents_are_dirs [OF _ node] assms(1) have "is_dir (fs_nodes fs) (place @ names @ [c])" by (simp add: fs_ok_def)
    then show ?thesis by (simp add: is_dir_def node_at_def)
  qed (use node in simp)
  then show ?thesis unfolding in_child_names [symmetric] by (auto simp: ks)
qed

lemma only_itself:
  assumes "fs_ok fs" and "bt_get (fs_nodes fs) (place @ ks) = Some node" and "node \<noteq> DirectoryNode"
    and "resource_at fs place ks' = Some content" and "prefix ks ks'"
  shows "ks' = ks"
proof -
  obtain rest bytes where ks': "ks' = ks @ rest" and node': "bt_get (fs_nodes fs) ((place @ ks) @ rest) = Some (FileNode bytes)"
    using assms(4,5) by (auto simp: resource_node prefix_def)
  have "rest = []"
  proof (rule ccontr)
    assume "rest \<noteq> []"
    with parents_are_dirs [OF _ node'] assms(1) have "is_dir (fs_nodes fs) (place @ ks)" by (simp add: fs_ok_def)
    moreover have "place @ ks \<noteq> []" using assms(1,2) by (auto simp: fs_ok_def tree_ok_def)
    ultimately show False using assms(2,3) by (auto simp: is_dir_def node_at_def split: if_splits)
  qed
  with ks' show ?thesis by simp
qed

lemma map_Normal_inject [simp]: "map Normal xs = map Normal ys \<longleftrightarrow> xs = ys"
  by (rule inj_map_eq_map) (simp add: inj_def)

lemma collected_file:
  assumes "fs_ok fs" and "bt_get (fs_nodes fs) (place @ ks) = Some (FileNode bytes)"
  shows "collected (prefix ks) fs place base files (bt_insert (base @ map Normal ks) (file_resource bytes) files)"
proof -
  have "ks' = ks" if "resource_at fs place ks' = Some content" "prefix ks ks'" for ks' content
    using only_itself [OF assms _ that] by simp
  moreover have "resource_at fs place ks = Some (file_resource bytes)" using assms(2) by (simp add: resource_node)
  ultimately show ?thesis by (auto simp: collected_def split: option.split)
qed

lemma read_resource_behaves:
  assumes "resolve_path fs to_follow path = Inr loc" and "node_at (fs_nodes fs) loc = Some (FileNode bytes)"
  shows "behaves fs (\<lambda>content. content = file_resource bytes) (read_resource io_text path (FileNode bytes) fs)"
proof (rule behaves_looks)
  show "looks (read_resource io_text path (FileNode bytes))"
    unfolding read_resource_def by (intro looking)
  show "content = file_resource bytes" if "read_resource io_text path (FileNode bytes) fs = (Ok content, fs')" for content fs'
    using that file_bytes [OF assms]
    by (auto simp: read_resource_def file_resource_def return_def context_io_Ok split: if_splits elim!: and_then_OkE)
qed

lemma resource_entry_behaves:
  assumes "fs_ok fs" and "resolve_path fs to_follow (root @ base @ map Normal names) = Inr (place @ names)"
    and "is_dir (fs_nodes fs) (place @ names)"
    and deeper: "\<And>files. resolve_path fs to_follow (root @ base @ map Normal (names @ [c])) = Inr (place @ names @ [c]) \<Longrightarrow>
      is_dir (fs_nodes fs) (place @ names @ [c]) \<Longrightarrow>
      behaves fs (collected (strict_prefix (names @ [c])) fs place base files)
        (collect (root @ base @ map Normal (names @ [c])) files fs)"
  shows "behaves fs (collected (prefix (names @ [c])) fs place base files)
     (resource_entry collect io_text root (root @ base @ map Normal (names @ [c])) files fs)"
  unfolding resource_entry_def
proof (rule behaves_and_then)
  let ?path = "root @ base @ map Normal (names @ [c])"
  have path: "?path = (root @ base @ map Normal names) @ [Normal c]" by simp
  show "behaves fs (\<lambda>node. bt_get (fs_nodes fs) ((place @ names) @ [c]) = Some node)
      (context_io io_text ?path (io_symlink_metadata ?path) fs)"
    unfolding path by (rule behaves_looks) (use child_metadata [OF assms(2,3)] in \<open>auto simp: context_io_Ok intro: looking\<close>)
  fix node
  assume node: "bt_get (fs_nodes fs) ((place @ names) @ [c]) = Some node"
  have found: "resolve_path fs to_follow ?path = Inr ((place @ names) @ [c])" if "\<forall>target. node \<noteq> SymlinkNode target"
    using resolve_child_node [OF assms(2,3) node that] by simp
  show "behaves fs (collected (prefix (names @ [c])) fs place base files)
      ((case node_kind node of
         Symlink \<Rightarrow> return files | Directory \<Rightarrow> collect ?path files
       | Regular \<Rightarrow> and_then (read_resource io_text ?path node) (\<lambda>content.
           return (bt_insert (strip_root root ?path) content files))
       | Other \<Rightarrow> return files) fs)"
  proof (cases node)
    case (FileNode bytes)
    have "behaves fs (\<lambda>content. content = file_resource bytes) (read_resource io_text ?path (FileNode bytes) fs)"
      by (rule read_resource_behaves) (use found node FileNode in \<open>auto simp: node_at_def\<close>)
    moreover have "strip_root root ?path = base @ map Normal (names @ [c])"
      by (simp add: strip_root_def path_starts_with_def)
    moreover have "collected (prefix (names @ [c])) fs place base files
        (bt_insert (base @ map Normal (names @ [c])) (file_resource bytes) files)"
      by (rule collected_file [OF assms(1)]) (use node FileNode in simp)
    ultimately show ?thesis
      unfolding FileNode node_kind.simps FileKind.case
      by - (rule behaves_and_then, assumption, simp add: behaves_def return_def)
  next
    case DirectoryNode
    have dir: "is_dir (fs_nodes fs) (place @ names @ [c])"
      using node DirectoryNode by (simp add: is_dir_def node_at_def)
    have "collected (prefix (names @ [c])) fs place base files files'"
      if "collected (strict_prefix (names @ [c])) fs place base files files'" for files'
      using that
    proof (rule collected_cong)
      fix ks content
      assume "resource_at fs place ks = Some content"
      with node DirectoryNode have "ks \<noteq> names @ [c]" by (auto simp: resource_node)
      then show "strict_prefix (names @ [c]) ks \<longleftrightarrow> prefix (names @ [c]) ks" by (auto simp: strict_prefix_def)
    qed
    with deeper [OF _ dir, of files] found DirectoryNode show ?thesis by (simp add: behaves_def)
  next
    case (SymlinkNode target)
    with node only_itself [OF assms(1), of place "names @ [c]" node] have "collected (prefix (names @ [c])) fs place base files files"
      by (intro collected_none) (fastforce simp: resource_node resource_at_def split: option.splits file_node.splits)
    with SymlinkNode show ?thesis by (simp add: behaves_def return_def)
  next
    case (OtherNode n bytes)
    with node only_itself [OF assms(1), of place "names @ [c]" node] have "collected (prefix (names @ [c])) fs place base files files"
      by (intro collected_none) (fastforce simp: resource_node resource_at_def split: option.splits file_node.splits)
    with OtherNode show ?thesis by (simp add: behaves_def return_def)
  qed
qed

lemma collect_files_behaves:
  assumes "fs_ok fs"
  shows "resolve_path fs to_follow (root @ base @ map Normal names) = Inr (place @ names) \<Longrightarrow>
     is_dir (fs_nodes fs) (place @ names) \<Longrightarrow> tree_depth fs < length (place @ names) + n \<Longrightarrow>
     behaves fs (collected (strict_prefix names) fs place base files)
       (collect_files n io_text root (root @ base @ map Normal names) files fs)"
proof (induction n arbitrary: names files)
  case 0
  with depth_bound [of fs "place @ names"] show ?case by simp
next
  case (Suc n)
  let ?dir = "root @ base @ map Normal names"
  let ?P = "\<lambda>c. collected (prefix (names @ [c])) fs place base"
  have child: "path_join ?dir [Normal c] = root @ base @ map Normal (names @ [c])" for c
    by (simp add: path_join_def path_is_absolute_def)
  have step: "behaves fs (?P c files)
      (resource_entry (collect_files n io_text root) io_text root (path_join ?dir [Normal c]) files fs)" for c files
    unfolding child
    by (rule resource_entry_behaves [OF assms Suc.prems(1,2)])
      (use Suc.IH [of "names @ [c]"] Suc.prems(3) in simp)
  show ?case
    unfolding collect_files.simps
  proof (rule behaves_and_then)
    show "behaves fs (\<lambda>entries. entries = child_names (fs_nodes fs) (place @ names))
        (context_io io_text ?dir (io_read_dir ?dir) fs)"
      by (rule behaves_looks) (use dir_listing [OF Suc.prems(1)] in \<open>auto simp: context_io_Ok intro: looking\<close>)
    fix entries
    assume entries: "entries = child_names (fs_nodes fs) (place @ names)"
    have "behaves fs (chain ?P entries files) (fold_each (\<lambda>name. resource_entry (collect_files n io_text root) io_text root
        (path_join ?dir [Normal name])) entries files fs)"
      by (rule fold_each_chain) (rule step)
    moreover have "collected (strict_prefix names) fs place base files files'" if "chain ?P entries files files'" for files'
    proof (rule collected_cong [OF chain_collected [OF that]])
      fix ks content
      assume found: "resource_at fs place ks = Some content"
      show "(\<exists>c\<in>set entries. prefix (names @ [c]) ks) \<longleftrightarrow> strict_prefix names ks"
      proof
        assume "\<exists>c\<in>set entries. prefix (names @ [c]) ks"
        then show "strict_prefix names ks" by (auto simp: strict_prefix_def prefix_def)
      next
        assume "strict_prefix names ks"
        from resource_below [OF assms found this] show "\<exists>c\<in>set entries. prefix (names @ [c]) ks" by (simp add: entries)
      qed
    qed
    ultimately show "behaves fs (collected (strict_prefix names) fs place base files)
        (fold_each (\<lambda>name. resource_entry (collect_files n io_text root) io_text root (path_join ?dir [Normal name]))
           entries files fs)"
      by (simp add: behaves_def)
  qed
qed

text \<open>The entry the files of a skill directory have for a path.\<close>

definition resource_directories :: "string list" where
  "resource_directories = [''scripts'', ''references'', ''assets'']"

fun names_of :: "PathBuf \<Rightarrow> string list option" where
  "names_of [] = Some []"
| "names_of (Normal name # rest) = map_option (\<lambda>names. name # names) (names_of rest)"
| "names_of (_ # rest) = None"

definition resource_of :: "FileSystem \<Rightarrow> PathBuf \<Rightarrow> PathBuf \<Rightarrow> SkillResourceContent option" where
  "resource_of fs root path =
     (case names_of path of
        Some (directory # ks) \<Rightarrow>
          if directory \<in> set resource_directories \<and> path_is_dir fs (root @ [Normal directory])
          then (case resolve_path fs to_follow (root @ [Normal directory]) of
                  Inr place \<Rightarrow> resource_at fs place ks
                | Inl _ \<Rightarrow> None)
          else None
      | _ \<Rightarrow> None)"

lemma names_of_iff: "names_of path = Some names \<longleftrightarrow> path = map Normal names"
  by (induction path arbitrary: names rule: names_of.induct) auto

lemma join_normal [simp]: "path_join path (Normal name # rest) = path @ Normal name # rest"
  by (simp add: path_join_def path_is_absolute_def)

lemma path_is_dir_resolved:
  "path_is_dir fs path \<Longrightarrow> \<exists>loc. resolve_path fs to_follow path = Inr loc \<and> is_dir (fs_nodes fs) loc"
  by (auto simp: path_is_dir_def stat_node_def is_dir_def split: if_splits sum.splits)

text \<open>The files of one resource directory are added.\<close>

definition adds_directory :: "FileSystem \<Rightarrow> PathBuf \<Rightarrow> string \<Rightarrow> resources \<Rightarrow> resources \<Rightarrow> bool" where
  "adds_directory fs root directory files files' \<longleftrightarrow>
     (\<forall>p. bt_get files' p =
        (if (\<exists>ks. p = Normal directory # map Normal ks) \<and> resource_of fs root p \<noteq> None then resource_of fs root p
         else bt_get files p))"

lemma resource_of_directory:
  assumes "directory \<in> set resource_directories" and "path_is_dir fs (root @ [Normal directory])"
    and "resolve_path fs to_follow (root @ [Normal directory]) = Inr place"
  shows "resource_of fs root (Normal directory # map Normal ks) = resource_at fs place ks"
proof -
  have "names_of (Normal directory # map Normal ks) = Some (directory # ks)" by (simp only: names_of_iff list.map)
  with assms show ?thesis unfolding resource_of_def by simp
qed

lemma resource_of_absent:
  assumes "\<not> path_is_dir fs (root @ [Normal directory])"
  shows "resource_of fs root (Normal directory # map Normal ks) = None"
proof -
  have "names_of (Normal directory # map Normal ks) = Some (directory # ks)" by (simp only: names_of_iff list.map)
  with assms show ?thesis unfolding resource_of_def by simp
qed

lemma collected_adds:
  assumes "fs_ok fs" and "directory \<in> set resource_directories" and "path_is_dir fs (root @ [Normal directory])"
    and "resolve_path fs to_follow (root @ [Normal directory]) = Inr place" and "is_dir (fs_nodes fs) place"
    and "collected (strict_prefix []) fs place [Normal directory] files files'"
  shows "adds_directory fs root directory files files'"
proof -
  note same = resource_of_directory [OF assms(2-4)]
  have "bt_get (fs_nodes fs) [] = None"
    by (cases "bt_get (fs_nodes fs) []") (use assms(1) in \<open>auto simp: fs_ok_def tree_ok_def\<close>)
  with assms(5) have "resource_at fs place [] = None"
    by (auto simp: resource_at_def is_dir_def node_at_def split: option.split file_node.split if_splits)
  then have recorded: "bt_get files' (Normal directory # map Normal ks) =
      (case resource_at fs place ks of Some content \<Rightarrow> Some content | None \<Rightarrow> bt_get files (Normal directory # map Normal ks))" for ks
  proof -
    from assms(6) have "bt_get files' ([Normal directory] @ map Normal ks) =
        (case resource_at fs place ks of
           Some content \<Rightarrow> if strict_prefix [] ks then Some content else bt_get files ([Normal directory] @ map Normal ks)
         | None \<Rightarrow> bt_get files ([Normal directory] @ map Normal ks))"
      unfolding collected_def by blast
    then show ?thesis using \<open>resource_at fs place [] = None\<close> by (cases ks) (auto split: option.split)
  qed
  have inside: "bt_get files' p = (case resource_of fs root p of Some content \<Rightarrow> Some content | None \<Rightarrow> bt_get files p)"
    if "p = Normal directory # map Normal ks" for p ks
    unfolding that same by (rule recorded)
  have outside: "bt_get files' p = bt_get files p" if "\<nexists>ks. p = Normal directory # map Normal ks" for p
    using assms(6) that by (simp add: collected_def)
  show ?thesis unfolding adds_directory_def
  proof
    fix p
    show "bt_get files' p = (if (\<exists>ks. p = Normal directory # map Normal ks) \<and> resource_of fs root p \<noteq> None
        then resource_of fs root p else bt_get files p)"
    proof (cases "\<exists>ks. p = Normal directory # map Normal ks")
      case True
      with inside show ?thesis by (auto split: option.splits)
    next
      case False
      with outside show ?thesis by simp
    qed
  qed
qed

lemma add_directory_behaves:
  assumes "fs_ok fs" and "directory \<in> set resource_directories"
  shows "behaves fs (adds_directory fs root directory files)
     ((let path = path_join root [Normal directory] in
       and_then (gets (\<lambda>fs. (path_is_dir fs path, tree_depth fs))) (\<lambda>(found, depth).
       if found then collect_files (Suc depth) io_text root path files else return files)) fs)"
proof (cases "path_is_dir fs (root @ [Normal directory])")
  case True
  then obtain place where place: "resolve_path fs to_follow (root @ [Normal directory]) = Inr place" "is_dir (fs_nodes fs) place"
    using path_is_dir_resolved by blast
  have "behaves fs (collected (strict_prefix []) fs place [Normal directory] files)
      (collect_files (Suc (tree_depth fs)) io_text root (root @ [Normal directory] @ map Normal []) files fs)"
    by (rule collect_files_behaves [OF assms(1)]) (use place in simp_all)
  then have "behaves fs (adds_directory fs root directory files)
      (collect_files (Suc (tree_depth fs)) io_text root (root @ [Normal directory]) files fs)"
    using collected_adds [OF assms True place] by (simp add: behaves_def del: collect_files.simps)
  with True show ?thesis by (simp add: Let_def del: collect_files.simps)
next
  case False
  with resource_of_absent [OF False] show ?thesis
    by (auto simp: Let_def behaves_def return_def adds_directory_def)
qed

lemma chain_directories:
  "chain (adds_directory fs root) directories files files' \<Longrightarrow>
     bt_get files' p =
       (if (\<exists>directory\<in>set directories. \<exists>ks. p = Normal directory # map Normal ks) \<and> resource_of fs root p \<noteq> None
        then resource_of fs root p else bt_get files p)"
  by (induction directories arbitrary: files) (auto simp: adds_directory_def)

lemma collect_resources_behaves:
  assumes "fs_ok fs"
  shows "behaves fs (\<lambda>files. \<forall>p. bt_get files p = resource_of fs root p) (collect_resources io_text root fs)"
proof -
  have "behaves fs (chain (adds_directory fs root) resource_directories bt_empty) (collect_resources io_text root fs)"
    unfolding collect_resources_def resource_directories_def [symmetric]
    by (rule fold_each_chain) (rule add_directory_behaves [OF assms])
  moreover have "bt_get files p = resource_of fs root p"
    if "chain (adds_directory fs root) resource_directories bt_empty files" for files p
  proof (cases "resource_of fs root p")
    case (Some content)
    then obtain directory ks where "names_of p = Some (directory # ks)" "directory \<in> set resource_directories"
      by (auto simp: resource_of_def split: option.splits list.splits if_splits)
    with Some chain_directories [OF that, of p] show ?thesis by (auto simp: names_of_iff)
  qed (use chain_directories [OF that, of p] in simp)
  ultimately show ?thesis by (simp add: behaves_def)
qed

text \<open>C16. The resources of a skill are exactly the regular files below its directories \<open>scripts\<close>,
  \<open>references\<close> and \<open>assets\<close>, reached without following a link below them, each under its path relative to
  the skill and with its text, or marked as unavailable when it is longer than a megabyte or not UTF-8.
  Reading them always ends and changes nothing.\<close>

theorem collected_resources_exact:
  assumes "fs_ok fs" and "collect_resources io_text root fs = (res, fs')"
  shows "fs' = fs \<and> returned res \<and> (\<forall>files p. res = Ok files \<longrightarrow> bt_get files p = resource_of fs root p)"
  using collect_resources_behaves [OF assms(1), of root io_text] assms(2) by (simp add: behaves_def)

section \<open>Skills\<close>

definition skill_path :: "PathBuf \<Rightarrow> string \<Rightarrow> PathBuf" where
  "skill_path root name = root @ [Normal name]"

definition has_skill :: "FileSystem \<Rightarrow> PathBuf \<Rightarrow> string \<Rightarrow> bool" where
  "has_skill fs root name \<longleftrightarrow>
     path_is_dir fs root \<and> path_is_dir fs (skill_path root name) \<and>
     path_is_file fs (skill_path root name @ [Normal ''SKILL.md''])"

definition skill_at :: "Externals \<Rightarrow> (io_error \<Rightarrow> string) \<Rightarrow> FileSystem \<Rightarrow> PathBuf \<Rightarrow> string \<Rightarrow> SkillDefinition option" where
  "skill_at E io_text fs root name =
     outcome_value (fst (parse_skill E io_text (skill_path root name @ [Normal ''SKILL.md'']) (skill_path root name) fs))"

lemma parsed_skill_name:
  assumes "parse_skill_text E path (root @ [Normal name]) source = Inr (skill_id, skill)"
  shows "skill_id = Ident name"
proof -
  have "trim_start [] = []" by (subst trim_start.simps) (simp add: space_len_def)
  with assms show ?thesis
    by (auto simp: parse_skill_text_def bind_result_def get_or_def filled_def file_name_def map_error_def parse_id_def is_blank_def
        split: sum.splits option.splits if_splits)
qed

text \<open>A skill that is read has the name of its directory and the resources of that directory.\<close>

definition skill_of :: "FileSystem \<Rightarrow> PathBuf \<Rightarrow> string \<Rightarrow> SkillDefinition \<Rightarrow> bool" where
  "skill_of fs root name skill \<longleftrightarrow>
     sk_id (sd_descriptor skill) = Ident name \<and>
     (\<forall>p. bt_get (sd_resources skill) p = resource_of fs (skill_path root name) p)"

lemma parse_skill_behaves:
  assumes "fs_ok fs"
  shows "behaves fs (\<lambda>skill. skill_at E io_text fs root name = Some skill \<and> skill_of fs root name skill)
     (parse_skill E io_text (skill_path root name @ [Normal ''SKILL.md'']) (skill_path root name) fs)"
    (is "behaves fs _ (parse_skill E io_text ?path ?root fs)")
proof -
  have finish: "behaves fs (skill_of fs root name)
      (and_then (collect_resources io_text ?root) (\<lambda>resources. return (skill_definition ?root parsed resources)) fs)"
    if "fst parsed = Ident name" for parsed
  proof (rule behaves_and_then)
    show "behaves fs (\<lambda>files. \<forall>p. bt_get files p = resource_of fs ?root p) (collect_resources io_text ?root fs)"
      by (rule collect_resources_behaves [OF assms])
  qed (use that in \<open>simp add: behaves_def return_def skill_definition_def skill_of_def case_prod_beta\<close>)
  have parsed: "behaves fs (\<lambda>parsed. fst parsed = Ident name)
      (lift_result (\<lambda>error. error) (parse_skill_text E ?path ?root source) fs)" for source
    using parsed_skill_name [of E ?path root name source]
    by (auto simp: behaves_def lift_result_def throw_def return_def skill_path_def split: sum.split)
  have "behaves fs (\<lambda>_. True) (context_io io_text ?path (io_read_to_string ?path) fs)"
    by (intro behaves_looks looking) simp
  then have "behaves fs (skill_of fs root name) (parse_skill E io_text ?path ?root fs)"
    unfolding parse_skill_def
    by (rule behaves_and_then) (rule behaves_and_then, rule parsed, rule finish)
  then show ?thesis by (auto simp: behaves_def skill_at_def)
qed

text \<open>A step takes the skills named in \<open>names\<close> from a skill directory and keeps the others.\<close>

definition takes_skills ::
  "Externals \<Rightarrow> (io_error \<Rightarrow> string) \<Rightarrow> FileSystem \<Rightarrow> PathBuf \<Rightarrow> (string \<Rightarrow> bool) \<Rightarrow> SkillRegistry \<Rightarrow> SkillRegistry \<Rightarrow> bool" where
  "takes_skills E io_text fs root names registry registry' \<longleftrightarrow>
     (\<forall>name. let skill_id = Ident name in
        if names name \<and> has_skill fs root name
        then \<exists>skill. skill_at E io_text fs root name = Some skill \<and> skill_of fs root name skill \<and>
          bt_get (sr_skills registry') skill_id = Some skill
        else bt_get (sr_skills registry') skill_id = bt_get (sr_skills registry) skill_id)"

lemma skill_entry_behaves:
  assumes "fs_ok fs" and "path_is_dir fs root"
  shows "behaves fs (takes_skills E io_text fs root (\<lambda>other. other = name) registry)
     (discover_skill_entry E io_text root name registry fs)"
proof (cases "has_skill fs root name")
  case True
  then have found: "path_is_dir fs (root @ [Normal name])" "path_is_file fs (root @ [Normal name, Normal ''SKILL.md''])"
    by (simp_all add: has_skill_def skill_path_def)
  let ?insert = "\<lambda>skill. registry\<lparr>sr_skills := bt_insert (sk_id (sd_descriptor skill)) skill (sr_skills registry)\<rparr>"
  have "behaves fs (takes_skills E io_text fs root (\<lambda>other. other = name) registry)
      (and_then (parse_skill E io_text (skill_path root name @ [Normal ''SKILL.md'']) (skill_path root name))
        (\<lambda>skill. return (?insert skill)) fs)"
    by (rule behaves_and_then [where m = "parse_skill _ _ _ _", OF parse_skill_behaves [OF assms(1)]])
      (use True in \<open>auto simp: behaves_def return_def takes_skills_def skill_of_def Let_def\<close>)
  with found show ?thesis by (simp add: discover_skill_entry_def Let_def skill_path_def)
next
  case False
  then show ?thesis using assms(2)
    by (auto simp: discover_skill_entry_def Let_def has_skill_def skill_path_def behaves_def return_def takes_skills_def)
qed

lemma chain_entries:
  "chain (\<lambda>name. takes_skills E io_text fs root (\<lambda>other. other = name)) names registry registry' \<Longrightarrow>
     takes_skills E io_text fs root (\<lambda>name. name \<in> set names) registry registry'"
proof (induction names arbitrary: registry)
  case (Cons name names)
  then obtain registry1 where "takes_skills E io_text fs root (\<lambda>other. other = name) registry registry1"
    "takes_skills E io_text fs root (\<lambda>name. name \<in> set names) registry1 registry'" by auto
  then show ?case unfolding takes_skills_def Let_def by (metis (no_types, lifting) list.set_intros(1) set_ConsD list.set_intros(2))
qed (simp add: takes_skills_def Let_def)

lemma skill_listed:
  assumes "has_skill fs root name" and "resolve_path fs to_follow root = Inr loc" and "is_dir (fs_nodes fs) loc"
  shows "name \<in> set (child_names (fs_nodes fs) loc)"
proof -
  obtain k where "resolve_path fs to_follow (root @ [Normal name]) = walk (fs_nodes fs) to_follow k loc [Normal name]"
    using resolve_child [OF assms(2,3)] by blast
  moreover have "\<exists>there. resolve_path fs to_follow (root @ [Normal name]) = Inr there"
    using assms(1) path_is_dir_resolved by (auto simp: has_skill_def skill_path_def)
  ultimately show ?thesis unfolding in_child_names by (auto split: option.splits)
qed

lemma skill_root_behaves:
  assumes "fs_ok fs"
  shows "behaves fs (takes_skills E io_text fs root (\<lambda>_. True) registry) (discover_skill_root E io_text root registry fs)"
proof (cases "path_is_dir fs root")
  case True
  then obtain loc where loc: "resolve_path fs to_follow root = Inr loc" "is_dir (fs_nodes fs) loc"
    using path_is_dir_resolved by blast
  have "behaves fs (takes_skills E io_text fs root (\<lambda>_. True) registry)
      (and_then (context_io io_text root (io_read_dir root)) (\<lambda>entries.
       fold_each (discover_skill_entry E io_text root) entries registry) fs)"
  proof (rule behaves_and_then)
    show "behaves fs (\<lambda>entries. entries = child_names (fs_nodes fs) loc) (context_io io_text root (io_read_dir root) fs)"
      by (rule behaves_looks) (use dir_listing [OF loc(1)] in \<open>auto simp: context_io_Ok intro: looking\<close>)
    fix entries
    assume entries: "entries = child_names (fs_nodes fs) loc"
    have "behaves fs (chain (\<lambda>name. takes_skills E io_text fs root (\<lambda>other. other = name)) entries registry)
        (fold_each (discover_skill_entry E io_text root) entries registry fs)"
      by (rule fold_each_chain) (rule skill_entry_behaves [OF assms True])
    moreover have "takes_skills E io_text fs root (\<lambda>_. True) registry registry'"
      if "chain (\<lambda>name. takes_skills E io_text fs root (\<lambda>other. other = name)) entries registry registry'" for registry'
      using chain_entries [OF that] skill_listed [OF _ loc] by (auto simp: takes_skills_def Let_def entries)
    ultimately show "behaves fs (takes_skills E io_text fs root (\<lambda>_. True) registry)
        (fold_each (discover_skill_entry E io_text root) entries registry fs)"
      by (simp add: behaves_def)
  qed
  with True show ?thesis by (simp add: discover_skill_root_def)
next
  case False
  then show ?thesis by (simp add: discover_skill_root_def has_skill_def behaves_def return_def takes_skills_def)
qed

text \<open>The last directory that has a skill decides.\<close>

lemma chain_roots:
  "chain (\<lambda>root. takes_skills E io_text fs root (\<lambda>_. True)) roots registry registry' \<Longrightarrow>
     case find (\<lambda>root. has_skill fs root name) (rev roots) of
       None \<Rightarrow> bt_get (sr_skills registry') (Ident name) = bt_get (sr_skills registry) (Ident name)
     | Some root \<Rightarrow> \<exists>skill. skill_at E io_text fs root name = Some skill \<and> skill_of fs root name skill \<and>
         bt_get (sr_skills registry') (Ident name) = Some skill"
proof (induction roots arbitrary: registry' rule: rev_induct)
  case (snoc root roots)
  have split: "chain P (xs @ [x]) a c \<longleftrightarrow> (\<exists>b. chain P xs a b \<and> P x b c)" for P :: "PathBuf \<Rightarrow> SkillRegistry \<Rightarrow> SkillRegistry \<Rightarrow> bool" and xs x a c
    by (induction xs arbitrary: a) auto
  from snoc.prems obtain registry1 where before: "chain (\<lambda>root. takes_skills E io_text fs root (\<lambda>_. True)) roots registry registry1"
    and "takes_skills E io_text fs root (\<lambda>_. True) registry1 registry'"
    unfolding split by blast
  then have here: "if has_skill fs root name
      then \<exists>skill. skill_at E io_text fs root name = Some skill \<and> skill_of fs root name skill \<and>
        bt_get (sr_skills registry') (Ident name) = Some skill
      else bt_get (sr_skills registry') (Ident name) = bt_get (sr_skills registry1) (Ident name)"
    by (simp add: takes_skills_def Let_def)
  with snoc.IH [OF before] show ?case by (cases "has_skill fs root name") (simp_all split: option.splits)
qed simp

lemma skill_discover_behaves:
  assumes "fs_ok fs"
  shows "behaves fs (chain (\<lambda>root. takes_skills E io_text fs root (\<lambda>_. True)) (skill_roots env (project_root cwd fs)) \<lparr>sr_skills = bt_empty\<rparr>)
     (skill_discover E io_text env cwd fs)"
  unfolding skill_discover_def and_then_gets
  by (rule fold_each_chain) (rule skill_root_behaves [OF assms])

text \<open>C15. Discovering the skills always ends and changes nothing. When it succeeds, a name has a skill
  exactly when one of the skill directories has it; the skill is then the one the last of these
  directories holds, so that the project's skills override the user's, under the name of its directory
  and with exactly the resources of that directory.\<close>

theorem discovered_skills:
  assumes "fs_ok fs" and "skill_discover E io_text env cwd fs = (res, fs')"
  shows "fs' = fs \<and> returned res \<and>
     (\<forall>registry name. res = Ok registry \<longrightarrow>
       (case find (\<lambda>root. has_skill fs root name) (rev (skill_roots env (project_root cwd fs))) of
          None \<Rightarrow> bt_get (sr_skills registry) (Ident name) = None
        | Some root \<Rightarrow> \<exists>skill. skill_at E io_text fs root name = Some skill \<and> skill_of fs root name skill \<and>
            bt_get (sr_skills registry) (Ident name) = Some skill))"
proof -
  have behaves: "behaves fs (chain (\<lambda>root. takes_skills E io_text fs root (\<lambda>_. True)) (skill_roots env (project_root cwd fs))
      \<lparr>sr_skills = bt_empty\<rparr>) (res, fs')"
    using skill_discover_behaves [OF assms(1), of E io_text env cwd] unfolding assms(2) .
  moreover from behaves have "case find (\<lambda>root. has_skill fs root name) (rev (skill_roots env (project_root cwd fs))) of
      None \<Rightarrow> bt_get (sr_skills registry) (Ident name) = None
    | Some root \<Rightarrow> \<exists>skill. skill_at E io_text fs root name = Some skill \<and> skill_of fs root name skill \<and>
        bt_get (sr_skills registry) (Ident name) = Some skill" if "res = Ok registry" for registry name
    using chain_roots [of E io_text fs "skill_roots env (project_root cwd fs)" "\<lparr>sr_skills = bt_empty\<rparr>" registry name] that
    by (auto simp: behaves_def split: option.splits)
  ultimately show ?thesis by (simp add: behaves_def)
qed

section \<open>Scratch paths of a workspace\<close>

lemma pattern_components_names: "pattern_components path = Some relative \<Longrightarrow> \<exists>names. relative = map Normal names"
proof (induction path arbitrary: relative rule: pattern_components.induct)
  case (3 part rest)
  then obtain tail where "relative = Normal part # tail" "\<exists>names. tail = map Normal names" by auto
  then obtain names where "relative = map Normal (part # names)" by auto
  then show ?case by blast
qed auto

lemma pattern_names:
  assumes "normalize_scratch_pattern gitignore line raw = Inr relative"
  shows "\<exists>names. relative = map Normal names"
  using assms pattern_components_names
  by (auto simp: normalize_scratch_pattern_def Let_def split: if_splits option.splits)

text \<open>A line that declares nothing.\<close>

definition skipped_line :: "string \<Rightarrow> bool" where
  "skipped_line raw \<longleftrightarrow> trim raw = [] \<or> starts_with_char (CHR ''#'') (trim raw)"

lemma directive_skipped [simp]: "trim raw = SCRATCH_DIRECTIVE \<Longrightarrow> skipped_line raw"
  by (simp add: skipped_line_def SCRATCH_DIRECTIVE_def starts_with_char_def)

text \<open>The lines declare \<open>path\<close>: a directive, lines that are skipped, and a pattern for the path. With
  \<open>open\<close> the directive came before the lines.\<close>

definition pattern_of :: "string \<Rightarrow> PathBuf \<Rightarrow> bool" where
  "pattern_of raw path \<longleftrightarrow> \<not> skipped_line raw \<and> path \<noteq> [] \<and> (\<exists>gitignore line. normalize_scratch_pattern gitignore line (trim raw) = Inr path)"

fun declared :: "bool \<Rightarrow> string list \<Rightarrow> PathBuf \<Rightarrow> bool" where
  "declared pending [] path \<longleftrightarrow> False"
| "declared pending (raw # rest) path \<longleftrightarrow>
     (if trim raw = SCRATCH_DIRECTIVE then declared True rest path
      else if skipped_line raw then declared pending rest path
      else pending \<and> pattern_of raw path \<or> declared False rest path)"

lemma pattern_anywhere:
  assumes "normalize_scratch_pattern gitignore line raw = Inr path"
  shows "normalize_scratch_pattern gitignore' line' raw = Inr path"
  using assms by (auto simp: normalize_scratch_pattern_def Let_def split: if_splits option.splits)

lemma pattern_of_line:
  assumes "normalize_scratch_pattern gitignore line (trim raw) = Inr relative" and "\<not> skipped_line raw" and "relative \<noteq> []"
  shows "pattern_of raw path \<longleftrightarrow> path = relative"
  using assms pattern_anywhere unfolding pattern_of_def by (metis sum.inject(2))

lemma scratch_loop_declared:
  "scratch_loop gitignore index directive scratch lines = Inr found \<Longrightarrow>
     found = scratch \<union> {path. declared (directive \<noteq> None) lines path}"
proof (induction gitignore index directive scratch lines arbitrary: found rule: scratch_loop.induct)
  case (2 gitignore index directive scratch raw rest)
  consider (directive) "trim raw = SCRATCH_DIRECTIVE" | (skipped) "trim raw \<noteq> SCRATCH_DIRECTIVE" "skipped_line raw"
    | (other) "trim raw \<noteq> SCRATCH_DIRECTIVE" "\<not> skipped_line raw" "directive = None"
    | (pattern) "trim raw \<noteq> SCRATCH_DIRECTIVE" "\<not> skipped_line raw" "directive \<noteq> None" by blast
  then show ?case
  proof cases
    case directive
    with "2.IH"(1) [OF refl refl] "2.prems" show ?thesis by simp
  next
    case skipped
    with "2.IH"(2) [OF refl refl] "2.prems" show ?thesis by (auto simp: Let_def skipped_line_def)
  next
    case other
    with "2.IH"(3) [OF refl refl] "2.prems" show ?thesis by (auto simp: Let_def skipped_line_def)
  next
    case pattern
    then obtain relative where relative: "normalize_scratch_pattern gitignore (index + 1) (trim raw) = Inr relative" "relative \<noteq> []"
        and rest: "scratch_loop gitignore (index + 1) None (insert relative scratch) rest = Inr found"
      using "2.prems" by (auto simp: Let_def skipped_line_def bind_result_def split: sum.splits if_splits)
    have "found = insert relative scratch \<union> {path. declared False rest path}"
      using "2.IH"(4) [OF refl refl, of relative found] rest pattern relative by (auto simp: skipped_line_def)
    with pattern pattern_of_line [OF relative(1) pattern(2) relative(2)] show ?thesis by auto
  qed
qed (auto split: option.splits)

lemma declared_names: "declared pending lines path \<Longrightarrow> \<exists>names. names \<noteq> [] \<and> path = map Normal names"
proof (induction pending lines path rule: declared.induct)
  case (2 pending raw rest path)
  have "\<exists>names. names \<noteq> [] \<and> path = map Normal names" if "pattern_of raw path"
    using that pattern_names by (auto simp: pattern_of_def) (metis list.map_disc_iff)
  with 2 show ?case by (auto split: if_splits)
qed simp

lemma workspace_id_valid: "parse_id (''workspace:'' @ rest) = Inr (Ident (''workspace:'' @ rest))"
proof -
  have "trim_start (CHR ''w'' # s) \<noteq> []" for s
    by (subst trim_start.simps) (simp add: space_len_def ascii_space_def space2_def space3_def split: list.split)
  then show ?thesis by (simp add: parse_id_def is_blank_def)
qed

lemma workspace_looks: "looks (discover_scratch_paths root)"
  unfolding discover_scratch_paths_def Let_def by (intro looking)

lemma scratch_discovered:
  assumes "discover_scratch_paths root fs = (Ok scratch, fs')"
  shows "scratch = (case fst (io_read_to_string (path_join root [Normal ''.gitignore'']) fs) of
     Ok source \<Rightarrow> {p. declared False (text_lines source) p} | _ \<Rightarrow> {})"
proof -
  obtain r fs1 where run: "io_read_to_string (root @ [Normal ''.gitignore'']) fs = (r, fs1)" by force
  have "returned r" using looks_returned [OF read_to_string_looks run] .
  with assms show ?thesis unfolding discover_scratch_paths_def Let_def
    by (cases r) (auto simp: run and_then_def catch_result_def lift_result_def throw_def return_def parse_scratch_paths_def
      dest: scratch_loop_declared split: sum.splits if_splits)
qed

text \<open>C19. Discovering a workspace changes nothing and does not panic. When it succeeds the root is the
  canonical path of the directory, and the scratch paths are exactly the patterns that follow a scratch
  directive in \<open>.gitignore\<close> with at most blank lines and comments between; every one of them is a
  relative path of ordinary names, so that it leads to a place below the root.\<close>

theorem discovered_workspace:
  assumes "workspace_discover path fs = (res, fs')"
  shows "fs' = fs \<and> returned res \<and>
     (\<forall>workspace. res = Ok workspace \<longrightarrow>
        (\<exists>root. resolve_path fs to_follow path = Inr root \<and> wd_root workspace = canonical_path root) \<and>
        (\<forall>p\<in>wd_scratch_paths workspace. \<exists>names. names \<noteq> [] \<and> p = map Normal names) \<and>
        wd_scratch_paths workspace =
          (case fst (io_read_to_string (path_join (wd_root workspace) [Normal ''.gitignore'']) fs) of
             Ok source \<Rightarrow> {p. declared False (text_lines source) p}
           | _ \<Rightarrow> {}))"
proof -
  have looks: "looks (workspace_discover path)"
    unfolding workspace_discover_def workspace_id_valid sum.case expect_def option.case
    by (intro looking workspace_looks)
  note same = looks_same [OF looks assms] looks_returned [OF looks assms]
  have found: "(\<exists>root. resolve_path fs to_follow path = Inr root \<and> wd_root workspace = canonical_path root) \<and>
      wd_scratch_paths workspace =
        (case fst (io_read_to_string (path_join (wd_root workspace) [Normal ''.gitignore'']) fs) of
           Ok source \<Rightarrow> {p. declared False (text_lines source) p} | _ \<Rightarrow> {})" if "res = Ok workspace" for workspace
  proof -
    from assms that obtain root fs1 scratch fs2 where root: "io_canonicalize path fs = (Ok root, fs1)"
      and scratch: "discover_scratch_paths root fs1 = (Ok scratch, fs2)"
      and workspace: "wd_root workspace = root" "wd_scratch_paths workspace = scratch"
      unfolding workspace_discover_def workspace_id_valid sum.case expect_def option.case
      by (auto simp: map_err_def return_def split: prod.splits outcome.splits elim!: and_then_OkE)
    from root have "fs1 = fs" by (simp add: canonicalize_Ok)
    with scratch scratch_discovered have "scratch = (case fst (io_read_to_string (path_join root [Normal ''.gitignore'']) fs) of
        Ok source \<Rightarrow> {p. declared False (text_lines source) p} | _ \<Rightarrow> {})" by blast
    with root workspace show ?thesis by (auto simp: canonicalize_Ok)
  qed
  have "\<exists>names. names \<noteq> [] \<and> p = map Normal names" if "res = Ok workspace" "p \<in> wd_scratch_paths workspace" for workspace p
    using found [OF that(1)] that(2) declared_names by (auto split: outcome.splits)
  with same found show ?thesis by blast
qed

section \<open>Front matter\<close>

text \<open>A character that is not part of a white-space character.\<close>

definition solid :: "char \<Rightarrow> bool" where
  "solid c \<longleftrightarrow> 32 < (of_char c :: nat) \<and> (of_char c :: nat) < 128"

lemma space_len_solid: "solid c \<Longrightarrow> space_len (c # s) = 0"
  by (simp add: solid_def space_len_def ascii_space_def space2_def space3_def split: list.split)

lemma space_len_before: "solid c \<Longrightarrow> space_len (s @ [c]) \<le> length s"
  by (cases s; cases "tl s"; cases "tl (tl s)")
    (auto simp: solid_def space_len_def ascii_space_def space2_def space3_def)

lemma trim_start_solid: "solid c \<Longrightarrow> trim_start (c # s) = c # s"
  by (subst trim_start.simps) (simp add: space_len_solid)

lemma solid_not_blank: "solid c \<Longrightarrow> \<not> is_blank (s @ [c])"
  unfolding is_blank_def
proof (induction s rule: measure_induct_rule [where f = length])
  case (less s)
  show ?case
  proof (cases "space_len (s @ [c]) = 0")
    case True
    then show ?thesis by (subst trim_start.simps) simp
  next
    case False
    with space_len_before [OF less.prems, of s] less.IH [OF _ less.prems, of "drop (space_len (s @ [c])) s"]
    show ?thesis by (subst trim_start.simps) simp
  qed
qed

lemma trim_end_solid: "solid c \<Longrightarrow> trim_end (s @ [c]) = s @ [c]"
proof (induction s)
  case (Cons a s)
  with solid_not_blank [of c "a # s"] show ?case by simp
qed (use solid_not_blank [of c "[]"] in simp)

lemma trim_solid: "solid a \<Longrightarrow> solid c \<Longrightarrow> trim (a # s @ [c]) = a # s @ [c]"
  using trim_end_solid [of c "a # s"] by (simp add: trim_def trim_start_solid)

lemma trim_space [simp]: "trim (CHR '' '' # s) = trim s"
  unfolding trim_def by (subst trim_start.simps) (simp add: space_len_def ascii_space_def)

lemma text_lines_line: "newline \<notin> set line \<Longrightarrow> line \<noteq> [] \<Longrightarrow> text_lines line = [line]"
proof -
  assume "newline \<notin> set line" "line \<noteq> []"
  then have "split_inclusive line = [line]"
  proof (induction line)
    case (Cons c line)
    then show ?case by (cases "line = []") auto
  qed simp
  moreover have "strip_last newline line = None"
    using \<open>newline \<notin> set line\<close> by (auto simp: strip_last_def dest: last_in_set)
  ultimately show ?thesis by (simp add: text_lines_def line_text_def)
qed

lemma text_lines_Cons:
  assumes "newline \<notin> set line" and "line \<noteq> []" and "last line \<noteq> carriage_return"
  shows "text_lines (line @ newline # rest) = line # text_lines rest"
proof -
  have "split_inclusive (line @ newline # rest) = (line @ [newline]) # split_inclusive rest"
    using assms(1) by (induction line) auto
  with assms(2,3) show ?thesis by (simp add: text_lines_def line_text_def strip_last_def)
qed

text \<open>A front matter as a writer of skills puts it down.\<close>

definition quoted_entry :: "string \<Rightarrow> string \<Rightarrow> string" where
  "quoted_entry key body = key @ '': '' @ [quotation] @ body @ [quotation]"

definition frontmatter_text :: "string \<Rightarrow> string \<Rightarrow> bool \<Rightarrow> string" where
  "frontmatter_text name description manual =
     join_with [newline] [quoted_entry ''name'' name, quoted_entry ''description'' description,
       ''disable-model-invocation: '' @ (if manual then ''true'' else ''false'')]"

lemma parse_quoted: "parse_scalar path key ([quotation] @ body @ [quotation]) = Inr body"
proof -
  have "trim ([quotation] @ body @ [quotation]) = [quotation] @ body @ [quotation]"
    using trim_solid [of quotation quotation body] by (simp add: solid_def quotation_def)
  then show ?thesis unfolding parse_scalar_def Let_def
    by (simp add: ends_with_char_def inner_text_def quotation_def)
qed

lemma quoted_line:
  assumes "solid (hd key)" and "key \<noteq> []" and "trim key = key" and "CHR '':'' \<notin> set key"
    and "hd key \<noteq> CHR ''#''" and "hd key \<noteq> CHR ''-''"
  shows "parse_frontmatter_line path line_number (quoted_entry key body) st =
     parse_entry path key ([quotation] @ body @ [quotation]) (st\<lparr>fm_extension_block := False\<rparr>)"
proof -
  obtain a rest where key: "key = a # rest" using assms(2) by (cases key) auto
  have quote: "solid quotation" by (simp add: solid_def quotation_def)
  have line: "trim (quoted_entry key body) = quoted_entry key body"
    using trim_solid [of a quotation "rest @ '': '' @ [quotation] @ body"] assms(1) quote by (simp add: quoted_entry_def key)
  have split: "split_once (CHR '':'') (key' @ CHR '':'' # after) = Some (key', after)" if "CHR '':'' \<notin> set key'" for key' after
    using that by (induction key') auto
  have trimmed: "trim (CHR '' '' # quotation # body @ [quotation]) = quotation # body @ [quotation]"
    using trim_solid [OF quote quote, of body] by simp
  have "quoted_entry key body = key @ CHR '':'' # CHR '' '' # quotation # body @ [quotation]"
    by (simp add: quoted_entry_def)
  note found = split [OF assms(4), of "CHR '' '' # quotation # body @ [quotation]", folded this]
  have "quoted_entry key body \<noteq> []" "\<not> starts_with_char c (quoted_entry key body) \<longleftrightarrow> c \<noteq> a" for c
    by (auto simp: quoted_entry_def key starts_with_char_def)
  moreover have "a \<noteq> CHR '' ''" "a \<noteq> CHR 0x09" using assms(1) by (auto simp: key solid_def)
  ultimately show ?thesis
    using assms(2,3,5,6) unfolding parse_frontmatter_line_def Let_def line found
    by (simp add: is_indented_def trimmed key del: trim_space)
qed

lemma quoted_lines:
  assumes "newline \<notin> set body" and "newline \<notin> set key"
  shows "text_lines (quoted_entry key body @ newline # rest) = quoted_entry key body # text_lines rest"
  by (rule text_lines_Cons) (use assms in \<open>auto simp: quoted_entry_def quotation_def newline_def carriage_return_def\<close>)

lemma flag_text:
  "trim (''disable-model-invocation: true'') = ''disable-model-invocation: true''"
  "trim (''disable-model-invocation: false'') = ''disable-model-invocation: false''"
  "trim ''disable-model-invocation'' = ''disable-model-invocation''" "trim '' true'' = ''true''" "trim '' false'' = ''false''"
  "parse_scalar path key ''true'' = Inr ''true''" "parse_scalar path key ''false'' = Inr ''false''"
  "parse_flag path ''true'' = Inr True" "parse_flag path ''false'' = Inr False"
  by code_simp+

lemma flag_line:
  "parse_frontmatter_line path line_number (''disable-model-invocation: '' @ (if manual then ''true'' else ''false'')) st =
     parse_entry path ''disable-model-invocation'' (if manual then ''true'' else ''false'') (st\<lparr>fm_extension_block := False\<rparr>)"
  by (cases manual) (simp_all add: parse_frontmatter_line_def flag_text starts_with_char_def is_indented_def del: trim_space)



section \<open>An example\<close>

text \<open>A project with one skill, whose directory of scripts is a link to a place outside the skill.\<close>

definition skill_tree :: FileSystem where
  "skill_tree = \<lparr>fs_nodes = bt_of_list
       [([''.agents''], DirectoryNode), ([''.agents'', ''skills''], DirectoryNode),
        ([''.agents'', ''skills'', ''d''], DirectoryNode),
        ([''.agents'', ''skills'', ''d'', ''SKILL.md''],
          FileNode (frontmatter_open @ ''name: d'' @ [newline] @ ''description: x'' @ frontmatter_close @ ''y'')),
        ([''.agents'', ''skills'', ''d'', ''scripts''], SymlinkNode ''/e''),
        ([''.gitignore''], FileNode (''# phenix:scratch'' @ [newline] @ ''/t/'')),
        ([''e''], DirectoryNode), ([''e'', ''k''], FileNode ''s'')],
     fs_cwd = [], fs_fault = (\<lambda>_ _. None), fs_short_write = (\<lambda>_. None)\<rparr>"

definition agent_skills :: PathBuf where
  "agent_skills = [RootDir, Normal ''.agents'', Normal ''skills'']"

definition run_discovery :: "(ContextError, SkillRegistry) outcome \<times> FileSystem" where
  "run_discovery = skill_discover sample_externals (\<lambda>_. []) (\<lambda>_. None) [RootDir] skill_tree"

lemma skill_tree_ok: "fs_ok skill_tree"
proof -
  have "tree_check (fs_nodes skill_tree)" by code_simp
  then show ?thesis unfolding fs_ok_def by (rule tree_check_ok)
qed

lemma skill_found:
  "find (\<lambda>root. has_skill skill_tree root ''d'') (rev (skill_roots (\<lambda>_. None) (project_root [RootDir] skill_tree))) = Some agent_skills"
  by code_simp

lemma linked_resource: "resource_of skill_tree (skill_path agent_skills ''d'') [Normal ''scripts'', Normal ''k''] = Some (ResourceText ''s'')"
  by code_simp

lemma discovered_payload:
  "case fst run_discovery of
     Ok registry \<Rightarrow> skill_resource_payload registry (Ident ''d'') ''scripts/k'' =
       Inr (''<skill_resource skill='' @ quoted ''d'' @ '' path='' @ quoted ''scripts/k'' @ ''>'' @ nl @
            ''s'' @ nl @ ''</skill_resource>'')
   | _ \<Rightarrow> False"
  by code_simp

lemma discovery_succeeds: "\<exists>registry. run_discovery = (Ok registry, skill_tree)"
proof -
  obtain res fs' where run: "run_discovery = (res, fs')" by force
  have "snd run_discovery = skill_tree"
    using skill_discover_behaves [OF skill_tree_ok, of sample_externals "\<lambda>_. []" "\<lambda>_. None" "[RootDir]"]
    by (simp add: run_discovery_def behaves_def)
  then have "fs' = skill_tree" using run by (metis snd_conv)
  moreover obtain registry where "res = Ok registry"
    using discovered_payload [unfolded run fst_conv] by (cases res) simp_all
  ultimately show ?thesis using run by blast
qed

lemma link_outside: "resolve_path skill_tree to_follow (skill_path agent_skills ''d'' @ [Normal ''scripts'']) = Inr [''e'']"
  by code_simp


theorem discovered_skills_witness:
  "\<exists>registry skill. run_discovery = (Ok registry, skill_tree) \<and>
     bt_get (sr_skills registry) (Ident ''d'') = Some skill \<and> skill_of skill_tree agent_skills ''d'' skill"
proof -
  obtain registry where run: "run_discovery = (Ok registry, skill_tree)" using discovery_succeeds by blast
  then have "skill_discover sample_externals (\<lambda>_. []) (\<lambda>_. None) [RootDir] skill_tree = (Ok registry, skill_tree)"
    by (simp add: run_discovery_def)
  from discovered_skills [OF skill_tree_ok this] have
    "case find (\<lambda>root. has_skill skill_tree root ''d'') (rev (skill_roots (\<lambda>_. None) (project_root [RootDir] skill_tree))) of
       None \<Rightarrow> bt_get (sr_skills registry) (Ident ''d'') = None
     | Some root \<Rightarrow> \<exists>skill. skill_at sample_externals (\<lambda>_. []) skill_tree root ''d'' = Some skill \<and>
         skill_of skill_tree root ''d'' skill \<and> bt_get (sr_skills registry) (Ident ''d'') = Some skill" by blast
  with run show ?thesis unfolding skill_found by auto
qed

theorem collected_resources_witness:
  "\<exists>res. collect_resources (\<lambda>_. []) (skill_path agent_skills ''d'') skill_tree = (res, skill_tree) \<and>
     (\<forall>files. res = Ok files \<longrightarrow> bt_get files [Normal ''scripts'', Normal ''k''] = Some (ResourceText ''s''))"
  using collected_resources_exact [OF skill_tree_ok prod.collapse [symmetric]] linked_resource by (metis prod.collapse)

lemma scratch_found:
  "case fst (workspace_discover [RootDir] skill_tree) of
     Ok workspace \<Rightarrow> wd_scratch_paths workspace = {[Normal ''t'']} | _ \<Rightarrow> False"
  by code_simp

theorem discovered_workspace_witness:
  "\<exists>workspace. workspace_discover [RootDir] skill_tree = (Ok workspace, skill_tree) \<and>
     (\<exists>root. wd_root workspace = canonical_path root) \<and> wd_scratch_paths workspace = {[Normal ''t'']}"
proof -
  obtain res fs' where run: "workspace_discover [RootDir] skill_tree = (res, fs')" by force
  with scratch_found obtain workspace where "res = Ok workspace" "wd_scratch_paths workspace = {[Normal ''t'']}"
    by (cases res) auto
  with run discovered_workspace [OF run] show ?thesis by blast
qed

end
