(* ===== verification/Native_Providers.thy ===== *)
theory Native_Providers
  imports Protocol_Types
begin

text \<open>
  The providers the built-in backend knows and where their credentials come from
  (\<open>phenix-backend-native/src/providers.rs\<close> and \<open>credentials.rs\<close>). The library \<open>genai\<close> builds the
  requests; its \<open>ServiceTarget\<close>, \<open>AdapterKind\<close> and \<open>AuthData\<close> are the values the code makes of them.
  The environment is a map from the names of variables to their text.
\<close>

section \<open>Constants\<close>

definition OPENAI_API_PROVIDER :: string where "OPENAI_API_PROVIDER = ''openai-api''"
definition CODEX_PROVIDER :: string where "CODEX_PROVIDER = ''openai-codex''"
definition ANTHROPIC_PROVIDER :: string where "ANTHROPIC_PROVIDER = ''anthropic''"
definition GEMINI_PROVIDER :: string where "GEMINI_PROVIDER = ''gemini''"
definition GITHUB_COPILOT_PROVIDER :: string where "GITHUB_COPILOT_PROVIDER = ''github-copilot''"
definition OPENCODE_ZEN_PROVIDER :: string where "OPENCODE_ZEN_PROVIDER = ''opencode-zen''"
definition OPENCODE_GO_PROVIDER :: string where "OPENCODE_GO_PROVIDER = ''opencode-go''"
definition OPEN_ROUTER_PROVIDER :: string where "OPEN_ROUTER_PROVIDER = ''open-router''"
definition OLLAMA_PROVIDER :: string where "OLLAMA_PROVIDER = ''ollama''"
definition OLLAMA_CLOUD_PROVIDER :: string where "OLLAMA_CLOUD_PROVIDER = ''ollama-cloud''"
definition DEEPSEEK_PROVIDER :: string where "DEEPSEEK_PROVIDER = ''deepseek''"
definition GROQ_PROVIDER :: string where "GROQ_PROVIDER = ''groq''"
definition XAI_PROVIDER :: string where "XAI_PROVIDER = ''xai''"

lemmas provider_names = OPENAI_API_PROVIDER_def CODEX_PROVIDER_def ANTHROPIC_PROVIDER_def GEMINI_PROVIDER_def
  GITHUB_COPILOT_PROVIDER_def OPENCODE_ZEN_PROVIDER_def OPENCODE_GO_PROVIDER_def OPEN_ROUTER_PROVIDER_def
  OLLAMA_PROVIDER_def OLLAMA_CLOUD_PROVIDER_def DEEPSEEK_PROVIDER_def GROQ_PROVIDER_def XAI_PROVIDER_def

definition DEFAULT_MODELS :: "string list" where
  "DEFAULT_MODELS =
     [''openai-codex/gpt-5.6-terra'', ''openai-codex/gpt-5.6-sol'', ''openai-codex/gpt-5.6-luna'',
      ''openai-api/gpt-5.6-terra'', ''openai-api/gpt-5.6-sol'', ''openai-api/gpt-5.6-luna'',
      ''opencode-go/gpt-5.6-luna'', ''opencode-go/deepseek-v4-flash'', ''opencode-go/mimo-v2.5'',
      ''opencode-go/minimax-m3'', ''opencode-go/qwen3.7-plus'',
      ''opencode-zen/gpt-5.6-terra'', ''opencode-zen/gpt-5.6-sol'', ''opencode-zen/gpt-5.6-luna'',
      ''opencode-zen/claude-sonnet-5'', ''opencode-zen/qwen3.7-plus'', ''opencode-zen/deepseek-v4-flash'',
      ''opencode-zen/mimo-v2.5-free'', ''open-router/openrouter/auto'']"

definition OPENCODE_ZEN_ENDPOINT :: string where
  "OPENCODE_ZEN_ENDPOINT = ''https://opencode.ai/zen/v1/''"

definition OPENCODE_GO_ENDPOINT :: string where
  "OPENCODE_GO_ENDPOINT = ''https://opencode.ai/zen/go/v1/''"

section \<open>Credentials on disk\<close>

datatype StoredCredential =
    StoredApiKey string
  | StoredOAuth string string string string nat

type_synonym StoredCredentials = "(string, StoredCredential) btree_map"

text \<open>
  The credential file: its text, or none when it does not exist. Parsing and printing it are serde's.
  A file that cannot be read, and a step of \<open>write\<close> that fails, give the message of the failing
  call; the file is written beside the old one and renamed, so a failed write leaves the old file.
\<close>

record CredentialStore =
  cs_source :: "string option"
  cs_read_error :: "string option"
  cs_write_error :: "string option"

record CredentialFormat =
  cf_parse :: "string \<Rightarrow> string + StoredCredentials"
  cf_print :: "StoredCredentials \<Rightarrow> string"

type_synonym 'a cs = "(CredentialStore, string, 'a) op"

definition credentials_read :: "CredentialFormat \<Rightarrow> StoredCredentials cs" where
  "credentials_read F =
     query (\<lambda>store.
       case cs_read_error store of
         Some message \<Rightarrow> Inl message
       | None \<Rightarrow> (case cs_source store of None \<Rightarrow> Inr bt_empty | Some source \<Rightarrow> cf_parse F source))"

definition credentials_write :: "CredentialFormat \<Rightarrow> StoredCredentials \<Rightarrow> unit cs" where
  "credentials_write F credentials store =
     (case cs_write_error store of
        Some message \<Rightarrow> (Err message, store)
      | None \<Rightarrow> (Ok (), store\<lparr>cs_source := Some (cf_print F credentials @ [CHR 0x0A])\<rparr>))"

definition credential_resolve :: "CredentialFormat \<Rightarrow> string \<Rightarrow> StoredCredential option cs" where
  "credential_resolve F provider =
     and_then (credentials_read F) (\<lambda>credentials. return (bt_get credentials provider))"

fun is_oauth :: "StoredCredential \<Rightarrow> bool" where
  "is_oauth (StoredOAuth _ _ _ _ _) = True"
| "is_oauth (StoredApiKey _) = False"

definition save_oauth :: "CredentialFormat \<Rightarrow> string \<Rightarrow> StoredCredential \<Rightarrow> unit cs" where
  "save_oauth F provider credential =
     and_then (ensure (is_oauth credential) ''OAuth credential store received an API key'') (\<lambda>_.
     and_then (credentials_read F) (\<lambda>credentials.
     credentials_write F (bt_insert provider credential credentials)))"

definition save_api_key :: "CredentialFormat \<Rightarrow> string \<Rightarrow> string \<Rightarrow> unit cs" where
  "save_api_key F provider secret =
     and_then (ensure (\<not> is_blank secret) ''API key must not be empty'') (\<lambda>_.
     and_then (credentials_read F) (\<lambda>credentials.
     credentials_write F (bt_insert provider (StoredApiKey secret) credentials)))"

definition stored_api_key :: "Externals \<Rightarrow> CredentialFormat \<Rightarrow> string \<Rightarrow> string option cs" where
  "stored_api_key E F provider =
     and_then (credential_resolve F provider) (\<lambda>credential.
     case credential of
       Some (StoredApiKey secret) \<Rightarrow> return (Some secret)
     | Some (StoredOAuth _ _ _ _ _) \<Rightarrow>
         throw (''provider '' @ debug_str E provider @ '' has an OAuth credential, not an API key'')
     | None \<Rightarrow> return None)"

section \<open>Providers\<close>

type_synonym env = "string \<Rightarrow> string option"

datatype AdapterKind = AdapterOpenAI | AdapterOpenAIResp | AdapterAnthropic

text \<open>\<open>AuthData::from_single\<close> and \<open>from_env\<close>.\<close>

datatype AuthData = AuthSingle string | AuthFromEnv string

record ServiceTarget =
  st_endpoint :: string
  st_auth :: AuthData
  st_adapter :: AdapterKind
  st_model :: string

definition starts_with :: "string \<Rightarrow> string \<Rightarrow> bool" where
  "starts_with s p \<longleftrightarrow> take (length p) s = p"

definition is_gateway_provider :: "ProviderId \<Rightarrow> bool" where
  "is_gateway_provider provider \<longleftrightarrow> as_str provider = OPENCODE_ZEN_PROVIDER \<or> as_str provider = OPENCODE_GO_PROVIDER"

definition zen_adapter :: "Externals \<Rightarrow> ModelId \<Rightarrow> BackendError + AdapterKind" where
  "zen_adapter E model_id =
     (let model = as_str model_id in
      if starts_with model ''gemini-'' then Inl (BackendUnsupported (''OpenCode Zen model '' @ debug_str E model @
        '' requires the Google-native Zen endpoint, which the built-in Phenix backend does not expose yet''))
      else if starts_with model ''gpt-'' \<or> starts_with model ''grok-'' then Inr AdapterOpenAIResp
      else if starts_with model ''claude-'' \<or> starts_with model ''qwen'' then Inr AdapterAnthropic
      else Inr AdapterOpenAI)"

definition go_adapter :: "ModelId \<Rightarrow> AdapterKind" where
  "go_adapter model_id =
     (let model = as_str model_id in
      if starts_with model ''gpt-'' then AdapterOpenAIResp
      else if starts_with model ''minimax-'' \<or> starts_with model ''qwen'' then AdapterAnthropic
      else AdapterOpenAI)"

definition gateway_adapter :: "Externals \<Rightarrow> ProviderId \<Rightarrow> ModelId \<Rightarrow> BackendError + AdapterKind" where
  "gateway_adapter E provider model =
     (if as_str provider = OPENCODE_ZEN_PROVIDER then zen_adapter E model
      else if as_str provider = OPENCODE_GO_PROVIDER then Inr (go_adapter model)
      else Inl (BackendUnsupported (''provider '' @ debug_str E (as_str provider) @ '' is not an OpenCode gateway'')))"

definition validate_gateway_model :: "Externals \<Rightarrow> ProviderId \<Rightarrow> ModelId \<Rightarrow> BackendError + unit" where
  "validate_gateway_model E provider model = bind_result (gateway_adapter E provider model) (\<lambda>_. Inr ())"

definition filled_var :: "env \<Rightarrow> string \<Rightarrow> string option" where
  "filled_var env name = (case env name of None \<Rightarrow> None | Some value \<Rightarrow> if is_blank value then None else Some value)"

fun first_filled :: "env \<Rightarrow> string list \<Rightarrow> string option" where
  "first_filled env [] = None"
| "first_filled env (name # names) =
     (case filled_var env name of None \<Rightarrow> first_filled env names | Some value \<Rightarrow> Some value)"

definition auth_from_environment :: "env \<Rightarrow> string list \<Rightarrow> AuthData" where
  "auth_from_environment env names =
     (case first_filled env names of Some secret \<Rightarrow> AuthSingle secret | None \<Rightarrow> AuthFromEnv (hd names))"

definition gateway_route :: "ProviderId \<Rightarrow> (string \<times> string \<times> string list) option" where
  "gateway_route provider =
     (if as_str provider = OPENCODE_ZEN_PROVIDER
      then Some (OPENCODE_ZEN_PROVIDER, OPENCODE_ZEN_ENDPOINT, [''OPENCODE_API_KEY''])
      else if as_str provider = OPENCODE_GO_PROVIDER
      then Some (OPENCODE_GO_PROVIDER, OPENCODE_GO_ENDPOINT, [''OPENCODE_API_KEY'', ''OPENCODE_GO_API_KEY''])
      else None)"

type_synonym 'a nb = "(CredentialStore, BackendError, 'a) op"

definition gateway_target ::
  "Externals \<Rightarrow> CredentialFormat \<Rightarrow> env \<Rightarrow> ProviderId \<Rightarrow> ModelId \<Rightarrow> ServiceTarget option nb" where
  "gateway_target E F env provider model =
     (case gateway_route provider of
        None \<Rightarrow> return None
      | Some (credential_provider, endpoint, auth_names) \<Rightarrow>
          and_then (lift_result id (gateway_adapter E provider model)) (\<lambda>adapter_kind.
          and_then (map_err Protocol (stored_api_key E F credential_provider)) (\<lambda>stored.
          return (Some \<lparr>st_endpoint = endpoint,
            st_auth = (case stored of Some secret \<Rightarrow> AuthSingle secret | None \<Rightarrow> auth_from_environment env auth_names),
            st_adapter = adapter_kind, st_model = as_str model\<rparr>))))"

definition is_api_key_auth_provider :: "string \<Rightarrow> bool" where
  "is_api_key_auth_provider provider \<longleftrightarrow> provider \<in>
     {OPENAI_API_PROVIDER, ANTHROPIC_PROVIDER, GEMINI_PROVIDER, GITHUB_COPILOT_PROVIDER, OPENCODE_ZEN_PROVIDER,
      OPENCODE_GO_PROVIDER, OPEN_ROUTER_PROVIDER, OLLAMA_CLOUD_PROVIDER, DEEPSEEK_PROVIDER, GROQ_PROVIDER, XAI_PROVIDER}"

definition canonical_auth_provider :: "ProviderId \<Rightarrow> string option" where
  "canonical_auth_provider provider =
     (if as_str provider \<in>
        {OPENAI_API_PROVIDER, CODEX_PROVIDER, ANTHROPIC_PROVIDER, GEMINI_PROVIDER, GITHUB_COPILOT_PROVIDER,
         OPENCODE_ZEN_PROVIDER, OPENCODE_GO_PROVIDER, OPEN_ROUTER_PROVIDER, OLLAMA_CLOUD_PROVIDER, DEEPSEEK_PROVIDER,
         GROQ_PROVIDER, XAI_PROVIDER}
      then Some (as_str provider) else None)"

text \<open>A \<open>match\<close> on names, as a list of its arms.\<close>

definition MODEL_NAMESPACES :: "(string \<times> string) list" where
  "MODEL_NAMESPACES =
     [(OPENAI_API_PROVIDER, ''openai_resp''), (CODEX_PROVIDER, ''openai_resp''), (ANTHROPIC_PROVIDER, ''anthropic''),
      (GEMINI_PROVIDER, ''gemini''), (GITHUB_COPILOT_PROVIDER, ''github_copilot''), (OPEN_ROUTER_PROVIDER, ''open_router''),
      (OLLAMA_PROVIDER, ''ollama''), (OLLAMA_CLOUD_PROVIDER, ''ollama_cloud''), (DEEPSEEK_PROVIDER, ''deepseek''),
      (GROQ_PROVIDER, ''groq''), (XAI_PROVIDER, ''xai'')]"

definition genai_model :: "Externals \<Rightarrow> ProviderId \<Rightarrow> ModelId \<Rightarrow> BackendError + string" where
  "genai_model E provider model =
     (case map_of MODEL_NAMESPACES (as_str provider) of
        Some namespace \<Rightarrow> Inr (namespace @ ''::'' @ as_str model)
      | None \<Rightarrow> Inl (BackendUnsupported (''unsupported Phenix provider '' @ debug_str E (as_str provider))))"

definition auth_provider_for_adapter :: "string \<Rightarrow> string option" where
  "auth_provider_for_adapter adapter = map_of
     [(''openai'', OPENAI_API_PROVIDER), (''openai_resp'', OPENAI_API_PROVIDER), (''anthropic'', ANTHROPIC_PROVIDER),
      (''gemini'', GEMINI_PROVIDER), (''github_copilot'', GITHUB_COPILOT_PROVIDER), (''open_router'', OPEN_ROUTER_PROVIDER),
      (''ollama_cloud'', OLLAMA_CLOUD_PROVIDER), (''deepseek'', DEEPSEEK_PROVIDER), (''groq'', GROQ_PROVIDER),
      (''xai'', XAI_PROVIDER)] adapter"

definition API_KEY_VARIABLES :: "(string \<times> string list) list" where
  "API_KEY_VARIABLES =
     [(OPENAI_API_PROVIDER, [''OPENAI_API_KEY'']), (ANTHROPIC_PROVIDER, [''ANTHROPIC_API_KEY'']),
      (GEMINI_PROVIDER, [''GEMINI_API_KEY'', ''GOOGLE_API_KEY'']),
      (GITHUB_COPILOT_PROVIDER, [''COPILOT_GITHUB_TOKEN'', ''GH_TOKEN'', ''GITHUB_TOKEN'']),
      (OPENCODE_ZEN_PROVIDER, [''OPENCODE_API_KEY'']),
      (OPENCODE_GO_PROVIDER, [''OPENCODE_API_KEY'', ''OPENCODE_GO_API_KEY'']),
      (OPEN_ROUTER_PROVIDER, [''OPEN_ROUTER_API_KEY'', ''OPENROUTER_API_KEY'']),
      (OLLAMA_CLOUD_PROVIDER, [''OLLAMA_API_KEY'']), (DEEPSEEK_PROVIDER, [''DEEPSEEK_API_KEY'']),
      (GROQ_PROVIDER, [''GROQ_API_KEY'']), (XAI_PROVIDER, [''XAI_API_KEY''])]"

definition environment_api_key :: "env \<Rightarrow> string \<Rightarrow> string option" where
  "environment_api_key env provider =
     (case map_of API_KEY_VARIABLES provider of None \<Rightarrow> None | Some names \<Rightarrow> first_filled env names)"

definition environment_authenticated :: "env \<Rightarrow> string \<Rightarrow> bool" where
  "environment_authenticated env provider \<longleftrightarrow> environment_api_key env provider \<noteq> None"

definition environment_description :: "string \<Rightarrow> string option" where
  "environment_description provider = map_of
     [(OPENAI_API_PROVIDER, ''Enter an OpenAI API key; OPENAI_API_KEY is also supported''),
      (ANTHROPIC_PROVIDER, ''Enter an Anthropic API key; ANTHROPIC_API_KEY is also supported''),
      (GEMINI_PROVIDER, ''Enter a Google Gemini API key; GEMINI_API_KEY or GOOGLE_API_KEY is also supported''),
      (GITHUB_COPILOT_PROVIDER, ''Enter a GitHub token; COPILOT_GITHUB_TOKEN, GH_TOKEN, or GITHUB_TOKEN is also supported''),
      (OPENCODE_ZEN_PROVIDER, ''Enter an OpenCode Zen API key; OPENCODE_API_KEY is also supported''),
      (OPENCODE_GO_PROVIDER, ''Enter an OpenCode Go API key; OPENCODE_API_KEY or OPENCODE_GO_API_KEY is also supported''),
      (OPEN_ROUTER_PROVIDER, ''Enter an OpenRouter API key; OPEN_ROUTER_API_KEY or OPENROUTER_API_KEY is also supported''),
      (OLLAMA_CLOUD_PROVIDER, ''Enter an Ollama Cloud API key; OLLAMA_API_KEY is also supported''),
      (DEEPSEEK_PROVIDER, ''Enter a DeepSeek API key; DEEPSEEK_API_KEY is also supported''),
      (GROQ_PROVIDER, ''Enter a Groq API key; GROQ_API_KEY is also supported''),
      (XAI_PROVIDER, ''Enter an xAI API key; XAI_API_KEY is also supported'')] provider"

definition environment_name :: "string \<Rightarrow> string option" where
  "environment_name provider = map_of
     [(OPENAI_API_PROVIDER, ''OpenAI API key''), (ANTHROPIC_PROVIDER, ''Anthropic API key''),
      (GEMINI_PROVIDER, ''Google Gemini API key''), (GITHUB_COPILOT_PROVIDER, ''GitHub token''),
      (OPENCODE_ZEN_PROVIDER, ''OpenCode Zen API key''), (OPENCODE_GO_PROVIDER, ''OpenCode Go API key''),
      (OPEN_ROUTER_PROVIDER, ''OpenRouter API key''), (OLLAMA_CLOUD_PROVIDER, ''Ollama Cloud API key''),
      (DEEPSEEK_PROVIDER, ''DeepSeek API key''), (GROQ_PROVIDER, ''Groq API key''), (XAI_PROVIDER, ''xAI API key'')] provider"

text \<open>\<open>CredentialStore::auth_for_model\<close>, on the name of the adapter.\<close>

definition auth_for_model :: "Externals \<Rightarrow> CredentialFormat \<Rightarrow> env \<Rightarrow> string \<Rightarrow> AuthData option cs" where
  "auth_for_model E F env adapter =
     (let provider = (case auth_provider_for_adapter adapter of None \<Rightarrow> adapter | Some provider \<Rightarrow> provider) in
      and_then (stored_api_key E F provider) (\<lambda>stored.
      case stored of
        Some secret \<Rightarrow> return (Some (AuthSingle secret))
      | None \<Rightarrow> return (map_option AuthSingle (environment_api_key env provider))))"

end
