(* ===== verification/Native_Backend.thy ===== *)
theory Native_Backend
  imports Native_Providers Text_Functions
begin

text \<open>
  The built-in model backend (\<open>phenix-backend-native/src/lib.rs\<close>): configured models, the catalogue,
  authentication, sessions, and the turn that alternates between the provider and the tools of the
  conductor. The provider (the library \<open>genai\<close> and the service behind it) is a parameter, and so are
  the host the turn calls back and the moments another thread cancels the session. The code locks a
  field only to copy or replace it, so the locks are never poisoned.
\<close>

section \<open>Models\<close>

definition BACKEND_ID :: string where
  "BACKEND_ID = ''phenix''"

definition id_protocol :: "string \<Rightarrow> BackendError + 'k ident" where
  "id_protocol value = map_error (\<lambda>_. Protocol ''identifier must not be empty'') (parse_id value)"

definition validate_model_target :: "Externals \<Rightarrow> ModelTarget \<Rightarrow> BackendError + unit" where
  "validate_model_target E target =
     (if as_str (mt_backend target) \<noteq> BACKEND_ID
      then Inl (BackendUnsupported (''Phenix backend cannot serve target backend '' @ as_str (mt_backend target)))
      else if is_gateway_provider (mt_provider target)
      then validate_gateway_model E (mt_provider target) (mt_model target)
      else bind_result (genai_model E (mt_provider target) (mt_model target)) (\<lambda>_. Inr ()))"

definition parse_configured_model :: "Externals \<Rightarrow> string \<Rightarrow> BackendError + ModelTarget" where
  "parse_configured_model E value =
     (let malformed = Inl (Protocol (''Phenix model selection '' @ debug_str E value @ '' must be provider/model'')) in
      case split_once (CHR ''/'') value of
        None \<Rightarrow> malformed
      | Some (provider, model) \<Rightarrow>
          if is_blank provider \<or> is_blank model then malformed
          else
            bind_result (id_protocol BACKEND_ID) (\<lambda>backend.
            bind_result (id_protocol provider) (\<lambda>provider.
            bind_result (id_protocol model) (\<lambda>model.
            let target = \<lparr>mt_backend = backend, mt_provider = provider, mt_model = model, mt_inference = \<lparr>effort = None\<rparr>\<rparr> in
            bind_result (validate_model_target E target) (\<lambda>_. Inr target)))))"

definition model_wire_value :: "ModelTarget \<Rightarrow> string" where
  "model_wire_value target = as_str (mt_provider target) @ ''/'' @ as_str (mt_model target)"

fun collect_models :: "Externals \<Rightarrow> string list \<Rightarrow> (ProviderId \<times> ModelId) set \<Rightarrow> BackendError + ModelTarget list" where
  "collect_models E [] seen = Inr []"
| "collect_models E (value # values) seen =
     bind_result (parse_configured_model E value) (\<lambda>target.
     let key = (mt_provider target, mt_model target) in
     bind_result (collect_models E values (insert key seen)) (\<lambda>targets.
     Inr (if key \<in> seen then targets else target # targets)))"

definition models_source :: "env \<Rightarrow> string" where
  "models_source env =
     (case filled_var env ''PHENIX_MODELS'' of
        Some source \<Rightarrow> source
      | None \<Rightarrow> (case env ''PHENIX_MODEL'' of Some source \<Rightarrow> source
          | None \<Rightarrow> concat (butlast (concat (map (\<lambda>model. [model, '','']) DEFAULT_MODELS)))))"

definition configured_models :: "Externals \<Rightarrow> env \<Rightarrow> BackendError + ModelTarget list" where
  "configured_models E env =
     (let values = filter (\<lambda>value. value \<noteq> []) (map trim (split_any {CHR '','', CHR '';'', CHR 0x0A} (models_source env))) in
      bind_result (collect_models E values {}) (\<lambda>models.
      if models = [] then Inl (Protocol ''Phenix model catalog must contain at least one provider/model'') else Inr models))"

section \<open>The limit of tool rounds\<close>

text \<open>\<open>str::parse::<usize>\<close>: the digit is looked at before the product is.\<close>

definition digit_value :: "char \<Rightarrow> int option" where
  "digit_value c = (let n = of_char c :: int in if 48 \<le> n \<and> n \<le> 57 then Some (n - 48) else None)"

fun usize_digits :: "int \<Rightarrow> string \<Rightarrow> string + int" where
  "usize_digits acc [] = Inr acc"
| "usize_digits acc (c # cs) =
     (case digit_value c of
        None \<Rightarrow> Inl ''invalid digit found in string''
      | Some d \<Rightarrow>
          if 10 * acc + d > 18446744073709551615 then Inl ''number too large to fit in target type''
          else usize_digits (10 * acc + d) cs)"

definition parse_usize :: "string \<Rightarrow> string + int" where
  "parse_usize s =
     (case s of
        [] \<Rightarrow> Inl ''cannot parse integer from empty string''
      | c # cs \<Rightarrow>
          if cs = [] \<and> (c = CHR ''+'' \<or> c = CHR ''-'') then Inl ''invalid digit found in string''
          else usize_digits 0 (if c = CHR ''+'' then cs else s))"

definition parse_max_tool_rounds :: "string option \<Rightarrow> BackendError + int option" where
  "parse_max_tool_rounds value =
     (case map_option trim value of
        None \<Rightarrow> Inr None
      | Some text \<Rightarrow>
          if text = [] then Inr None
          else
            bind_result (map_error (\<lambda>error. Protocol (''PHENIX_MAX_TOOL_ROUNDS must be a positive integer: '' @ error))
              (parse_usize text)) (\<lambda>parsed.
            if parsed = 0 then Inl (Protocol ''PHENIX_MAX_TOOL_ROUNDS must be greater than zero'') else Inr (Some parsed)))"

definition configured_max_tool_rounds :: "env \<Rightarrow> BackendError + int option" where
  "configured_max_tool_rounds env = parse_max_tool_rounds (env ''PHENIX_MAX_TOOL_ROUNDS'')"

section \<open>Chats\<close>

text \<open>What the code uses of \<open>genai\<close>'s messages: the tool calls of a message of the assistant; the rest of
  its content is handed back to the provider unread.\<close>

record ToolCall =
  tc_call_id :: string
  tc_fn_name :: string
  tc_fn_arguments :: Json

record MessageContent =
  mc_tool_calls :: "ToolCall list"
  mc_rest :: string

record ToolResponse =
  tr_call_id :: string
  tr_content :: string

datatype ChatMessage = UserMessage string | AssistantMessage MessageContent | ToolMessage "ToolResponse list"

datatype ChatStreamEvent = Chunk string | ReasoningChunk string | EndEvent "MessageContent option" | OtherEvent

datatype ReasoningEffort =
    ReasoningNone | ReasoningMinimal | ReasoningLow | ReasoningMedium | ReasoningHigh | ReasoningXHigh | ReasoningMax

fun provider_reasoning_effort :: "InferenceEffort \<Rightarrow> ReasoningEffort" where
  "provider_reasoning_effort Effort_None = ReasoningNone"
| "provider_reasoning_effort Minimal = ReasoningMinimal"
| "provider_reasoning_effort Low = ReasoningLow"
| "provider_reasoning_effort Medium = ReasoningMedium"
| "provider_reasoning_effort High = ReasoningHigh"
| "provider_reasoning_effort ExtraHigh = ReasoningXHigh"
| "provider_reasoning_effort Max = ReasoningMax"

record ChatTool =
  ct_name :: string
  ct_description :: string
  ct_schema :: Json

record ChatRequest =
  cr_history :: "ChatMessage list"
  cr_tools :: "ChatTool list"
  cr_effort :: "ReasoningEffort option"

text \<open>The first argument says whether the client with the OAuth resolver is used. A request is the one
  of a round; a cancellation by another thread is seen at the check with a number in a round.\<close>

record Provider =
  pv_resolve :: "bool \<Rightarrow> string \<Rightarrow> string + ServiceTarget"
  pv_stream :: "bool \<Rightarrow> nat \<Rightarrow> ServiceTarget \<Rightarrow> ChatRequest \<Rightarrow> string + (string + ChatStreamEvent) list"
  pv_cancels :: "nat \<Rightarrow> nat \<Rightarrow> bool"
  pv_encode :: "Json \<Rightarrow> string + string"

section \<open>Sessions\<close>

record PhenixSession =
  ns_model :: ModelTarget
  ns_tools :: PreparedToolSurface
  ns_max_tool_rounds :: "int option"
  ns_history :: "ChatMessage list"
  ns_active :: bool
  ns_cancelled :: bool

text \<open>The calls a backend makes on its host, on the state of the host.\<close>

record 'h HostCalls =
  hc_emit :: "BackendEvent \<Rightarrow> ('h, BackendError, unit) op"
  hc_invoke :: "ToolInvocation \<Rightarrow> ('h, BackendError, ToolResult) op"

record 'h NativeState =
  nt_session :: PhenixSession
  nt_store :: CredentialStore
  nt_host :: 'h

type_synonym ('h, 'a) nt = "('h NativeState, BackendError, 'a) op"

definition on_host_state :: "('h, BackendError, 'a) op \<Rightarrow> ('h, 'a) nt" where
  "on_host_state m s = (case m (nt_host s) of (result, host) \<Rightarrow> (result, s\<lparr>nt_host := host\<rparr>))"

definition on_store :: "'a nb \<Rightarrow> ('h, 'a) nt" where
  "on_store m s = (case m (nt_store s) of (result, store) \<Rightarrow> (result, s\<lparr>nt_store := store\<rparr>))"

definition modify_session :: "(PhenixSession \<Rightarrow> PhenixSession) \<Rightarrow> ('h, unit) nt" where
  "modify_session f = modify (\<lambda>s. s\<lparr>nt_session := f (nt_session s)\<rparr>)"

definition set_request :: "ModelTarget \<Rightarrow> PreparedToolSurface \<Rightarrow> PhenixSession \<Rightarrow> PhenixSession" where
  "set_request model tools session = session\<lparr>ns_model := model, ns_tools := tools\<rparr>"

definition session_cancel :: "PhenixSession \<Rightarrow> PhenixSession" where
  "session_cancel session = session\<lparr>ns_cancelled := True\<rparr>"

definition check_cancelled :: "Provider \<Rightarrow> nat \<Rightarrow> nat \<Rightarrow> ('h, bool) nt" where
  "check_cancelled P r i =
     and_then (modify_session (\<lambda>session. if pv_cancels P r i then session_cancel session else session)) (\<lambda>_.
     gets (\<lambda>s. ns_cancelled (nt_session s)))"

section \<open>Tool calls\<close>

definition json_error_output :: "Externals \<Rightarrow> string \<Rightarrow> string" where
  "json_error_output E message = to_json E (JObject [(''error'', JString message)])"

definition dispatch_tool_call ::
  "Externals \<Rightarrow> Provider \<Rightarrow> 'h HostCalls \<Rightarrow> PreparedToolSurface \<Rightarrow> ToolCall \<Rightarrow> ('h, string) nt" where
  "dispatch_tool_call E P H tools call =
     (case find (\<lambda>descriptor. as_str (cd_id descriptor) = tc_fn_name call) (pt_callables tools) of
        None \<Rightarrow> return (json_error_output E (''unknown or unavailable Phenix tool '' @ debug_str E (tc_fn_name call)))
      | Some descriptor \<Rightarrow>
          (case pv_encode P (tc_fn_arguments call) of
             Inl error \<Rightarrow> return (json_error_output E (''cannot encode tool arguments: '' @ error))
           | Inr arguments_json \<Rightarrow>
               and_then (catch_result (on_host_state (hc_invoke H
                   \<lparr>ti_callable = cd_id descriptor, ti_arguments_json = arguments_json\<rparr>))) (\<lambda>result.
               case result of
                 Inr reply \<Rightarrow> return (if tr_success reply then tr_output reply else json_error_output E (tr_output reply))
               | Inl (Protocol error) \<Rightarrow> return (json_error_output E (''tool dispatch failed: '' @ error))
               | Inl error \<Rightarrow> throw error)))"

fun dispatch_calls ::
  "Externals \<Rightarrow> Provider \<Rightarrow> 'h HostCalls \<Rightarrow> PreparedToolSurface \<Rightarrow> ToolCall list \<Rightarrow> ('h, ToolResponse list) nt" where
  "dispatch_calls E P H tools [] = return []"
| "dispatch_calls E P H tools (call # calls) =
     and_then (dispatch_tool_call E P H tools call) (\<lambda>output.
     and_then (dispatch_calls E P H tools calls) (\<lambda>responses.
     return (\<lparr>tr_call_id = tc_call_id call, tr_content = output\<rparr> # responses)))"

section \<open>A turn\<close>

text \<open>Reading the stream of a round: none when a cancellation was seen, otherwise what \<open>End\<close> captured.\<close>

fun read_stream ::
  "Provider \<Rightarrow> 'h HostCalls \<Rightarrow> nat \<Rightarrow> nat \<Rightarrow> (string + ChatStreamEvent) list \<Rightarrow> MessageContent option \<Rightarrow>
   ('h, MessageContent option option) nt" where
  "read_stream P H r i [] captured = return (Some captured)"
| "read_stream P H r i (item # items) captured =
     and_then (check_cancelled P r i) (\<lambda>cancelled.
     if cancelled then return None
     else
       and_then (lift_result (\<lambda>error. Transport (''provider stream failed: '' @ error)) item) (\<lambda>item.
       case item of
         Chunk content \<Rightarrow>
           and_then (on_host_state (hc_emit H (ContentDelta content))) (\<lambda>_. read_stream P H r (Suc i) items captured)
       | ReasoningChunk content \<Rightarrow>
           and_then (on_host_state (hc_emit H (BackendReasoningDelta content))) (\<lambda>_. read_stream P H r (Suc i) items captured)
       | EndEvent content \<Rightarrow> read_stream P H r (Suc i) items content
       | OtherEvent \<Rightarrow> read_stream P H r (Suc i) items captured))"

definition empty_content :: MessageContent where
  "empty_content = \<lparr>mc_tool_calls = [], mc_rest = []\<rparr>"

definition tool_definitions :: "PreparedToolSurface \<Rightarrow> ChatTool list" where
  "tool_definitions tools =
     map (\<lambda>descriptor. \<lparr>ct_name = as_str (cd_id descriptor), ct_description = cd_description descriptor,
       ct_schema = cd_input_schema descriptor\<rparr>) (pt_callables tools)"

text \<open>One round of the loop of \<open>execute_turn\<close>; \<open>go_on\<close> is the next one, on the history with the answers
  of the tools.\<close>

definition tool_round ::
  "Externals \<Rightarrow> Provider \<Rightarrow> 'h HostCalls \<Rightarrow> bool \<Rightarrow> ServiceTarget \<Rightarrow> PreparedToolSurface \<Rightarrow> ReasoningEffort option \<Rightarrow>
   nat \<Rightarrow> ChatMessage list \<Rightarrow> (ChatMessage list \<Rightarrow> ('h, ChatMessage list) nt) \<Rightarrow> ('h, ChatMessage list) nt" where
  "tool_round E P H codex target tools reasoning r history go_on =
     and_then (check_cancelled P r 0) (\<lambda>cancelled.
     if cancelled then return history
     else
       and_then (lift_result (\<lambda>error. Transport (''provider request failed: '' @ error))
         (pv_stream P codex r target
           \<lparr>cr_history = history, cr_tools = tool_definitions tools, cr_effort = reasoning\<rparr>)) (\<lambda>items.
       and_then (read_stream P H r 1 items None) (\<lambda>captured.
       case captured of
         None \<Rightarrow> return history
       | Some captured \<Rightarrow>
           let content = (case captured of None \<Rightarrow> empty_content | Some content \<Rightarrow> content) in
           if mc_tool_calls content = [] then return (history @ [AssistantMessage content])
           else
             and_then (dispatch_calls E P H tools (mc_tool_calls content)) (\<lambda>responses.
             go_on (history @ [AssistantMessage content, ToolMessage responses])))))"

definition check_limit :: "int option \<Rightarrow> nat \<Rightarrow> ('h, unit) nt" where
  "check_limit limit r =
     (case limit of
        Some max_rounds \<Rightarrow>
          ensure (int r < max_rounds) (Protocol (''provider exceeded '' @ show_nat (nat max_rounds) @ '' consecutive tool rounds''))
      | None \<Rightarrow> return ())"

text \<open>\<open>r\<close> is \<open>tool_rounds\<close>. Without a limit the loop runs as long as the provider asks for tools, so it
  runs on fuel.\<close>

primrec tool_loop ::
  "nat \<Rightarrow> Externals \<Rightarrow> Provider \<Rightarrow> 'h HostCalls \<Rightarrow> bool \<Rightarrow> ServiceTarget \<Rightarrow> PreparedToolSurface \<Rightarrow> ReasoningEffort option \<Rightarrow>
   int option \<Rightarrow> nat \<Rightarrow> ChatMessage list \<Rightarrow> ('h, ChatMessage list) nt" where
  "tool_loop 0 E P H codex target tools reasoning limit r history = no_fuel"
| "tool_loop (Suc n) E P H codex target tools reasoning limit r history =
     and_then (check_limit limit r) (\<lambda>_.
     tool_round E P H codex target tools reasoning r history
       (tool_loop n E P H codex target tools reasoning limit (Suc r)))"

definition resolve_target ::
  "Externals \<Rightarrow> CredentialFormat \<Rightarrow> env \<Rightarrow> Provider \<Rightarrow> bool \<Rightarrow> ModelTarget \<Rightarrow> ('h, ServiceTarget) nt" where
  "resolve_target E F env P codex model =
     and_then (on_store (gateway_target E F env (mt_provider model) (mt_model model))) (\<lambda>target.
     case target of
       Some target \<Rightarrow> return target
     | None \<Rightarrow>
         and_then (lift_result id (genai_model E (mt_provider model) (mt_model model))) (\<lambda>provider_model.
         lift_result (\<lambda>error. Transport (''cannot resolve provider target for '' @ model_wire_value model @ '': '' @ error))
           (pv_resolve P codex provider_model)))"

definition execute_turn ::
  "nat \<Rightarrow> Externals \<Rightarrow> CredentialFormat \<Rightarrow> env \<Rightarrow> Provider \<Rightarrow> 'h HostCalls \<Rightarrow> string \<Rightarrow> ('h, ChatMessage list) nt" where
  "execute_turn n E F env P H prompt =
     and_then (gets nt_session) (\<lambda>session.
     let model = ns_model session; history = ns_history session @ [UserMessage prompt];
         codex = (as_str (mt_provider model) = CODEX_PROVIDER) in
     and_then (resolve_target E F env P codex model) (\<lambda>target.
     tool_loop n E P H codex target (ns_tools session)
       (map_option provider_reasoning_effort (effort (mt_inference model))) (ns_max_tool_rounds session) 0 history))"

text \<open>\<open>execute\<close>: one execution at a time; the flag is taken back however the turn ends, and the history
  is kept only when it succeeds.\<close>

definition native_execute ::
  "nat \<Rightarrow> Externals \<Rightarrow> CredentialFormat \<Rightarrow> env \<Rightarrow> Provider \<Rightarrow> 'h HostCalls \<Rightarrow> BackendExecutionRequest \<Rightarrow> ('h, unit) nt" where
  "native_execute n E F env P H request =
     and_then (gets (\<lambda>s. ns_active (nt_session s))) (\<lambda>active.
     and_then (ensure (\<not> active) (Protocol ''Phenix backend session is already executing'')) (\<lambda>_.
     and_then (modify_session (\<lambda>session. session\<lparr>ns_active := True, ns_cancelled := False\<rparr>)) (\<lambda>_.
     and_then (catch_result (execute_turn n E F env P H (bx_prompt request))) (\<lambda>result.
     and_then (modify_session (\<lambda>session. session\<lparr>ns_active := False\<rparr>)) (\<lambda>_.
     case result of
       Inl error \<Rightarrow> throw error
     | Inr history \<Rightarrow> modify_session (\<lambda>session. session\<lparr>ns_history := history\<rparr>))))))"

section \<open>The backend\<close>

record PhenixBackend =
  pb_models :: "ModelTarget list"
  pb_max_tool_rounds :: "int option"
  pb_persistent_sessions :: "(SessionId, PhenixSession) btree_map"

text \<open>The part of \<open>from_environment\<close> that can fail after the clients are built.\<close>

definition backend_from_environment :: "Externals \<Rightarrow> env \<Rightarrow> BackendError + PhenixBackend" where
  "backend_from_environment E env =
     bind_result (configured_models E env) (\<lambda>models.
     bind_result (configured_max_tool_rounds env) (\<lambda>max_tool_rounds.
     Inr \<lparr>pb_models = models, pb_max_tool_rounds = max_tool_rounds, pb_persistent_sessions = bt_empty\<rparr>))"

definition native_capabilities :: BackendCapabilities where
  "native_capabilities = \<lparr>bc_tool_presentations = {Native}, bc_images = False, bc_persistent_sessions = True\<rparr>"

definition provider_has_valid_auth :: "CredentialFormat \<Rightarrow> env \<Rightarrow> ProviderId \<Rightarrow> bool nb" where
  "provider_has_valid_auth F env provider_id =
     (case canonical_auth_provider provider_id of
        None \<Rightarrow> return True
      | Some provider \<Rightarrow>
          and_then (map_err Protocol (credential_resolve F provider)) (\<lambda>stored.
          if provider = CODEX_PROVIDER
          then return (case stored of Some (StoredOAuth _ _ _ _ _) \<Rightarrow> True | _ \<Rightarrow> False)
          else if is_api_key_auth_provider provider
          then return ((case stored of Some (StoredApiKey secret) \<Rightarrow> \<not> is_blank secret | _ \<Rightarrow> False) \<or>
            environment_authenticated env provider)
          else return False))"

definition model_descriptor :: "CredentialFormat \<Rightarrow> env \<Rightarrow> ModelTarget \<Rightarrow> ModelDescriptor nb" where
  "model_descriptor F env target =
     and_then (provider_has_valid_auth F env (mt_provider target)) (\<lambda>selectable.
     return \<lparr>md_target = target, md_name = model_wire_value target, md_selectable = selectable\<rparr>)"

primrec op_traverse :: "('a \<Rightarrow> ('s, 'e, 'b) op) \<Rightarrow> 'a list \<Rightarrow> ('s, 'e, 'b list) op" where
  "op_traverse f [] = return []"
| "op_traverse f (x # xs) = and_then (f x) (\<lambda>y. and_then (op_traverse f xs) (\<lambda>ys. return (y # ys)))"

text \<open>The loop that stops at the first provider with credentials.\<close>

fun any_authenticated :: "CredentialFormat \<Rightarrow> env \<Rightarrow> string list \<Rightarrow> bool nb" where
  "any_authenticated F env [] = return False"
| "any_authenticated F env (provider # providers) =
     and_then (lift_result id (id_protocol provider)) (\<lambda>provider_id.
     and_then (provider_has_valid_auth F env provider_id) (\<lambda>valid.
     if valid then return True else any_authenticated F env providers))"

definition authentication_method ::
  "BackendId \<Rightarrow> string \<Rightarrow> AuthenticationMethodKind \<Rightarrow> string \<Rightarrow> string option \<Rightarrow> AuthenticationMethodDescriptor nb" where
  "authentication_method backend provider kind name description =
     and_then (lift_result id (id_protocol provider)) (\<lambda>method_id.
     and_then (lift_result id (id_protocol provider)) (\<lambda>provider_id.
     return \<lparr>am_id = method_id, am_backend = backend, am_provider = provider_id, am_kind = kind, am_name = name,
       am_description = description, am_selectable = True\<rparr>))"

definition api_key_method :: "BackendId \<Rightarrow> string \<Rightarrow> AuthenticationMethodDescriptor nb" where
  "api_key_method backend provider =
     and_then (expect (environment_name provider) ''known API-key provider has a name'') (\<lambda>name.
     authentication_method backend provider ApiKeyAuth name (environment_description provider))"

definition native_catalog :: "CredentialFormat \<Rightarrow> env \<Rightarrow> PhenixBackend \<Rightarrow> BackendCatalog nb" where
  "native_catalog F env self =
     and_then (lift_result id (id_protocol BACKEND_ID)) (\<lambda>backend.
     let auth_providers = sorted_list_of_set (set (List.map_filter (\<lambda>target. canonical_auth_provider (mt_provider target)) (pb_models self))) in
     and_then (op_traverse (model_descriptor F env) (pb_models self)) (\<lambda>models.
     and_then (if CODEX_PROVIDER \<in> set auth_providers
       then and_then (authentication_method backend CODEX_PROVIDER AgentAuth ''OpenAI Codex (ChatGPT OAuth)''
           (Some ''Browser OAuth for ChatGPT subscription access'')) (\<lambda>method. return [method])
       else return []) (\<lambda>codex_methods.
     and_then (op_traverse (api_key_method backend)
       (filter (\<lambda>provider. provider \<noteq> CODEX_PROVIDER \<and> is_api_key_auth_provider provider) auth_providers)) (\<lambda>key_methods.
     and_then (any_authenticated F env auth_providers) (\<lambda>authenticated.
     return \<lparr>ct_backend = backend, ct_models = models,
       ct_authentication_state =
         (if auth_providers = [] then NotRequired else if authenticated then Authenticated else Required),
       ct_authentication_methods = codex_methods @ key_methods\<rparr>)))))"

text \<open>\<open>login\<close> is the OAuth flow.\<close>

definition native_authenticate :: "unit cs \<Rightarrow> AuthenticationMethodId \<Rightarrow> unit nb" where
  "native_authenticate login method =
     (if as_str method \<noteq> CODEX_PROVIDER
      then throw (BackendUnsupported (''Phenix backend authentication method '' @ as_str method @
        '' requires typed authentication input''))
      else map_err Transport login)"

definition authenticate_with_input ::
  "CredentialFormat \<Rightarrow> unit cs \<Rightarrow> AuthenticationMethodId \<Rightarrow> AuthenticationInput option \<Rightarrow> unit nb" where
  "authenticate_with_input F login method input =
     (if as_str method = CODEX_PROVIDER
      then if input \<noteq> None then throw (Protocol ''OpenAI Codex OAuth does not accept an API-key payload'')
        else native_authenticate login method
      else if \<not> is_api_key_auth_provider (as_str method)
      then throw (BackendUnsupported (''Phenix backend does not expose authentication method '' @ as_str method))
      else case input of
        Some (ApiKey secret) \<Rightarrow> map_err Protocol (save_api_key F (as_str method) secret)
      | None \<Rightarrow> throw (Protocol (''Phenix authentication method '' @ as_str method @ '' requires an API key'')))"

definition validate_request :: "Externals \<Rightarrow> BackendSessionRequest \<Rightarrow> BackendError + unit" where
  "validate_request E request =
     bind_result (validate_model_target E (br_model request)) (\<lambda>_.
     if pt_callables (br_tools request) \<noteq> [] \<and> pt_presentation (br_tools request) \<noteq> Some Native
     then Inl (BackendUnsupported ''Phenix backend requires native conductor tool presentation'') else Inr ())"

definition new_native_session :: "PhenixBackend \<Rightarrow> BackendSessionRequest \<Rightarrow> PhenixSession" where
  "new_native_session self request =
     \<lparr>ns_model = br_model request, ns_tools = br_tools request, ns_max_tool_rounds = pb_max_tool_rounds self,
      ns_history = [], ns_active = False, ns_cancelled = False\<rparr>"

definition native_open_session :: "Externals \<Rightarrow> PhenixBackend \<Rightarrow> BackendSessionRequest \<Rightarrow> BackendError + PhenixSession" where
  "native_open_session E self request =
     bind_result (validate_request E request) (\<lambda>_. Inr (new_native_session self request))"

text \<open>The persistent session of a conversation is shared: the map holds its current state.\<close>

definition open_persistent_session ::
  "Externals \<Rightarrow> SessionId \<Rightarrow> BackendSessionRequest \<Rightarrow> (PhenixBackend, BackendError, PhenixSession) op" where
  "open_persistent_session E session_id request =
     and_then (lift_result id (validate_request E request)) (\<lambda>_.
     and_then (gets (\<lambda>self. case bt_get (pb_persistent_sessions self) session_id of
         Some session \<Rightarrow> set_request (br_model request) (br_tools request) session
       | None \<Rightarrow> new_native_session self request)) (\<lambda>session.
     and_then (modify (\<lambda>self. self\<lparr>pb_persistent_sessions := bt_insert session_id session (pb_persistent_sessions self)\<rparr>)) (\<lambda>_.
     return session)))"

definition close_persistent_session :: "SessionId \<Rightarrow> (PhenixBackend, BackendError, unit) op" where
  "close_persistent_session session_id =
     modify (\<lambda>self. self\<lparr>pb_persistent_sessions := bt_remove session_id (pb_persistent_sessions self)\<rparr>)"

end
