(* ===== verification/Native_Facts.thy ===== *)
theory Native_Facts
  imports Native_Backend Sample
begin

text \<open>
  What the built-in backend guarantees: the history it sends to a provider always answers every tool
  call, a limited turn ends, the configured models are the ones written, and a saved key is found.
\<close>

section \<open>The session during a turn\<close>

text \<open>A turn changes nothing of its session but the mark of a cancellation.\<close>

definition turn_rel :: "'h NativeState \<Rightarrow> 'h NativeState \<Rightarrow> bool" where
  "turn_rel s s' \<longleftrightarrow> (\<exists>cancelled. nt_session s' = (nt_session s)\<lparr>ns_cancelled := cancelled\<rparr>)"

lemma turn_rel_history: "turn_rel s s' \<Longrightarrow> ns_history (nt_session s') = ns_history (nt_session s)"
  by (auto simp: turn_rel_def)

interpretation turn: trace_rel turn_rel "\<lambda>_. B" for B
proof
  show "turn_rel s s" for s :: "'a NativeState"
    unfolding turn_rel_def by (rule exI [of _ "ns_cancelled (nt_session s)"]) simp
  show "turn_rel s u" if "turn_rel s t" "turn_rel t u" for s t u :: "'a NativeState"
    using that by (auto simp: turn_rel_def)
qed simp

text \<open>A host that answers every call.\<close>

definition host_total :: "'h HostCalls \<Rightarrow> bool" where
  "host_total H \<longleftrightarrow> (\<forall>item h. fst (hc_emit H item h) \<noteq> NoFuel) \<and> (\<forall>call h. fst (hc_invoke H call h) \<noteq> NoFuel)"

lemma keeps_host:
  "B \<or> host_total H \<Longrightarrow> op_keeps turn_rel (\<lambda>_. B) (on_host_state (hc_emit H item))"
  "B \<or> host_total H \<Longrightarrow> op_keeps turn_rel (\<lambda>_. B) (on_host_state (hc_invoke H call))"
  by (auto simp: op_keeps_def on_host_state_def turn_rel_def host_total_def split: prod.split)
    (metis (no_types, lifting) PhenixSession.surjective PhenixSession.update_convs(6) fst_conv)+

lemma keeps_store: "(\<And>store. fst (m store) \<noteq> NoFuel) \<Longrightarrow> op_keeps turn_rel (\<lambda>_. B) (on_store m)"
  by (auto simp: op_keeps_def on_store_def turn_rel_def split: prod.split)
    (metis (no_types, lifting) PhenixSession.surjective PhenixSession.update_convs(6) fst_conv)+

lemma keeps_check: "op_keeps turn_rel (\<lambda>_. B) (check_cancelled P r i)"
  by (auto simp: op_keeps_def check_cancelled_def modify_session_def session_cancel_def turn_rel_def
      and_then_def modify_def gets_def)
    (metis (no_types, lifting) PhenixSession.surjective PhenixSession.update_convs(6))

lemma keeps_dispatch: "B \<or> host_total H \<Longrightarrow> op_keeps turn_rel (\<lambda>_. B) (dispatch_tool_call E P H tools call)"
  unfolding dispatch_tool_call_def
  by (intro turn.keeps_case_option turn.keeps_case_sum turn.keeps_and_then turn.keeps_catch_result turn.keeps_pure keeps_host)
    (auto split: BackendError.split intro: turn.keeps_pure)

lemma keeps_dispatch_calls: "B \<or> host_total H \<Longrightarrow> op_keeps turn_rel (\<lambda>_. B) (dispatch_calls E P H tools calls)"
  by (induction calls) (auto intro!: turn.keeps_pure turn.keeps_and_then keeps_dispatch)

lemma keeps_stream: "B \<or> host_total H \<Longrightarrow> op_keeps turn_rel (\<lambda>_. B) (read_stream P H r i items captured)"
proof (induction P H r i items captured rule: read_stream.induct)
  case (2 P H r i item items captured)
  show ?case
    unfolding read_stream.simps
    by (intro turn.keeps_and_then turn.keeps_if turn.keeps_pure turn.keeps_options keeps_check)
      (auto split: ChatStreamEvent.split intro!: turn.keeps_and_then keeps_host 2)
qed (simp add: turn.keeps_pure)

lemma keeps_loop:
  "B \<or> host_total H \<and> (\<exists>max_rounds. limit = Some max_rounds \<and> int r \<le> max_rounds \<and> max_rounds < int (r + n)) \<Longrightarrow>
     op_keeps turn_rel (\<lambda>_. B) (tool_loop n E P H codex target tools reasoning limit r history)"
proof (induction n arbitrary: r history)
  case 0
  then show ?case by (auto simp: op_keeps_def no_fuel_def)
next
  case (Suc n)
  have host: "B \<or> host_total H" using Suc.prems by blast
  have next_round: "op_keeps turn_rel (\<lambda>_. B) (tool_loop n E P H codex target tools reasoning limit (Suc r) history')"
    if "case limit of Some max_rounds \<Rightarrow> int r < max_rounds | None \<Rightarrow> True" for history'
    by (rule Suc.IH) (use Suc.prems that in \<open>auto split: option.splits\<close>)
  have body: "op_keeps turn_rel (\<lambda>_. B) (tool_round E P H codex target tools reasoning r history
      (tool_loop n E P H codex target tools reasoning limit (Suc r)))"
    if "case limit of Some max_rounds \<Rightarrow> int r < max_rounds | None \<Rightarrow> True"
    unfolding tool_round_def Let_def
    by (intro turn.keeps_and_then turn.keeps_if turn.keeps_pure turn.keeps_options turn.keeps_case_option keeps_check
        keeps_stream keeps_dispatch_calls host next_round that)
  show ?case
  proof (cases "case limit of Some max_rounds \<Rightarrow> int r < max_rounds | None \<Rightarrow> True")
    case True
    then have "tool_loop (Suc n) E P H codex target tools reasoning limit r history =
        tool_round E P H codex target tools reasoning r history (tool_loop n E P H codex target tools reasoning limit (Suc r))"
      by (auto simp: check_limit_def ensure_def split: option.splits)
    with body [OF True] show ?thesis by (simp only:)
  next
    case False
    then have "\<exists>e. tool_loop (Suc n) E P H codex target tools reasoning limit r history = throw e"
      by (auto simp: check_limit_def ensure_def split: option.splits)
    then show ?thesis by (auto simp del: tool_loop.simps intro: turn.keeps_pure)
  qed
qed

lemma stored_key_ends: "fst (stored_api_key E F provider store) \<noteq> NoFuel"
  by (auto simp: stored_api_key_def credential_resolve_def credentials_read_def and_then_def query_def return_def throw_def
      split: sum.split option.split StoredCredential.split)

lemma gateway_target_ends: "fst (gateway_target E F env provider model store) \<noteq> NoFuel"
proof -
  have "fst (map_err Protocol (stored_api_key E F name) store') \<noteq> NoFuel" for name store'
    using stored_key_ends [of E F name store'] by (auto simp: map_err_def split: prod.splits outcome.splits)
  then show ?thesis
    by (auto simp: gateway_target_def and_then_def lift_result_def return_def throw_def split: option.split sum.split prod.split outcome.split)
      (metis fst_conv)
qed

lemma keeps_turn:
  assumes "B \<or> host_total H \<and> (\<exists>max_rounds. ns_max_tool_rounds (nt_session s) = Some max_rounds \<and> 0 \<le> max_rounds \<and> max_rounds < int n)"
  shows "keeps_at turn_rel (\<lambda>_. B) (execute_turn n E F env P H prompt) s"
  unfolding execute_turn_def resolve_target_def Let_def
  by (rule turn.keeps_at_gets, intro turn.keeps_at_op turn.keeps_and_then turn.keeps_options turn.keeps_pure
      turn.keeps_case_option keeps_store gateway_target_ends keeps_loop) (use assms in auto)

section \<open>The history\<close>

fun history_ok :: "ChatMessage list \<Rightarrow> bool" where
  "history_ok [] \<longleftrightarrow> True"
| "history_ok (UserMessage prompt # rest) \<longleftrightarrow> history_ok rest"
| "history_ok (ToolMessage responses # rest) \<longleftrightarrow> False"
| "history_ok (AssistantMessage content # ToolMessage responses # rest) \<longleftrightarrow>
     mc_tool_calls content \<noteq> [] \<and> map tr_call_id responses = map tc_call_id (mc_tool_calls content) \<and> history_ok rest"
| "history_ok (AssistantMessage content # rest) \<longleftrightarrow> mc_tool_calls content = [] \<and> history_ok rest"

lemma history_ok_append: "history_ok before \<Longrightarrow> history_ok after \<Longrightarrow> history_ok (before @ after)"
  by (induction before rule: history_ok.induct) (simp_all, cases after rule: history_ok.cases, simp_all)

lemma dispatched_ids:
  "dispatch_calls E P H tools calls s = (Ok responses, s') \<Longrightarrow> map tr_call_id responses = map tc_call_id calls"
proof (induction calls arbitrary: responses s s')
  case (Cons call calls)
  from Cons.prems obtain reply s1 rest s2 where "dispatch_calls E P H tools calls s1 = (Ok rest, s2)"
    "responses = \<lparr>tr_call_id = tc_call_id call, tr_content = reply\<rparr> # rest"
    by (auto simp: return_def elim!: and_then_OkE)
  with Cons.IH show ?case by simp
qed (simp add: return_def)

fun is_assistant :: "ChatMessage \<Rightarrow> bool" where
  "is_assistant (AssistantMessage _) = True"
| "is_assistant _ = False"

text \<open>What the rounds add to a history: a well-formed piece with at most one message of the assistant
  per round.\<close>

definition adds :: "nat \<Rightarrow> ChatMessage list \<Rightarrow> ChatMessage list \<Rightarrow> bool" where
  "adds k history history' \<longleftrightarrow>
     (\<exists>added. history' = history @ added \<and> history_ok added \<and> length (filter is_assistant added) \<le> k)"

lemma adds_nothing [simp]: "adds k history history"
  by (simp add: adds_def)

lemma adds_trans: "adds j a b \<Longrightarrow> adds k b c \<Longrightarrow> adds (j + k) a c"
proof -
  assume "adds j a b" "adds k b c"
  then obtain x y where "b = a @ x" "c = a @ x @ y" "history_ok (x @ y)"
      "length (filter is_assistant x) \<le> j" "length (filter is_assistant y) \<le> k"
    by (auto simp: adds_def history_ok_append)
  then show ?thesis unfolding adds_def by (intro exI [of _ "x @ y"]) simp
qed

lemma round_adds:
  assumes "tool_round E P H codex target tools reasoning r history go_on s = (Ok history', s')"
    and "\<And>longer s1. go_on longer s1 = (Ok history', s') \<Longrightarrow> adds k longer history'"
  shows "adds (Suc k) history history'"
proof -
  have final: "adds (Suc k) history (history @ [AssistantMessage content])" if "mc_tool_calls content = []" for content
    unfolding adds_def by (rule exI [of _ "[AssistantMessage content]"]) (use that in simp)
  have answered: "adds (Suc k) history history'"
    if "mc_tool_calls content \<noteq> []" and "dispatch_calls E P H tools (mc_tool_calls content) s1 = (Ok responses, s2)"
      and "go_on (history @ [AssistantMessage content, ToolMessage responses]) s2 = (Ok history', s')"
    for content responses s1 s2
  proof -
    have "adds 1 history (history @ [AssistantMessage content, ToolMessage responses])"
      unfolding adds_def
      by (rule exI [of _ "[AssistantMessage content, ToolMessage responses]"]) (use that dispatched_ids [OF that(2)] in simp)
    from adds_trans [OF this assms(2) [OF that(3)]] show ?thesis by simp
  qed
  from assms(1) show ?thesis
    unfolding tool_round_def Let_def
    by (elim and_then_OkE) (auto simp: return_def split: if_splits option.splits elim!: and_then_OkE intro: final answered)
qed

lemma loop_adds:
  "tool_loop n E P H codex target tools reasoning limit r history s = (Ok history', s') \<Longrightarrow>
     adds n history history' \<and> (\<forall>max_rounds. limit = Some max_rounds \<longrightarrow> adds (nat (max_rounds - int r)) history history')"
proof (induction n arbitrary: r history s)
  case 0
  then show ?case by (simp add: no_fuel_def)
next
  case (Suc n)
  from Suc.prems obtain s1 where checked: "check_limit limit r s = (Ok (), s1)"
    and "tool_round E P H codex target tools reasoning r history
      (tool_loop n E P H codex target tools reasoning limit (Suc r)) s1 = (Ok history', s')"
    by (auto elim: and_then_OkE)
  note round = round_adds [OF this(2)]
  have "adds (Suc n) history history'" by (rule round) (use Suc.IH in blast)
  moreover have "adds (nat (max_rounds - int r)) history history'" if limit: "limit = Some max_rounds" for max_rounds
  proof -
    from checked limit have "int r < max_rounds" by (auto simp: check_limit_def ensure_def throw_def split: if_splits)
    moreover have "adds (Suc (nat (max_rounds - int (Suc r)))) history history'"
      by (rule round) (use Suc.IH limit in blast)
    ultimately show ?thesis by (simp add: Suc_nat_eq_nat_zadd1 algebra_simps)
  qed
  ultimately show ?case by blast
qed

lemma turn_adds:
  assumes "execute_turn n E F env P H prompt s = (Ok history, s')"
  shows "\<exists>added. history = ns_history (nt_session s) @ UserMessage prompt # added \<and> history_ok added \<and>
     (\<forall>max_rounds. ns_max_tool_rounds (nt_session s) = Some max_rounds \<longrightarrow> length (filter is_assistant added) \<le> nat max_rounds)"
proof -
  from assms obtain target s1 where
    loop: "tool_loop n E P H (as_str (mt_provider (ns_model (nt_session s))) = CODEX_PROVIDER) target (ns_tools (nt_session s))
      (map_option provider_reasoning_effort (effort (mt_inference (ns_model (nt_session s)))))
      (ns_max_tool_rounds (nt_session s)) 0 (ns_history (nt_session s) @ [UserMessage prompt]) s1 = (Ok history, s')"
    by (auto simp: execute_turn_def Let_def elim: and_then_OkE)
  have "adds n (ns_history (nt_session s) @ [UserMessage prompt]) history"
    "\<forall>max_rounds. ns_max_tool_rounds (nt_session s) = Some max_rounds \<longrightarrow>
      adds (nat max_rounds) (ns_history (nt_session s) @ [UserMessage prompt]) history"
    using loop_adds [OF loop] by simp_all
  then show ?thesis by (auto simp: adds_def)
qed

section \<open>Executions\<close>

lemma execute_busy:
  "ns_active (nt_session s) \<Longrightarrow> native_execute n E F env P H request s =
     (Err (Protocol ''Phenix backend session is already executing''), s)"
  by (simp add: native_execute_def)

text \<open>The session as \<open>execute\<close> hands it to the turn.\<close>

definition started :: "'h NativeState \<Rightarrow> 'h NativeState" where
  "started s = s\<lparr>nt_session := (nt_session s)\<lparr>ns_active := True, ns_cancelled := False\<rparr>\<rparr>"

lemma execute_idle:
  assumes "\<not> ns_active (nt_session s)" and "execute_turn n E F env P H (bx_prompt request) (started s) = (result, s1)"
  shows "native_execute n E F env P H request s =
     (case result of
        Ok history \<Rightarrow> (Ok (), s1\<lparr>nt_session := (nt_session s1)\<lparr>ns_active := False, ns_history := history\<rparr>\<rparr>)
      | Err e \<Rightarrow> (Err e, s1\<lparr>nt_session := (nt_session s1)\<lparr>ns_active := False\<rparr>\<rparr>)
      | Panic msg \<Rightarrow> (Panic msg, s1)
      | NoFuel \<Rightarrow> (NoFuel, s1))"
  using assms
  by (cases result) (simp_all add: native_execute_def modify_session_def and_then_def modify_def catch_result_def
      started_def throw_def gets_def ensure_def return_def)

text \<open>C20. The history of a session always answers the provider: every message of the assistant that calls
  tools is followed by the results of exactly these calls in their order, whatever the provider
  sends, whatever the tools do and whenever the session is cancelled. An execution that succeeds
  appends its prompt and what followed; one that fails leaves the history as it was. A second
  execution is refused while one runs, and the session is free again after each.\<close>

theorem native_history_answered:
  assumes "history_ok (ns_history (nt_session s))" and "native_execute n E F env P H request s = (res, s')" and "returned res"
  shows "history_ok (ns_history (nt_session s')) \<and>
     (if ns_active (nt_session s) then (\<exists>e. res = Err e) \<and> s' = s
      else \<not> ns_active (nt_session s') \<and>
        (case res of
           Ok _ \<Rightarrow> \<exists>added. ns_history (nt_session s') = ns_history (nt_session s) @ UserMessage (bx_prompt request) # added
         | _ \<Rightarrow> ns_history (nt_session s') = ns_history (nt_session s)))"
proof (cases "ns_active (nt_session s)")
  case True
  with assms(1,2) show ?thesis by (auto simp: execute_busy)
next
  case False
  obtain result s1 where turn: "execute_turn n E F env P H (bx_prompt request) (started s) = (result, s1)" by force
  note run = execute_idle [OF False turn]
  have kept: "ns_history (nt_session s1) = ns_history (nt_session s)" if "returned result"
    using keeps_atD [OF keeps_turn [where B = True] turn that] by (simp add: turn_rel_history started_def)
  show ?thesis
  proof (cases result)
    case (Ok history)
    from turn_adds [OF turn [unfolded Ok]] obtain added where
      "history = ns_history (nt_session s) @ UserMessage (bx_prompt request) # added" "history_ok added"
      by (auto simp: started_def)
    moreover from this have "history_ok history" using assms(1) by (simp add: history_ok_append)
    ultimately show ?thesis using run assms(2) False Ok by auto
  next
    case (Err e)
    with run assms(1,2) False kept show ?thesis by auto
  qed (use run assms(2,3) in auto)
qed


section \<open>Configured models\<close>

lemma parse_id_str: "parse_id value = Inr x \<Longrightarrow> as_str x = value"
  by (auto simp: parse_id_def split: if_splits)

lemma parsed_model:
  assumes "parse_configured_model E value = Inr target"
  shows "model_wire_value target = value" and "validate_model_target E target = Inr ()"
proof -
  from assms obtain provider model where split: "split_once (CHR ''/'') value = Some (provider, model)"
    and "as_str (mt_provider target) = provider" "as_str (mt_model target) = model" "validate_model_target E target = Inr ()"
    by (auto simp: parse_configured_model_def Let_def id_protocol_def map_error_def bind_result_def
        dest!: parse_id_str split: option.splits if_splits sum.splits)
  then show "model_wire_value target = value" "validate_model_target E target = Inr ()"
    using split_once_join [OF split] by (simp_all add: model_wire_value_def)
qed

lemma collected_models:
  "collect_models E texts seen = Inr targets \<Longrightarrow>
     distinct (map (\<lambda>target. (mt_provider target, mt_model target)) targets) \<and>
     (\<forall>target\<in>set targets. (mt_provider target, mt_model target) \<notin> seen \<and> model_wire_value target \<in> set texts \<and>
        validate_model_target E target = Inr () \<and> parse_configured_model E (model_wire_value target) = Inr target)"
proof (induction texts arbitrary: seen targets)
  case (Cons text_value texts)
  from Cons.prems obtain target rest where parsed: "parse_configured_model E text_value = Inr target"
    and rest: "collect_models E texts (insert (mt_provider target, mt_model target) seen) = Inr rest"
    and targets: "targets = (if (mt_provider target, mt_model target) \<in> seen then rest else target # rest)"
    by (auto simp: bind_result_def Let_def split: sum.splits)
  from Cons.IH [OF rest] parsed_model [OF parsed] parsed show ?case by (auto simp: targets)
qed simp

text \<open>C22. The catalogue of the built-in backend is what the configuration says: every model was written as
  it prints, each is one the backend can serve, none is listed twice and there is at least one.\<close>

theorem configured_models_sound:
  assumes "configured_models E env = Inr models"
  shows "models \<noteq> [] \<and> distinct (map model_wire_value models) \<and>
     (\<forall>target\<in>set models. model_wire_value target \<in> set (map trim (split_any {CHR '','', CHR '';'', CHR 0x0A} (models_source env))) \<and>
        validate_model_target E target = Inr () \<and> parse_configured_model E (model_wire_value target) = Inr target)"
proof -
  define texts where "texts = filter (\<lambda>value. value \<noteq> []) (map trim (split_any {CHR '','', CHR '';'', CHR 0x0A} (models_source env)))"
  from assms have collected: "collect_models E texts {} = Inr models" and "models \<noteq> []"
    by (auto simp: configured_models_def texts_def Let_def bind_result_def split: sum.splits if_splits)
  note sound = collected_models [OF collected]
  have "inj_on model_wire_value (set models)"
    by (rule inj_onI) (use sound in \<open>metis sum.inject(2)\<close>)
  moreover from sound have "distinct models" by (auto simp: distinct_map)
  ultimately have "distinct (map model_wire_value models)" by (simp add: distinct_map)
  with sound \<open>models \<noteq> []\<close> show ?thesis by (auto simp: texts_def)
qed

section \<open>Credentials\<close>

text \<open>A saved API key is found again, and the keys of other providers are those that were stored before,
  provided that serde reads what it wrote.\<close>

theorem saved_key_found:
  assumes "credentials_read F store = (Ok credentials, store)" and "save_api_key F provider secret store = (Ok (), store')"
    and "cf_parse F (cf_print F (bt_insert provider (StoredApiKey secret) credentials) @ [CHR 0x0A]) =
      Inr (bt_insert provider (StoredApiKey secret) credentials)"
  shows "stored_api_key E F provider store' = (Ok (Some secret), store') \<and>
     (\<forall>other. other \<noteq> provider \<longrightarrow> fst (stored_api_key E F other store') = fst (stored_api_key E F other store))"
proof -
  from assms(1,2) have "cs_write_error store = None"
    and store': "store' = store\<lparr>cs_source := Some (cf_print F (bt_insert provider (StoredApiKey secret) credentials) @ [CHR 0x0A])\<rparr>"
    by (auto simp: save_api_key_def credentials_write_def ensure_def throw_def split: if_splits option.splits)
  have "cs_read_error store = None"
    using assms(1) by (auto simp: credentials_read_def query_def split: option.splits)
  with assms(3) have "credentials_read F store' = (Ok (bt_insert provider (StoredApiKey secret) credentials), store')"
    by (simp add: credentials_read_def query_def store')
  with assms(1) show ?thesis
    by (auto simp: stored_api_key_def credential_resolve_def and_then_def return_def throw_def
        split: option.split StoredCredential.split)
qed

section \<open>A run\<close>

definition tiny_format :: CredentialFormat where
  "tiny_format = \<lparr>cf_parse = (\<lambda>_. Inr (bt_insert ''xai'' (StoredApiKey ''k'') bt_empty)), cf_print = (\<lambda>_. ''{}'')\<rparr>"

definition empty_store :: CredentialStore where
  "empty_store = \<lparr>cs_source = None, cs_read_error = None, cs_write_error = None\<rparr>"

theorem saved_key_found_witness:
  "\<exists>store'. save_api_key tiny_format ''xai'' ''k'' empty_store = (Ok (), store') \<and>
     stored_api_key sample_externals tiny_format ''xai'' store' = (Ok (Some ''k''), store')"
proof -
  have read: "credentials_read tiny_format empty_store = (Ok bt_empty, empty_store)"
    by (simp add: credentials_read_def empty_store_def query_def)
  have filled: "\<not> is_blank ''k''" by code_simp
  obtain store' where saved: "save_api_key tiny_format ''xai'' ''k'' empty_store = (Ok (), store')"
    using read filled by (auto simp: save_api_key_def credentials_write_def empty_store_def)
  have "cf_parse tiny_format (cf_print tiny_format (bt_insert ''xai'' (StoredApiKey ''k'') bt_empty) @ [CHR 0x0A]) =
      Inr (bt_insert ''xai'' (StoredApiKey ''k'') bt_empty)" by (simp add: tiny_format_def)
  from saved_key_found [OF read saved this] saved show ?thesis by blast
qed

definition local_model :: ModelTarget where
  "local_model = \<lparr>mt_backend = Ident ''phenix'', mt_provider = Ident ''ollama'', mt_model = Ident ''m'', mt_inference = \<lparr>effort = None\<rparr>\<rparr>"

definition idle_session :: PhenixSession where
  "idle_session = \<lparr>ns_model = local_model, ns_tools = \<lparr>pt_presentation = None, pt_callables = []\<rparr>, ns_max_tool_rounds = Some 2,
     ns_history = [], ns_active = False, ns_cancelled = False\<rparr>"

text \<open>A provider that asks for a tool once and then answers.\<close>

definition asking_provider :: Provider where
  "asking_provider = \<lparr>pv_resolve = (\<lambda>_ name. Inr \<lparr>st_endpoint = [], st_auth = AuthFromEnv [], st_adapter = AdapterOpenAI, st_model = name\<rparr>),
     pv_stream = (\<lambda>_ r _ _. Inr [Inr (Chunk ''hi''), Inr (EndEvent (Some
       \<lparr>mc_tool_calls = (if r = 0 then [\<lparr>tc_call_id = ''c'', tc_fn_name = ''x'', tc_fn_arguments = JNull\<rparr>] else []), mc_rest = []\<rparr>))]),
     pv_cancels = (\<lambda>_ _. False), pv_encode = (\<lambda>_. Inr [])\<rparr>"

definition quiet_host :: "unit HostCalls" where
  "quiet_host = \<lparr>hc_emit = (\<lambda>_. return ()), hc_invoke = (\<lambda>_. return \<lparr>tr_output = [], tr_success = True\<rparr>)\<rparr>"

definition idle_state :: "unit NativeState" where
  "idle_state = \<lparr>nt_session = idle_session, nt_store = empty_store, nt_host = ()\<rparr>"

definition hello :: BackendExecutionRequest where
  "hello = \<lparr>bx_execution_id = Ident ''execution-1'', bx_prompt = ''hello''\<rparr>"

lemma asked_and_answered:
  "case native_execute 3 sample_externals tiny_format (\<lambda>_. None) asking_provider quiet_host hello idle_state of
     (Ok _, s) \<Rightarrow> map is_assistant (ns_history (nt_session s)) = [False, True, False, True] | _ \<Rightarrow> False"
  by code_simp

theorem native_history_answered_witness:
  "\<exists>s'. native_execute 3 sample_externals tiny_format (\<lambda>_. None) asking_provider quiet_host hello idle_state = (Ok (), s') \<and>
     history_ok (ns_history (nt_session s')) \<and> length (ns_history (nt_session s')) = 4"
proof -
  obtain s' where run: "native_execute 3 sample_externals tiny_format (\<lambda>_. None) asking_provider quiet_host hello idle_state = (Ok (), s')"
    and shape: "map is_assistant (ns_history (nt_session s')) = [False, True, False, True]"
    using asked_and_answered by (auto split: prod.splits outcome.splits)
  have "history_ok (ns_history (nt_session idle_state))" by (simp add: idle_state_def idle_session_def)
  from native_history_answered [OF this run] have "history_ok (ns_history (nt_session s'))" by simp
  moreover from shape have "length (ns_history (nt_session s')) = length [False, True, False, True]"
    by (metis length_map)
  ultimately show ?thesis using run by auto
qed


definition two_names :: env where
  "two_names name = (if name = ''PHENIX_MODELS'' then Some ''ollama/m, ollama/m'' else None)"

theorem configured_models_sound_witness:
  "configured_models sample_externals two_names = Inr [local_model] \<and> parse_configured_model sample_externals ''ollama/m'' = Inr local_model"
proof -
  have run: "configured_models sample_externals two_names = Inr [local_model]" by code_simp
  have "model_wire_value local_model = ''ollama/m''" by code_simp
  with configured_models_sound [OF run] run show ?thesis by simp
qed

end
